(* ===== verification/Prelude.thy ===== *)
theory Prelude
  imports Main "HOL-Library.State_Monad" "HOL-Library.AList" "HOL-Library.Sublist"
begin

section \<open>Prelude: Go values, errors and the effect monad\<close>

text \<open>
  What every component of the model shares.

  \<^item> Go error values, as far as the operator tells them apart (\<open>go_error\<close>), and
    results of code that may also panic (\<open>go_result\<close>).
  \<^item> Go maps as association lists: the list order stands for the (unspecified)
    iteration order of the map, reading is \<open>map_of\<close> with the zero value, writing is
    \<open>AList.update\<close>.
  \<^item> The effect monad. Everything the operator does outside its own memory (a request to the
    Kubernetes API server, a metric, reading the clock) is an event. A program is a state
    transformer on the list of events that have happened so far; a primitive effect
    appends its event, and its answer is an arbitrary function of the events before it, so
    that the environment is unconstrained unless a theorem says otherwise.
  \<^item> The predicate \<open>runs\<close> with one rule per program construct, by which the
    component theories prove what a program returns together with what it emits.
\<close>

named_theorems runs_intros "introduction rules for runs, one per program construct"
named_theorems runs_specs "proved specifications of sub-programs"
named_theorems only_intros "rules for only, one per program construct and per sub-program"
named_theorems env_simps "evaluation of the reference environment used by witnesses"

subsection \<open>Go errors\<close>

text \<open>
  The operator classifies an error only by \<open>errors.IsNotFound\<close> and
  \<open>errors.IsConflict\<close>; every other error is a message. \<open>err.Error()\<close> is
  \<open>err_msg\<close>.
\<close>

datatype go_error =
    NotFoundError string
  | ConflictError string
  | OtherError string

fun err_msg :: "go_error \<Rightarrow> string" where
  "err_msg (NotFoundError m) = m"
| "err_msg (ConflictError m) = m"
| "err_msg (OtherError m) = m"

fun IsNotFound :: "go_error \<Rightarrow> bool" where
  "IsNotFound (NotFoundError _) = True"
| "IsNotFound _ = False"

fun IsConflict :: "go_error \<Rightarrow> bool" where
  "IsConflict (ConflictError _) = True"
| "IsConflict _ = False"

lemma not_found_not_conflict [simp]: "IsNotFound e \<Longrightarrow> \<not> IsConflict e"
  by (cases e) simp_all

text \<open>Code that returns a value, returns an error, or panics.\<close>

datatype 'a go_result = GoOk 'a | GoErr go_error | GoPanic

subsection \<open>Go maps\<close>

type_synonym ('k, 'v) gomap = "('k \<times> 'v) list"

text \<open>\<open>m[k]\<close> of a Go map: the zero value \<open>d\<close> where the key is absent.\<close>

definition gomap_get :: "'v \<Rightarrow> ('k, 'v) gomap \<Rightarrow> 'k \<Rightarrow> 'v" where
  "gomap_get d m k = (case map_of m k of None \<Rightarrow> d | Some v \<Rightarrow> v)"

abbreviation gomap_put :: "'k \<Rightarrow> 'v \<Rightarrow> ('k, 'v) gomap \<Rightarrow> ('k, 'v) gomap" where
  "gomap_put \<equiv> AList.update"

text \<open>Two Go maps are the same map when they agree on every key, whatever the order.\<close>

definition gomap_eq :: "('k, 'v) gomap \<Rightarrow> ('k, 'v) gomap \<Rightarrow> bool" where
  "gomap_eq m n \<longleftrightarrow> map_of m = map_of n"

lemma gomap_get_put [simp]:
  "gomap_get d (gomap_put k v m) k' = (if k' = k then v else gomap_get d m k')"
  by (simp add: gomap_get_def update_conv)

lemma gomap_get_Nil [simp]: "gomap_get d [] k = d"
  by (simp add: gomap_get_def)

lemma gomap_get_Cons [simp]:
  "gomap_get d ((k, v) # m) k' = (if k' = k then v else gomap_get d m k')"
  by (simp add: gomap_get_def)

lemma gomap_get_cong: "gomap_eq m n \<Longrightarrow> gomap_get d m k = gomap_get d n k"
  by (simp add: gomap_eq_def gomap_get_def)

subsection \<open>Programs with effects\<close>

text \<open>
  \<open>call e f\<close> performs the effect \<open>e\<close>: \<open>f\<close> gives the environment's answer from the
  events so far, and \<open>e\<close> is recorded.
\<close>

definition call :: "'e \<Rightarrow> ('e list \<Rightarrow> 'a) \<Rightarrow> ('e list, 'a) state" where
  "call e f = State (\<lambda>h. (f h, h @ [e]))"

abbreviation ret :: "'a \<Rightarrow> ('s, 'a) state" where
  "ret \<equiv> State_Monad.return"

lemma run_state_call [simp]: "run_state (call e f) h = (f h, h @ [e])"
  by (simp add: call_def)

text \<open>
  \<open>runs m h Q\<close>: run after the events \<open>h\<close>, the program \<open>m\<close> only adds events, and its
  result and the events it adds satisfy \<open>Q\<close>.
\<close>

definition runs :: "('e list, 'a) state \<Rightarrow> 'e list \<Rightarrow> ('a \<Rightarrow> 'e list \<Rightarrow> bool) \<Rightarrow> bool" where
  "runs m h Q \<longleftrightarrow> (\<exists>t. snd (run_state m h) = h @ t \<and> Q (fst (run_state m h)) t)"

lemma runsI: "run_state m h = (a, h @ t) \<Longrightarrow> Q a t \<Longrightarrow> runs m h Q"
  by (simp add: runs_def)

lemma runsD: "runs m h Q \<Longrightarrow> run_state m h = (a, h @ t) \<Longrightarrow> Q a t"
  by (auto simp: runs_def)

lemma runs_conseq: "runs m h P \<Longrightarrow> (\<And>a t. P a t \<Longrightarrow> Q a t) \<Longrightarrow> runs m h Q"
  by (auto simp: runs_def)

lemma runs_conj: "runs m h P \<Longrightarrow> runs m h Q \<Longrightarrow> runs m h (\<lambda>a t. P a t \<and> Q a t)"
  by (auto simp: runs_def)

lemma runs_return [runs_intros]: "Q x [] \<Longrightarrow> runs (ret x) h Q"
  by (simp add: runs_def)

lemma runs_call [runs_intros]: "Q (f h) [e] \<Longrightarrow> runs (call e f) h Q"
  by (simp add: runs_def)

lemma runs_bind [runs_intros]:
  assumes "runs m h (\<lambda>a t. runs (f a) (h @ t) (\<lambda>b u. Q b (t @ u)))"
  shows "runs (State_Monad.bind m f) h Q"
  using assms by (auto simp: runs_def split: prod.splits)

lemma runs_bind_value:
  "run_state m h = (a, h @ t) \<Longrightarrow> runs (f a) (h @ t) (\<lambda>b u. Q b (t @ u)) \<Longrightarrow>
     runs (State_Monad.bind m f) h Q"
  by (rule runs_bind) (simp add: runs_def)

lemma runs_if [runs_intros]:
  "(b \<Longrightarrow> runs m h Q) \<Longrightarrow> (\<not> b \<Longrightarrow> runs n h Q) \<Longrightarrow> runs (if b then m else n) h Q"
  by simp

lemma runs_case_sum [runs_intros]:
  "(\<And>e. x = Inl e \<Longrightarrow> runs (f e) h Q) \<Longrightarrow> (\<And>v. x = Inr v \<Longrightarrow> runs (g v) h Q)
    \<Longrightarrow> runs (case x of Inl e \<Rightarrow> f e | Inr v \<Rightarrow> g v) h Q"
  by (cases x) simp_all

lemma runs_case_option [runs_intros]:
  "(x = None \<Longrightarrow> runs m h Q) \<Longrightarrow> (\<And>v. x = Some v \<Longrightarrow> runs (g v) h Q)
    \<Longrightarrow> runs (case x of None \<Rightarrow> m | Some v \<Rightarrow> g v) h Q"
  by (cases x) simp_all

lemma runs_case_list [runs_intros]:
  "(xs = [] \<Longrightarrow> runs m h Q) \<Longrightarrow> (\<And>y ys. xs = y # ys \<Longrightarrow> runs (g y ys) h Q)
    \<Longrightarrow> runs (case xs of [] \<Rightarrow> m | y # ys \<Rightarrow> g y ys) h Q"
  by (cases xs) simp_all

lemma runs_case_prod [runs_intros]:
  "(\<And>a b. x = (a, b) \<Longrightarrow> runs (f a b) h Q) \<Longrightarrow> runs (case x of (a, b) \<Rightarrow> f a b) h Q"
  by (cases x) simp_all

lemma runs_let [runs_intros]: "runs (f x) h Q \<Longrightarrow> runs (let y = x in f y) h Q"
  by simp

subsection \<open>The effects a program may have\<close>

text \<open>
  \<open>only P m\<close>: whatever the environment answers, every event the program adds satisfies \<open>P\<close>.
\<close>

definition only :: "('e \<Rightarrow> bool) \<Rightarrow> ('e list, 'a) state \<Rightarrow> bool" where
  "only P m \<longleftrightarrow> (\<forall>h. runs m h (\<lambda>_ t. list_all P t))"

lemma only_runs: "only P m \<Longrightarrow> runs m h (\<lambda>_ t. list_all P t)"
  by (simp add: only_def)

lemma runs_only: "only P m \<Longrightarrow> (\<And>a t. list_all P t \<Longrightarrow> Q a t) \<Longrightarrow> runs m h Q"
  using only_runs runs_conseq by metis

lemma runs_only_value:
  "only P m \<Longrightarrow> (\<And>t. list_all P t \<Longrightarrow> Q (fst (run_state m h)) t) \<Longrightarrow> runs m h Q"
  by (auto simp: only_def runs_def)

lemma only_mono: "only P m \<Longrightarrow> (\<And>e. P e \<Longrightarrow> Q e) \<Longrightarrow> only Q m"
  unfolding only_def by (metis (mono_tags, lifting) list.pred_mono_strong runs_conseq)

lemma only_return [only_intros]: "only P (ret x)"
  by (simp add: only_def runs_def)

lemma only_call [only_intros]: "P e \<Longrightarrow> only P (call e f)"
  by (simp add: only_def runs_def)

lemma only_bind [only_intros]:
  assumes "only P m" "\<And>a. only P (f a)"
  shows "only P (State_Monad.bind m f)"
  unfolding only_def
proof
  fix h
  have "runs m h (\<lambda>a t. runs (f a) (h @ t) (\<lambda>b u. list_all P (t @ u)))"
    using only_runs [OF assms(1)]
  proof (rule runs_conseq)
    fix a t
    assume t: "list_all P t"
    show "runs (f a) (h @ t) (\<lambda>b u. list_all P (t @ u))"
      using only_runs [OF assms(2)] by (rule runs_conseq) (simp add: t)
  qed
  then show "runs (State_Monad.bind m f) h (\<lambda>_ t. list_all P t)"
    by (rule runs_bind)
qed

lemma only_if [only_intros]:
  "(b \<Longrightarrow> only P m) \<Longrightarrow> (\<not> b \<Longrightarrow> only P n) \<Longrightarrow> only P (if b then m else n)"
  by simp

lemma only_case_sum [only_intros]:
  "(\<And>e. only P (f e)) \<Longrightarrow> (\<And>v. only P (g v)) \<Longrightarrow> only P (case x of Inl e \<Rightarrow> f e | Inr v \<Rightarrow> g v)"
  by (cases x) simp_all

lemma only_case_option [only_intros]:
  "only P m \<Longrightarrow> (\<And>v. only P (g v)) \<Longrightarrow> only P (case x of None \<Rightarrow> m | Some v \<Rightarrow> g v)"
  by (cases x) simp_all

lemma only_case_list [only_intros]:
  "only P m \<Longrightarrow> (\<And>y ys. only P (g y ys)) \<Longrightarrow> only P (case xs of [] \<Rightarrow> m | y # ys \<Rightarrow> g y ys)"
  by (cases xs) simp_all

lemma only_case_prod [only_intros]:
  "(\<And>a b. only P (f a b)) \<Longrightarrow> only P (case x of (a, b) \<Rightarrow> f a b)"
  by (cases x) simp_all

lemma only_let [only_intros]: "only P (f x) \<Longrightarrow> only P (let y = x in f y)"
  by simp

end
