(* ===== verification/K8s.thy ===== *)
theory K8s
  imports Prelude
begin

section \<open>The Kubernetes data the operator handles\<close>

text \<open>
  The shapes of the third-party API objects (apimachinery, core, apps) that the operator
  reads and writes: only data, with the fields the operator's code uses. What the libraries
  and the API server do with these objects is not defined here: it is a parameter of the
  model (theory \<open>Client\<close>).

  A nil pointer is \<open>None\<close>. A slice or map is a list; where the code tells nil from empty it
  is an option of a list. Times are nanoseconds.
\<close>

type_synonym time = int

record OwnerReference =
  or_APIVersion :: string
  or_Kind :: string
  or_Name :: string
  or_UID :: string
  or_Controller :: "bool option"

record ObjectMeta =
  om_Name :: string
  om_Namespace :: string
  om_UID :: string
  om_Generation :: int
  om_CreationTimestamp :: time
  om_DeletionTimestamp :: "time option"
  om_Labels :: "(string, string) gomap"
  om_Annotations :: "(string, string) gomap option"
  om_OwnerReferences :: "OwnerReference list"

definition zero_ObjectMeta :: ObjectMeta where
  "zero_ObjectMeta = \<lparr>om_Name = [], om_Namespace = [], om_UID = [], om_Generation = 0,
     om_CreationTimestamp = 0, om_DeletionTimestamp = None, om_Labels = [],
     om_Annotations = None, om_OwnerReferences = []\<rparr>"

definition named_meta :: "string \<Rightarrow> string \<Rightarrow> ObjectMeta" where
  "named_meta ns n = zero_ObjectMeta\<lparr>om_Name := n, om_Namespace := ns\<rparr>"

lemma named_meta_simps [simp]:
  "om_Name (named_meta ns n) = n" "om_Namespace (named_meta ns n) = ns"
  "om_OwnerReferences (named_meta ns n) = []"
  by (simp_all add: named_meta_def zero_ObjectMeta_def)

lemma zero_meta_simps [simp]:
  "om_Name zero_ObjectMeta = []" "om_Namespace zero_ObjectMeta = []"
  "om_OwnerReferences zero_ObjectMeta = []" "om_Labels zero_ObjectMeta = []"
  "om_DeletionTimestamp zero_ObjectMeta = None" "om_CreationTimestamp zero_ObjectMeta = 0"
  by (simp_all add: zero_ObjectMeta_def)

record TypeMeta =
  tm_Kind :: string
  tm_APIVersion :: string

definition zero_TypeMeta :: TypeMeta where
  "zero_TypeMeta = \<lparr>tm_Kind = [], tm_APIVersion = []\<rparr>"

text \<open>\<open>types.NamespacedName\<close>, the key of an object: namespace and name.\<close>

type_synonym ObjectKey = "string \<times> string"

definition key_of :: "ObjectMeta \<Rightarrow> ObjectKey" where
  "key_of m = (om_Namespace m, om_Name m)"

datatype ConditionStatus = ConditionTrue | ConditionFalse | ConditionUnknown

record Condition =
  c_Type :: string
  c_Status :: ConditionStatus
  c_ObservedGeneration :: int
  c_LastTransitionTime :: time
  c_Reason :: string
  c_Message :: string

text \<open>The composite literal \<open>metav1.Condition{Type, Status, Reason, Message}\<close>.\<close>

definition mkCondition :: "string \<Rightarrow> ConditionStatus \<Rightarrow> string \<Rightarrow> string \<Rightarrow> Condition" where
  "mkCondition ty st reason msg = \<lparr>c_Type = ty, c_Status = st, c_ObservedGeneration = 0,
     c_LastTransitionTime = 0, c_Reason = reason, c_Message = msg\<rparr>"

lemma mkCondition_simps [simp]:
  "c_Type (mkCondition ty st r m) = ty" "c_Status (mkCondition ty st r m) = st"
  "c_Reason (mkCondition ty st r m) = r" "c_Message (mkCondition ty st r m) = m"
  by (simp_all add: mkCondition_def)

record GroupVersion =
  gv_Group :: string
  gv_Version :: string

record GroupVersionKind =
  gvk_Group :: string
  gvk_Version :: string
  gvk_Kind :: string

record LabelSelectorRequirement =
  lsr_Key :: string
  lsr_Operator :: string
  lsr_Values :: "string list"

record LabelSelector =
  ls_MatchLabels :: "(string, string) gomap"
  ls_MatchExpressions :: "LabelSelectorRequirement list"

text \<open>A compiled \<open>labels.Selector\<close>, identified by what it was compiled from.\<close>

datatype Selector = Selector LabelSelector

record Secret =
  sec_ObjectMeta :: ObjectMeta
  sec_Data :: "(string, string) gomap"

record Namespace =
  nsp_ObjectMeta :: ObjectMeta

record CoreLocalObjectReference =
  clor_Name :: string

record ResourceQuota =
  rq_ObjectMeta :: ObjectMeta
  rq_GVK :: GroupVersionKind
  rq_Hard :: "(string, string) gomap"

record EnvVar =
  ev_Name :: string
  ev_Value :: string

record ContainerPort =
  cpt_ContainerPort :: int
  cpt_Protocol :: string

record VolumeMount =
  vm_Name :: string
  vm_ReadOnly :: bool
  vm_MountPath :: string

record SecurityContext =
  sc_AllowPrivilegeEscalation :: "bool option"
  sc_CapabilitiesDrop :: "string list option"
  sc_ReadOnlyRootFilesystem :: "bool option"
  sc_RunAsNonRoot :: "bool option"

record Probe =
  prb_TCPSocketPort :: "int option"
  prb_InitialDelaySeconds :: int
  prb_PeriodSeconds :: int

record Container =
  con_Name :: string
  con_Image :: string
  con_ImagePullPolicy :: string
  con_Command :: "string list"
  con_Args :: "string list"
  con_Ports :: "ContainerPort list"
  con_VolumeMounts :: "VolumeMount list"
  con_Env :: "EnvVar list"
  con_SecurityContext :: "SecurityContext option"
  con_LivenessProbe :: "Probe option"
  con_ReadinessProbe :: "Probe option"

definition zero_Container :: Container where
  "zero_Container = \<lparr>con_Name = [], con_Image = [], con_ImagePullPolicy = [], con_Command = [],
     con_Args = [], con_Ports = [], con_VolumeMounts = [], con_Env = [],
     con_SecurityContext = None, con_LivenessProbe = None, con_ReadinessProbe = None\<rparr>"

record Volume =
  vol_Name :: string
  vol_SecretName :: "string option"
  vol_DefaultMode :: "int option"

record DeploymentStrategy =
  dst_Type :: string
  dst_MaxUnavailable :: "string option"
  dst_MaxSurge :: "string option"

record DeploymentSpec =
  dsp_Replicas :: "int option"
  dsp_Selector :: "(string, string) gomap"
  dsp_TemplateLabels :: "(string, string) gomap"
  dsp_Containers :: "Container list"
  dsp_Volumes :: "Volume list"
  dsp_RestartPolicy :: string
  dsp_DNSPolicy :: string
  dsp_Strategy :: DeploymentStrategy

definition zero_DeploymentSpec :: DeploymentSpec where
  "zero_DeploymentSpec = \<lparr>dsp_Replicas = None, dsp_Selector = [], dsp_TemplateLabels = [],
     dsp_Containers = [], dsp_Volumes = [], dsp_RestartPolicy = [], dsp_DNSPolicy = [],
     dsp_Strategy = \<lparr>dst_Type = [], dst_MaxUnavailable = None, dst_MaxSurge = None\<rparr>\<rparr>"

record Deployment =
  dep_ObjectMeta :: ObjectMeta
  dep_Spec :: DeploymentSpec
  dep_StatusReplicas :: int
  dep_ReadyReplicas :: int

definition zero_Deployment :: "ObjectMeta \<Rightarrow> Deployment" where
  "zero_Deployment m = \<lparr>dep_ObjectMeta = m, dep_Spec = zero_DeploymentSpec,
     dep_StatusReplicas = 0, dep_ReadyReplicas = 0\<rparr>"

text \<open>The function \<open>controllerutil.CreateOrUpdate\<close> applies to the object.\<close>

type_synonym 'o MutateFn = "'o \<Rightarrow> go_error + 'o"

datatype OperationResult = OperationResultNone | OperationResultCreated | OperationResultUpdated

subsection \<open>Results of a reconciliation\<close>

text \<open>
  \<open>ctrl.Result\<close>, and how a call of a reconciler ends: with its two results, or with a
  panic.
\<close>

record ctrl_Result =
  res_Requeue :: bool
  res_RequeueAfter :: time

definition Result_zero :: ctrl_Result where
  "Result_zero = \<lparr>res_Requeue = False, res_RequeueAfter = 0\<rparr>"

definition Result_requeue :: ctrl_Result where
  "Result_requeue = \<lparr>res_Requeue = True, res_RequeueAfter = 0\<rparr>"

datatype outcome = Returned ctrl_Result "go_error option" | Panicked

lemma runs_case_outcome [runs_intros]:
  "(\<And>r e. x = Returned r e \<Longrightarrow> runs (f r e) h Q) \<Longrightarrow> (x = Panicked \<Longrightarrow> runs m h Q)
    \<Longrightarrow> runs (case x of Returned r e \<Rightarrow> f r e | Panicked \<Rightarrow> m) h Q"
  by (cases x) simp_all

lemma only_case_outcome [only_intros]:
  "(\<And>r e. only P (f r e)) \<Longrightarrow> only P m
    \<Longrightarrow> only P (case x of Returned r e \<Rightarrow> f r e | Panicked \<Rightarrow> m)"
  by (cases x) simp_all

end
