(* ===== verification/Types_V1beta1.thy ===== *)
theory Types_V1beta1
  imports K8s
begin

section \<open>The v1beta1 API types\<close>

text \<open>
  The hub version of the API: \<open>api/v1beta1/dbaasprovider.go\<close> and the
  \<open>*_types.go\<close> files beside it. One record per struct, fields in the order of the source,
  string types as strings with their constants as abbreviations. The list types
  (\<open>DBaaSPolicyList\<close> and the like) are plain lists of their items.
\<close>

subsection \<open>Constants (dbaasprovider.go)\<close>

abbreviation DBaaSInventoryReadyType :: string where
  "DBaaSInventoryReadyType \<equiv> ''InventoryReady''"
abbreviation DBaaSInventoryProviderSyncType :: string where
  "DBaaSInventoryProviderSyncType \<equiv> ''SpecSynced''"
abbreviation DBaaSConnectionReadyType :: string where
  "DBaaSConnectionReadyType \<equiv> ''ConnectionReady''"
abbreviation DBaaSConnectionProviderSyncType :: string where
  "DBaaSConnectionProviderSyncType \<equiv> ''ReadyForBinding''"
abbreviation DBaaSInstanceReadyType :: string where
  "DBaaSInstanceReadyType \<equiv> ''InstanceReady''"
abbreviation DBaaSInstanceProviderSyncType :: string where
  "DBaaSInstanceProviderSyncType \<equiv> ''ProvisionReady''"
abbreviation DBaaSPolicyReadyType :: string where
  "DBaaSPolicyReadyType \<equiv> ''PolicyReady''"
abbreviation DBaaSPlatformReadyType :: string where
  "DBaaSPlatformReadyType \<equiv> ''PlatformReady''"

abbreviation Ready :: string where "Ready \<equiv> ''Ready''"
abbreviation DBaaSPolicyNotFound :: string where
  "DBaaSPolicyNotFound \<equiv> ''DBaaSPolicyNotFound''"
abbreviation DBaaSPolicyNotReady :: string where
  "DBaaSPolicyNotReady \<equiv> ''DBaaSPolicyNotReady''"
abbreviation DBaaSProviderNotFound :: string where
  "DBaaSProviderNotFound \<equiv> ''DBaaSProviderNotFound''"
abbreviation DBaaSInventoryNotFound :: string where
  "DBaaSInventoryNotFound \<equiv> ''DBaaSInventoryNotFound''"
abbreviation DBaaSInventoryNotReady :: string where
  "DBaaSInventoryNotReady \<equiv> ''DBaaSInventoryNotReady''"
abbreviation DBaaSInventoryNotProvisionable :: string where
  "DBaaSInventoryNotProvisionable \<equiv> ''DBaaSInventoryNotProvisionable''"
abbreviation DBaaSInvalidNamespace :: string where
  "DBaaSInvalidNamespace \<equiv> ''InvalidNamespace''"
abbreviation DBaaSServiceNotAvailable :: string where
  "DBaaSServiceNotAvailable \<equiv> ''DBaaSServiceNotAvailable''"
abbreviation ProviderReconcileInprogress :: string where
  "ProviderReconcileInprogress \<equiv> ''ProviderReconcileInprogress''"
abbreviation ProviderReconcileError :: string where
  "ProviderReconcileError \<equiv> ''ProviderReconcileError''"
abbreviation ProviderParsingError :: string where
  "ProviderParsingError \<equiv> ''ProviderParsingError''"
abbreviation InstallationInprogress :: string where
  "InstallationInprogress \<equiv> ''InstallationInprogress''"
abbreviation InstallationCleanup :: string where
  "InstallationCleanup \<equiv> ''InstallationCleanup''"

abbreviation MsgProviderCRStatusSyncDone :: string where
  "MsgProviderCRStatusSyncDone \<equiv> ''Provider Custom Resource status sync completed''"
abbreviation MsgProviderCRReconcileInProgress :: string where
  "MsgProviderCRReconcileInProgress \<equiv>
     ''DBaaS Provider Custom Resource reconciliation in progress''"
abbreviation MsgInventoryNotReady :: string where
  "MsgInventoryNotReady \<equiv> ''Inventory discovery not done''"
abbreviation MsgInventoryNotProvisionable :: string where
  "MsgInventoryNotProvisionable \<equiv> ''Inventory provisioning not allowed''"
abbreviation MsgPolicyNotFound :: string where
  "MsgPolicyNotFound \<equiv> ''Failed to find an active Policy''"
abbreviation MsgPolicyReady :: string where
  "MsgPolicyReady \<equiv> ''Policy is active''"
abbreviation MsgInvalidNamespace :: string where
  "MsgInvalidNamespace \<equiv> ''Invalid connection namespace for the referenced inventory''"
abbreviation MsgPolicyNotReady :: string where
  "MsgPolicyNotReady \<equiv> ''Another active Policy already exists''"

abbreviation TypeLabelValue :: string where "TypeLabelValue \<equiv> ''credentials''"
abbreviation TypeLabelKey :: string where "TypeLabelKey \<equiv> ''db-operator/type''"
abbreviation TypeLabelKeyMongo :: string where
  "TypeLabelKeyMongo \<equiv> ''atlas.mongodb.com/type''"

abbreviation ProvisioningPlanFreeTrial :: string where
  "ProvisioningPlanFreeTrial \<equiv> ''FREETRIAL''"
abbreviation ProvisioningPlanServerless :: string where
  "ProvisioningPlanServerless \<equiv> ''SERVERLESS''"
abbreviation ProvisioningPlanDedicated :: string where
  "ProvisioningPlanDedicated \<equiv> ''DEDICATED''"

type_synonym ProvisioningParameterType = string

abbreviation ProvisioningName :: ProvisioningParameterType where
  "ProvisioningName \<equiv> ''name''"
abbreviation ProvisioningPlan :: ProvisioningParameterType where
  "ProvisioningPlan \<equiv> ''plan''"
abbreviation ProvisioningCloudProvider :: ProvisioningParameterType where
  "ProvisioningCloudProvider \<equiv> ''cloudProvider''"
abbreviation ProvisioningRegions :: ProvisioningParameterType where
  "ProvisioningRegions \<equiv> ''regions''"
abbreviation ProvisioningTeamProject :: ProvisioningParameterType where
  "ProvisioningTeamProject \<equiv> ''teamProject''"
abbreviation ProvisioningDatabaseType :: ProvisioningParameterType where
  "ProvisioningDatabaseType \<equiv> ''databaseType''"

type_synonym DBaasInstancePhase = string
type_synonym DatabaseServiceType = string

abbreviation InstancePhaseUnknown :: DBaasInstancePhase where
  "InstancePhaseUnknown \<equiv> ''Unknown''"
abbreviation InstancePhasePending :: DBaasInstancePhase where
  "InstancePhasePending \<equiv> ''Pending''"
abbreviation InstancePhaseCreating :: DBaasInstancePhase where
  "InstancePhaseCreating \<equiv> ''Creating''"
abbreviation InstancePhaseUpdating :: DBaasInstancePhase where
  "InstancePhaseUpdating \<equiv> ''Updating''"
abbreviation InstancePhaseDeleting :: DBaasInstancePhase where
  "InstancePhaseDeleting \<equiv> ''Deleting''"
abbreviation InstancePhaseDeleted :: DBaasInstancePhase where
  "InstancePhaseDeleted \<equiv> ''Deleted''"
abbreviation InstancePhaseReady :: DBaasInstancePhase where
  "InstancePhaseReady \<equiv> ''Ready''"
abbreviation InstancePhaseError :: DBaasInstancePhase where
  "InstancePhaseError \<equiv> ''Error''"
abbreviation InstancePhaseFailed :: DBaasInstancePhase where
  "InstancePhaseFailed \<equiv> ''Failed''"

subsection \<open>Group version and provider names (groupversion_info.go, dbaasprovider_conversion.go)\<close>

definition GroupVersion_v1beta1 :: GroupVersion where
  "GroupVersion_v1beta1 = \<lparr>gv_Group = ''dbaas.redhat.com'', gv_Version = ''v1beta1''\<rparr>"

abbreviation CockroachDBCloudRegistration :: string where
  "CockroachDBCloudRegistration \<equiv> ''cockroachdb-cloud-registration''"
abbreviation MongoDBAtlasRegistration :: string where
  "MongoDBAtlasRegistration \<equiv> ''mongodb-atlas-registration''"
abbreviation CrunchyBridgeRegistration :: string where
  "CrunchyBridgeRegistration \<equiv> ''crunchy-bridge-registration''"
abbreviation RdsRegistration :: string where
  "RdsRegistration \<equiv> ''rds-registration''"

subsection \<open>Providers\<close>

record ProviderIcon =
  pi_Data :: string
  pi_MediaType :: string

record DatabaseProviderInfo =
  dpi_Name :: string
  dpi_DisplayName :: string
  dpi_DisplayDescription :: string
  dpi_Icon :: ProviderIcon

record CredentialField =
  cf_Key :: string
  cf_DisplayName :: string
  cf_Type :: string
  cf_Required :: bool
  cf_HelpText :: string

record UIOption =
  opt_Value :: string
  opt_DisplayValue :: string

record FieldDependency =
  fd_Field :: ProvisioningParameterType
  fd_Value :: string

record ConditionalProvisioningParameterData =
  cpd_Dependencies :: "FieldDependency list"
  cpd_Options :: "UIOption list"
  cpd_DefaultValue :: string

record ProvisioningParameter =
  pp_DisplayName :: string
  pp_HelpText :: string
  pp_ConditionalData :: "ConditionalProvisioningParameterData list"

record DBaaSProviderSpec =
  ps_Provider :: DatabaseProviderInfo
  ps_GroupVersion :: string
  ps_InventoryKind :: string
  ps_ConnectionKind :: string
  ps_InstanceKind :: string
  ps_CredentialFields :: "CredentialField list"
  ps_AllowsFreeTrial :: bool
  ps_ExternalProvisionURL :: string
  ps_ExternalProvisionDescription :: string
  ps_ProvisioningParameters :: "(ProvisioningParameterType, ProvisioningParameter) gomap"

record DBaaSProviderStatus =
  pst_Conditions :: "Condition list"

record DBaaSProvider =
  prov_TypeMeta :: TypeMeta
  prov_ObjectMeta :: ObjectMeta
  prov_Spec :: DBaaSProviderSpec
  prov_Status :: DBaaSProviderStatus

subsection \<open>References\<close>

record NamespacedName =
  nn_Namespace :: string
  nn_Name :: string

record LocalObjectReference =
  lor_Name :: string

definition key_of_ref :: "NamespacedName \<Rightarrow> ObjectKey" where
  "key_of_ref r = (nn_Namespace r, nn_Name r)"

subsection \<open>Policies (dbaaspolicy_types.go)\<close>

record DBaaSConnectionPolicy =
  cp_Namespaces :: "string list option"
  cp_NsSelector :: "LabelSelector option"

record DBaaSInventoryPolicy =
  ip_DisableProvisions :: "bool option"
  ip_Connections :: DBaaSConnectionPolicy

text \<open>\<open>DBaaSPolicySpec\<close> embeds \<open>DBaaSInventoryPolicy\<close> inline.\<close>

record DBaaSPolicySpec =
  pols_DBaaSInventoryPolicy :: DBaaSInventoryPolicy

record DBaaSPolicyStatus =
  polst_Conditions :: "Condition list"

record DBaaSPolicy =
  pol_TypeMeta :: TypeMeta
  pol_ObjectMeta :: ObjectMeta
  pol_Spec :: DBaaSPolicySpec
  pol_Status :: DBaaSPolicyStatus

abbreviation pol_Name :: "DBaaSPolicy \<Rightarrow> string" where
  "pol_Name p \<equiv> om_Name (pol_ObjectMeta p)"

abbreviation pol_Conditions :: "DBaaSPolicy \<Rightarrow> Condition list" where
  "pol_Conditions p \<equiv> polst_Conditions (pol_Status p)"

abbreviation pol_Policy :: "DBaaSPolicy \<Rightarrow> DBaaSInventoryPolicy" where
  "pol_Policy p \<equiv> pols_DBaaSInventoryPolicy (pol_Spec p)"

subsection \<open>Inventories (dbaasinventory_types.go)\<close>

record DBaaSInventorySpec =
  is_CredentialsRef :: "LocalObjectReference option"

record DatabaseService =
  ds_ServiceID :: string
  ds_ServiceName :: string
  ds_ServiceType :: "DatabaseServiceType option"
  ds_ServiceInfo :: "(string, string) gomap"

record Instance =
  in_InstanceID :: string
  in_Name :: string
  in_InstanceInfo :: "(string, string) gomap"

text \<open>
  \<open>DatabaseServices\<close> is an optional list because the conversions test it for nil.
\<close>

record DBaaSInventoryStatus =
  ist_Conditions :: "Condition list"
  ist_DatabaseServices :: "DatabaseService list option"

record DBaaSOperatorInventorySpec =
  ois_ProviderRef :: NamespacedName
  ois_DBaaSInventorySpec :: DBaaSInventorySpec
  ois_Policy :: "DBaaSInventoryPolicy option"

record DBaaSInventory =
  inv_TypeMeta :: TypeMeta
  inv_ObjectMeta :: ObjectMeta
  inv_Spec :: DBaaSOperatorInventorySpec
  inv_Status :: DBaaSInventoryStatus

record DBaaSProviderInventory =
  pinv_ObjectMeta :: ObjectMeta
  pinv_Spec :: DBaaSInventorySpec
  pinv_Status :: DBaaSInventoryStatus

abbreviation inv_Namespace :: "DBaaSInventory \<Rightarrow> string" where
  "inv_Namespace i \<equiv> om_Namespace (inv_ObjectMeta i)"

abbreviation inv_Name :: "DBaaSInventory \<Rightarrow> string" where
  "inv_Name i \<equiv> om_Name (inv_ObjectMeta i)"

abbreviation inv_Conditions :: "DBaaSInventory \<Rightarrow> Condition list" where
  "inv_Conditions i \<equiv> ist_Conditions (inv_Status i)"

abbreviation inv_CredentialsRef :: "DBaaSInventory \<Rightarrow> LocalObjectReference option" where
  "inv_CredentialsRef i \<equiv> is_CredentialsRef (ois_DBaaSInventorySpec (inv_Spec i))"

abbreviation inv_ProviderName :: "DBaaSInventory \<Rightarrow> string" where
  "inv_ProviderName i \<equiv> nn_Name (ois_ProviderRef (inv_Spec i))"

subsection \<open>Connections (dbaasconnection_types.go)\<close>

record DBaaSConnectionSpec =
  cs_InventoryRef :: NamespacedName
  cs_DatabaseServiceID :: string
  cs_DatabaseServiceRef :: "NamespacedName option"
  cs_DatabaseServiceType :: "DatabaseServiceType option"

record DBaaSConnectionStatus =
  cst_Conditions :: "Condition list"
  cst_CredentialsRef :: "CoreLocalObjectReference option"
  cst_ConnectionInfoRef :: "CoreLocalObjectReference option"

record DBaaSConnection =
  conn_TypeMeta :: TypeMeta
  conn_ObjectMeta :: ObjectMeta
  conn_Spec :: DBaaSConnectionSpec
  conn_Status :: DBaaSConnectionStatus

record DBaaSProviderConnection =
  pconn_ObjectMeta :: ObjectMeta
  pconn_Spec :: DBaaSConnectionSpec
  pconn_Status :: DBaaSConnectionStatus

subsection \<open>Instances (dbaasinstance_types.go)\<close>

record DBaaSInstanceSpec =
  ins_InventoryRef :: NamespacedName
  ins_ProvisioningParameters :: "(ProvisioningParameterType, string) gomap"

record DBaaSInstanceStatus =
  inst_Conditions :: "Condition list"
  inst_InstanceID :: string
  inst_InstanceInfo :: "(string, string) gomap"
  inst_Phase :: DBaasInstancePhase

record DBaaSInstance =
  instance_TypeMeta :: TypeMeta
  instance_ObjectMeta :: ObjectMeta
  instance_Spec :: DBaaSInstanceSpec
  instance_Status :: DBaaSInstanceStatus

record DBaaSProviderInstance =
  pins_ObjectMeta :: ObjectMeta
  pins_Spec :: DBaaSInstanceSpec
  pins_Status :: DBaaSInstanceStatus

subsection \<open>Zero values\<close>

text \<open>The values of \<open>T{}\<close> that the code creates and then fills in.\<close>

definition zero_NamespacedName :: NamespacedName where
  "zero_NamespacedName = \<lparr>nn_Namespace = [], nn_Name = []\<rparr>"

definition zero_DBaaSConnectionPolicy :: DBaaSConnectionPolicy where
  "zero_DBaaSConnectionPolicy = \<lparr>cp_Namespaces = None, cp_NsSelector = None\<rparr>"

definition zero_DBaaSInventoryPolicy :: DBaaSInventoryPolicy where
  "zero_DBaaSInventoryPolicy =
     \<lparr>ip_DisableProvisions = None, ip_Connections = zero_DBaaSConnectionPolicy\<rparr>"

definition zero_DBaaSPolicySpec :: DBaaSPolicySpec where
  "zero_DBaaSPolicySpec = \<lparr>pols_DBaaSInventoryPolicy = zero_DBaaSInventoryPolicy\<rparr>"

definition zero_DBaaSInventoryStatus :: DBaaSInventoryStatus where
  "zero_DBaaSInventoryStatus = \<lparr>ist_Conditions = [], ist_DatabaseServices = None\<rparr>"

definition zero_DBaaSOperatorInventorySpec :: DBaaSOperatorInventorySpec where
  "zero_DBaaSOperatorInventorySpec = \<lparr>ois_ProviderRef = zero_NamespacedName,
     ois_DBaaSInventorySpec = \<lparr>is_CredentialsRef = None\<rparr>, ois_Policy = None\<rparr>"

definition zero_DBaaSInventory :: DBaaSInventory where
  "zero_DBaaSInventory = \<lparr>inv_TypeMeta = zero_TypeMeta, inv_ObjectMeta = zero_ObjectMeta,
     inv_Spec = zero_DBaaSOperatorInventorySpec, inv_Status = zero_DBaaSInventoryStatus\<rparr>"

definition zero_DBaaSProviderInventory :: DBaaSProviderInventory where
  "zero_DBaaSProviderInventory = \<lparr>pinv_ObjectMeta = zero_ObjectMeta,
     pinv_Spec = \<lparr>is_CredentialsRef = None\<rparr>, pinv_Status = zero_DBaaSInventoryStatus\<rparr>"

definition zero_DBaaSConnectionSpec :: DBaaSConnectionSpec where
  "zero_DBaaSConnectionSpec = \<lparr>cs_InventoryRef = zero_NamespacedName, cs_DatabaseServiceID = [],
     cs_DatabaseServiceRef = None, cs_DatabaseServiceType = None\<rparr>"

definition zero_DBaaSConnectionStatus :: DBaaSConnectionStatus where
  "zero_DBaaSConnectionStatus = \<lparr>cst_Conditions = [], cst_CredentialsRef = None,
     cst_ConnectionInfoRef = None\<rparr>"

definition zero_DBaaSConnection :: DBaaSConnection where
  "zero_DBaaSConnection = \<lparr>conn_TypeMeta = zero_TypeMeta, conn_ObjectMeta = zero_ObjectMeta,
     conn_Spec = zero_DBaaSConnectionSpec, conn_Status = zero_DBaaSConnectionStatus\<rparr>"

definition zero_DBaaSProviderConnection :: DBaaSProviderConnection where
  "zero_DBaaSProviderConnection = \<lparr>pconn_ObjectMeta = zero_ObjectMeta,
     pconn_Spec = zero_DBaaSConnectionSpec, pconn_Status = zero_DBaaSConnectionStatus\<rparr>"

definition zero_DBaaSInstanceSpec :: DBaaSInstanceSpec where
  "zero_DBaaSInstanceSpec = \<lparr>ins_InventoryRef = zero_NamespacedName,
     ins_ProvisioningParameters = []\<rparr>"

definition zero_DBaaSInstanceStatus :: DBaaSInstanceStatus where
  "zero_DBaaSInstanceStatus = \<lparr>inst_Conditions = [], inst_InstanceID = [],
     inst_InstanceInfo = [], inst_Phase = []\<rparr>"

definition zero_DBaaSInstance :: DBaaSInstance where
  "zero_DBaaSInstance = \<lparr>instance_TypeMeta = zero_TypeMeta, instance_ObjectMeta = zero_ObjectMeta,
     instance_Spec = zero_DBaaSInstanceSpec, instance_Status = zero_DBaaSInstanceStatus\<rparr>"

definition zero_DBaaSProviderInstance :: DBaaSProviderInstance where
  "zero_DBaaSProviderInstance = \<lparr>pins_ObjectMeta = zero_ObjectMeta,
     pins_Spec = zero_DBaaSInstanceSpec, pins_Status = zero_DBaaSInstanceStatus\<rparr>"

definition zero_DBaaSProviderSpec :: DBaaSProviderSpec where
  "zero_DBaaSProviderSpec = \<lparr>ps_Provider = \<lparr>dpi_Name = [], dpi_DisplayName = [],
       dpi_DisplayDescription = [], dpi_Icon = \<lparr>pi_Data = [], pi_MediaType = []\<rparr>\<rparr>,
     ps_GroupVersion = [], ps_InventoryKind = [], ps_ConnectionKind = [], ps_InstanceKind = [],
     ps_CredentialFields = [], ps_AllowsFreeTrial = False, ps_ExternalProvisionURL = [],
     ps_ExternalProvisionDescription = [], ps_ProvisioningParameters = []\<rparr>"

definition zero_DBaaSProvider :: DBaaSProvider where
  "zero_DBaaSProvider = \<lparr>prov_TypeMeta = zero_TypeMeta, prov_ObjectMeta = zero_ObjectMeta,
     prov_Spec = zero_DBaaSProviderSpec, prov_Status = \<lparr>pst_Conditions = []\<rparr>\<rparr>"

definition zero_DBaaSPolicy :: DBaaSPolicy where
  "zero_DBaaSPolicy = \<lparr>pol_TypeMeta = zero_TypeMeta, pol_ObjectMeta = zero_ObjectMeta,
     pol_Spec = zero_DBaaSPolicySpec, pol_Status = \<lparr>polst_Conditions = []\<rparr>\<rparr>"

end
