(* ===== verification/Types_V1alpha1.thy ===== *)
theory Types_V1alpha1
  imports Types_V1beta1
begin

section \<open>The v1alpha1 API types\<close>

text \<open>
  The spoke version of the API: \<open>api/v1alpha1/dbaasprovider.go\<close> and the
  \<open>*_types.go\<close> files beside it. Structs that are field for field the v1beta1 struct, and
  that the code converts with a Go type conversion, are type synonyms of it.
\<close>

definition GroupVersion_v1alpha1 :: GroupVersion where
  "GroupVersion_v1alpha1 = \<lparr>gv_Group = ''dbaas.redhat.com'', gv_Version = ''v1alpha1''\<rparr>"

type_synonym NamespacedName_v1alpha1 = NamespacedName
type_synonym LocalObjectReference_v1alpha1 = LocalObjectReference
type_synonym CredentialField_v1alpha1 = CredentialField
type_synonym ProviderIcon_v1alpha1 = ProviderIcon
type_synonym DBaaSPolicyStatus_v1alpha1 = DBaaSPolicyStatus
type_synonym DBaasInstancePhase_v1alpha1 = string

subsection \<open>Providers\<close>

record DatabaseProvider =
  a1dp_Name :: string
  a1dp_DisplayName :: string
  a1dp_DisplayDescription :: string
  a1dp_Icon :: ProviderIcon_v1alpha1

record InstanceParameterSpec =
  a1ips_Name :: string
  a1ips_DisplayName :: string
  a1ips_Type :: string
  a1ips_Required :: bool
  a1ips_DefaultValue :: string

record DBaaSProviderSpec_v1alpha1 =
  a1ps_Provider :: DatabaseProvider
  a1ps_InventoryKind :: string
  a1ps_ConnectionKind :: string
  a1ps_InstanceKind :: string
  a1ps_CredentialFields :: "CredentialField_v1alpha1 list"
  a1ps_AllowsFreeTrial :: bool
  a1ps_ExternalProvisionURL :: string
  a1ps_ExternalProvisionDescription :: string
  a1ps_InstanceParameterSpecs :: "InstanceParameterSpec list"

text \<open>The v1alpha1 provider status is the empty struct.\<close>

record DBaaSProvider_v1alpha1 =
  a1prov_TypeMeta :: TypeMeta
  a1prov_ObjectMeta :: ObjectMeta
  a1prov_Spec :: DBaaSProviderSpec_v1alpha1

subsection \<open>Policies\<close>

record DBaaSInventoryPolicy_v1alpha1 =
  a1ip_DisableProvisions :: "bool option"
  a1ip_ConnectionNamespaces :: "string list option"
  a1ip_ConnectionNsSelector :: "LabelSelector option"

record DBaaSPolicySpec_v1alpha1 =
  a1pols_DBaaSInventoryPolicy :: DBaaSInventoryPolicy_v1alpha1

record DBaaSPolicy_v1alpha1 =
  a1pol_TypeMeta :: TypeMeta
  a1pol_ObjectMeta :: ObjectMeta
  a1pol_Spec :: DBaaSPolicySpec_v1alpha1
  a1pol_Status :: DBaaSPolicyStatus_v1alpha1

subsection \<open>Inventories\<close>

record DBaaSInventorySpec_v1alpha1 =
  a1is_CredentialsRef :: "LocalObjectReference_v1alpha1 option"

record Instance_v1alpha1 =
  a1in_InstanceID :: string
  a1in_Name :: string
  a1in_InstanceInfo :: "(string, string) gomap"

record DBaaSInventoryStatus_v1alpha1 =
  a1ist_Conditions :: "Condition list"
  a1ist_Instances :: "Instance_v1alpha1 list option"

record DBaaSOperatorInventorySpec_v1alpha1 =
  a1ois_ProviderRef :: NamespacedName_v1alpha1
  a1ois_DBaaSInventorySpec :: DBaaSInventorySpec_v1alpha1
  a1ois_DBaaSInventoryPolicy :: DBaaSInventoryPolicy_v1alpha1

record DBaaSInventory_v1alpha1 =
  a1inv_TypeMeta :: TypeMeta
  a1inv_ObjectMeta :: ObjectMeta
  a1inv_Spec :: DBaaSOperatorInventorySpec_v1alpha1
  a1inv_Status :: DBaaSInventoryStatus_v1alpha1

record DBaaSProviderInventory_v1alpha1 =
  a1pinv_ObjectMeta :: ObjectMeta
  a1pinv_Spec :: DBaaSInventorySpec_v1alpha1
  a1pinv_Status :: DBaaSInventoryStatus_v1alpha1

subsection \<open>Connections\<close>

record DBaaSConnectionSpec_v1alpha1 =
  a1cs_InventoryRef :: NamespacedName_v1alpha1
  a1cs_InstanceID :: string
  a1cs_InstanceRef :: "NamespacedName_v1alpha1 option"

record DBaaSConnectionStatus_v1alpha1 =
  a1cst_Conditions :: "Condition list"
  a1cst_CredentialsRef :: "CoreLocalObjectReference option"
  a1cst_ConnectionInfoRef :: "CoreLocalObjectReference option"

record DBaaSConnection_v1alpha1 =
  a1conn_TypeMeta :: TypeMeta
  a1conn_ObjectMeta :: ObjectMeta
  a1conn_Spec :: DBaaSConnectionSpec_v1alpha1
  a1conn_Status :: DBaaSConnectionStatus_v1alpha1

record DBaaSProviderConnection_v1alpha1 =
  a1pconn_ObjectMeta :: ObjectMeta
  a1pconn_Spec :: DBaaSConnectionSpec_v1alpha1
  a1pconn_Status :: DBaaSConnectionStatus_v1alpha1

subsection \<open>Instances\<close>

record DBaaSInstanceSpec_v1alpha1 =
  a1ins_InventoryRef :: NamespacedName_v1alpha1
  a1ins_Name :: string
  a1ins_CloudProvider :: string
  a1ins_CloudRegion :: string
  a1ins_OtherInstanceParams :: "(string, string) gomap"

record DBaaSInstanceStatus_v1alpha1 =
  a1inst_Conditions :: "Condition list"
  a1inst_InstanceID :: string
  a1inst_InstanceInfo :: "(string, string) gomap"
  a1inst_Phase :: DBaasInstancePhase_v1alpha1

record DBaaSInstance_v1alpha1 =
  a1instance_TypeMeta :: TypeMeta
  a1instance_ObjectMeta :: ObjectMeta
  a1instance_Spec :: DBaaSInstanceSpec_v1alpha1
  a1instance_Status :: DBaaSInstanceStatus_v1alpha1

record DBaaSProviderInstance_v1alpha1 =
  a1pins_ObjectMeta :: ObjectMeta
  a1pins_Spec :: DBaaSInstanceSpec_v1alpha1
  a1pins_Status :: DBaaSInstanceStatus_v1alpha1

subsection \<open>Zero values\<close>

definition zero_DBaaSInventoryPolicy_v1alpha1 :: DBaaSInventoryPolicy_v1alpha1 where
  "zero_DBaaSInventoryPolicy_v1alpha1 = \<lparr>a1ip_DisableProvisions = None,
     a1ip_ConnectionNamespaces = None, a1ip_ConnectionNsSelector = None\<rparr>"

definition zero_DBaaSPolicySpec_v1alpha1 :: DBaaSPolicySpec_v1alpha1 where
  "zero_DBaaSPolicySpec_v1alpha1 =
     \<lparr>a1pols_DBaaSInventoryPolicy = zero_DBaaSInventoryPolicy_v1alpha1\<rparr>"

definition zero_DBaaSPolicy_v1alpha1 :: DBaaSPolicy_v1alpha1 where
  "zero_DBaaSPolicy_v1alpha1 = \<lparr>a1pol_TypeMeta = zero_TypeMeta,
     a1pol_ObjectMeta = zero_ObjectMeta, a1pol_Spec = zero_DBaaSPolicySpec_v1alpha1,
     a1pol_Status = \<lparr>polst_Conditions = []\<rparr>\<rparr>"

definition zero_DBaaSInventoryStatus_v1alpha1 :: DBaaSInventoryStatus_v1alpha1 where
  "zero_DBaaSInventoryStatus_v1alpha1 = \<lparr>a1ist_Conditions = [], a1ist_Instances = None\<rparr>"

definition zero_DBaaSOperatorInventorySpec_v1alpha1 :: DBaaSOperatorInventorySpec_v1alpha1 where
  "zero_DBaaSOperatorInventorySpec_v1alpha1 = \<lparr>a1ois_ProviderRef = zero_NamespacedName,
     a1ois_DBaaSInventorySpec = \<lparr>a1is_CredentialsRef = None\<rparr>,
     a1ois_DBaaSInventoryPolicy = zero_DBaaSInventoryPolicy_v1alpha1\<rparr>"

definition zero_DBaaSInventory_v1alpha1 :: DBaaSInventory_v1alpha1 where
  "zero_DBaaSInventory_v1alpha1 = \<lparr>a1inv_TypeMeta = zero_TypeMeta,
     a1inv_ObjectMeta = zero_ObjectMeta,
     a1inv_Spec = zero_DBaaSOperatorInventorySpec_v1alpha1,
     a1inv_Status = zero_DBaaSInventoryStatus_v1alpha1\<rparr>"

definition zero_DBaaSProviderInventory_v1alpha1 :: DBaaSProviderInventory_v1alpha1 where
  "zero_DBaaSProviderInventory_v1alpha1 = \<lparr>a1pinv_ObjectMeta = zero_ObjectMeta,
     a1pinv_Spec = \<lparr>a1is_CredentialsRef = None\<rparr>,
     a1pinv_Status = zero_DBaaSInventoryStatus_v1alpha1\<rparr>"

definition zero_DBaaSConnectionSpec_v1alpha1 :: DBaaSConnectionSpec_v1alpha1 where
  "zero_DBaaSConnectionSpec_v1alpha1 = \<lparr>a1cs_InventoryRef = zero_NamespacedName,
     a1cs_InstanceID = [], a1cs_InstanceRef = None\<rparr>"

definition zero_DBaaSConnectionStatus_v1alpha1 :: DBaaSConnectionStatus_v1alpha1 where
  "zero_DBaaSConnectionStatus_v1alpha1 = \<lparr>a1cst_Conditions = [], a1cst_CredentialsRef = None,
     a1cst_ConnectionInfoRef = None\<rparr>"

definition zero_DBaaSConnection_v1alpha1 :: DBaaSConnection_v1alpha1 where
  "zero_DBaaSConnection_v1alpha1 = \<lparr>a1conn_TypeMeta = zero_TypeMeta,
     a1conn_ObjectMeta = zero_ObjectMeta, a1conn_Spec = zero_DBaaSConnectionSpec_v1alpha1,
     a1conn_Status = zero_DBaaSConnectionStatus_v1alpha1\<rparr>"

definition zero_DBaaSProviderConnection_v1alpha1 :: DBaaSProviderConnection_v1alpha1 where
  "zero_DBaaSProviderConnection_v1alpha1 = \<lparr>a1pconn_ObjectMeta = zero_ObjectMeta,
     a1pconn_Spec = zero_DBaaSConnectionSpec_v1alpha1,
     a1pconn_Status = zero_DBaaSConnectionStatus_v1alpha1\<rparr>"

definition zero_DBaaSInstanceSpec_v1alpha1 :: DBaaSInstanceSpec_v1alpha1 where
  "zero_DBaaSInstanceSpec_v1alpha1 = \<lparr>a1ins_InventoryRef = zero_NamespacedName,
     a1ins_Name = [], a1ins_CloudProvider = [], a1ins_CloudRegion = [],
     a1ins_OtherInstanceParams = []\<rparr>"

definition zero_DBaaSInstanceStatus_v1alpha1 :: DBaaSInstanceStatus_v1alpha1 where
  "zero_DBaaSInstanceStatus_v1alpha1 = \<lparr>a1inst_Conditions = [], a1inst_InstanceID = [],
     a1inst_InstanceInfo = [], a1inst_Phase = []\<rparr>"

definition zero_DBaaSInstance_v1alpha1 :: DBaaSInstance_v1alpha1 where
  "zero_DBaaSInstance_v1alpha1 = \<lparr>a1instance_TypeMeta = zero_TypeMeta,
     a1instance_ObjectMeta = zero_ObjectMeta, a1instance_Spec = zero_DBaaSInstanceSpec_v1alpha1,
     a1instance_Status = zero_DBaaSInstanceStatus_v1alpha1\<rparr>"

definition zero_DBaaSProviderInstance_v1alpha1 :: DBaaSProviderInstance_v1alpha1 where
  "zero_DBaaSProviderInstance_v1alpha1 = \<lparr>a1pins_ObjectMeta = zero_ObjectMeta,
     a1pins_Spec = zero_DBaaSInstanceSpec_v1alpha1,
     a1pins_Status = zero_DBaaSInstanceStatus_v1alpha1\<rparr>"

definition zero_DBaaSProviderSpec_v1alpha1 :: DBaaSProviderSpec_v1alpha1 where
  "zero_DBaaSProviderSpec_v1alpha1 = \<lparr>a1ps_Provider = \<lparr>a1dp_Name = [], a1dp_DisplayName = [],
       a1dp_DisplayDescription = [], a1dp_Icon = \<lparr>pi_Data = [], pi_MediaType = []\<rparr>\<rparr>,
     a1ps_InventoryKind = [], a1ps_ConnectionKind = [], a1ps_InstanceKind = [],
     a1ps_CredentialFields = [], a1ps_AllowsFreeTrial = False, a1ps_ExternalProvisionURL = [],
     a1ps_ExternalProvisionDescription = [], a1ps_InstanceParameterSpecs = []\<rparr>"

definition zero_DBaaSProvider_v1alpha1 :: DBaaSProvider_v1alpha1 where
  "zero_DBaaSProvider_v1alpha1 = \<lparr>a1prov_TypeMeta = zero_TypeMeta,
     a1prov_ObjectMeta = zero_ObjectMeta, a1prov_Spec = zero_DBaaSProviderSpec_v1alpha1\<rparr>"

end
