(* ===== verification/Platform_Types.thy ===== *)
theory Platform_Types
  imports K8s
begin

section \<open>The data of the platform stack\<close>

text \<open>
  The platform custom resource (\<open>api/v1beta1/dbaasplatform_types.go\<close>), the objects of the
  operator lifecycle manager, the console and the monitoring stack that the platform
  reconcilers read and write (only the fields their code uses), and the requests they send.
\<close>

subsection \<open>The platform resource (dbaasplatform_types.go)\<close>

type_synonym PlatformName = string
type_synonym PlatformInstlnStatus = string
type_synonym PlatformType = int

abbreviation CrunchyBridgeInstallation :: PlatformName where
  "CrunchyBridgeInstallation \<equiv> ''crunchy-bridge''"
abbreviation DBaaSDynamicPluginInstallation :: PlatformName where
  "DBaaSDynamicPluginInstallation \<equiv> ''dbaas-dynamic-plugin''"
abbreviation CockroachDBInstallation :: PlatformName where
  "CockroachDBInstallation \<equiv> ''cockroachdb-cloud''"
abbreviation ObservabilityInstallation :: PlatformName where
  "ObservabilityInstallation \<equiv> ''observability''"
abbreviation DBaaSQuickStartInstallation :: PlatformName where
  "DBaaSQuickStartInstallation \<equiv> ''dbaas-quick-starts''"
abbreviation RDSProviderInstallation :: PlatformName where
  "RDSProviderInstallation \<equiv> ''rds-provider''"

abbreviation (input) TypeQuickStart :: PlatformType where "TypeQuickStart \<equiv> 0"
abbreviation (input) TypeConsolePlugin :: PlatformType where "TypeConsolePlugin \<equiv> 1"
abbreviation (input) TypeOperator :: PlatformType where "TypeOperator \<equiv> 2"
abbreviation (input) TypeObservability :: PlatformType where "TypeObservability \<equiv> 3"

abbreviation ResultSuccess :: PlatformInstlnStatus where "ResultSuccess \<equiv> ''success''"
abbreviation ResultFailed :: PlatformInstlnStatus where "ResultFailed \<equiv> ''failed''"
abbreviation ResultInProgress :: PlatformInstlnStatus where "ResultInProgress \<equiv> ''in progress''"

record PlatformConfig =
  pc_Name :: string
  pc_CSV :: string
  pc_DeploymentName :: string
  pc_Image :: string
  pc_PackageName :: string
  pc_Channel :: string
  pc_DisplayName :: string
  pc_Envs :: "EnvVar list"
  pc_Type :: PlatformType

definition zero_PlatformConfig :: PlatformConfig where
  "zero_PlatformConfig = \<lparr>pc_Name = [], pc_CSV = [], pc_DeploymentName = [], pc_Image = [],
     pc_PackageName = [], pc_Channel = [], pc_DisplayName = [], pc_Envs = [], pc_Type = 0\<rparr>"

record ObservabilityConfig =
  ocf_AuthType :: string
  ocf_RemoteWritesURL :: string
  ocf_RHSSOTokenURL :: string
  ocf_AddonName :: string
  ocf_RHOBSSecretName :: string

record DBaaSPlatformSpec =
  pls_SyncPeriod :: "int option"

record PlatformStatus =
  pst_PlatformName :: PlatformName
  pst_PlatformStatus :: PlatformInstlnStatus
  pst_LastMessage :: string

record DBaaSPlatformStatus =
  plst_Conditions :: "Condition list"
  plst_PlatformsStatus :: "PlatformStatus list"

record DBaaSPlatform =
  plat_TypeMeta :: TypeMeta
  plat_ObjectMeta :: ObjectMeta
  plat_Spec :: DBaaSPlatformSpec
  plat_Status :: DBaaSPlatformStatus

definition zero_DBaaSPlatform :: DBaaSPlatform where
  "zero_DBaaSPlatform = \<lparr>plat_TypeMeta = zero_TypeMeta, plat_ObjectMeta = zero_ObjectMeta,
     plat_Spec = \<lparr>pls_SyncPeriod = None\<rparr>,
     plat_Status = \<lparr>plst_Conditions = [], plst_PlatformsStatus = []\<rparr>\<rparr>"

subsection \<open>Objects of the operator lifecycle manager\<close>

record WebhookDescription =
  wd_ConversionCRDs :: "string list"

text \<open>
  Of the phase and the reason of a cluster service version only the values the operator
  compares with have a name.
\<close>

datatype CSVPhase = CSVPhaseSucceeded | CSVPhaseInstalling | CSVPhaseFailed | CSVPhaseOther string

datatype CSVReason = CSVReasonComponentFailed | CSVReasonOther string

record ClusterServiceVersion =
  csv_ObjectMeta :: ObjectMeta
  csv_WebhookDefinitions :: "WebhookDescription list"
  csv_Phase :: CSVPhase
  csv_Reason :: CSVReason
  csv_Message :: string
  csv_LastUpdateTime :: "time option"

definition zero_ClusterServiceVersion :: ClusterServiceVersion where
  "zero_ClusterServiceVersion = \<lparr>csv_ObjectMeta = zero_ObjectMeta, csv_WebhookDefinitions = [],
     csv_Phase = CSVPhaseOther [], csv_Reason = CSVReasonOther [], csv_Message = [],
     csv_LastUpdateTime = None\<rparr>"

datatype InstallPlanApproval = ApprovalAutomatic | ApprovalOther string

record SubscriptionSpec =
  ssp_CatalogSource :: string
  ssp_CatalogSourceNamespace :: string
  ssp_Package :: string
  ssp_Channel :: string
  ssp_StartingCSV :: string
  ssp_InstallPlanApproval :: InstallPlanApproval
  ssp_ConfigEnv :: "EnvVar list option"

record Subscription =
  sub_ObjectMeta :: ObjectMeta
  sub_Spec :: "SubscriptionSpec option"

datatype SourceType = SourceTypeGrpc | SourceTypeOther string

datatype SecurityConfig = SecurityLegacy | SecurityOther string

record CatalogSourceSpec =
  css_SourceType :: SourceType
  css_Image :: string
  css_DisplayName :: string
  css_SecurityContextConfig :: "SecurityConfig option"

record CatalogSource =
  cat_ObjectMeta :: ObjectMeta
  cat_Spec :: CatalogSourceSpec

definition zero_CatalogSource :: CatalogSource where
  "zero_CatalogSource = \<lparr>cat_ObjectMeta = zero_ObjectMeta, cat_Spec = \<lparr>css_SourceType = SourceTypeOther [],
     css_Image = [], css_DisplayName = [], css_SecurityContextConfig = None\<rparr>\<rparr>"

text \<open>The operator only ever writes the zero value of the spec of an operator group.\<close>

datatype OperatorGroupSpec = ZeroOperatorGroupSpec | SomeOperatorGroupSpec string

record OperatorGroup =
  og_ObjectMeta :: ObjectMeta
  og_Spec :: OperatorGroupSpec

subsection \<open>Custom resource definitions and webhooks\<close>

text \<open>\<open>ClientConfig\<close> by its \<open>CABundle\<close>, each pointer or byte slice an option.\<close>

record CustomResourceConversion =
  crc_Strategy :: string
  crc_WebhookClientConfig :: "string option option option"

record CustomResourceDefinition =
  crd_ObjectMeta :: ObjectMeta
  crd_Conversion :: "CustomResourceConversion option"

record ValidatingWebhookConfiguration =
  vwc_ObjectMeta :: ObjectMeta

record ConfigMap =
  cm_ObjectMeta :: ObjectMeta
  cm_Data :: "(string, string) gomap"

subsection \<open>Objects of the console\<close>

record ConsoleQuickStart =
  cqs_ObjectMeta :: ObjectMeta
  cqs_Spec :: string

record ServicePort =
  svp_Name :: string
  svp_Protocol :: string
  svp_Port :: int
  svp_TargetPort :: int

record Service =
  svc_ObjectMeta :: ObjectMeta
  svc_Ports :: "ServicePort list"
  svc_Selector :: "(string, string) gomap"
  svc_Type :: string
  svc_SessionAffinity :: string

record ConsolePluginService =
  cps_Name :: string
  cps_Namespace :: string
  cps_Port :: int
  cps_BasePath :: string

record ConsolePlugin =
  cpl_ObjectMeta :: ObjectMeta
  cpl_DisplayName :: string
  cpl_Service :: ConsolePluginService

record OperatorCondition =
  opc_Type :: string
  opc_Status :: string

record OperatorConsole =
  oco_ObjectMeta :: ObjectMeta
  oco_Plugins :: "string list"
  oco_Conditions :: "OperatorCondition list option"

subsection \<open>Objects of the monitoring stack\<close>

record RelabelConfig =
  rlc_SourceLabels :: "string list"
  rlc_Regex :: string
  rlc_Action :: string

record SecretKeySelector =
  sks_Name :: string
  sks_Key :: string

record OAuth2 =
  oa_ClientIDSecret :: "SecretKeySelector option"
  oa_ClientSecret :: SecretKeySelector
  oa_TokenURL :: string
  oa_Scopes :: "string list"
  oa_EndpointParams :: "(string, string) gomap"

record RemoteWriteSpec =
  rws_URL :: string
  rws_BearerToken :: string
  rws_OAuth2 :: "OAuth2 option"
  rws_InsecureSkipVerify :: "bool option"
  rws_WriteRelabelConfigs :: "RelabelConfig list"

definition zero_RemoteWriteSpec :: RemoteWriteSpec where
  "zero_RemoteWriteSpec = \<lparr>rws_URL = [], rws_BearerToken = [], rws_OAuth2 = None,
     rws_InsecureSkipVerify = None, rws_WriteRelabelConfigs = []\<rparr>"

record PrometheusConfig =
  pmc_Replicas :: "int option"
  pmc_ExternalLabels :: "(string, string) gomap"
  pmc_RemoteWrite :: "RemoteWriteSpec list"

record MonitoringStackSpec =
  mss_LogLevel :: string
  mss_ResourceSelector :: "(string, string) gomap option"
  mss_PrometheusConfig :: "PrometheusConfig option"

record MonitoringStack =
  mst_ObjectMeta :: ObjectMeta
  mst_Spec :: MonitoringStackSpec

record Endpoint =
  enp_Interval :: string
  enp_Path :: string
  enp_Port :: string
  enp_Scheme :: string

record ServiceMonitor =
  smo_ObjectMeta :: ObjectMeta
  smo_Endpoints :: "Endpoint list"
  smo_Selector :: "(string, string) gomap"

subsection \<open>Objects of the cluster (openshift config API)\<close>

record ClusterVersion =
  cv_ClusterID :: string
  cv_Version :: string

record Infrastructure =
  inf_PlatformType :: "string option"

subsection \<open>Requests\<close>

text \<open>
  What the platform stack asks of the API server. The mutate function of a monitoring stack
  sends requests of its own, so that its \<open>CreateOrUpdate\<close> is split at the mutate function:
  the object found (or the one to create), and the object to write.
\<close>

datatype platform_request =
    GetPlatform ObjectKey
  | ListPlatforms string
  | CreatePlatform DBaaSPlatform
  | StatusUpdatePlatform DBaaSPlatform
  | GetCSV ObjectKey
  | UpdateCSV ClusterServiceVersion
  | DeleteCSV ObjectKey
  | GetCRD string
  | ListWebhookConfigurations string string
  | DeleteWebhookConfiguration ValidatingWebhookConfiguration
  | CreateSecret Secret
  | GetConfigMap ObjectKey
  | CreateConfigMap ConfigMap
  | ListDeployments string
  | GetDeployment ObjectKey
  | DeleteDeployment ObjectKey
  | CreateOrUpdateSubscription Subscription "Subscription MutateFn"
  | GetSubscriptionObject ObjectKey
  | DeleteSubscription ObjectKey
  | CreateOrUpdateCatalogSource CatalogSource "CatalogSource MutateFn"
  | DeleteCatalogSource ObjectKey
  | CreateOrUpdateOperatorGroup OperatorGroup "OperatorGroup MutateFn"
  | CreateOrUpdateQuickStart ConsoleQuickStart "ConsoleQuickStart MutateFn"
  | DeleteQuickStart string
  | CreateOrUpdateService Service "Service MutateFn"
  | DeleteService ObjectKey
  | CreateOrUpdateConsolePlugin ConsolePlugin "ConsolePlugin MutateFn"
  | DeleteConsolePlugin string
  | GetOperatorConsole string
  | UpdateOperatorConsole OperatorConsole
  | BeginCreateOrUpdateMonitoringStack MonitoringStack
  | EndCreateOrUpdateMonitoringStack MonitoringStack
  | DeleteMonitoringStack ObjectKey
  | CreateOrUpdateServiceMonitor ServiceMonitor "ServiceMonitor MutateFn"
  | DeleteServiceMonitor ObjectKey
  | GetClusterVersion string
  | GetConsole string
  | GetInfrastructure string

end
