(* ===== verification/Client.thy ===== *)
theory Client
  imports Types_V1alpha1 Platform_Types
begin

section \<open>The environment of the operator\<close>

text \<open>
  Everything the operator calls that is not part of this repository: the Kubernetes API
  server behind the controller-runtime client, the apimachinery helpers, the Prometheus
  registry and the clock. Nothing of it is defined here. The pure helpers and the answers of
  the API server are the fields of a record \<open>env\<close>, which every definition of the model
  that needs them takes as an argument; an effect is an event, and the answer to a request is
  an arbitrary function of the events before it and of the request. What a theorem needs to
  know about a helper is one of the named contracts at the end of this theory.
\<close>

subsection \<open>Provider objects\<close>

text \<open>
  The object the operator writes for a provider (\<open>unstructured.Unstructured\<close>): its kind and
  metadata, the \<open>spec\<close> entry of its content, and the rest of its content as raw text. The
  \<open>spec\<close> is one of the six spec structs, v1alpha1 or v1beta1.
\<close>

datatype ProviderSpec =
    InventorySpecV1alpha1 DBaaSOperatorInventorySpec_v1alpha1
  | InventorySpecV1beta1 DBaaSOperatorInventorySpec
  | ConnectionSpecV1alpha1 DBaaSConnectionSpec_v1alpha1
  | ConnectionSpecV1beta1 DBaaSConnectionSpec
  | InstanceSpecV1alpha1 DBaaSInstanceSpec_v1alpha1
  | InstanceSpecV1beta1 DBaaSInstanceSpec

record Unstructured =
  u_GVK :: GroupVersionKind
  u_ObjectMeta :: ObjectMeta
  u_Spec :: "ProviderSpec option"
  u_Content :: string

subsection \<open>Events\<close>

text \<open>
  A metric operation names the vector, the labels and the value. An observation of a histogram
  has its labels by name (\<open>With\<close>) or its label values by position (\<open>WithLabelValues\<close>). Observed
  durations are in nanoseconds (the code passes \<open>duration.Seconds()\<close>).
\<close>

datatype metric =
    GaugeSet string "(string \<times> string) list" int
  | GaugeDelete string "(string \<times> string) list"
  | GaugeDeletePartialMatch string "(string \<times> string) list"
  | HistogramObserveWith string "(string \<times> string) list" time
  | HistogramObserve string "string list" time
  | CounterAdd string "string list" int

text \<open>An event of a watch, with the metadata of its object (old and new for an update).\<close>

datatype watch_event = CreateEvent ObjectMeta | UpdateEvent ObjectMeta ObjectMeta
  | DeleteEvent ObjectMeta | GenericEvent ObjectMeta

text \<open>
  What the operator asks of the manager of the controller runtime when it starts: a controller
  with the kinds it watches (\<open>cb_WatchesWithDelete\<close> are the kinds that are also watched with an
  \<open>EventHandlerWithDelete\<close> that calls the controller), an index, the webhook of a kind, the two
  health checks, and to start.
\<close>

record ControllerBuild =
  cb_Named :: string
  cb_For :: string
  cb_Predicate :: "(watch_event \<Rightarrow> bool) option"
  cb_OnlyMetadata :: bool
  cb_Owns :: "string list"
  cb_WatchesWithDelete :: "string list"
  cb_MaxConcurrentReconciles :: "nat option"

record ManagerOptions =
  mo_MetricsBindAddress :: string
  mo_Port :: nat
  mo_HealthProbeBindAddress :: string
  mo_LeaderElection :: bool
  mo_LeaderElectionID :: string
  mo_ClientDisableCacheFor :: "string list"

datatype manager_call =
    NewManager ManagerOptions
  | BuildController ControllerBuild
  | IndexField string string "DBaaSInventory \<Rightarrow> string list"
  | BuildWebhook string
  | AddHealthzCheck string
  | AddReadyzCheck string
  | StartManager

text \<open>
  A request to the API server carries what the client call passes. \<open>CreateOrUpdate\<close> carries
  the object it starts from and the mutate function it is given.
\<close>

datatype event =
    EvGetInventory ObjectKey
  | EvGetInventoryV1alpha1 ObjectKey
  | EvGetConnection ObjectKey
  | EvGetInstance ObjectKey
  | EvGetPolicy ObjectKey
  | EvGetProvider ObjectKey
  | EvGetSecret ObjectKey
  | EvListPolicies string
  | EvListNamespaces Selector
  | EvListInventoriesByField string string
  | EvCreatePolicy DBaaSPolicy
  | EvPatchSecret ObjectKey string
  | EvStatusUpdateInventory DBaaSInventory
  | EvStatusUpdateConnection DBaaSConnection
  | EvStatusUpdateInstance DBaaSInstance
  | EvStatusUpdatePolicy DBaaSPolicy
  | EvCreateOrUpdateProviderObject Unstructured "Unstructured MutateFn"
  | EvCreateOrUpdateDeployment Deployment "Deployment MutateFn"
  | EvCreateOrUpdateResourceQuota ResourceQuota "ResourceQuota MutateFn"
  | EvWatch string string GroupVersionKind
  | EvPlatform platform_request
  | EvManager manager_call
  | EvNow
  | EvMetric metric

text \<open>The kinds of events the theorems tell apart.\<close>

fun is_status_update :: "event \<Rightarrow> bool" where
  "is_status_update (EvStatusUpdateInventory x) = True"
| "is_status_update (EvStatusUpdateConnection x) = True"
| "is_status_update (EvStatusUpdateInstance x) = True"
| "is_status_update (EvStatusUpdatePolicy x) = True"
| "is_status_update _ = False"

fun is_provider_write :: "event \<Rightarrow> bool" where
  "is_provider_write (EvCreateOrUpdateProviderObject x f) = True"
| "is_provider_write _ = False"

text \<open>Events that change nothing outside the operator.\<close>

fun is_read :: "event \<Rightarrow> bool" where
  "is_read (EvGetInventory k) = True"
| "is_read (EvGetInventoryV1alpha1 k) = True"
| "is_read (EvGetConnection k) = True"
| "is_read (EvGetInstance k) = True"
| "is_read (EvGetPolicy k) = True"
| "is_read (EvGetProvider k) = True"
| "is_read (EvGetSecret k) = True"
| "is_read (EvListPolicies ns) = True"
| "is_read (EvListNamespaces s) = True"
| "is_read (EvListInventoriesByField f v) = True"
| "is_read EvNow = True"
| "is_read _ = False"

lemma is_read_not_write:
  "is_read e \<Longrightarrow> \<not> is_status_update e \<and> \<not> is_provider_write e"
  by (cases e) simp_all

type_synonym history = "event list"
type_synonym 'a prog = "(event list, 'a) state"

subsection \<open>The environment\<close>

record env =
  \<comment> \<open>apimachinery: conditions, selectors, group versions\<close>
  FindStatusCondition :: "Condition list \<Rightarrow> string \<Rightarrow> Condition option"
  IsStatusConditionTrue :: "Condition list \<Rightarrow> string \<Rightarrow> bool"
  SetStatusCondition :: "Condition list \<Rightarrow> Condition \<Rightarrow> Condition list"
  LabelSelectorAsSelector :: "LabelSelector \<Rightarrow> go_error + Selector"
  ParseGroupVersion :: "string \<Rightarrow> go_error + GroupVersion"
  GroupVersion_String :: "GroupVersion \<Rightarrow> string"
  \<comment> \<open>controller-runtime: owner type and metadata, metadata of the controlled object\<close>
  SetControllerReference :: "string \<Rightarrow> ObjectMeta \<Rightarrow> ObjectMeta \<Rightarrow> go_error + ObjectMeta"
  \<comment> \<open>encoding of objects\<close>
  MarshalSecret :: "Secret \<Rightarrow> go_error + string"
  UnmarshalInventoryV1alpha1 :: "Unstructured \<Rightarrow> go_error + DBaaSProviderInventory_v1alpha1"
  UnmarshalInventoryV1beta1 :: "Unstructured \<Rightarrow> go_error + DBaaSProviderInventory"
  UnmarshalConnectionV1alpha1 :: "Unstructured \<Rightarrow> go_error + DBaaSProviderConnection_v1alpha1"
  UnmarshalConnectionV1beta1 :: "Unstructured \<Rightarrow> go_error + DBaaSProviderConnection"
  UnmarshalInstanceV1alpha1 :: "Unstructured \<Rightarrow> go_error + DBaaSProviderInstance_v1alpha1"
  UnmarshalInstanceV1beta1 :: "Unstructured \<Rightarrow> go_error + DBaaSProviderInstance"
  TimeString :: "time \<Rightarrow> string"
  FormatPointer :: "string option \<Rightarrow> string"
  \<comment> \<open>configuration of this process\<close>
  InstallNamespace :: string
  WebhookAPIClientSet :: bool
  \<comment> \<open>answers of the API server and the clock, from the events so far\<close>
  srv_GetInventory :: "history \<Rightarrow> ObjectKey \<Rightarrow> go_error + DBaaSInventory"
  srv_GetInventoryV1alpha1 :: "history \<Rightarrow> ObjectKey \<Rightarrow> go_error + DBaaSInventory_v1alpha1"
  srv_GetConnection :: "history \<Rightarrow> ObjectKey \<Rightarrow> go_error + DBaaSConnection"
  srv_GetInstance :: "history \<Rightarrow> ObjectKey \<Rightarrow> go_error + DBaaSInstance"
  srv_GetPolicy :: "history \<Rightarrow> ObjectKey \<Rightarrow> go_error + DBaaSPolicy"
  srv_GetProvider :: "history \<Rightarrow> ObjectKey \<Rightarrow> go_error + DBaaSProvider"
  srv_GetSecret :: "history \<Rightarrow> ObjectKey \<Rightarrow> go_error + Secret"
  srv_ListPolicies :: "history \<Rightarrow> string \<Rightarrow> go_error + DBaaSPolicy list"
  srv_ListNamespaces :: "history \<Rightarrow> Selector \<Rightarrow> go_error + Namespace list"
  srv_ListInventoriesByField :: "history \<Rightarrow> string \<Rightarrow> string \<Rightarrow> go_error + DBaaSInventory list"
  srv_CreatePolicy :: "history \<Rightarrow> DBaaSPolicy \<Rightarrow> go_error option"
  srv_PatchSecret :: "history \<Rightarrow> ObjectKey \<Rightarrow> string \<Rightarrow> go_error option"
  srv_StatusUpdateInventory :: "history \<Rightarrow> DBaaSInventory \<Rightarrow> go_error + DBaaSInventory"
  srv_StatusUpdateConnection :: "history \<Rightarrow> DBaaSConnection \<Rightarrow> go_error + DBaaSConnection"
  srv_StatusUpdateInstance :: "history \<Rightarrow> DBaaSInstance \<Rightarrow> go_error + DBaaSInstance"
  srv_StatusUpdatePolicy :: "history \<Rightarrow> DBaaSPolicy \<Rightarrow> go_error + DBaaSPolicy"
  srv_CreateOrUpdateProviderObject ::
    "history \<Rightarrow> Unstructured \<Rightarrow> Unstructured MutateFn \<Rightarrow> go_error + (Unstructured \<times> OperationResult)"
  srv_CreateOrUpdateDeployment ::
    "history \<Rightarrow> Deployment \<Rightarrow> Deployment MutateFn \<Rightarrow> go_error + (Deployment \<times> OperationResult)"
  srv_CreateOrUpdateResourceQuota ::
    "history \<Rightarrow> ResourceQuota \<Rightarrow> ResourceQuota MutateFn \<Rightarrow> go_error + (ResourceQuota \<times> OperationResult)"
  srv_Watch :: "history \<Rightarrow> string \<Rightarrow> string \<Rightarrow> GroupVersionKind \<Rightarrow> go_error option"
  srv_Now :: "history \<Rightarrow> time"

subsection \<open>The client calls\<close>

abbreviation getInventory :: "env \<Rightarrow> ObjectKey \<Rightarrow> (go_error + DBaaSInventory) prog" where
  "getInventory E k \<equiv> call (EvGetInventory k) (\<lambda>h. srv_GetInventory E h k)"

abbreviation getInventoryV1alpha1 ::
    "env \<Rightarrow> ObjectKey \<Rightarrow> (go_error + DBaaSInventory_v1alpha1) prog" where
  "getInventoryV1alpha1 E k \<equiv>
     call (EvGetInventoryV1alpha1 k) (\<lambda>h. srv_GetInventoryV1alpha1 E h k)"

abbreviation getConnection :: "env \<Rightarrow> ObjectKey \<Rightarrow> (go_error + DBaaSConnection) prog" where
  "getConnection E k \<equiv> call (EvGetConnection k) (\<lambda>h. srv_GetConnection E h k)"

abbreviation getInstance :: "env \<Rightarrow> ObjectKey \<Rightarrow> (go_error + DBaaSInstance) prog" where
  "getInstance E k \<equiv> call (EvGetInstance k) (\<lambda>h. srv_GetInstance E h k)"

abbreviation getPolicy :: "env \<Rightarrow> ObjectKey \<Rightarrow> (go_error + DBaaSPolicy) prog" where
  "getPolicy E k \<equiv> call (EvGetPolicy k) (\<lambda>h. srv_GetPolicy E h k)"

abbreviation getProvider :: "env \<Rightarrow> ObjectKey \<Rightarrow> (go_error + DBaaSProvider) prog" where
  "getProvider E k \<equiv> call (EvGetProvider k) (\<lambda>h. srv_GetProvider E h k)"

abbreviation getSecret :: "env \<Rightarrow> ObjectKey \<Rightarrow> (go_error + Secret) prog" where
  "getSecret E k \<equiv> call (EvGetSecret k) (\<lambda>h. srv_GetSecret E h k)"

abbreviation listPolicies :: "env \<Rightarrow> string \<Rightarrow> (go_error + DBaaSPolicy list) prog" where
  "listPolicies E ns \<equiv> call (EvListPolicies ns) (\<lambda>h. srv_ListPolicies E h ns)"

abbreviation listNamespaces :: "env \<Rightarrow> Selector \<Rightarrow> (go_error + Namespace list) prog" where
  "listNamespaces E s \<equiv> call (EvListNamespaces s) (\<lambda>h. srv_ListNamespaces E h s)"

abbreviation listInventoriesByField ::
    "env \<Rightarrow> string \<Rightarrow> string \<Rightarrow> (go_error + DBaaSInventory list) prog" where
  "listInventoriesByField E f v \<equiv>
     call (EvListInventoriesByField f v) (\<lambda>h. srv_ListInventoriesByField E h f v)"

abbreviation createPolicy :: "env \<Rightarrow> DBaaSPolicy \<Rightarrow> (go_error option) prog" where
  "createPolicy E p \<equiv> call (EvCreatePolicy p) (\<lambda>h. srv_CreatePolicy E h p)"

abbreviation patchSecret :: "env \<Rightarrow> ObjectKey \<Rightarrow> string \<Rightarrow> (go_error option) prog" where
  "patchSecret E k b \<equiv> call (EvPatchSecret k b) (\<lambda>h. srv_PatchSecret E h k b)"

abbreviation statusUpdateInventory ::
    "env \<Rightarrow> DBaaSInventory \<Rightarrow> (go_error + DBaaSInventory) prog" where
  "statusUpdateInventory E x \<equiv>
     call (EvStatusUpdateInventory x) (\<lambda>h. srv_StatusUpdateInventory E h x)"

abbreviation statusUpdateConnection ::
    "env \<Rightarrow> DBaaSConnection \<Rightarrow> (go_error + DBaaSConnection) prog" where
  "statusUpdateConnection E x \<equiv>
     call (EvStatusUpdateConnection x) (\<lambda>h. srv_StatusUpdateConnection E h x)"

abbreviation statusUpdateInstance ::
    "env \<Rightarrow> DBaaSInstance \<Rightarrow> (go_error + DBaaSInstance) prog" where
  "statusUpdateInstance E x \<equiv>
     call (EvStatusUpdateInstance x) (\<lambda>h. srv_StatusUpdateInstance E h x)"

abbreviation statusUpdatePolicy ::
    "env \<Rightarrow> DBaaSPolicy \<Rightarrow> (go_error + DBaaSPolicy) prog" where
  "statusUpdatePolicy E x \<equiv>
     call (EvStatusUpdatePolicy x) (\<lambda>h. srv_StatusUpdatePolicy E h x)"

abbreviation createOrUpdateProviderObject ::
    "env \<Rightarrow> Unstructured \<Rightarrow> Unstructured MutateFn \<Rightarrow>
     (go_error + (Unstructured \<times> OperationResult)) prog" where
  "createOrUpdateProviderObject E x f \<equiv> call (EvCreateOrUpdateProviderObject x f)
     (\<lambda>h. srv_CreateOrUpdateProviderObject E h x f)"

abbreviation createOrUpdateDeployment ::
    "env \<Rightarrow> Deployment \<Rightarrow> Deployment MutateFn \<Rightarrow>
     (go_error + (Deployment \<times> OperationResult)) prog" where
  "createOrUpdateDeployment E x f \<equiv> call (EvCreateOrUpdateDeployment x f)
     (\<lambda>h. srv_CreateOrUpdateDeployment E h x f)"

abbreviation createOrUpdateResourceQuota ::
    "env \<Rightarrow> ResourceQuota \<Rightarrow> ResourceQuota MutateFn \<Rightarrow>
     (go_error + (ResourceQuota \<times> OperationResult)) prog" where
  "createOrUpdateResourceQuota E x f \<equiv> call (EvCreateOrUpdateResourceQuota x f)
     (\<lambda>h. srv_CreateOrUpdateResourceQuota E h x f)"

abbreviation watch :: "env \<Rightarrow> string \<Rightarrow> string \<Rightarrow> GroupVersionKind \<Rightarrow> (go_error option) prog" where
  "watch E ctl owner gvk \<equiv> call (EvWatch ctl owner gvk) (\<lambda>h. srv_Watch E h ctl owner gvk)"

abbreviation now :: "env \<Rightarrow> time prog" where
  "now E \<equiv> call EvNow (\<lambda>h. srv_Now E h)"

abbreviation metric_op :: "metric \<Rightarrow> unit prog" where
  "metric_op m \<equiv> call (EvMetric m) (\<lambda>h. ())"

subsection \<open>Contracts\<close>

text \<open>
  Documented behaviour of the condition helpers of \<open>apimachinery/pkg/api/meta\<close>:
  \<open>FindStatusCondition\<close> "finds the conditionType in conditions" (what it finds is one of
  the conditions and has that type),
  \<open>IsStatusConditionTrue\<close> "returns true when the conditionType is present and set to
  True", and \<open>SetStatusCondition\<close> "sets the corresponding condition in conditions to
  newCondition": the condition found under its type afterwards has its status, reason and
  message, and the conditions of other types are left as they were.
\<close>

definition conditions_contract :: "env \<Rightarrow> bool" where
  "conditions_contract E \<longleftrightarrow>
     (\<forall>cs ty c. FindStatusCondition E cs ty = Some c \<longrightarrow> c \<in> set cs \<and> c_Type c = ty) \<and>
     (\<forall>cs ty. IsStatusConditionTrue E cs ty \<longleftrightarrow>
        (\<exists>c. FindStatusCondition E cs ty = Some c \<and> c_Status c = ConditionTrue)) \<and>
     (\<forall>cs c. \<exists>c'. FindStatusCondition E (SetStatusCondition E cs c) (c_Type c) = Some c' \<and>
        c_Status c' = c_Status c \<and> c_Reason c' = c_Reason c \<and> c_Message c' = c_Message c) \<and>
     (\<forall>cs c ty. ty \<noteq> c_Type c \<longrightarrow>
        FindStatusCondition E (SetStatusCondition E cs c) ty = FindStatusCondition E cs ty)"

lemma find_type:
  "conditions_contract E \<Longrightarrow> FindStatusCondition E cs ty = Some c \<Longrightarrow> c \<in> set cs \<and> c_Type c = ty"
  unfolding conditions_contract_def by blast

lemma is_true_iff:
  "conditions_contract E \<Longrightarrow> IsStatusConditionTrue E cs ty \<longleftrightarrow>
     (\<exists>c. FindStatusCondition E cs ty = Some c \<and> c_Status c = ConditionTrue)"
  by (simp add: conditions_contract_def)

lemma find_set_same:
  assumes "conditions_contract E"
  obtains c' where "FindStatusCondition E (SetStatusCondition E cs c) (c_Type c) = Some c'"
    "c_Status c' = c_Status c" "c_Reason c' = c_Reason c" "c_Message c' = c_Message c"
  using assms unfolding conditions_contract_def by blast

lemma find_set_other:
  "conditions_contract E \<Longrightarrow> ty \<noteq> c_Type c \<Longrightarrow>
     FindStatusCondition E (SetStatusCondition E cs c) ty = FindStatusCondition E cs ty"
  by (simp add: conditions_contract_def)

lemma is_true_set_same:
  assumes "conditions_contract E"
  shows "IsStatusConditionTrue E (SetStatusCondition E cs c) (c_Type c) \<longleftrightarrow>
           c_Status c = ConditionTrue"
proof -
  obtain c' where "FindStatusCondition E (SetStatusCondition E cs c) (c_Type c) = Some c'"
    and "c_Status c' = c_Status c"
    by (rule find_set_same [OF assms, of cs c])
  then show ?thesis by (simp add: is_true_iff [OF assms])
qed

text \<open>
  \<open>GroupVersion.String()\<close> "puts group and version into a single group/version string":
  it tells the two versions of this API apart.
\<close>

definition gv_string_contract :: "env \<Rightarrow> bool" where
  "gv_string_contract E \<longleftrightarrow>
     GroupVersion_String E GroupVersion_v1alpha1 \<noteq> GroupVersion_String E GroupVersion_v1beta1"

text \<open>
  \<open>controllerutil.SetControllerReference\<close> "sets owner as a Controller OwnerReference on controlled";
  "since only one OwnerReference can be a controller, it returns an error if there is another
  OwnerReference with Controller flag set", and also if the owner is in another namespace. So for
  an owner of a kind of the operator's scheme it succeeds on what nobody else controls in the
  owner's namespace, and then changes nothing but the owner references.
\<close>

definition unclaimed :: "env \<Rightarrow> string \<Rightarrow> ObjectMeta \<Rightarrow> ObjectMeta \<Rightarrow> bool" where
  "unclaimed E ownerType owner m \<longleftrightarrow> om_Namespace m = om_Namespace owner \<and>
     (\<forall>r \<in> set (om_OwnerReferences m). or_Controller r = Some True \<longrightarrow>
        or_APIVersion r = GroupVersion_String E GroupVersion_v1beta1 \<and>
        or_Kind r = ownerType \<and> or_Name r = om_Name owner)"

definition owner_contract :: "env \<Rightarrow> bool" where
  "owner_contract E \<longleftrightarrow> (\<forall>ownerType owner m.
     ownerType \<in> {''DBaaSInventory'', ''DBaaSConnection'', ''DBaaSInstance'', ''DBaaSPolicy''} \<and>
     unclaimed E ownerType owner m \<longrightarrow>
     (\<exists>rs. SetControllerReference E ownerType owner m = Inr (m\<lparr>om_OwnerReferences := rs\<rparr>)))"

lemma owner_contractD:
  assumes "owner_contract E" "unclaimed E ownerType owner m"
    and "ownerType \<in> {''DBaaSInventory'', ''DBaaSConnection'', ''DBaaSInstance'', ''DBaaSPolicy''}"
  obtains rs where "SetControllerReference E ownerType owner m = Inr (m\<lparr>om_OwnerReferences := rs\<rparr>)"
  using assms unfolding owner_contract_def by blast

text \<open>
  \<open>controllerutil.CreateOrUpdate\<close> calls the mutate function on the object of the given name that the
  cluster has, else on the given object, and returns its error; it also fails if the name or
  namespace was changed. A server that accepts whatever passes these checks, for the
  objects \<open>stored\<close> in the cluster:
\<close>

definition server_accepts ::
    "('o \<Rightarrow> ObjectMeta) \<Rightarrow> (history \<Rightarrow> ObjectKey \<Rightarrow> 'o option) \<Rightarrow>
     (history \<Rightarrow> 'o \<Rightarrow> 'o MutateFn \<Rightarrow> go_error + ('o \<times> OperationResult)) \<Rightarrow> bool" where
  "server_accepts meta stored srv \<longleftrightarrow>
     (\<forall>h k x. stored h k = Some x \<longrightarrow> key_of (meta x) = k) \<and>
     (\<forall>h x f y. f (case stored h (key_of (meta x)) of None \<Rightarrow> x | Some x' \<Rightarrow> x') = Inr y \<and>
        key_of (meta y) = key_of (meta x) \<longrightarrow> (\<exists>r. srv h x f = Inr r))"

lemma server_acceptsD:
  assumes "server_accepts meta stored srv"
    and "\<And>x'. key_of (meta x') = key_of (meta x) \<Longrightarrow> stored h (key_of (meta x)) = Some x' \<or> x' = x \<Longrightarrow>
      \<exists>y. f x' = Inr y \<and> key_of (meta y) = key_of (meta x)"
  shows "\<exists>r. srv h x f = Inr r"
proof -
  let ?x = "case stored h (key_of (meta x)) of None \<Rightarrow> x | Some x' \<Rightarrow> x'"
  have "key_of (meta ?x) = key_of (meta x)"
    using assms(1) unfolding server_accepts_def by (metis option.case_eq_if option.collapse)
  moreover have "stored h (key_of (meta x)) = Some ?x \<or> ?x = x" by (auto split: option.split)
  ultimately obtain y where "f ?x = Inr y" "key_of (meta y) = key_of (meta x)" using assms(2) by blast
  with assms(1) show ?thesis unfolding server_accepts_def by blast
qed

end
