(* ===== verification/Reference_Env.thy ===== *)
theory Reference_Env
  imports Client
begin

section \<open>A reference environment\<close>

text \<open>
  One concrete environment, at which the theorems about an arbitrary environment are
  instantiated to show that their hypotheses can hold: the helpers do what their
  documentation says on the data at hand, the API server is empty and accepts every write.
  A witness replaces the answers it needs by record update.
\<close>

fun ref_set_condition :: "Condition list \<Rightarrow> Condition \<Rightarrow> Condition list" where
  "ref_set_condition [] c = [c]"
| "ref_set_condition (d # cs) c = (if c_Type d = c_Type c then c # cs else d # ref_set_condition cs c)"

definition ref_parse_gv :: "string \<Rightarrow> go_error + GroupVersion" where
  "ref_parse_gv s =
     (let g = takeWhile (\<lambda>c. c \<noteq> CHR ''/'') s; r = dropWhile (\<lambda>c. c \<noteq> CHR ''/'') s
      in case r of
           [] \<Rightarrow> Inl (OtherError ''unexpected GroupVersion string'')
         | _ # v \<Rightarrow> Inr \<lparr>gv_Group = g, gv_Version = v\<rparr>)"

abbreviation no_object :: "go_error + 'a" where
  "no_object \<equiv> Inl (NotFoundError ''not found'')"

definition ref_create_or_update :: "'o \<Rightarrow> 'o MutateFn \<Rightarrow> go_error + ('o \<times> OperationResult)" where
  "ref_create_or_update x f =
     (case f x of Inl e \<Rightarrow> Inl e | Inr y \<Rightarrow> Inr (y, OperationResultCreated))"

text \<open>
  The owner reference replaces the one to the same owner, or is added; it is refused across
  namespaces and if another owner is the controller.
\<close>

definition ref_set_controller ::
    "string \<Rightarrow> ObjectMeta \<Rightarrow> ObjectMeta \<Rightarrow> go_error + ObjectMeta" where
  "ref_set_controller ty ow m =
     (let ref = \<lparr>or_APIVersion = ''dbaas.redhat.com/v1beta1'', or_Kind = ty, or_Name = om_Name ow,
            or_UID = om_UID ow, or_Controller = Some True\<rparr>;
          same = (\<lambda>r. or_APIVersion r = or_APIVersion ref \<and> or_Kind r = ty \<and> or_Name r = om_Name ow)
      in if om_Namespace ow \<noteq> [] \<and> om_Namespace m \<noteq> om_Namespace ow
         then Inl (OtherError ''cross-namespace owner references are disallowed'')
         else if list_ex (\<lambda>r. or_Controller r = Some True \<and> \<not> same r) (om_OwnerReferences m)
         then Inl (OtherError ''already owned by another controller'')
         else Inr (m\<lparr>om_OwnerReferences :=
           filter (\<lambda>r. \<not> same r) (om_OwnerReferences m) @ [ref]\<rparr>))"

definition ref_env :: env where
  "ref_env = \<lparr>
     FindStatusCondition = (\<lambda>cs ty. List.find (\<lambda>c. c_Type c = ty) cs),
     IsStatusConditionTrue = (\<lambda>cs ty. case List.find (\<lambda>c. c_Type c = ty) cs of
        None \<Rightarrow> False | Some c \<Rightarrow> c_Status c = ConditionTrue),
     SetStatusCondition = ref_set_condition,
     LabelSelectorAsSelector = (\<lambda>s. Inr (Selector s)),
     ParseGroupVersion = ref_parse_gv,
     GroupVersion_String = (\<lambda>g. gv_Group g @ ''/'' @ gv_Version g),
     SetControllerReference = ref_set_controller,
     MarshalSecret = (\<lambda>s. Inr (om_Name (sec_ObjectMeta s))),
     UnmarshalInventoryV1alpha1 = (\<lambda>u. Inr zero_DBaaSProviderInventory_v1alpha1),
     UnmarshalInventoryV1beta1 = (\<lambda>u. Inr zero_DBaaSProviderInventory),
     UnmarshalConnectionV1alpha1 = (\<lambda>u. Inr zero_DBaaSProviderConnection_v1alpha1),
     UnmarshalConnectionV1beta1 = (\<lambda>u. Inr zero_DBaaSProviderConnection),
     UnmarshalInstanceV1alpha1 = (\<lambda>u. Inr zero_DBaaSProviderInstance_v1alpha1),
     UnmarshalInstanceV1beta1 = (\<lambda>u. Inr zero_DBaaSProviderInstance),
     TimeString = (\<lambda>t. ''time''),
     FormatPointer = (\<lambda>p. ''0x0''),
     InstallNamespace = ''openshift-dbaas-operator'',
     WebhookAPIClientSet = True,
     srv_GetInventory = (\<lambda>h k. no_object),
     srv_GetInventoryV1alpha1 = (\<lambda>h k. no_object),
     srv_GetConnection = (\<lambda>h k. no_object),
     srv_GetInstance = (\<lambda>h k. no_object),
     srv_GetPolicy = (\<lambda>h k. no_object),
     srv_GetProvider = (\<lambda>h k. no_object),
     srv_GetSecret = (\<lambda>h k. no_object),
     srv_ListPolicies = (\<lambda>h ns. Inr []),
     srv_ListNamespaces = (\<lambda>h s. Inr []),
     srv_ListInventoriesByField = (\<lambda>h f v. Inr []),
     srv_CreatePolicy = (\<lambda>h p. None),
     srv_PatchSecret = (\<lambda>h k b. None),
     srv_StatusUpdateInventory = (\<lambda>h x. Inr x),
     srv_StatusUpdateConnection = (\<lambda>h x. Inr x),
     srv_StatusUpdateInstance = (\<lambda>h x. Inr x),
     srv_StatusUpdatePolicy = (\<lambda>h x. Inr x),
     srv_CreateOrUpdateProviderObject = (\<lambda>h x f. ref_create_or_update x f),
     srv_CreateOrUpdateDeployment = (\<lambda>h x f. ref_create_or_update x f),
     srv_CreateOrUpdateResourceQuota = (\<lambda>h x f. ref_create_or_update x f),
     srv_Watch = (\<lambda>h ctl ow gvk. None),
     srv_Now = (\<lambda>h. 0)\<rparr>"

lemma ref_env_simps [env_simps]:
  "FindStatusCondition ref_env = (\<lambda>cs ty. List.find (\<lambda>c. c_Type c = ty) cs)"
  "IsStatusConditionTrue ref_env = (\<lambda>cs ty. case List.find (\<lambda>c. c_Type c = ty) cs of
     None \<Rightarrow> False | Some c \<Rightarrow> c_Status c = ConditionTrue)"
  "SetStatusCondition ref_env = ref_set_condition"
  "LabelSelectorAsSelector ref_env = (\<lambda>s. Inr (Selector s))"
  "ParseGroupVersion ref_env = ref_parse_gv"
  "GroupVersion_String ref_env = (\<lambda>g. gv_Group g @ ''/'' @ gv_Version g)"
  "SetControllerReference ref_env = ref_set_controller"
  "MarshalSecret ref_env = (\<lambda>s. Inr (om_Name (sec_ObjectMeta s)))"
  "UnmarshalInventoryV1alpha1 ref_env = (\<lambda>u. Inr zero_DBaaSProviderInventory_v1alpha1)"
  "UnmarshalInventoryV1beta1 ref_env = (\<lambda>u. Inr zero_DBaaSProviderInventory)"
  "UnmarshalConnectionV1alpha1 ref_env = (\<lambda>u. Inr zero_DBaaSProviderConnection_v1alpha1)"
  "UnmarshalConnectionV1beta1 ref_env = (\<lambda>u. Inr zero_DBaaSProviderConnection)"
  "UnmarshalInstanceV1alpha1 ref_env = (\<lambda>u. Inr zero_DBaaSProviderInstance_v1alpha1)"
  "UnmarshalInstanceV1beta1 ref_env = (\<lambda>u. Inr zero_DBaaSProviderInstance)"
  "TimeString ref_env = (\<lambda>t. ''time'')"
  "FormatPointer ref_env = (\<lambda>p. ''0x0'')"
  "InstallNamespace ref_env = ''openshift-dbaas-operator''"
  "WebhookAPIClientSet ref_env"
  "srv_GetInventory ref_env = (\<lambda>h k. no_object)"
  "srv_GetInventoryV1alpha1 ref_env = (\<lambda>h k. no_object)"
  "srv_GetConnection ref_env = (\<lambda>h k. no_object)"
  "srv_GetInstance ref_env = (\<lambda>h k. no_object)"
  "srv_GetPolicy ref_env = (\<lambda>h k. no_object)"
  "srv_GetProvider ref_env = (\<lambda>h k. no_object)"
  "srv_GetSecret ref_env = (\<lambda>h k. no_object)"
  "srv_ListPolicies ref_env = (\<lambda>h ns. Inr [])"
  "srv_ListNamespaces ref_env = (\<lambda>h s. Inr [])"
  "srv_ListInventoriesByField ref_env = (\<lambda>h f v. Inr [])"
  "srv_CreatePolicy ref_env = (\<lambda>h p. None)"
  "srv_PatchSecret ref_env = (\<lambda>h k b. None)"
  "srv_StatusUpdateInventory ref_env = (\<lambda>h x. Inr x)"
  "srv_StatusUpdateConnection ref_env = (\<lambda>h x. Inr x)"
  "srv_StatusUpdateInstance ref_env = (\<lambda>h x. Inr x)"
  "srv_StatusUpdatePolicy ref_env = (\<lambda>h x. Inr x)"
  "srv_CreateOrUpdateProviderObject ref_env = (\<lambda>h x f. ref_create_or_update x f)"
  "srv_CreateOrUpdateDeployment ref_env = (\<lambda>h x f. ref_create_or_update x f)"
  "srv_CreateOrUpdateResourceQuota ref_env = (\<lambda>h x f. ref_create_or_update x f)"
  "srv_Watch ref_env = (\<lambda>h ctl ow gvk. None)"
  "srv_Now ref_env = (\<lambda>h. 0)"
  by (simp_all add: ref_env_def)

lemma ref_find_set_same:
  "List.find (\<lambda>d. c_Type d = c_Type c) (ref_set_condition cs c) = Some c"
  by (induction cs) auto

lemma ref_find_set_other:
  "ty \<noteq> c_Type c \<Longrightarrow>
     List.find (\<lambda>d. c_Type d = ty) (ref_set_condition cs c) = List.find (\<lambda>d. c_Type d = ty) cs"
  by (induction cs) auto

lemma ref_find_type:
  "List.find (\<lambda>d. c_Type d = ty) cs = Some c \<Longrightarrow> c \<in> set cs \<and> c_Type c = ty"
  by (induction cs) (auto split: if_splits)

lemma ref_conditions_contract:
  assumes "FindStatusCondition E = FindStatusCondition ref_env"
    "IsStatusConditionTrue E = IsStatusConditionTrue ref_env"
    "SetStatusCondition E = SetStatusCondition ref_env"
  shows "conditions_contract E"
  unfolding conditions_contract_def assms ref_env_simps
  using ref_find_type
  by (auto simp: ref_find_set_same ref_find_set_other split: option.splits)

lemma ref_gv_string_contract:
  assumes "GroupVersion_String E = GroupVersion_String ref_env"
  shows "gv_string_contract E"
  by (simp add: gv_string_contract_def assms env_simps GroupVersion_v1alpha1_def
      GroupVersion_v1beta1_def)

text \<open>Nothing to be controlled by anybody else: what the examples set owners of.\<close>

lemma ref_set_controller_free [env_simps]:
  "om_OwnerReferences m = [] \<Longrightarrow> om_Namespace ow = [] \<or> om_Namespace m = om_Namespace ow \<Longrightarrow>
     ref_set_controller ty ow m = Inr (m\<lparr>om_OwnerReferences :=
       [\<lparr>or_APIVersion = ''dbaas.redhat.com/v1beta1'', or_Kind = ty, or_Name = om_Name ow,
         or_UID = om_UID ow, or_Controller = Some True\<rparr>]\<rparr>)"
  by (simp add: ref_set_controller_def Let_def)

lemma ref_owner_contract:
  assumes "SetControllerReference E = SetControllerReference ref_env"
    and "GroupVersion_String E = GroupVersion_String ref_env"
  shows "owner_contract E"
  unfolding owner_contract_def unclaimed_def assms
  by (auto simp: env_simps ref_set_controller_def Let_def list_ex_iff GroupVersion_v1beta1_def)

lemma ref_server_accepts: "server_accepts meta (\<lambda>h k. None) (\<lambda>h x f. ref_create_or_update x f)"
  by (auto simp: server_accepts_def ref_create_or_update_def)

end
