(* ===== verification/Conversion.thy ===== *)
theory Conversion
  imports Reference_Env "HOL-Library.Multiset"
begin

section \<open>Conversion between the API versions\<close>

text \<open>
  \<open>api/v1alpha1/*_conversion.go\<close>: the v1alpha1 types are the spokes, the v1beta1 types the
  hub. A method \<open>func (src *T) ConvertTo(dst)\<close> is a function of \<open>src\<close> and of the object
  \<open>dst\<close> it fills in, and returns the filled object; the instance conversions read the
  referenced inventory through the webhook's API client, and are programs that may fail.
\<close>

subsection \<open>Names of provisioning parameters (dbaasprovider_conversion.go)\<close>

definition ProviderFieldsMap ::
    "(string, (string, ProvisioningParameterType) gomap) gomap" where
  "ProviderFieldsMap =
    [(CrunchyBridgeRegistration,
       [(''Name'', ProvisioningName),
        (''Provider'', ProvisioningCloudProvider)]),
     (MongoDBAtlasRegistration,
       [(''clusterName'', ProvisioningName),
        (''providerName'', ProvisioningCloudProvider),
        (''ProjectName'', ProvisioningTeamProject)]),
     (RdsRegistration,
       [(''Engine'', ProvisioningDatabaseType)])]"

definition ConvertNameTo :: "string \<Rightarrow> string \<Rightarrow> ProvisioningParameterType" where
  "ConvertNameTo providerName nm =
     (case map_of ProviderFieldsMap providerName of
        Some m1 \<Rightarrow> (case map_of m1 nm of Some nameOut \<Rightarrow> nameOut | None \<Rightarrow> [])
      | None \<Rightarrow> [])"

text \<open>The loop of \<open>ConvertNameFrom\<close>, over the entries in the order of the iteration.\<close>

fun range_for_value :: "(string, ProvisioningParameterType) gomap \<Rightarrow> ProvisioningParameterType \<Rightarrow> string" where
  "range_for_value [] nm = []"
| "range_for_value ((k, v) # m) nm = (if v = nm then k else range_for_value m nm)"

definition ConvertNameFrom :: "string \<Rightarrow> ProvisioningParameterType \<Rightarrow> string" where
  "ConvertNameFrom providerName nm =
     (case map_of ProviderFieldsMap providerName of
        Some m1 \<Rightarrow> range_for_value m1 nm
      | None \<Rightarrow> [])"

subsection \<open>Providers\<close>

definition converted_parameter :: "InstanceParameterSpec \<Rightarrow> ProvisioningParameterType \<Rightarrow> ProvisioningParameter" where
  "converted_parameter v nm =
     (if nm = ProvisioningCloudProvider then
        let defaultValue = (if a1ips_DefaultValue v \<noteq> [] then a1ips_DefaultValue v else ''AWS'')
        in \<lparr>pp_DisplayName = a1ips_DisplayName v, pp_HelpText = [],
             pp_ConditionalData =
               [\<lparr>cpd_Dependencies = [\<lparr>fd_Field = ProvisioningPlan, fd_Value = ProvisioningPlanFreeTrial\<rparr>],
                 cpd_Options = [\<lparr>opt_Value = defaultValue, opt_DisplayValue = defaultValue\<rparr>],
                 cpd_DefaultValue = defaultValue\<rparr>]\<rparr>
      else \<lparr>pp_DisplayName = a1ips_DisplayName v, pp_HelpText = [], pp_ConditionalData = []\<rparr>)"

definition free_trial_plan :: ProvisioningParameter where
  "free_trial_plan = \<lparr>pp_DisplayName = ''Hosting plan'', pp_HelpText = [],
     pp_ConditionalData =
       [\<lparr>cpd_Dependencies = [],
         cpd_Options = [\<lparr>opt_Value = ProvisioningPlanFreeTrial, opt_DisplayValue = ''Free trial''\<rparr>],
         cpd_DefaultValue = ProvisioningPlanFreeTrial\<rparr>]\<rparr>"

fun convert_parameters :: "string \<Rightarrow> InstanceParameterSpec list \<Rightarrow>
    (ProvisioningParameterType, ProvisioningParameter) gomap \<Rightarrow>
    (ProvisioningParameterType, ProvisioningParameter) gomap" where
  "convert_parameters pname [] m = m"
| "convert_parameters pname (v # vs) m =
     (let nm = ConvertNameTo pname (a1ips_Name v)
      in if nm = [] then convert_parameters pname vs m
         else convert_parameters pname vs (gomap_put nm (converted_parameter v nm) m))"

definition DBaaSProvider_ConvertTo :: "env \<Rightarrow> DBaaSProvider_v1alpha1 \<Rightarrow> DBaaSProvider \<Rightarrow> DBaaSProvider" where
  "DBaaSProvider_ConvertTo E src dst =
     dst\<lparr>prov_ObjectMeta := a1prov_ObjectMeta src,
         prov_Spec := (prov_Spec dst)
           \<lparr>ps_AllowsFreeTrial := a1ps_AllowsFreeTrial (a1prov_Spec src),
            ps_GroupVersion := GroupVersion_String E GroupVersion_v1alpha1,
            ps_ConnectionKind := a1ps_ConnectionKind (a1prov_Spec src),
            ps_CredentialFields :=
              ps_CredentialFields (prov_Spec dst) @ a1ps_CredentialFields (a1prov_Spec src),
            ps_ExternalProvisionDescription := a1ps_ExternalProvisionDescription (a1prov_Spec src),
            ps_ExternalProvisionURL := a1ps_ExternalProvisionURL (a1prov_Spec src),
            ps_InstanceKind := a1ps_InstanceKind (a1prov_Spec src),
            ps_InventoryKind := a1ps_InventoryKind (a1prov_Spec src),
            ps_Provider := \<lparr>dpi_Name = a1dp_Name (a1ps_Provider (a1prov_Spec src)),
              dpi_DisplayName = a1dp_DisplayName (a1ps_Provider (a1prov_Spec src)),
              dpi_DisplayDescription = a1dp_DisplayDescription (a1ps_Provider (a1prov_Spec src)),
              dpi_Icon = a1dp_Icon (a1ps_Provider (a1prov_Spec src))\<rparr>,
            ps_ProvisioningParameters :=
              gomap_put ProvisioningPlan free_trial_plan
                (convert_parameters (om_Name (a1prov_ObjectMeta src))
                   (a1ps_InstanceParameterSpecs (a1prov_Spec src)) [])\<rparr>,
         prov_Status := \<lparr>pst_Conditions = []\<rparr>\<rparr>"

fun parameter_specs :: "string \<Rightarrow> (ProvisioningParameterType, ProvisioningParameter) gomap \<Rightarrow>
    InstanceParameterSpec list" where
  "parameter_specs pname [] = []"
| "parameter_specs pname ((k, v) # m) =
     (if k \<in> {ProvisioningCloudProvider, ProvisioningName, ProvisioningDatabaseType,
              ProvisioningTeamProject}
      then [\<lparr>a1ips_Name = ConvertNameFrom pname k,
             a1ips_DisplayName = pp_DisplayName v,
             a1ips_Type = ''string'',
             a1ips_Required = True,
             a1ips_DefaultValue =
               (case pp_ConditionalData v of [] \<Rightarrow> [] | d # _ \<Rightarrow> cpd_DefaultValue d)\<rparr>]
      else []) @ parameter_specs pname m"

definition DBaaSProvider_ConvertFrom :: "DBaaSProvider_v1alpha1 \<Rightarrow> DBaaSProvider \<Rightarrow> DBaaSProvider_v1alpha1" where
  "DBaaSProvider_ConvertFrom dst src =
     dst\<lparr>a1prov_ObjectMeta := prov_ObjectMeta src,
         a1prov_Spec := (a1prov_Spec dst)
           \<lparr>a1ps_AllowsFreeTrial := ps_AllowsFreeTrial (prov_Spec src),
            a1ps_ConnectionKind := ps_ConnectionKind (prov_Spec src),
            a1ps_CredentialFields :=
              a1ps_CredentialFields (a1prov_Spec dst) @ ps_CredentialFields (prov_Spec src),
            a1ps_ExternalProvisionDescription := ps_ExternalProvisionDescription (prov_Spec src),
            a1ps_ExternalProvisionURL := ps_ExternalProvisionURL (prov_Spec src),
            a1ps_InstanceKind := ps_InstanceKind (prov_Spec src),
            a1ps_InstanceParameterSpecs := a1ps_InstanceParameterSpecs (a1prov_Spec dst) @
              parameter_specs (om_Name (prov_ObjectMeta src))
                (ps_ProvisioningParameters (prov_Spec src)),
            a1ps_InventoryKind := ps_InventoryKind (prov_Spec src),
            a1ps_Provider := \<lparr>a1dp_Name = dpi_Name (ps_Provider (prov_Spec src)),
              a1dp_DisplayName = dpi_DisplayName (ps_Provider (prov_Spec src)),
              a1dp_DisplayDescription = dpi_DisplayDescription (ps_Provider (prov_Spec src)),
              a1dp_Icon = dpi_Icon (ps_Provider (prov_Spec src))\<rparr>\<rparr>\<rparr>"

subsection \<open>Policies (dbaaspolicy_conversion.go)\<close>

definition DBaaSPolicy_ConvertTo :: "DBaaSPolicy_v1alpha1 \<Rightarrow> DBaaSPolicy \<Rightarrow> DBaaSPolicy" where
  "DBaaSPolicy_ConvertTo src dst =
     (let sp = a1pols_DBaaSInventoryPolicy (a1pol_Spec src);
          p = pol_Policy dst;
          p = (if a1ip_ConnectionNamespaces sp \<noteq> None
               then p\<lparr>ip_Connections := (ip_Connections p)
                         \<lparr>cp_Namespaces := a1ip_ConnectionNamespaces sp\<rparr>\<rparr> else p);
          p = (if a1ip_ConnectionNsSelector sp \<noteq> None
               then p\<lparr>ip_Connections := (ip_Connections p)
                         \<lparr>cp_NsSelector := a1ip_ConnectionNsSelector sp\<rparr>\<rparr> else p);
          p = (if a1ip_DisableProvisions sp \<noteq> None
               then p\<lparr>ip_DisableProvisions := a1ip_DisableProvisions sp\<rparr> else p)
      in dst\<lparr>pol_ObjectMeta := a1pol_ObjectMeta src,
             pol_Spec := (pol_Spec dst)\<lparr>pols_DBaaSInventoryPolicy := p\<rparr>,
             pol_Status := a1pol_Status src\<rparr>)"

definition DBaaSPolicy_ConvertFrom :: "DBaaSPolicy_v1alpha1 \<Rightarrow> DBaaSPolicy \<Rightarrow> DBaaSPolicy_v1alpha1" where
  "DBaaSPolicy_ConvertFrom dst src =
     (let sp = pol_Policy src;
          p = a1pols_DBaaSInventoryPolicy (a1pol_Spec dst);
          p = (if cp_Namespaces (ip_Connections sp) \<noteq> None
               then p\<lparr>a1ip_ConnectionNamespaces := cp_Namespaces (ip_Connections sp)\<rparr> else p);
          p = (if cp_NsSelector (ip_Connections sp) \<noteq> None
               then p\<lparr>a1ip_ConnectionNsSelector := cp_NsSelector (ip_Connections sp)\<rparr> else p);
          p = (if ip_DisableProvisions sp \<noteq> None
               then p\<lparr>a1ip_DisableProvisions := ip_DisableProvisions sp\<rparr> else p)
      in dst\<lparr>a1pol_ObjectMeta := pol_ObjectMeta src,
             a1pol_Spec := (a1pol_Spec dst)\<lparr>a1pols_DBaaSInventoryPolicy := p\<rparr>,
             a1pol_Status := pol_Status src\<rparr>)"

subsection \<open>Inventories (dbaasinventory_conversion.go)\<close>

definition setPolicyObj :: "DBaaSInventory \<Rightarrow> DBaaSInventory" where
  "setPolicyObj dst = (if ois_Policy (inv_Spec dst) = None
     then dst\<lparr>inv_Spec := (inv_Spec dst)\<lparr>ois_Policy := Some zero_DBaaSInventoryPolicy\<rparr>\<rparr>
     else dst)"

text \<open>Assignment through the pointer \<open>dst.Spec.Policy\<close>, which \<open>setPolicyObj\<close> made non-nil.\<close>

definition update_policy :: "(DBaaSInventoryPolicy \<Rightarrow> DBaaSInventoryPolicy) \<Rightarrow> DBaaSInventory \<Rightarrow> DBaaSInventory" where
  "update_policy f dst =
     dst\<lparr>inv_Spec := (inv_Spec dst)\<lparr>ois_Policy := map_option f (ois_Policy (inv_Spec dst))\<rparr>\<rparr>"

definition DBaaSInventoryStatus_ConvertTo ::
    "DBaaSInventoryStatus_v1alpha1 \<Rightarrow> DBaaSInventoryStatus \<Rightarrow> DBaaSInventoryStatus" where
  "DBaaSInventoryStatus_ConvertTo src dst =
     (let dst = dst\<lparr>ist_Conditions := a1ist_Conditions src\<rparr>
      in case a1ist_Instances src of
           None \<Rightarrow> dst
         | Some instances \<Rightarrow> dst\<lparr>ist_DatabaseServices :=
             (if instances = [] then None
              else Some (map (\<lambda>i. \<lparr>ds_ServiceID = a1in_InstanceID i, ds_ServiceName = a1in_Name i,
                     ds_ServiceType = None, ds_ServiceInfo = a1in_InstanceInfo i\<rparr>) instances))\<rparr>)"

definition DBaaSInventoryStatus_ConvertFrom ::
    "DBaaSInventoryStatus_v1alpha1 \<Rightarrow> DBaaSInventoryStatus \<Rightarrow> DBaaSInventoryStatus_v1alpha1" where
  "DBaaSInventoryStatus_ConvertFrom dst src =
     (let dst = dst\<lparr>a1ist_Conditions := ist_Conditions src\<rparr>
      in case ist_DatabaseServices src of
           None \<Rightarrow> dst
         | Some services \<Rightarrow> dst\<lparr>a1ist_Instances :=
             (if services = [] then None
              else Some (map (\<lambda>s. \<lparr>a1in_InstanceID = ds_ServiceID s, a1in_Name = ds_ServiceName s,
                     a1in_InstanceInfo = ds_ServiceInfo s\<rparr>) services))\<rparr>)"

definition DBaaSInventory_ConvertTo :: "DBaaSInventory_v1alpha1 \<Rightarrow> DBaaSInventory \<Rightarrow> DBaaSInventory" where
  "DBaaSInventory_ConvertTo src dst =
     (let sp = a1inv_Spec src;
          pol = a1ois_DBaaSInventoryPolicy sp;
          dst = dst\<lparr>inv_ObjectMeta := a1inv_ObjectMeta src\<rparr>;
          dst = dst\<lparr>inv_Spec := (inv_Spec dst)\<lparr>ois_DBaaSInventorySpec :=
                  (ois_DBaaSInventorySpec (inv_Spec dst))
                    \<lparr>is_CredentialsRef := a1is_CredentialsRef (a1ois_DBaaSInventorySpec sp)\<rparr>\<rparr>\<rparr>;
          dst = (if a1ip_ConnectionNamespaces pol \<noteq> None
                 then update_policy (\<lambda>p. p\<lparr>ip_Connections := (ip_Connections p)
                        \<lparr>cp_Namespaces := a1ip_ConnectionNamespaces pol\<rparr>\<rparr>) (setPolicyObj dst)
                 else dst);
          dst = (if a1ip_ConnectionNsSelector pol \<noteq> None
                 then update_policy (\<lambda>p. p\<lparr>ip_Connections := (ip_Connections p)
                        \<lparr>cp_NsSelector := a1ip_ConnectionNsSelector pol\<rparr>\<rparr>) (setPolicyObj dst)
                 else dst);
          dst = (if a1ip_DisableProvisions pol \<noteq> None
                 then update_policy (\<lambda>p. p\<lparr>ip_DisableProvisions := a1ip_DisableProvisions pol\<rparr>)
                        (setPolicyObj dst)
                 else dst);
          dst = dst\<lparr>inv_Spec := (inv_Spec dst)\<lparr>ois_ProviderRef := a1ois_ProviderRef sp\<rparr>\<rparr>
      in dst\<lparr>inv_Status := DBaaSInventoryStatus_ConvertTo (a1inv_Status src) (inv_Status dst)\<rparr>)"

definition DBaaSOperatorInventorySpec_ConvertFrom ::
    "DBaaSOperatorInventorySpec_v1alpha1 \<Rightarrow> DBaaSOperatorInventorySpec \<Rightarrow>
     DBaaSOperatorInventorySpec_v1alpha1" where
  "DBaaSOperatorInventorySpec_ConvertFrom dst src =
     (let dst = dst\<lparr>a1ois_DBaaSInventorySpec := (a1ois_DBaaSInventorySpec dst)
                  \<lparr>a1is_CredentialsRef := is_CredentialsRef (ois_DBaaSInventorySpec src)\<rparr>\<rparr>;
          dst = (case ois_Policy src of
                   None \<Rightarrow> dst
                 | Some p \<Rightarrow> dst\<lparr>a1ois_DBaaSInventoryPolicy := (a1ois_DBaaSInventoryPolicy dst)
                     \<lparr>a1ip_ConnectionNamespaces := cp_Namespaces (ip_Connections p),
                      a1ip_ConnectionNsSelector := cp_NsSelector (ip_Connections p),
                      a1ip_DisableProvisions := ip_DisableProvisions p\<rparr>\<rparr>)
      in dst\<lparr>a1ois_ProviderRef := ois_ProviderRef src\<rparr>)"

definition DBaaSInventory_ConvertFrom ::
    "DBaaSInventory_v1alpha1 \<Rightarrow> DBaaSInventory \<Rightarrow> DBaaSInventory_v1alpha1" where
  "DBaaSInventory_ConvertFrom dst src =
     dst\<lparr>a1inv_ObjectMeta := inv_ObjectMeta src,
         a1inv_Spec := DBaaSOperatorInventorySpec_ConvertFrom (a1inv_Spec dst) (inv_Spec src),
         a1inv_Status := DBaaSInventoryStatus_ConvertFrom (a1inv_Status dst) (inv_Status src)\<rparr>"

subsection \<open>Connections (dbaasconnection_conversion.go)\<close>

definition DBaaSConnectionStatus_ConvertTo ::
    "DBaaSConnectionStatus_v1alpha1 \<Rightarrow> DBaaSConnectionStatus \<Rightarrow> DBaaSConnectionStatus" where
  "DBaaSConnectionStatus_ConvertTo src dst =
     dst\<lparr>cst_Conditions := a1cst_Conditions src,
         cst_CredentialsRef := a1cst_CredentialsRef src,
         cst_ConnectionInfoRef := a1cst_ConnectionInfoRef src\<rparr>"

definition DBaaSConnectionStatus_ConvertFrom ::
    "DBaaSConnectionStatus_v1alpha1 \<Rightarrow> DBaaSConnectionStatus \<Rightarrow> DBaaSConnectionStatus_v1alpha1" where
  "DBaaSConnectionStatus_ConvertFrom dst src =
     dst\<lparr>a1cst_Conditions := cst_Conditions src,
         a1cst_CredentialsRef := cst_CredentialsRef src,
         a1cst_ConnectionInfoRef := cst_ConnectionInfoRef src\<rparr>"

definition DBaaSConnection_ConvertTo ::
    "DBaaSConnection_v1alpha1 \<Rightarrow> DBaaSConnection \<Rightarrow> DBaaSConnection" where
  "DBaaSConnection_ConvertTo src dst =
     (let sp = a1conn_Spec src;
          d = (conn_Spec dst)\<lparr>cs_InventoryRef := a1cs_InventoryRef sp,
                              cs_DatabaseServiceID := a1cs_InstanceID sp\<rparr>;
          d = (case a1cs_InstanceRef sp of
                 None \<Rightarrow> d
               | Some r \<Rightarrow> d\<lparr>cs_DatabaseServiceRef :=
                   Some \<lparr>nn_Namespace = nn_Namespace r, nn_Name = nn_Name r\<rparr>\<rparr>)
      in dst\<lparr>conn_ObjectMeta := a1conn_ObjectMeta src,
             conn_Spec := d,
             conn_Status := DBaaSConnectionStatus_ConvertTo (a1conn_Status src) (conn_Status dst)\<rparr>)"

definition DBaaSConnectionSpec_ConvertFrom ::
    "DBaaSConnectionSpec_v1alpha1 \<Rightarrow> DBaaSConnectionSpec \<Rightarrow> DBaaSConnectionSpec_v1alpha1" where
  "DBaaSConnectionSpec_ConvertFrom dst src =
     (let d = dst\<lparr>a1cs_InventoryRef := cs_InventoryRef src,
                  a1cs_InstanceID := cs_DatabaseServiceID src\<rparr>
      in case cs_DatabaseServiceRef src of
           None \<Rightarrow> d
         | Some r \<Rightarrow> d\<lparr>a1cs_InstanceRef :=
             Some \<lparr>nn_Namespace = nn_Namespace r, nn_Name = nn_Name r\<rparr>\<rparr>)"

definition DBaaSConnection_ConvertFrom ::
    "DBaaSConnection_v1alpha1 \<Rightarrow> DBaaSConnection \<Rightarrow> DBaaSConnection_v1alpha1" where
  "DBaaSConnection_ConvertFrom dst src =
     dst\<lparr>a1conn_ObjectMeta := conn_ObjectMeta src,
         a1conn_Spec := DBaaSConnectionSpec_ConvertFrom (a1conn_Spec dst) (conn_Spec src),
         a1conn_Status := DBaaSConnectionStatus_ConvertFrom (a1conn_Status dst) (conn_Status src)\<rparr>"

subsection \<open>Instances (dbaasinstance_conversion.go)\<close>

definition DBaaSInstanceStatus_ConvertTo ::
    "DBaaSInstanceStatus_v1alpha1 \<Rightarrow> DBaaSInstanceStatus \<Rightarrow> DBaaSInstanceStatus" where
  "DBaaSInstanceStatus_ConvertTo src dst =
     dst\<lparr>inst_Conditions := a1inst_Conditions src, inst_InstanceID := a1inst_InstanceID src,
         inst_InstanceInfo := a1inst_InstanceInfo src, inst_Phase := a1inst_Phase src\<rparr>"

definition DBaaSInstanceStatus_ConvertFrom ::
    "DBaaSInstanceStatus_v1alpha1 \<Rightarrow> DBaaSInstanceStatus \<Rightarrow> DBaaSInstanceStatus_v1alpha1" where
  "DBaaSInstanceStatus_ConvertFrom dst src =
     dst\<lparr>a1inst_Conditions := inst_Conditions src, a1inst_InstanceID := inst_InstanceID src,
         a1inst_InstanceInfo := inst_InstanceInfo src, a1inst_Phase := inst_Phase src\<rparr>"

text \<open>The two loops over parameters, for the provider named \<open>pname\<close>.\<close>

fun params_to :: "string \<Rightarrow> (string, string) gomap \<Rightarrow> (ProvisioningParameterType, string) gomap \<Rightarrow>
    (ProvisioningParameterType, string) gomap" where
  "params_to pname [] m = m"
| "params_to pname ((key, val) # ps) m =
     (let nm = ConvertNameTo pname key
      in if nm = [] then params_to pname ps m else params_to pname ps (gomap_put nm val m))"

fun params_from :: "string \<Rightarrow> (ProvisioningParameterType, string) gomap \<Rightarrow> (string, string) gomap \<Rightarrow>
    (string, string) gomap" where
  "params_from pname [] m = m"
| "params_from pname ((key, val) # ps) m =
     (let nm = ConvertNameFrom pname key
      in if nm = [] then params_from pname ps m
         else let nm = (if nm = ''ProjectName'' then ''projectName'' else nm)
              in params_from pname ps (gomap_put nm val m))"



definition DBaaSInstanceSpec_ConvertTo ::
    "env \<Rightarrow> DBaaSInstanceSpec_v1alpha1 \<Rightarrow> DBaaSInstanceSpec \<Rightarrow> (go_error + DBaaSInstanceSpec) prog" where
  "DBaaSInstanceSpec_ConvertTo E src dst =
     (let pp = gomap_put ProvisioningRegions (a1ins_CloudRegion src)
                 (gomap_put ProvisioningCloudProvider (a1ins_CloudProvider src)
                   (gomap_put ProvisioningName (a1ins_Name src) []))
      in if \<not> WebhookAPIClientSet E then ret (Inl (OtherError ''webhook API client not set''))
         else do {
           r \<leftarrow> getInventoryV1alpha1 E (key_of_ref (a1ins_InventoryRef src));
           case r of
             Inl err \<Rightarrow> ret (Inl err)
           | Inr inventory \<Rightarrow>
               let pname = nn_Name (a1ois_ProviderRef (a1inv_Spec inventory));
                   pp = params_to pname (a1ins_OtherInstanceParams src) pp;
                   pp = gomap_put ProvisioningPlan ProvisioningPlanFreeTrial pp
               in ret (Inr (dst\<lparr>ins_InventoryRef := a1ins_InventoryRef src,
                                ins_ProvisioningParameters := pp\<rparr>))
         })"

text \<open>
  The way down returns the error together with the destination as far as it was filled in,
  because a caller goes on with it (the instance controller).
\<close>

definition DBaaSInstanceSpec_ConvertFrom ::
    "env \<Rightarrow> DBaaSInstanceSpec_v1alpha1 \<Rightarrow> DBaaSInstanceSpec \<Rightarrow>
     (go_error option \<times> DBaaSInstanceSpec_v1alpha1) prog" where
  "DBaaSInstanceSpec_ConvertFrom E dst src =
     (let pp = ins_ProvisioningParameters src;
          dst = dst\<lparr>a1ins_Name := gomap_get [] pp ProvisioningName,
                    a1ins_CloudProvider := gomap_get [] pp ProvisioningCloudProvider,
                    a1ins_CloudRegion := gomap_get [] pp ProvisioningRegions,
                    a1ins_InventoryRef := ins_InventoryRef src,
                    a1ins_OtherInstanceParams := []\<rparr>
      in if \<not> WebhookAPIClientSet E
         then ret (Some (OtherError ''webhook API client not set''), dst)
         else do {
           r \<leftarrow> getInventory E (key_of_ref (ins_InventoryRef src));
           case r of
             Inl err \<Rightarrow> ret (Some err, dst)
           | Inr inventory \<Rightarrow>
               let pname = inv_ProviderName inventory;
                   dst = dst\<lparr>a1ins_OtherInstanceParams :=
                     params_from pname pp (a1ins_OtherInstanceParams dst)\<rparr>;
                   dst = (if pname = CrunchyBridgeRegistration
                          then dst\<lparr>a1ins_CloudRegion := ''us-east-1''\<rparr> else dst)
               in ret (None, dst)
         })"

definition DBaaSInstance_ConvertTo ::
    "env \<Rightarrow> DBaaSInstance_v1alpha1 \<Rightarrow> DBaaSInstance \<Rightarrow> (go_error + DBaaSInstance) prog" where
  "DBaaSInstance_ConvertTo E src dst = do {
     r \<leftarrow> DBaaSInstanceSpec_ConvertTo E (a1instance_Spec src) (instance_Spec dst);
     case r of
       Inl err \<Rightarrow> ret (Inl err)
     | Inr sp \<Rightarrow> ret (Inr (dst\<lparr>instance_ObjectMeta := a1instance_ObjectMeta src,
           instance_Spec := sp,
           instance_Status :=
             DBaaSInstanceStatus_ConvertTo (a1instance_Status src) (instance_Status dst)\<rparr>))
   }"

definition DBaaSInstance_ConvertFrom ::
    "env \<Rightarrow> DBaaSInstance_v1alpha1 \<Rightarrow> DBaaSInstance \<Rightarrow> (go_error + DBaaSInstance_v1alpha1) prog" where
  "DBaaSInstance_ConvertFrom E dst src = do {
     (err, sp) \<leftarrow> DBaaSInstanceSpec_ConvertFrom E (a1instance_Spec dst) (instance_Spec src);
     case err of
       Some e \<Rightarrow> ret (Inl e)
     | None \<Rightarrow> ret (Inr (dst\<lparr>a1instance_ObjectMeta := instance_ObjectMeta src,
           a1instance_Spec := sp,
           a1instance_Status :=
             DBaaSInstanceStatus_ConvertFrom (a1instance_Status dst) (instance_Status src)\<rparr>))
   }"

subsection \<open>Names: the two tables are inverse\<close>

text \<open>What makes a table of names invertible, and that every table is.\<close>

definition table_ok :: "string \<Rightarrow> (string, ProvisioningParameterType) gomap \<Rightarrow> bool" where
  "table_ok p m \<longleftrightarrow> distinct (map fst m) \<and> distinct (map snd m) \<and> [] \<notin> fst ` set m \<and>
     [] \<notin> snd ` set m \<and> ProvisioningPlan \<notin> snd ` set m \<and> ''projectName'' \<notin> fst ` set m \<and>
     map_of m ''ProjectName'' =
       (if p = MongoDBAtlasRegistration then Some ProvisioningTeamProject else None)"

lemma tables_ok: "map_of ProviderFieldsMap p = Some m \<Longrightarrow> table_ok p m"
proof -
  have "\<forall>(p, m) \<in> set ProviderFieldsMap. table_ok p m"
    by (simp add: ProviderFieldsMap_def table_ok_def)
  then show "map_of ProviderFieldsMap p = Some m \<Longrightarrow> table_ok p m"
    by (auto dest: map_of_SomeD)
qed

lemma range_for_value_mem:
  "distinct (map snd m) \<Longrightarrow> (k, v) \<in> set m \<Longrightarrow> range_for_value m v = k"
  by (induction m) (auto simp: rev_image_eqI)

lemma range_for_value_nonempty:
  "range_for_value m v \<noteq> [] \<Longrightarrow> (range_for_value m v, v) \<in> set m"
  by (induction m) (auto split: if_splits)

lemma convert_name_to_mem:
  "ConvertNameTo p n \<noteq> [] \<Longrightarrow>
     \<exists>m. map_of ProviderFieldsMap p = Some m \<and> (n, ConvertNameTo p n) \<in> set m"
  by (auto simp: ConvertNameTo_def dest: map_of_SomeD split: option.splits)

lemma convert_name_from_mem:
  "ConvertNameFrom p k \<noteq> [] \<Longrightarrow>
     \<exists>m. map_of ProviderFieldsMap p = Some m \<and> (ConvertNameFrom p k, k) \<in> set m"
  by (auto simp: ConvertNameFrom_def dest: range_for_value_nonempty split: option.splits)

lemma convert_name_inverse:
  "k \<noteq> [] \<and> ConvertNameTo p n = k \<longleftrightarrow> n \<noteq> [] \<and> ConvertNameFrom p k = n"
proof
  assume a: "k \<noteq> [] \<and> ConvertNameTo p n = k"
  then obtain m where m: "map_of ProviderFieldsMap p = Some m" "(n, k) \<in> set m"
    using convert_name_to_mem by blast
  with tables_ok [OF m(1)] show "n \<noteq> [] \<and> ConvertNameFrom p k = n"
    by (auto simp: ConvertNameFrom_def table_ok_def range_for_value_mem image_iff)
next
  assume a: "n \<noteq> [] \<and> ConvertNameFrom p k = n"
  then obtain m where m: "map_of ProviderFieldsMap p = Some m" "(n, k) \<in> set m"
    using convert_name_from_mem by blast
  with tables_ok [OF m(1)] show "k \<noteq> [] \<and> ConvertNameTo p n = k"
    by (auto simp: ConvertNameTo_def table_ok_def image_iff)
qed

lemma convert_name_empty [simp]: "ConvertNameTo p [] = []" "ConvertNameFrom p [] = []"
  using convert_name_inverse [of "ConvertNameTo p []" p "[]"]
    convert_name_inverse [of "[]" p "ConvertNameFrom p []"] by auto

lemma convert_name_to_plan: "ConvertNameTo p n \<noteq> ProvisioningPlan"
proof
  assume a: "ConvertNameTo p n = ProvisioningPlan"
  then obtain m where "map_of ProviderFieldsMap p = Some m" "(n, ProvisioningPlan) \<in> set m"
    using convert_name_to_mem [of p n] by auto
  then show False using tables_ok by (force simp: table_ok_def)
qed

lemma convert_name_from_plan [simp]: "ConvertNameFrom p ProvisioningPlan = []"
  using convert_name_inverse [of ProvisioningPlan p "ConvertNameFrom p ProvisioningPlan"]
    convert_name_to_plan by auto

lemma convert_name_from_projectName: "ConvertNameFrom p k \<noteq> ''projectName''"
proof
  assume a: "ConvertNameFrom p k = ''projectName''"
  then obtain m where "map_of ProviderFieldsMap p = Some m" "(''projectName'', k) \<in> set m"
    using convert_name_from_mem [of p k] by auto
  then show False using tables_ok by (force simp: table_ok_def)
qed

lemma convert_name_from_ProjectName:
  "ConvertNameFrom p k = ''ProjectName'' \<longleftrightarrow>
     p = MongoDBAtlasRegistration \<and> k = ProvisioningTeamProject"
proof -
  have "ConvertNameTo p ''ProjectName'' =
      (if p = MongoDBAtlasRegistration then ProvisioningTeamProject else [])"
    using tables_ok [of p]
    by (auto simp: ConvertNameTo_def table_ok_def ProviderFieldsMap_def split: option.splits)
  then show ?thesis
    using convert_name_inverse [of k p "''ProjectName''"] by (auto split: if_splits)
qed

lemma range_for_value_perm:
  assumes "distinct (map snd m)" "mset m' = mset m"
  shows "range_for_value m' v = range_for_value m v"
proof -
  have none: "range_for_value n v = []" if "v \<notin> snd ` set n" for n
    using that by (induction n) auto
  have same: "set m' = set m" by (metis assms(2) mset_eq_setD)
  have d: "distinct (map snd m')"
    using assms by (metis mset_eq_imp_distinct_iff mset_map)
  show ?thesis
  proof (cases "v \<in> snd ` set m")
    case True
    then obtain k where "(k, v) \<in> set m" by auto
    with range_for_value_mem assms(1) d same show ?thesis by metis
  next
    case False
    with none same show ?thesis by metis
  qed
qed

subsection \<open>Instances: what the two loops compute\<close>

lemma params_to_lookup:
  assumes "distinct (map fst ps)"
  shows "map_of (params_to p ps m) k =
    (case (if ConvertNameFrom p k = [] then None else map_of ps (ConvertNameFrom p k)) of
       Some v \<Rightarrow> Some v | None \<Rightarrow> map_of m k)"
  using assms
proof (induction ps arbitrary: m)
  case Nil
  then show ?case by simp
next
  case (Cons kv ps)
  obtain key val where kv: "kv = (key, val)" by (cases kv)
  have inv: "ConvertNameTo p key \<noteq> [] \<Longrightarrow> ConvertNameTo p key = k \<longleftrightarrow> ConvertNameFrom p k = key \<and> key \<noteq> []"
    using convert_name_inverse [of k p key] by auto
  have none: "map_of ps key = None" using Cons.prems kv by (auto simp: map_of_eq_None_iff)
  show ?case
  proof (cases "ConvertNameTo p key = []")
    case True
    then have "ConvertNameFrom p k = [] \<or> ConvertNameFrom p k \<noteq> key"
      using convert_name_inverse [of k p key] by auto
    then show ?thesis using Cons True kv by (auto simp: Let_def split: option.splits)
  next
    case False
    then show ?thesis using Cons kv inv none
      by (auto simp: Let_def update_conv split: option.splits)
  qed
qed

definition from_name :: "string \<Rightarrow> string \<Rightarrow> string" where
  "from_name p k = (if ConvertNameFrom p k = ''ProjectName'' then ''projectName''
                    else ConvertNameFrom p k)"

lemma from_name_inj:
  "from_name p k = from_name p k' \<Longrightarrow> from_name p k \<noteq> [] \<Longrightarrow> k = k'"
proof -
  assume a: "from_name p k = from_name p k'" "from_name p k \<noteq> []"
  then have "ConvertNameFrom p k = ConvertNameFrom p k'"
    using convert_name_from_projectName [of p k] convert_name_from_projectName [of p k']
    unfolding from_name_def by (metis (full_types))
  moreover have "ConvertNameFrom p k \<noteq> []"
    using a(2) by (auto simp: from_name_def)
  ultimately show "k = k'"
    using convert_name_inverse [of k p "ConvertNameFrom p k"]
      convert_name_inverse [of k' p "ConvertNameFrom p k'"] by simp
qed

lemma params_from_step:
  "params_from p ((k, v) # ps) m =
     (if from_name p k = [] then params_from p ps m
      else params_from p ps (gomap_put (from_name p k) v m))"
  by (simp add: from_name_def Let_def)

declare params_from.simps(2) [simp del]

lemma params_from_lookup:
  assumes "distinct (map fst ps)"
  shows "map_of (params_from p ps m) (from_name p k) =
    (case (if from_name p k = [] then None else map_of ps k) of
       Some v \<Rightarrow> Some v | None \<Rightarrow> map_of m (from_name p k))"
  using assms
proof (induction ps arbitrary: m)
  case Nil
  then show ?case by simp
next
  case (Cons kv ps)
  obtain key val where kv: "kv = (key, val)" by (cases kv)
  have none: "map_of ps key = None" using Cons.prems kv by (auto simp: map_of_eq_None_iff)
  show ?case
    using Cons kv none from_name_inj [of p key k]
    by (auto simp: params_from_step update_conv split: option.splits)
qed

lemma params_from_keys:
  "n \<notin> range (from_name p) \<Longrightarrow> map_of (params_from p ps m) n = map_of m n"
  by (induction ps arbitrary: m) (auto simp: params_from_step update_conv split: if_splits)

subsection \<open>Round trips\<close>

text \<open>
  The destination objects the conversion webhook allocates: zero except for the kind and
  version it asked for.
\<close>

definition new_DBaaSConnection :: "TypeMeta \<Rightarrow> DBaaSConnection" where
  "new_DBaaSConnection t = zero_DBaaSConnection\<lparr>conn_TypeMeta := t\<rparr>"

definition new_DBaaSConnection_v1alpha1 :: "TypeMeta \<Rightarrow> DBaaSConnection_v1alpha1" where
  "new_DBaaSConnection_v1alpha1 t = zero_DBaaSConnection_v1alpha1\<lparr>a1conn_TypeMeta := t\<rparr>"

definition new_DBaaSPolicy :: "TypeMeta \<Rightarrow> DBaaSPolicy" where
  "new_DBaaSPolicy t = zero_DBaaSPolicy\<lparr>pol_TypeMeta := t\<rparr>"

definition new_DBaaSPolicy_v1alpha1 :: "TypeMeta \<Rightarrow> DBaaSPolicy_v1alpha1" where
  "new_DBaaSPolicy_v1alpha1 t = zero_DBaaSPolicy_v1alpha1\<lparr>a1pol_TypeMeta := t\<rparr>"

definition new_DBaaSInventory :: "TypeMeta \<Rightarrow> DBaaSInventory" where
  "new_DBaaSInventory t = zero_DBaaSInventory\<lparr>inv_TypeMeta := t\<rparr>"

definition new_DBaaSInventory_v1alpha1 :: "TypeMeta \<Rightarrow> DBaaSInventory_v1alpha1" where
  "new_DBaaSInventory_v1alpha1 t = zero_DBaaSInventory_v1alpha1\<lparr>a1inv_TypeMeta := t\<rparr>"

text \<open>
  The contract of a hub and a spoke: converting a spoke object to a fresh hub object and back
  to a fresh spoke object of its kind gives the object, for the objects the contract
  covers. From it: no two covered spoke objects share their hub form, and hub objects that
  come from a spoke survive the way back and forth.
\<close>

locale hub_spoke =
  fixes to_hub :: "'s \<Rightarrow> 'h \<Rightarrow> 'h"
    and from_hub :: "'s \<Rightarrow> 'h \<Rightarrow> 's"
    and new_hub :: "TypeMeta \<Rightarrow> 'h"
    and new_spoke :: "TypeMeta \<Rightarrow> 's"
    and spoke_type :: "'s \<Rightarrow> TypeMeta"
    and covered :: "'s \<Rightarrow> bool"
  assumes spoke_round_trip:
    "covered s \<Longrightarrow> from_hub (new_spoke (spoke_type s)) (to_hub s (new_hub t)) = s"
begin

lemma to_hub_inj:
  assumes "covered s" "covered s'" "spoke_type s = spoke_type s'"
    "to_hub s (new_hub t) = to_hub s' (new_hub t)"
  shows "s = s'"
  using assms spoke_round_trip by metis

lemma hub_image_stable:
  assumes "covered s" "h = to_hub s (new_hub t)"
  shows "to_hub (from_hub (new_spoke (spoke_type s)) h) (new_hub t) = h"
  using assms spoke_round_trip by metis

end

lemmas connection_conversion_defs = DBaaSConnection_ConvertTo_def DBaaSConnection_ConvertFrom_def
  DBaaSConnectionSpec_ConvertFrom_def DBaaSConnectionStatus_ConvertTo_def
  DBaaSConnectionStatus_ConvertFrom_def new_DBaaSConnection_def new_DBaaSConnection_v1alpha1_def
  zero_DBaaSConnection_def zero_DBaaSConnection_v1alpha1_def zero_DBaaSConnectionSpec_def
  zero_DBaaSConnectionSpec_v1alpha1_def zero_DBaaSConnectionStatus_def
  zero_DBaaSConnectionStatus_v1alpha1_def

lemmas policy_conversion_defs = DBaaSPolicy_ConvertTo_def DBaaSPolicy_ConvertFrom_def
  new_DBaaSPolicy_def new_DBaaSPolicy_v1alpha1_def zero_DBaaSPolicy_def
  zero_DBaaSPolicy_v1alpha1_def zero_DBaaSPolicySpec_def zero_DBaaSPolicySpec_v1alpha1_def
  zero_DBaaSInventoryPolicy_def zero_DBaaSInventoryPolicy_v1alpha1_def
  zero_DBaaSConnectionPolicy_def

lemmas inventory_conversion_defs = DBaaSInventory_ConvertTo_def DBaaSInventory_ConvertFrom_def
  DBaaSOperatorInventorySpec_ConvertFrom_def DBaaSInventoryStatus_ConvertTo_def
  DBaaSInventoryStatus_ConvertFrom_def new_DBaaSInventory_def new_DBaaSInventory_v1alpha1_def
  zero_DBaaSInventory_def zero_DBaaSInventory_v1alpha1_def zero_DBaaSOperatorInventorySpec_def
  zero_DBaaSOperatorInventorySpec_v1alpha1_def zero_DBaaSInventoryStatus_def
  zero_DBaaSInventoryStatus_v1alpha1_def setPolicyObj_def update_policy_def
  zero_DBaaSInventoryPolicy_def zero_DBaaSInventoryPolicy_v1alpha1_def
  zero_DBaaSConnectionPolicy_def

lemma instances_round_trip:
  "map (\<lambda>s. \<lparr>a1in_InstanceID = ds_ServiceID s, a1in_Name = ds_ServiceName s,
             a1in_InstanceInfo = ds_ServiceInfo s\<rparr>)
     (map (\<lambda>i. \<lparr>ds_ServiceID = a1in_InstanceID i, ds_ServiceName = a1in_Name i,
             ds_ServiceType = None, ds_ServiceInfo = a1in_InstanceInfo i\<rparr>) xs) = xs"
  by (induction xs) simp_all

lemma connection_round_trip:
  "DBaaSConnection_ConvertFrom (new_DBaaSConnection_v1alpha1 (a1conn_TypeMeta s))
     (DBaaSConnection_ConvertTo s (new_DBaaSConnection t)) = s"
  by (cases s, cases "a1conn_Spec s", cases "a1conn_Status s", cases "a1cs_InstanceRef (a1conn_Spec s)")
    (simp_all add: connection_conversion_defs Let_def)

lemma policy_round_trip:
  "DBaaSPolicy_ConvertFrom (new_DBaaSPolicy_v1alpha1 (a1pol_TypeMeta s))
     (DBaaSPolicy_ConvertTo s (new_DBaaSPolicy t)) = s"
  by (cases s, cases "a1pol_Spec s", cases "a1pols_DBaaSInventoryPolicy (a1pol_Spec s)")
    (simp add: policy_conversion_defs Let_def)

lemma inventory_policy_round_trip:
  "DBaaSOperatorInventorySpec_ConvertFrom zero_DBaaSOperatorInventorySpec_v1alpha1
     (inv_Spec (DBaaSInventory_ConvertTo s (new_DBaaSInventory t))) = a1inv_Spec s"
  by (cases "a1inv_Spec s", cases "a1ois_DBaaSInventorySpec (a1inv_Spec s)",
      cases "a1ois_DBaaSInventoryPolicy (a1inv_Spec s)")
    (simp add: inventory_conversion_defs Let_def)

lemma inventory_status_round_trip:
  "DBaaSInventoryStatus_ConvertFrom zero_DBaaSInventoryStatus_v1alpha1
     (DBaaSInventoryStatus_ConvertTo s zero_DBaaSInventoryStatus) =
   s\<lparr>a1ist_Instances := (if a1ist_Instances s = Some [] then None else a1ist_Instances s)\<rparr>"
  by (cases s, cases "a1ist_Instances s")
    (simp_all add: DBaaSInventoryStatus_ConvertTo_def DBaaSInventoryStatus_ConvertFrom_def
      zero_DBaaSInventoryStatus_def zero_DBaaSInventoryStatus_v1alpha1_def Let_def
      instances_round_trip [unfolded map_map])

lemma inventory_conversion_fields [simp]:
  "inv_TypeMeta (DBaaSInventory_ConvertTo s d) = inv_TypeMeta d"
  "inv_ObjectMeta (DBaaSInventory_ConvertTo s d) = a1inv_ObjectMeta s"
  "a1inv_TypeMeta (DBaaSInventory_ConvertFrom e h) = a1inv_TypeMeta e"
  "a1inv_ObjectMeta (DBaaSInventory_ConvertFrom e h) = inv_ObjectMeta h"
  "a1inv_Spec (DBaaSInventory_ConvertFrom e h) =
     DBaaSOperatorInventorySpec_ConvertFrom (a1inv_Spec e) (inv_Spec h)"
  "a1inv_Status (DBaaSInventory_ConvertFrom e h) =
     DBaaSInventoryStatus_ConvertFrom (a1inv_Status e) (inv_Status h)"
  "inv_Status (DBaaSInventory_ConvertTo s d) =
     DBaaSInventoryStatus_ConvertTo (a1inv_Status s) (inv_Status d)"
  by (simp_all add: DBaaSInventory_ConvertTo_def DBaaSInventory_ConvertFrom_def Let_def
      setPolicyObj_def update_policy_def)

lemma services_round_trip:
  "map (\<lambda>i. \<lparr>ds_ServiceID = a1in_InstanceID i, ds_ServiceName = a1in_Name i,
             ds_ServiceType = None, ds_ServiceInfo = a1in_InstanceInfo i\<rparr>)
     (map (\<lambda>s. \<lparr>a1in_InstanceID = ds_ServiceID s, a1in_Name = ds_ServiceName s,
             a1in_InstanceInfo = ds_ServiceInfo s\<rparr>) xs) =
     map (\<lambda>s. s\<lparr>ds_ServiceType := None\<rparr>) (xs :: DatabaseService list)"
  by (induction xs) simp_all

lemma fresh_inventory_fields:
  "inv_TypeMeta (new_DBaaSInventory t) = t"
  "inv_Status (new_DBaaSInventory t) = zero_DBaaSInventoryStatus"
  "a1inv_TypeMeta (new_DBaaSInventory_v1alpha1 t) = t"
  "a1inv_Spec (new_DBaaSInventory_v1alpha1 t) = zero_DBaaSOperatorInventorySpec_v1alpha1"
  "a1inv_Status (new_DBaaSInventory_v1alpha1 t) = zero_DBaaSInventoryStatus_v1alpha1"
  by (simp_all add: new_DBaaSInventory_def new_DBaaSInventory_v1alpha1_def
      zero_DBaaSInventory_def zero_DBaaSInventory_v1alpha1_def)

lemma hub_status_round_trip:
  "DBaaSInventoryStatus_ConvertTo
     (DBaaSInventoryStatus_ConvertFrom zero_DBaaSInventoryStatus_v1alpha1 h)
     zero_DBaaSInventoryStatus =
   h\<lparr>ist_DatabaseServices :=
        (if ist_DatabaseServices h = Some [] then None
         else map_option (map (\<lambda>s. s\<lparr>ds_ServiceType := None\<rparr>)) (ist_DatabaseServices h))\<rparr>"
  by (cases h, cases "ist_DatabaseServices h")
    (simp_all add: DBaaSInventoryStatus_ConvertTo_def DBaaSInventoryStatus_ConvertFrom_def
      zero_DBaaSInventoryStatus_def zero_DBaaSInventoryStatus_v1alpha1_def Let_def
      services_round_trip [unfolded map_map])

lemma zero_policy_iff:
  "p = zero_DBaaSInventoryPolicy \<longleftrightarrow> ip_DisableProvisions p = None \<and>
     cp_Namespaces (ip_Connections p) = None \<and> cp_NsSelector (ip_Connections p) = None"
  by (cases p, cases "ip_Connections p")
    (auto simp: zero_DBaaSInventoryPolicy_def zero_DBaaSConnectionPolicy_def)

lemma hub_spec_round_trip:
  "inv_Spec (DBaaSInventory_ConvertTo
     (DBaaSInventory_ConvertFrom (new_DBaaSInventory_v1alpha1 t) h) (new_DBaaSInventory u)) =
   (inv_Spec h)\<lparr>ois_Policy :=
        (if ois_Policy (inv_Spec h) = Some zero_DBaaSInventoryPolicy then None
         else ois_Policy (inv_Spec h))\<rparr>"
proof (cases "ois_Policy (inv_Spec h)")
  case None
  then show ?thesis
    by (cases "inv_Spec h", cases "ois_DBaaSInventorySpec (inv_Spec h)")
      (simp add: inventory_conversion_defs Let_def)
next
  case (Some p)
  obtain d c where p: "p = \<lparr>ip_DisableProvisions = d, ip_Connections = c\<rparr>" by (cases p)
  obtain n s where c: "c = \<lparr>cp_Namespaces = n, cp_NsSelector = s\<rparr>" by (cases c)
  show ?thesis using Some p c
    by (cases "inv_Spec h", cases "ois_DBaaSInventorySpec (inv_Spec h)")
      (simp add: inventory_conversion_defs Let_def)
qed

lemma inventory_round_trip:
  "DBaaSInventory_ConvertFrom (new_DBaaSInventory_v1alpha1 (a1inv_TypeMeta s))
     (DBaaSInventory_ConvertTo s (new_DBaaSInventory t)) =
   s\<lparr>a1inv_Status := (a1inv_Status s)\<lparr>a1ist_Instances :=
      (if a1ist_Instances (a1inv_Status s) = Some [] then None
       else a1ist_Instances (a1inv_Status s))\<rparr>\<rparr>"
  by (rule DBaaSInventory_v1alpha1.equality)
    (simp_all add: inventory_policy_round_trip inventory_status_round_trip fresh_inventory_fields)

interpretation conn_conv: hub_spoke DBaaSConnection_ConvertTo DBaaSConnection_ConvertFrom
    new_DBaaSConnection new_DBaaSConnection_v1alpha1 a1conn_TypeMeta "\<lambda>_. True"
  by unfold_locales (rule connection_round_trip)

interpretation pol_conv: hub_spoke DBaaSPolicy_ConvertTo DBaaSPolicy_ConvertFrom
    new_DBaaSPolicy new_DBaaSPolicy_v1alpha1 a1pol_TypeMeta "\<lambda>_. True"
  by unfold_locales (rule policy_round_trip)

interpretation inv_conv: hub_spoke DBaaSInventory_ConvertTo DBaaSInventory_ConvertFrom
    new_DBaaSInventory new_DBaaSInventory_v1alpha1 a1inv_TypeMeta
    "\<lambda>s. a1ist_Instances (a1inv_Status s) \<noteq> Some []"
  by unfold_locales (simp add: inventory_round_trip)

subsection \<open>Properties of the conversions\<close>

text \<open>C38: A connection keeps everything on the way v1alpha1 - v1beta1 - v1alpha1; on the way
  v1beta1 - v1alpha1 - v1beta1 it loses its database service type, which v1alpha1 cannot
  express, and nothing else.\<close>

theorem connection_conversion_round_trips:
  "DBaaSConnection_ConvertFrom (new_DBaaSConnection_v1alpha1 (a1conn_TypeMeta s))
     (DBaaSConnection_ConvertTo s (new_DBaaSConnection t)) = s \<and>
   DBaaSConnection_ConvertTo (DBaaSConnection_ConvertFrom (new_DBaaSConnection_v1alpha1 t) h)
     (new_DBaaSConnection (conn_TypeMeta h)) =
   h\<lparr>conn_Spec := (conn_Spec h)\<lparr>cs_DatabaseServiceType := None\<rparr>\<rparr>"
proof
  show "DBaaSConnection_ConvertTo (DBaaSConnection_ConvertFrom (new_DBaaSConnection_v1alpha1 t) h)
     (new_DBaaSConnection (conn_TypeMeta h)) =
   h\<lparr>conn_Spec := (conn_Spec h)\<lparr>cs_DatabaseServiceType := None\<rparr>\<rparr>"
    by (cases h, cases "conn_Spec h", cases "conn_Status h",
        cases "cs_DatabaseServiceRef (conn_Spec h)")
      (simp_all add: connection_conversion_defs Let_def)
qed (rule conn_conv.spoke_round_trip [OF TrueI])

text \<open>A policy keeps everything on both ways: the two versions of its spec carry the same
  three settings in different places.\<close>

theorem policy_conversion_round_trips:
  "DBaaSPolicy_ConvertFrom (new_DBaaSPolicy_v1alpha1 (a1pol_TypeMeta s))
     (DBaaSPolicy_ConvertTo s (new_DBaaSPolicy t)) = s \<and>
   DBaaSPolicy_ConvertTo (DBaaSPolicy_ConvertFrom (new_DBaaSPolicy_v1alpha1 t) h)
     (new_DBaaSPolicy (pol_TypeMeta h)) = h"
proof
  show "DBaaSPolicy_ConvertTo (DBaaSPolicy_ConvertFrom (new_DBaaSPolicy_v1alpha1 t) h)
     (new_DBaaSPolicy (pol_TypeMeta h)) = h"
    by (cases h, cases "pol_Spec h", cases "pol_Policy h",
        cases "ip_Connections (pol_Policy h)")
      (simp add: policy_conversion_defs Let_def)
qed (rule pol_conv.spoke_round_trip [OF TrueI])

text \<open>C19: The way of an inventory v1alpha1 - v1beta1 - v1alpha1 only turns an empty list of
  instances into a nil one; the way v1beta1 - v1alpha1 - v1beta1 turns an empty policy into
  no policy and an empty list of services into a nil one, and drops the service types.\<close>

theorem inventory_conversion_round_trips:
  "DBaaSInventory_ConvertFrom (new_DBaaSInventory_v1alpha1 (a1inv_TypeMeta s))
     (DBaaSInventory_ConvertTo s (new_DBaaSInventory t)) =
   s\<lparr>a1inv_Status := (a1inv_Status s)\<lparr>a1ist_Instances :=
      (if a1ist_Instances (a1inv_Status s) = Some [] then None
       else a1ist_Instances (a1inv_Status s))\<rparr>\<rparr> \<and>
   DBaaSInventory_ConvertTo (DBaaSInventory_ConvertFrom (new_DBaaSInventory_v1alpha1 t) h)
     (new_DBaaSInventory (inv_TypeMeta h)) =
   h\<lparr>inv_Spec := (inv_Spec h)\<lparr>ois_Policy :=
        (if ois_Policy (inv_Spec h) = Some zero_DBaaSInventoryPolicy then None
         else ois_Policy (inv_Spec h))\<rparr>,
     inv_Status := (inv_Status h)\<lparr>ist_DatabaseServices :=
        (if ist_DatabaseServices (inv_Status h) = Some [] then None
         else map_option (map (\<lambda>s. s\<lparr>ds_ServiceType := None\<rparr>))
                (ist_DatabaseServices (inv_Status h)))\<rparr>\<rparr>"
proof
  show "DBaaSInventory_ConvertTo (DBaaSInventory_ConvertFrom (new_DBaaSInventory_v1alpha1 t) h)
     (new_DBaaSInventory (inv_TypeMeta h)) =
   h\<lparr>inv_Spec := (inv_Spec h)\<lparr>ois_Policy :=
        (if ois_Policy (inv_Spec h) = Some zero_DBaaSInventoryPolicy then None
         else ois_Policy (inv_Spec h))\<rparr>,
     inv_Status := (inv_Status h)\<lparr>ist_DatabaseServices :=
        (if ist_DatabaseServices (inv_Status h) = Some [] then None
         else map_option (map (\<lambda>s. s\<lparr>ds_ServiceType := None\<rparr>))
                (ist_DatabaseServices (inv_Status h)))\<rparr>\<rparr>"
    by (rule DBaaSInventory.equality)
      (simp_all add: hub_spec_round_trip hub_status_round_trip fresh_inventory_fields)
qed (rule inventory_round_trip)

text \<open>No two v1alpha1 inventories with discovered instances (or none reported) are stored
  as the same v1beta1 inventory.\<close>

theorem inventory_conversion_injective:
  assumes "a1ist_Instances (a1inv_Status s) \<noteq> Some []" "a1ist_Instances (a1inv_Status s') \<noteq> Some []"
    and "a1inv_TypeMeta s = a1inv_TypeMeta s'"
    and "DBaaSInventory_ConvertTo s (new_DBaaSInventory t) =
         DBaaSInventory_ConvertTo s' (new_DBaaSInventory t)"
  shows "s = s'"
  using assms by (rule inv_conv.to_hub_inj)

theorem inventory_conversion_injective_witness:
  "zero_DBaaSInventory_v1alpha1 = zero_DBaaSInventory_v1alpha1"
  by (rule inventory_conversion_injective)
    (simp_all add: zero_DBaaSInventory_v1alpha1_def zero_DBaaSInventoryStatus_v1alpha1_def)

text \<open>Converting a parameter name of a provider to v1beta1 and back is the identity, and
  the other way round, wherever the name is supported at all; and the answer of
  \<open>ConvertNameFrom\<close> does not depend on the order in which Go iterates over the table.\<close>

theorem parameter_names_inverse:
  "(ConvertNameTo p n \<noteq> [] \<longrightarrow> ConvertNameFrom p (ConvertNameTo p n) = n) \<and>
   (ConvertNameFrom p k \<noteq> [] \<longrightarrow> ConvertNameTo p (ConvertNameFrom p k) = k) \<and>
   (map_of ProviderFieldsMap p = Some m \<and> mset m' = mset m \<longrightarrow>
      range_for_value m' k = ConvertNameFrom p k)"
proof (intro conjI impI)
  show "ConvertNameTo p n \<noteq> [] \<Longrightarrow> ConvertNameFrom p (ConvertNameTo p n) = n"
    using convert_name_inverse [of "ConvertNameTo p n" p n] by simp
  show "ConvertNameFrom p k \<noteq> [] \<Longrightarrow> ConvertNameTo p (ConvertNameFrom p k) = k"
    using convert_name_inverse [of k p "ConvertNameFrom p k"] by simp
  assume a: "map_of ProviderFieldsMap p = Some m \<and> mset m' = mset m"
  then have "distinct (map snd m)" using tables_ok [of p m] by (simp add: table_ok_def)
  then have "range_for_value m' k = range_for_value m k"
    by (rule range_for_value_perm) (simp add: a)
  then show "range_for_value m' k = ConvertNameFrom p k"
    using a by (simp add: ConvertNameFrom_def)
qed

theorem parameter_names_inverse_witness:
  "ConvertNameFrom CrunchyBridgeRegistration (ConvertNameTo CrunchyBridgeRegistration ''Provider'') =
     ''Provider'' \<and>
   range_for_value [(''Engine'', ProvisioningDatabaseType)] ProvisioningDatabaseType =
     ConvertNameFrom RdsRegistration ProvisioningDatabaseType"
proof
  have "ConvertNameTo CrunchyBridgeRegistration ''Provider'' \<noteq> []"
    by (simp add: ConvertNameTo_def ProviderFieldsMap_def)
  then show "ConvertNameFrom CrunchyBridgeRegistration
      (ConvertNameTo CrunchyBridgeRegistration ''Provider'') = ''Provider''"
    by (rule parameter_names_inverse [THEN conjunct1, THEN mp])
  have "map_of ProviderFieldsMap RdsRegistration = Some [(''Engine'', ProvisioningDatabaseType)]"
    by (simp add: ProviderFieldsMap_def)
  then show "range_for_value [(''Engine'', ProvisioningDatabaseType)] ProvisioningDatabaseType =
      ConvertNameFrom RdsRegistration ProvisioningDatabaseType"
    by (intro parameter_names_inverse [THEN conjunct2, THEN conjunct2, THEN mp]) simp
qed

text \<open>The parameters of a v1beta1 instance made from a v1alpha1 one, and back.\<close>

lemma instance_spec_convert_to_run:
  assumes "WebhookAPIClientSet E"
    and "srv_GetInventoryV1alpha1 E h (key_of_ref (a1ins_InventoryRef src)) = Inr i"
  shows "run_state (DBaaSInstanceSpec_ConvertTo E src dst) h =
    (Inr (dst\<lparr>ins_InventoryRef := a1ins_InventoryRef src,
       ins_ProvisioningParameters := gomap_put ProvisioningPlan ProvisioningPlanFreeTrial
         (params_to (nn_Name (a1ois_ProviderRef (a1inv_Spec i))) (a1ins_OtherInstanceParams src)
           (gomap_put ProvisioningRegions (a1ins_CloudRegion src)
             (gomap_put ProvisioningCloudProvider (a1ins_CloudProvider src)
               (gomap_put ProvisioningName (a1ins_Name src) []))))\<rparr>),
     h @ [EvGetInventoryV1alpha1 (key_of_ref (a1ins_InventoryRef src))])"
  using assms by (simp add: DBaaSInstanceSpec_ConvertTo_def Let_def)

lemma instance_spec_convert_from_run:
  assumes "WebhookAPIClientSet E"
    and "srv_GetInventory E h (key_of_ref (ins_InventoryRef src)) = Inr i"
  shows "run_state (DBaaSInstanceSpec_ConvertFrom E dst src) h =
    ((None, dst\<lparr>a1ins_InventoryRef := ins_InventoryRef src,
       a1ins_Name := gomap_get [] (ins_ProvisioningParameters src) ProvisioningName,
       a1ins_CloudProvider := gomap_get [] (ins_ProvisioningParameters src) ProvisioningCloudProvider,
       a1ins_CloudRegion := (if inv_ProviderName i = CrunchyBridgeRegistration then ''us-east-1''
         else gomap_get [] (ins_ProvisioningParameters src) ProvisioningRegions),
       a1ins_OtherInstanceParams :=
         params_from (inv_ProviderName i) (ins_ProvisioningParameters src) []\<rparr>),
     h @ [EvGetInventory (key_of_ref (ins_InventoryRef src))])"
  using assms by (simp add: DBaaSInstanceSpec_ConvertFrom_def Let_def)

text \<open>C39: Converting an instance to v1beta1 gives exactly these parameters: the free trial plan;
  else the other parameter whose v1alpha1 name converts to the key, if the object has one;
  else the name, cloud provider or region of the object; and nothing else. The result does
  not depend on the order of the other parameters.\<close>

theorem instance_parameters_convert_to:
  assumes "WebhookAPIClientSet E"
    and "srv_GetInventoryV1alpha1 E h (key_of_ref (a1ins_InventoryRef src)) = Inr i"
    and "distinct (map fst (a1ins_OtherInstanceParams src))"
    and "pname = nn_Name (a1ois_ProviderRef (a1inv_Spec i))"
  shows "\<exists>sp. fst (run_state (DBaaSInstanceSpec_ConvertTo E src dst) h) = Inr sp \<and>
    ins_InventoryRef sp = a1ins_InventoryRef src \<and>
    map_of (ins_ProvisioningParameters sp) = (\<lambda>k.
      if k = ProvisioningPlan then Some ProvisioningPlanFreeTrial
      else case (if ConvertNameFrom pname k = [] then None
                 else map_of (a1ins_OtherInstanceParams src) (ConvertNameFrom pname k)) of
             Some v \<Rightarrow> Some v
           | None \<Rightarrow> if k = ProvisioningName then Some (a1ins_Name src)
                     else if k = ProvisioningCloudProvider then Some (a1ins_CloudProvider src)
                     else if k = ProvisioningRegions then Some (a1ins_CloudRegion src)
                     else None)"
proof -
  have "map_of (gomap_put ProvisioningPlan ProvisioningPlanFreeTrial
         (params_to pname (a1ins_OtherInstanceParams src)
           (gomap_put ProvisioningRegions (a1ins_CloudRegion src)
             (gomap_put ProvisioningCloudProvider (a1ins_CloudProvider src)
               (gomap_put ProvisioningName (a1ins_Name src) []))))) k =
    (if k = ProvisioningPlan then Some ProvisioningPlanFreeTrial
      else case (if ConvertNameFrom pname k = [] then None
                 else map_of (a1ins_OtherInstanceParams src) (ConvertNameFrom pname k)) of
             Some v \<Rightarrow> Some v
           | None \<Rightarrow> if k = ProvisioningName then Some (a1ins_Name src)
                     else if k = ProvisioningCloudProvider then Some (a1ins_CloudProvider src)
                     else if k = ProvisioningRegions then Some (a1ins_CloudRegion src)
                     else None)" for k
    unfolding update_conv' params_to_lookup [OF assms(3)]
    by (auto split: option.splits simp del: convert_name_from_plan)
  then show ?thesis
    unfolding instance_spec_convert_to_run [OF assms(1,2)] fst_conv assms(4) [symmetric]
    by auto
qed

theorem instance_parameters_convert_to_witness:
  "\<exists>sp. fst (run_state (DBaaSInstanceSpec_ConvertTo
      (ref_env\<lparr>srv_GetInventoryV1alpha1 := \<lambda>h k. Inr zero_DBaaSInventory_v1alpha1\<rparr>)
      zero_DBaaSInstanceSpec_v1alpha1 zero_DBaaSInstanceSpec) []) = Inr sp"
proof -
  let ?E = "ref_env\<lparr>srv_GetInventoryV1alpha1 := \<lambda>h k. Inr zero_DBaaSInventory_v1alpha1\<rparr>"
  have "WebhookAPIClientSet ?E" by (simp add: env_simps)
  moreover have "srv_GetInventoryV1alpha1 ?E []
      (key_of_ref (a1ins_InventoryRef zero_DBaaSInstanceSpec_v1alpha1)) =
      Inr zero_DBaaSInventory_v1alpha1" by simp
  moreover have "distinct (map fst (a1ins_OtherInstanceParams zero_DBaaSInstanceSpec_v1alpha1))"
    by (simp add: zero_DBaaSInstanceSpec_v1alpha1_def)
  ultimately show ?thesis
    using instance_parameters_convert_to [OF _ _ _ refl] by blast
qed

lemma from_name_nonempty_iff:
  "from_name p k = n \<Longrightarrow> n \<noteq> [] \<Longrightarrow> n \<noteq> ''projectName'' \<Longrightarrow> ConvertNameTo p n = k \<and> k \<noteq> [] \<and> n \<noteq> ''ProjectName''"
  using convert_name_inverse [of k p n] by (auto simp: from_name_def split: if_splits)

lemma params_from_spec:
  assumes d: "distinct (map fst ps)"
  shows "map_of (params_from p ps []) n =
    (if n = ''projectName'' then
       (if p = MongoDBAtlasRegistration then map_of ps ProvisioningTeamProject else None)
     else if n = ''ProjectName'' \<or> ConvertNameTo p n = [] then None
     else map_of ps (ConvertNameTo p n))"
proof -
  note lookup = params_from_lookup [OF d, of p "[]"]
  have absent: "n \<notin> range (from_name p) \<Longrightarrow> map_of (params_from p ps []) n = None"
    using params_from_keys [of n p ps "[]"] by simp
  consider (pn) "n = ''projectName''" | (empty) "n = []"
    | (other) "n \<noteq> ''projectName''" "n \<noteq> []" by blast
  then show ?thesis
  proof cases
    case pn
    show ?thesis
    proof (cases "p = MongoDBAtlasRegistration")
      case True
      then have "from_name p ProvisioningTeamProject = n"
        using convert_name_from_ProjectName [of p ProvisioningTeamProject] pn
        by (simp add: from_name_def)
      then show ?thesis using lookup [of ProvisioningTeamProject] pn True
        by (auto split: option.splits)
    next
      case False
      have "from_name p k \<noteq> n" for k
        using convert_name_from_projectName [of p k] convert_name_from_ProjectName [of p k] False pn
        by (cases "ConvertNameFrom p k = ''ProjectName''") (simp_all add: from_name_def)
      then have "n \<notin> range (from_name p)" by auto
      then show ?thesis using absent pn False by simp
    qed
  next
    case empty
    have "from_name p [] = []" by (simp add: from_name_def)
    then show ?thesis using lookup [of "[]"] empty by simp
  next
    case other
    show ?thesis
    proof (cases "n \<in> range (from_name p)")
      case True
      then obtain k where k: "from_name p k = n" by auto
      then show ?thesis using lookup [of k] other from_name_nonempty_iff [OF k]
        by (auto split: option.splits)
    next
      case False
      then have "from_name p (ConvertNameTo p n) \<noteq> n" by (metis rangeI)
      then have "n = ''ProjectName'' \<or> ConvertNameFrom p (ConvertNameTo p n) \<noteq> n"
        by (auto simp: from_name_def)
      then have "n = ''ProjectName'' \<or> ConvertNameTo p n = []"
        using convert_name_inverse [of "ConvertNameTo p n" p n] by blast
      then show ?thesis using absent False other by simp
    qed
  qed
qed

text \<open>Converting an instance from v1beta1 takes name, cloud provider and region from the
  parameters (for Crunchy Bridge the region is fixed) and keeps exactly the parameters that
  have a v1alpha1 name, under that name, the project name of MongoDB Atlas under
  \<open>projectName\<close>.\<close>

theorem instance_parameters_convert_from:
  assumes "WebhookAPIClientSet E"
    and "srv_GetInventory E h (key_of_ref (ins_InventoryRef src)) = Inr i"
    and "distinct (map fst (ins_ProvisioningParameters src))"
    and "pname = inv_ProviderName i" "pp = ins_ProvisioningParameters src"
  shows "\<exists>sp. fst (run_state (DBaaSInstanceSpec_ConvertFrom E dst src) h) = (None, sp) \<and>
    a1ins_InventoryRef sp = ins_InventoryRef src \<and>
    a1ins_Name sp = gomap_get [] pp ProvisioningName \<and>
    a1ins_CloudProvider sp = gomap_get [] pp ProvisioningCloudProvider \<and>
    a1ins_CloudRegion sp = (if pname = CrunchyBridgeRegistration then ''us-east-1''
                            else gomap_get [] pp ProvisioningRegions) \<and>
    map_of (a1ins_OtherInstanceParams sp) = (\<lambda>n.
      if n = ''projectName'' then
        (if pname = MongoDBAtlasRegistration then map_of pp ProvisioningTeamProject else None)
      else if n = ''ProjectName'' \<or> ConvertNameTo pname n = [] then None
      else map_of pp (ConvertNameTo pname n))"
  unfolding instance_spec_convert_from_run [OF assms(1,2)] fst_conv assms(4,5)
  using params_from_spec [OF assms(3), of "inv_ProviderName i"] by (auto simp: fun_eq_iff)

theorem instance_parameters_convert_from_witness:
  "\<exists>sp. fst (run_state (DBaaSInstanceSpec_ConvertFrom
      (ref_env\<lparr>srv_GetInventory := \<lambda>h k. Inr zero_DBaaSInventory\<rparr>)
      zero_DBaaSInstanceSpec_v1alpha1 zero_DBaaSInstanceSpec) []) = (None, sp)"
proof -
  let ?E = "ref_env\<lparr>srv_GetInventory := \<lambda>h k. Inr zero_DBaaSInventory\<rparr>"
  have "WebhookAPIClientSet ?E" by (simp add: env_simps)
  moreover have "srv_GetInventory ?E [] (key_of_ref (ins_InventoryRef zero_DBaaSInstanceSpec)) =
      Inr zero_DBaaSInventory" by simp
  moreover have "distinct (map fst (ins_ProvisioningParameters zero_DBaaSInstanceSpec))"
    by (simp add: zero_DBaaSInstanceSpec_def)
  ultimately show ?thesis
    using instance_parameters_convert_from [OF _ _ _ refl refl] by blast
qed

text \<open>C40: The project of a MongoDB Atlas instance does not survive the way v1beta1 - v1alpha1 -
  v1beta1: the key \<open>projectName\<close> that the way down writes is not one the way up knows.\<close>

theorem atlas_project_lost:
  assumes "WebhookAPIClientSet E"
    and "srv_GetInventory E h (key_of_ref (ins_InventoryRef src)) = Inr i"
    and "inv_ProviderName i = MongoDBAtlasRegistration"
    and "\<And>h'. srv_GetInventoryV1alpha1 E h' (key_of_ref (ins_InventoryRef src)) = Inr j"
    and "nn_Name (a1ois_ProviderRef (a1inv_Spec j)) = MongoDBAtlasRegistration"
    and "distinct (map fst (ins_ProvisioningParameters src))"
    and "map_of (ins_ProvisioningParameters src) ProvisioningTeamProject = Some project"
  shows "\<exists>down up h'. run_state (DBaaSInstanceSpec_ConvertFrom E zero_DBaaSInstanceSpec_v1alpha1 src) h
      = ((None, down), h') \<and>
    fst (run_state (DBaaSInstanceSpec_ConvertTo E down zero_DBaaSInstanceSpec) h') = Inr up \<and>
    map_of (a1ins_OtherInstanceParams down) ''projectName'' = Some project \<and>
    map_of (ins_ProvisioningParameters up) ProvisioningTeamProject = None"
proof -
  define ps where "ps = params_from MongoDBAtlasRegistration (ins_ProvisioningParameters src) []"
  have spec: "map_of ps ''projectName'' = Some project" "map_of ps ''ProjectName'' = None"
    using params_from_spec [OF assms(6), of MongoDBAtlasRegistration] assms(7)
    by (simp_all add: ps_def)
  have dist: "distinct (map fst (params_from p xs m))" if "distinct (map fst m)"
    for p xs and m :: "(string, string) gomap"
    using that by (induction xs arbitrary: m) (auto simp: params_from_step distinct_update)
  have name: "ConvertNameFrom MongoDBAtlasRegistration ProvisioningTeamProject = ''ProjectName''"
    using convert_name_from_ProjectName by blast
  obtain down where down: "run_state (DBaaSInstanceSpec_ConvertFrom E
      zero_DBaaSInstanceSpec_v1alpha1 src) h =
      ((None, down), h @ [EvGetInventory (key_of_ref (ins_InventoryRef src))])"
    "a1ins_OtherInstanceParams down = ps" "a1ins_InventoryRef down = ins_InventoryRef src"
    unfolding instance_spec_convert_from_run [OF assms(1,2)] by (simp add: ps_def assms(3))
  obtain up h' where up: "run_state (DBaaSInstanceSpec_ConvertTo E down zero_DBaaSInstanceSpec)
      (h @ [EvGetInventory (key_of_ref (ins_InventoryRef src))]) = (Inr up, h')"
    "map_of (ins_ProvisioningParameters up) ProvisioningTeamProject = None"
    using instance_spec_convert_to_run [OF assms(1), of _ down j] spec(2)
      dist [of "[]" MongoDBAtlasRegistration "ins_ProvisioningParameters src"]
    by (simp add: assms(4,5) down update_conv params_to_lookup name ps_def)
  show ?thesis using down up spec(1) by auto
qed

definition atlas_env :: env where
  "atlas_env = ref_env
    \<lparr>srv_GetInventory := \<lambda>h k. Inr (zero_DBaaSInventory\<lparr>inv_Spec :=
       zero_DBaaSOperatorInventorySpec\<lparr>ois_ProviderRef :=
         \<lparr>nn_Namespace = [], nn_Name = MongoDBAtlasRegistration\<rparr>\<rparr>\<rparr>),
     srv_GetInventoryV1alpha1 := \<lambda>h k. Inr (zero_DBaaSInventory_v1alpha1\<lparr>a1inv_Spec :=
       zero_DBaaSOperatorInventorySpec_v1alpha1\<lparr>a1ois_ProviderRef :=
         \<lparr>nn_Namespace = [], nn_Name = MongoDBAtlasRegistration\<rparr>\<rparr>\<rparr>)\<rparr>"

theorem atlas_project_lost_witness:
  "\<exists>down up h'. run_state (DBaaSInstanceSpec_ConvertFrom atlas_env
      zero_DBaaSInstanceSpec_v1alpha1
      (zero_DBaaSInstanceSpec\<lparr>ins_ProvisioningParameters := [(ProvisioningTeamProject, ''p'')]\<rparr>)) []
      = ((None, down), h') \<and>
    fst (run_state (DBaaSInstanceSpec_ConvertTo atlas_env down zero_DBaaSInstanceSpec) h') = Inr up \<and>
    map_of (a1ins_OtherInstanceParams down) ''projectName'' = Some ''p'' \<and>
    map_of (ins_ProvisioningParameters up) ProvisioningTeamProject = None"
  by (rule atlas_project_lost [where i = "zero_DBaaSInventory\<lparr>inv_Spec :=
       zero_DBaaSOperatorInventorySpec\<lparr>ois_ProviderRef :=
         \<lparr>nn_Namespace = [], nn_Name = MongoDBAtlasRegistration\<rparr>\<rparr>\<rparr>"
     and j = "zero_DBaaSInventory_v1alpha1\<lparr>a1inv_Spec :=
       zero_DBaaSOperatorInventorySpec_v1alpha1\<lparr>a1ois_ProviderRef :=
         \<lparr>nn_Namespace = [], nn_Name = MongoDBAtlasRegistration\<rparr>\<rparr>\<rparr>"])
    (simp_all add: atlas_env_def env_simps)

lemma convert_parameters_lookup:
  "map_of (convert_parameters p vs m) k =
    (if ConvertNameFrom p k = [] then map_of m k
     else case List.find (\<lambda>v. a1ips_Name v = ConvertNameFrom p k) (rev vs) of
            Some v \<Rightarrow> Some (converted_parameter v k)
          | None \<Rightarrow> map_of m k)"
proof (induction vs arbitrary: m)
  case Nil
  then show ?case by simp
next
  case (Cons v vs)
  have app: "List.find P (xs @ [x]) =
      (case List.find P xs of None \<Rightarrow> if P x then Some x else None | Some y \<Rightarrow> Some y)"
    for P x and xs :: "InstanceParameterSpec list"
    by (induction xs) simp_all
  have iff: "ConvertNameTo p (a1ips_Name v) = k \<and> k \<noteq> [] \<longleftrightarrow>
      a1ips_Name v = ConvertNameFrom p k \<and> ConvertNameFrom p k \<noteq> []"
    using convert_name_inverse [of k p "a1ips_Name v"] by auto
  show ?case
    using Cons iff by (auto simp: Let_def app update_conv split: option.splits)
qed

text \<open>A v1alpha1 provider stored as v1beta1 says that its objects are v1alpha1, offers the
  free trial plan as the only plan, and has one parameter for each supported parameter of
  the provider (the last one of that name), and no other.\<close>

theorem provider_conversion_parameters:
  "let sp = prov_Spec (DBaaSProvider_ConvertTo E src zero_DBaaSProvider);
       p = om_Name (a1prov_ObjectMeta src)
   in ps_GroupVersion sp = GroupVersion_String E GroupVersion_v1alpha1 \<and>
    ps_CredentialFields sp = a1ps_CredentialFields (a1prov_Spec src) \<and>
    map_of (ps_ProvisioningParameters sp) = (\<lambda>k.
      if k = ProvisioningPlan then Some free_trial_plan
      else if ConvertNameFrom p k = [] then None
      else map_option (\<lambda>v. converted_parameter v k)
        (List.find (\<lambda>v. a1ips_Name v = ConvertNameFrom p k)
           (rev (a1ps_InstanceParameterSpecs (a1prov_Spec src)))))"
proof -
  define p sp where "p = om_Name (a1prov_ObjectMeta src)"
    and "sp = prov_Spec (DBaaSProvider_ConvertTo E src zero_DBaaSProvider)"
  have "map_of (ps_ProvisioningParameters sp) k =
     (if k = ProvisioningPlan then Some free_trial_plan
      else if ConvertNameFrom p k = [] then None
      else map_option (\<lambda>v. converted_parameter v k)
        (List.find (\<lambda>v. a1ips_Name v = ConvertNameFrom p k)
           (rev (a1ps_InstanceParameterSpecs (a1prov_Spec src)))))" for k
    by (auto simp: sp_def p_def DBaaSProvider_ConvertTo_def update_conv
        convert_parameters_lookup split: option.splits)
  then show ?thesis
    by (auto simp: Let_def sp_def p_def DBaaSProvider_ConvertTo_def zero_DBaaSProvider_def
        zero_DBaaSProviderSpec_def)
qed

end
