(* ===== verification/Metrics.thy ===== *)
theory Metrics
  imports Reference_Env
begin

section \<open>Metrics\<close>

text \<open>
  \<open>controllers/metrics/*.go\<close>: what the reconcilers report to Prometheus. The registry is
  outside the model; a metric operation is an event that names the vector, the labels and the
  value. The clock is read by \<open>now\<close>.
\<close>

subsection \<open>Constants (metrics.go)\<close>

abbreviation MetricNameDBaaSRequestsDurationSeconds :: string where
  "MetricNameDBaaSRequestsDurationSeconds \<equiv> ''dbaas_requests_duration_seconds''"
abbreviation MetricNameDBaaSRequestsErrorCount :: string where
  "MetricNameDBaaSRequestsErrorCount \<equiv> ''dbaas_requests_error_count''"
abbreviation MetricLabelName :: string where "MetricLabelName \<equiv> ''name''"
abbreviation MetricLabelStatus :: string where "MetricLabelStatus \<equiv> ''status''"
abbreviation MetricLabelVersion :: string where "MetricLabelVersion \<equiv> ''version''"
abbreviation MetricLabelProvider :: string where "MetricLabelProvider \<equiv> ''provider''"
abbreviation MetricLabelAccountName :: string where "MetricLabelAccountName \<equiv> ''account''"
abbreviation MetricLabelNameSpace :: string where "MetricLabelNameSpace \<equiv> ''namespace''"
abbreviation MetricLabelInstanceID :: string where "MetricLabelInstanceID \<equiv> ''instance_id''"
abbreviation MetricLabelReason :: string where "MetricLabelReason \<equiv> ''reason''"
abbreviation MetricLabelInstanceName :: string where "MetricLabelInstanceName \<equiv> ''instance_name''"
abbreviation MetricLabelCreationTimestamp :: string where
  "MetricLabelCreationTimestamp \<equiv> ''creation_timestamp''"
abbreviation MetricLabelResource :: string where "MetricLabelResource \<equiv> ''resource''"
abbreviation MetricLabelEvent :: string where "MetricLabelEvent \<equiv> ''event''"
abbreviation MetricLabelErrorCd :: string where "MetricLabelErrorCd \<equiv> ''error_cd''"
abbreviation MetricLabelConnectionName :: string where "MetricLabelConnectionName \<equiv> ''name''"
abbreviation metricLabelInstanceName :: string where "metricLabelInstanceName \<equiv> ''instance_name''"
abbreviation installationTimeStart :: int where "installationTimeStart \<equiv> 0"
abbreviation installationTimeWidth :: int where "installationTimeWidth \<equiv> 60"
abbreviation installationTimeBuckets :: int where "installationTimeBuckets \<equiv> 10"
abbreviation LabelEventValueCreate :: string where "LabelEventValueCreate \<equiv> ''create''"
abbreviation LabelEventValueDelete :: string where "LabelEventValueDelete \<equiv> ''delete''"
abbreviation LabelValueNone :: string where "LabelValueNone \<equiv> ''none''"

abbreviation MetricNameConnectionStatusReady :: string where
  "MetricNameConnectionStatusReady \<equiv> ''dbaas_connection_status_ready''"
abbreviation LabelResourceValueConnection :: string where
  "LabelResourceValueConnection \<equiv> ''dbaas_connection''"
abbreviation metricNameInstanceStatusReady :: string where
  "metricNameInstanceStatusReady \<equiv> ''dbaas_instance_status_ready''"
abbreviation metricNameInstancePhase :: string where
  "metricNameInstancePhase \<equiv> ''dbaas_instance_phase''"
abbreviation LabelResourceValueInstance :: string where
  "LabelResourceValueInstance \<equiv> ''dbaas_instance''"
abbreviation MetricNameInventoryStatusReady :: string where
  "MetricNameInventoryStatusReady \<equiv> ''dbaas_inventory_status_ready''"
abbreviation LabelResourceValueInventory :: string where
  "LabelResourceValueInventory \<equiv> ''dbaas_inventory''"
abbreviation LabelResourceValuePolicy :: string where
  "LabelResourceValuePolicy \<equiv> ''dbaas_policy''"
abbreviation LabelResourceValueProvider :: string where
  "LabelResourceValueProvider \<equiv> ''dbaas_provider''"
abbreviation LabelErrorCdValueErrorResourceQuotaModified :: string where
  "LabelErrorCdValueErrorResourceQuotaModified \<equiv> ''error_resource_quota_modified''"
abbreviation LabelErrorCdValueErrUpdatingResourceQuota :: string where
  "LabelErrorCdValueErrUpdatingResourceQuota \<equiv> ''error_updating_resource_quota''"

abbreviation MetricNameDBaaSStackInstallationTotalDuration :: string where
  "MetricNameDBaaSStackInstallationTotalDuration \<equiv> ''dbaas_stack_installation_total_duration_seconds''"
abbreviation MetricNameOperatorVersion :: string where
  "MetricNameOperatorVersion \<equiv> ''dbaas_version_info''"
abbreviation MetricLabelConsoleULR :: string where "MetricLabelConsoleULR \<equiv> ''openshift_url''"
abbreviation ClusterVersionLabel :: string where "ClusterVersionLabel \<equiv> ''cluster_version''"
abbreviation LabelResourceValuePlatform :: string where
  "LabelResourceValuePlatform \<equiv> ''dbaas_platform''"
abbreviation MetricNameDBaaSPlatformInstallationStatus :: string where
  "MetricNameDBaaSPlatformInstallationStatus \<equiv> ''dbaas_platform_installation_status''"
abbreviation MetricLabelPlatformName :: string where
  "MetricLabelPlatformName \<equiv> ''cloud_platform_name''"

subsection \<open>The vectors\<close>

text \<open>
  A vector is declared with its kind, its name, the names of its labels in order and, for a
  histogram, the arguments of \<open>prometheus.LinearBuckets\<close> (start, width, count), if it is given
  buckets. The help texts are left out.
\<close>

datatype vec_kind = GaugeVec | HistogramVec | CounterVec

record metric_vec =
  mv_Kind :: vec_kind
  mv_Name :: string
  mv_LinearBuckets :: "(int \<times> int \<times> int) option"
  mv_Labels :: "string list"

abbreviation gauge_vec :: "string \<Rightarrow> string list \<Rightarrow> metric_vec" where
  "gauge_vec name labels \<equiv>
     \<lparr>mv_Kind = GaugeVec, mv_Name = name, mv_LinearBuckets = None, mv_Labels = labels\<rparr>"

definition DBaasStackInstallationHistogram :: metric_vec where
  "DBaasStackInstallationHistogram = \<lparr>mv_Kind = HistogramVec,
     mv_Name = MetricNameDBaaSStackInstallationTotalDuration,
     mv_LinearBuckets = Some (installationTimeStart, installationTimeWidth, installationTimeBuckets),
     mv_Labels = [MetricLabelVersion, MetricLabelCreationTimestamp]\<rparr>"

definition DBaasOperatorVersionInfo :: metric_vec where
  "DBaasOperatorVersionInfo = gauge_vec MetricNameOperatorVersion
     [MetricLabelVersion, MetricLabelConsoleULR, MetricLabelPlatformName,
      MetricLabelCreationTimestamp, ClusterVersionLabel]"

definition DBaaSRequestsDurationHistogram :: metric_vec where
  "DBaaSRequestsDurationHistogram = \<lparr>mv_Kind = HistogramVec,
     mv_Name = MetricNameDBaaSRequestsDurationSeconds, mv_LinearBuckets = None,
     mv_Labels = [MetricLabelProvider, MetricLabelAccountName, MetricLabelNameSpace,
       MetricLabelResource, MetricLabelEvent]\<rparr>"

definition DBaaSRequestsErrorsCounter :: metric_vec where
  "DBaaSRequestsErrorsCounter = \<lparr>mv_Kind = CounterVec,
     mv_Name = MetricNameDBaaSRequestsErrorCount, mv_LinearBuckets = None,
     mv_Labels = [MetricLabelProvider, MetricLabelAccountName, MetricLabelNameSpace,
       MetricLabelResource, MetricLabelEvent, MetricLabelErrorCd]\<rparr>"

definition DBaasPlatformInstallationGauge :: metric_vec where
  "DBaasPlatformInstallationGauge = gauge_vec MetricNameDBaaSPlatformInstallationStatus
     [MetricLabelName, MetricLabelStatus, MetricLabelVersion]"

definition DBaaSInventoryStatusGauge :: metric_vec where
  "DBaaSInventoryStatusGauge = gauge_vec MetricNameInventoryStatusReady
     [MetricLabelProvider, MetricLabelName, MetricLabelNameSpace, MetricLabelStatus,
      MetricLabelReason, MetricLabelCreationTimestamp]"

definition DBaaSConnectionStatusGauge :: metric_vec where
  "DBaaSConnectionStatusGauge = gauge_vec MetricNameConnectionStatusReady
     [MetricLabelProvider, MetricLabelAccountName, MetricLabelInstanceID, MetricLabelConnectionName,
      MetricLabelNameSpace, MetricLabelStatus, MetricLabelReason, MetricLabelCreationTimestamp]"

definition DBaaSInstanceStatusGauge :: metric_vec where
  "DBaaSInstanceStatusGauge = gauge_vec metricNameInstanceStatusReady
     [MetricLabelProvider, MetricLabelAccountName, metricLabelInstanceName, MetricLabelNameSpace,
      MetricLabelStatus, MetricLabelReason, MetricLabelCreationTimestamp]"

definition DBaaSInstancePhaseGauge :: metric_vec where
  "DBaaSInstancePhaseGauge = gauge_vec metricNameInstancePhase
     [MetricLabelProvider, MetricLabelAccountName, metricLabelInstanceName, MetricLabelNameSpace]"

text \<open>All vectors of the package.\<close>

definition metric_vectors :: "metric_vec list" where
  "metric_vectors = [DBaasStackInstallationHistogram, DBaasPlatformInstallationGauge,
     DBaasOperatorVersionInfo, DBaaSRequestsDurationHistogram, DBaaSRequestsErrorsCounter,
     DBaaSInventoryStatusGauge, DBaaSInstanceStatusGauge, DBaaSConnectionStatusGauge,
     DBaaSInstancePhaseGauge]"

lemmas metric_vector_defs = metric_vectors_def DBaasStackInstallationHistogram_def
  DBaasOperatorVersionInfo_def DBaaSRequestsDurationHistogram_def DBaaSRequestsErrorsCounter_def
  DBaasPlatformInstallationGauge_def DBaaSInventoryStatusGauge_def DBaaSConnectionStatusGauge_def
  DBaaSInstanceStatusGauge_def DBaaSInstancePhaseGauge_def

text \<open>
  An operation fits a vector: it is an operation of the kind of the vector and names exactly its
  labels, each once (\<open>With\<close>, \<open>Delete\<close>), as many values as it has labels
  (\<open>WithLabelValues\<close>), or, for a partial match, some of them; and a counter never goes down.
  With other labels \<open>With\<close> and \<open>WithLabelValues\<close> panic, and a deletion deletes nothing.
\<close>

fun fits :: "metric \<Rightarrow> metric_vec \<Rightarrow> bool" where
  "fits (GaugeSet n ls v) w \<longleftrightarrow> n = mv_Name w \<and> mv_Kind w = GaugeVec \<and>
     distinct (map fst ls) \<and> set (map fst ls) = set (mv_Labels w)"
| "fits (GaugeDelete n ls) w \<longleftrightarrow> n = mv_Name w \<and> mv_Kind w = GaugeVec \<and>
     distinct (map fst ls) \<and> set (map fst ls) = set (mv_Labels w)"
| "fits (GaugeDeletePartialMatch n ls) w \<longleftrightarrow> n = mv_Name w \<and> mv_Kind w = GaugeVec \<and>
     distinct (map fst ls) \<and> set (map fst ls) \<subseteq> set (mv_Labels w)"
| "fits (HistogramObserveWith n ls d) w \<longleftrightarrow> n = mv_Name w \<and> mv_Kind w = HistogramVec \<and>
     distinct (map fst ls) \<and> set (map fst ls) = set (mv_Labels w)"
| "fits (HistogramObserve n vs d) w \<longleftrightarrow> n = mv_Name w \<and> mv_Kind w = HistogramVec \<and>
     length vs = length (mv_Labels w)"
| "fits (CounterAdd n vs v) w \<longleftrightarrow> n = mv_Name w \<and> mv_Kind w = CounterVec \<and>
     length vs = length (mv_Labels w) \<and> 0 \<le> v"

definition well_labelled :: "metric \<Rightarrow> bool" where
  "well_labelled m \<longleftrightarrow> list_ex (fits m) metric_vectors"

lemmas fits_vector = well_labelled_def metric_vector_defs

subsection \<open>Common operations (metrics.go)\<close>

record Execution =
  begin_time :: time

definition PlatformInstallStart :: "env \<Rightarrow> Execution prog" where
  "PlatformInstallStart E = do {
     t \<leftarrow> now E;
     ret \<lparr>begin_time = t\<rparr>
   }"

definition UpdateRequestsDurationHistogram ::
    "string \<Rightarrow> string \<Rightarrow> string \<Rightarrow> string \<Rightarrow> string \<Rightarrow> time \<Rightarrow> unit prog" where
  "UpdateRequestsDurationHistogram provider account ns resource ev duration =
     metric_op (HistogramObserve MetricNameDBaaSRequestsDurationSeconds
       [provider, account, ns, resource, ev] duration)"

definition UpdateErrorsTotal ::
    "string \<Rightarrow> string \<Rightarrow> string \<Rightarrow> string \<Rightarrow> string \<Rightarrow> string \<Rightarrow> unit prog" where
  "UpdateErrorsTotal provider account ns resource ev errCd =
     (if errCd \<noteq> [] then
        metric_op (CounterAdd MetricNameDBaaSRequestsErrorCount
          [provider, account, ns, resource, ev, errCd] 1)
      else ret ())"

fun status_string :: "ConditionStatus \<Rightarrow> string" where
  "status_string ConditionTrue = ''True''"
| "status_string ConditionFalse = ''False''"
| "status_string ConditionUnknown = ''Unknown''"

text \<open>The first condition of a type: the loops that end with \<open>break\<close>.\<close>

definition first_condition :: "string \<Rightarrow> Condition list \<Rightarrow> Condition option" where
  "first_condition ty cs = List.find (\<lambda>c. c_Type c = ty) cs"

text \<open>What the delete branches measure from: the deletion timestamp, else the start.\<close>

definition deletion_start :: "ObjectMeta \<Rightarrow> Execution \<Rightarrow> time" where
  "deletion_start m execution =
     (case om_DeletionTimestamp m of None \<Rightarrow> begin_time execution | Some t \<Rightarrow> t)"

subsection \<open>Inventories (dbaas_inventory_metrics.go)\<close>

definition setInventoryStatusMetrics :: "env \<Rightarrow> DBaaSInventory \<Rightarrow> unit prog" where
  "setInventoryStatusMetrics E inventory =
     (case first_condition DBaaSInventoryReadyType (inv_Conditions inventory) of
        None \<Rightarrow> ret ()
      | Some cond \<Rightarrow> do {
          metric_op (GaugeDeletePartialMatch MetricNameInventoryStatusReady
            [(MetricLabelProvider, inv_ProviderName inventory),
             (MetricLabelName, inv_Name inventory),
             (MetricLabelNameSpace, inv_Namespace inventory)]);
          metric_op (GaugeSet MetricNameInventoryStatusReady
            [(MetricLabelProvider, inv_ProviderName inventory),
             (MetricLabelName, inv_Name inventory),
             (MetricLabelNameSpace, inv_Namespace inventory),
             (MetricLabelStatus, status_string (c_Status cond)),
             (MetricLabelReason, c_Reason cond),
             (MetricLabelCreationTimestamp,
                TimeString E (om_CreationTimestamp (inv_ObjectMeta inventory)))]
            (if c_Reason cond = Ready \<and> c_Status cond = ConditionTrue then 1 else 0))
        })"

definition setInventoryRequestDurationSeconds ::
    "env \<Rightarrow> DBaaSInventory \<Rightarrow> string \<Rightarrow> Execution \<Rightarrow> unit prog" where
  "setInventoryRequestDurationSeconds E inventory ev execution =
     (if ev = LabelEventValueCreate then
        (case first_condition DBaaSInventoryProviderSyncType (inv_Conditions inventory) of
           None \<Rightarrow> ret ()
         | Some cond \<Rightarrow>
             if c_Status cond = ConditionTrue then do {
               t \<leftarrow> now E;
               UpdateRequestsDurationHistogram (inv_ProviderName inventory) (inv_Name inventory)
                 (inv_Namespace inventory) LabelResourceValueInventory ev
                 (t - om_CreationTimestamp (inv_ObjectMeta inventory))
             } else ret ())
      else if ev = LabelEventValueDelete then do {
        t \<leftarrow> now E;
        UpdateRequestsDurationHistogram (inv_ProviderName inventory) (inv_Name inventory)
          (inv_Namespace inventory) LabelResourceValueInventory ev
          (t - deletion_start (inv_ObjectMeta inventory) execution)
      } else ret ())"

definition SetInventoryMetrics ::
    "env \<Rightarrow> DBaaSInventory \<Rightarrow> Execution \<Rightarrow> string \<Rightarrow> string \<Rightarrow> unit prog" where
  "SetInventoryMetrics E inventory execution ev errCd = do {
     setInventoryStatusMetrics E inventory;
     setInventoryRequestDurationSeconds E inventory ev execution;
     UpdateErrorsTotal (inv_ProviderName inventory) (inv_Name inventory)
       (inv_Namespace inventory) LabelResourceValueInventory ev errCd
   }"

subsection \<open>Connections (dbaas_connection_metrics.go)\<close>

definition setConnectionStatusMetrics :: "env \<Rightarrow> string \<Rightarrow> string \<Rightarrow> DBaaSConnection \<Rightarrow> unit prog" where
  "setConnectionStatusMetrics E provider account connection =
     (let m = conn_ObjectMeta connection
      in case first_condition DBaaSConnectionReadyType (cst_Conditions (conn_Status connection)) of
        None \<Rightarrow> ret ()
      | Some cond \<Rightarrow> do {
          metric_op (GaugeDeletePartialMatch MetricNameConnectionStatusReady
            [(MetricLabelName, om_Name m), (MetricLabelNameSpace, om_Namespace m)]);
          metric_op (GaugeSet MetricNameConnectionStatusReady
            [(MetricLabelProvider, provider),
             (MetricLabelAccountName, account),
             (MetricLabelInstanceID, cs_DatabaseServiceID (conn_Spec connection)),
             (MetricLabelConnectionName, om_Name m),
             (MetricLabelNameSpace, om_Namespace m),
             (MetricLabelStatus, status_string (c_Status cond)),
             (MetricLabelReason, c_Reason cond),
             (MetricLabelCreationTimestamp, TimeString E (om_CreationTimestamp m))]
            (if c_Reason cond = Ready \<and> c_Status cond = ConditionTrue then 1 else 0))
        })"

text \<open>A loop without \<open>break\<close>: every true condition of the type is observed.\<close>

fun observe_synced :: "env \<Rightarrow> string \<Rightarrow> string \<Rightarrow> ObjectMeta \<Rightarrow> string \<Rightarrow> string \<Rightarrow>
    Condition list \<Rightarrow> unit prog" where
  "observe_synced E ty provider m resource ev [] = ret ()"
| "observe_synced E ty provider m resource ev (cond # cs) = do {
     (if c_Type cond = ty \<and> c_Status cond = ConditionTrue then do {
        t \<leftarrow> now E;
        UpdateRequestsDurationHistogram provider (om_Name m) (om_Namespace m) resource ev
          (t - om_CreationTimestamp m)
      } else ret ());
     observe_synced E ty provider m resource ev cs
   }"

definition setConnectionRequestDurationSeconds ::
    "env \<Rightarrow> string \<Rightarrow> DBaaSConnection \<Rightarrow> Execution \<Rightarrow> string \<Rightarrow> unit prog" where
  "setConnectionRequestDurationSeconds E provider connection execution ev =
     (let m = conn_ObjectMeta connection
      in if ev = LabelEventValueCreate then
           observe_synced E DBaaSConnectionProviderSyncType provider m
             LabelResourceValueConnection ev (cst_Conditions (conn_Status connection))
         else if ev = LabelEventValueDelete then do {
           t \<leftarrow> now E;
           UpdateRequestsDurationHistogram provider (om_Name m) (om_Namespace m)
             LabelResourceValueConnection ev (t - deletion_start m execution)
         } else ret ())"

definition SetConnectionMetrics ::
    "env \<Rightarrow> string \<Rightarrow> string \<Rightarrow> DBaaSConnection \<Rightarrow> Execution \<Rightarrow> string \<Rightarrow> string \<Rightarrow> unit prog" where
  "SetConnectionMetrics E provider account connection execution ev errCd = do {
     setConnectionStatusMetrics E provider account connection;
     setConnectionRequestDurationSeconds E provider connection execution ev;
     UpdateErrorsTotal provider account (om_Namespace (conn_ObjectMeta connection))
       LabelResourceValueConnection ev errCd
   }"

subsection \<open>Instances (dbaas_instance_metrics.go)\<close>

definition setInstanceStatusMetrics :: "env \<Rightarrow> string \<Rightarrow> string \<Rightarrow> DBaaSInstance \<Rightarrow> unit prog" where
  "setInstanceStatusMetrics E provider account ins =
     (let m = instance_ObjectMeta ins
      in case first_condition DBaaSInstanceReadyType (inst_Conditions (instance_Status ins)) of
        None \<Rightarrow> ret ()
      | Some cond \<Rightarrow> do {
          metric_op (GaugeDeletePartialMatch metricNameInstanceStatusReady
            [(metricLabelInstanceName, om_Name m), (MetricLabelNameSpace, om_Namespace m)]);
          metric_op (GaugeSet metricNameInstanceStatusReady
            [(MetricLabelProvider, provider),
             (MetricLabelAccountName, account),
             (metricLabelInstanceName, om_Name m),
             (MetricLabelNameSpace, om_Namespace m),
             (MetricLabelStatus, status_string (c_Status cond)),
             (MetricLabelReason, c_Reason cond),
             (MetricLabelCreationTimestamp, TimeString E (om_CreationTimestamp m))]
            (if c_Reason cond = Ready \<and> c_Status cond = ConditionTrue then 1 else 0))
        })"

definition setInstanceRequestDurationSeconds ::
    "env \<Rightarrow> string \<Rightarrow> DBaaSInstance \<Rightarrow> Execution \<Rightarrow> string \<Rightarrow> unit prog" where
  "setInstanceRequestDurationSeconds E provider ins execution ev =
     (let m = instance_ObjectMeta ins
      in if ev = LabelEventValueCreate then
           observe_synced E DBaaSInstanceProviderSyncType provider m
             LabelResourceValueInstance ev (inst_Conditions (instance_Status ins))
         else if ev = LabelEventValueDelete then do {
           t \<leftarrow> now E;
           UpdateRequestsDurationHistogram provider (om_Name m) (om_Namespace m)
             LabelResourceValueInstance ev (t - deletion_start m execution)
         } else ret ())"

definition phase_value :: "DBaasInstancePhase \<Rightarrow> int" where
  "phase_value ph =
     (if ph = InstancePhasePending then -1
      else if ph = InstancePhaseCreating then 0
      else if ph = InstancePhaseReady then 1
      else if ph = InstancePhaseUnknown then 2
      else if ph = InstancePhaseFailed then 3
      else if ph = InstancePhaseError then 4
      else if ph = InstancePhaseDeleting then 5
      else if ph = InstancePhaseDeleted then 6
      else 0)"

definition setInstancePhaseMetrics :: "string \<Rightarrow> string \<Rightarrow> DBaaSInstance \<Rightarrow> unit prog" where
  "setInstancePhaseMetrics provider account ins =
     metric_op (GaugeSet metricNameInstancePhase
       [(MetricLabelProvider, provider),
        (MetricLabelAccountName, account),
        (metricLabelInstanceName, om_Name (instance_ObjectMeta ins)),
        (MetricLabelNameSpace, om_Namespace (instance_ObjectMeta ins))]
       (phase_value (inst_Phase (instance_Status ins))))"

definition SetInstanceMetrics ::
    "env \<Rightarrow> string \<Rightarrow> string \<Rightarrow> DBaaSInstance \<Rightarrow> Execution \<Rightarrow> string \<Rightarrow> string \<Rightarrow> unit prog" where
  "SetInstanceMetrics E provider account ins execution ev errCd = do {
     setInstanceStatusMetrics E provider account ins;
     setInstancePhaseMetrics provider account ins;
     setInstanceRequestDurationSeconds E provider ins execution ev;
     UpdateErrorsTotal provider account (om_Namespace (instance_ObjectMeta ins))
       LabelResourceValueInstance ev errCd
   }"

subsection \<open>Policies and providers (dbaas_policy_metrics.go, dbaas_provider_metrics.go)\<close>

definition setPolicyRequestDurationSeconds ::
    "env \<Rightarrow> DBaaSPolicy \<Rightarrow> string \<Rightarrow> Execution \<Rightarrow> unit prog" where
  "setPolicyRequestDurationSeconds E policy ev execution =
     (let m = pol_ObjectMeta policy
      in if ev = LabelEventValueCreate then do {
           t \<leftarrow> now E;
           UpdateRequestsDurationHistogram LabelValueNone (om_Name m) (om_Namespace m)
             LabelResourceValuePolicy ev (t - om_CreationTimestamp m)
         } else if ev = LabelEventValueDelete then do {
           t \<leftarrow> now E;
           UpdateRequestsDurationHistogram LabelValueNone (om_Name m) (om_Namespace m)
             LabelResourceValuePolicy ev (t - deletion_start m execution)
         } else ret ())"

definition SetPolicyMetrics ::
    "env \<Rightarrow> DBaaSPolicy \<Rightarrow> Execution \<Rightarrow> string \<Rightarrow> string \<Rightarrow> unit prog" where
  "SetPolicyMetrics E policy execution ev errCd = do {
     setPolicyRequestDurationSeconds E policy ev execution;
     UpdateErrorsTotal LabelValueNone (pol_Name policy) (om_Namespace (pol_ObjectMeta policy))
       LabelResourceValuePolicy ev errCd
   }"

definition setProviderRequestDurationSeconds ::
    "env \<Rightarrow> DBaaSProvider \<Rightarrow> string \<Rightarrow> Execution \<Rightarrow> string \<Rightarrow> unit prog" where
  "setProviderRequestDurationSeconds E provider account execution ev =
     (let m = prov_ObjectMeta provider
      in if ev = LabelEventValueCreate then do {
           t \<leftarrow> now E;
           UpdateRequestsDurationHistogram (om_Name m) account (om_Namespace m)
             LabelResourceValueProvider ev (t - om_CreationTimestamp m)
         } else if ev = LabelEventValueDelete then do {
           t \<leftarrow> now E;
           UpdateRequestsDurationHistogram (om_Name m) account (om_Namespace m)
             LabelResourceValueProvider ev (t - deletion_start m execution)
         } else ret ())"

definition SetProviderMetrics ::
    "env \<Rightarrow> DBaaSProvider \<Rightarrow> string \<Rightarrow> Execution \<Rightarrow> string \<Rightarrow> string \<Rightarrow> unit prog" where
  "SetProviderMetrics E provider account execution ev errCd = do {
     setProviderRequestDurationSeconds E provider account execution ev;
     UpdateErrorsTotal (om_Name (prov_ObjectMeta provider)) account
       (om_Namespace (prov_ObjectMeta provider)) LabelResourceValueProvider ev errCd
   }"

subsection \<open>Metrics touch nothing but the registry and the clock\<close>

text \<open>Readings of the clock, and operations that fit a vector of the package.\<close>

fun telemetry :: "event \<Rightarrow> bool" where
  "telemetry EvNow = True"
| "telemetry (EvMetric m) = well_labelled m"
| "telemetry _ = False"

lemma only_PlatformInstallStart [only_intros]:
  "(\<And>e. telemetry e \<Longrightarrow> P e) \<Longrightarrow> only P (PlatformInstallStart E)"
  unfolding PlatformInstallStart_def by (intro only_intros) simp

lemma only_UpdateRequestsDurationHistogram [only_intros]:
  "(\<And>e. telemetry e \<Longrightarrow> P e) \<Longrightarrow> only P (UpdateRequestsDurationHistogram a b c d e f)"
  unfolding UpdateRequestsDurationHistogram_def by (intro only_intros) (simp add: fits_vector)

lemma only_UpdateErrorsTotal [only_intros]:
  "(\<And>e. telemetry e \<Longrightarrow> P e) \<Longrightarrow> only P (UpdateErrorsTotal a b c d e f)"
  unfolding UpdateErrorsTotal_def by (intro only_intros; simp add: fits_vector)

lemma only_SetInventoryMetrics [only_intros]:
  "(\<And>e. telemetry e \<Longrightarrow> P e) \<Longrightarrow> only P (SetInventoryMetrics E inventory x ev cd)"
  unfolding SetInventoryMetrics_def setInventoryStatusMetrics_def
    setInventoryRequestDurationSeconds_def
  by (intro only_intros; simp add: fits_vector)

lemma only_observe_synced [only_intros]:
  "(\<And>e. telemetry e \<Longrightarrow> P e) \<Longrightarrow> only P (observe_synced E ty provider m resource ev cs)"
  by (induction cs) (unfold observe_synced.simps, (intro only_intros; simp add: fits_vector)+)

lemma only_SetConnectionMetrics [only_intros]:
  "(\<And>e. telemetry e \<Longrightarrow> P e) \<Longrightarrow> only P (SetConnectionMetrics E provider account c x ev cd)"
  unfolding SetConnectionMetrics_def setConnectionStatusMetrics_def
    setConnectionRequestDurationSeconds_def
  by (intro only_intros; simp add: fits_vector)

lemma only_SetInstanceMetrics [only_intros]:
  "(\<And>e. telemetry e \<Longrightarrow> P e) \<Longrightarrow> only P (SetInstanceMetrics E provider account i x ev cd)"
  unfolding SetInstanceMetrics_def setInstanceStatusMetrics_def setInstancePhaseMetrics_def
    setInstanceRequestDurationSeconds_def
  by (intro only_intros; simp add: fits_vector)

lemma only_SetPolicyMetrics [only_intros]:
  "(\<And>e. telemetry e \<Longrightarrow> P e) \<Longrightarrow> only P (SetPolicyMetrics E p x ev cd)"
  unfolding SetPolicyMetrics_def setPolicyRequestDurationSeconds_def
  by (intro only_intros; simp add: fits_vector)

lemma only_SetProviderMetrics [only_intros]:
  "(\<And>e. telemetry e \<Longrightarrow> P e) \<Longrightarrow> only P (SetProviderMetrics E p account x ev cd)"
  unfolding SetProviderMetrics_def setProviderRequestDurationSeconds_def
  by (intro only_intros; simp add: fits_vector)

end
