(* ===== verification/Example_World.thy ===== *)
theory Example_World
  imports Reference_Env
begin

section \<open>An example world\<close>

text \<open>
  A small cluster in which everything the operator asks for exists: an inventory that is
  ready, an active policy, a connection with a database service id, an instance, a provider
  of the v1alpha1 API, and provider objects that report a successful synchronisation. The
  witnesses of the theorems about whole reconciliations are evaluated in it.
\<close>

definition demo_condition :: "string \<Rightarrow> Condition" where
  "demo_condition ty = mkCondition ty ConditionTrue Ready []"

definition demo_inventory :: DBaaSInventory where
  "demo_inventory = zero_DBaaSInventory\<lparr>inv_Status :=
     zero_DBaaSInventoryStatus\<lparr>ist_Conditions := [demo_condition DBaaSInventoryReadyType]\<rparr>\<rparr>"

definition demo_policy :: DBaaSPolicy where
  "demo_policy = zero_DBaaSPolicy
     \<lparr>pol_Status := \<lparr>polst_Conditions = [demo_condition DBaaSPolicyReadyType]\<rparr>\<rparr>"

definition demo_connection :: DBaaSConnection where
  "demo_connection = zero_DBaaSConnection\<lparr>conn_Spec :=
     zero_DBaaSConnectionSpec\<lparr>cs_DatabaseServiceID := ''db''\<rparr>\<rparr>"

definition demo_env :: env where
  "demo_env = ref_env
     \<lparr>srv_GetInventory := \<lambda>h k. Inr demo_inventory,
      srv_GetConnection := \<lambda>h k. Inr demo_connection,
      srv_GetInstance := \<lambda>h k. Inr zero_DBaaSInstance,
      srv_GetProvider := \<lambda>h k. Inr zero_DBaaSProvider,
      srv_ListPolicies := \<lambda>h ns. Inr [demo_policy],
      UnmarshalInventoryV1alpha1 := \<lambda>u. Inr (zero_DBaaSProviderInventory_v1alpha1
        \<lparr>a1pinv_Status := zero_DBaaSInventoryStatus_v1alpha1
           \<lparr>a1ist_Conditions := [demo_condition DBaaSInventoryProviderSyncType]\<rparr>\<rparr>),
      UnmarshalConnectionV1alpha1 := \<lambda>u. Inr (zero_DBaaSProviderConnection_v1alpha1
        \<lparr>a1pconn_Status := zero_DBaaSConnectionStatus_v1alpha1
           \<lparr>a1cst_Conditions := [demo_condition DBaaSConnectionProviderSyncType]\<rparr>\<rparr>),
      UnmarshalInstanceV1alpha1 := \<lambda>u. Inr (zero_DBaaSProviderInstance_v1alpha1
        \<lparr>a1pins_Status := (a1pins_Status zero_DBaaSProviderInstance_v1alpha1)
           \<lparr>a1inst_Conditions := [demo_condition DBaaSInstanceProviderSyncType]\<rparr>\<rparr>)\<rparr>"

lemma demo_conditions_contract: "conditions_contract demo_env"
  by (rule ref_conditions_contract) (simp_all add: demo_env_def)

lemma demo_env_simps [env_simps]:
  "FindStatusCondition demo_env = FindStatusCondition ref_env"
  "IsStatusConditionTrue demo_env = IsStatusConditionTrue ref_env"
  "SetStatusCondition demo_env = ref_set_condition"
  "SetControllerReference demo_env = SetControllerReference ref_env"
  "GroupVersion_String demo_env = GroupVersion_String ref_env"
  "ParseGroupVersion demo_env = ParseGroupVersion ref_env"
  "WebhookAPIClientSet demo_env"
  "srv_GetConnection demo_env = (\<lambda>h k. Inr demo_connection)"
  "srv_GetInventory demo_env = (\<lambda>h k. Inr demo_inventory)"
  "srv_GetInstance demo_env = (\<lambda>h k. Inr zero_DBaaSInstance)"
  "srv_GetProvider demo_env = (\<lambda>h k. Inr zero_DBaaSProvider)"
  "srv_ListPolicies demo_env = (\<lambda>h ns. Inr [demo_policy])"
  "srv_StatusUpdateInventory demo_env = (\<lambda>h x. Inr x)"
  "srv_StatusUpdateConnection demo_env = (\<lambda>h x. Inr x)"
  "srv_StatusUpdateInstance demo_env = (\<lambda>h x. Inr x)"
  "srv_CreateOrUpdateProviderObject demo_env = (\<lambda>h x f. ref_create_or_update x f)"
  "srv_CreateOrUpdateDeployment demo_env = (\<lambda>h x f. ref_create_or_update x f)"
  by (simp_all add: demo_env_def env_simps)

lemma demo_unmarshal [env_simps]:
  "UnmarshalInventoryV1alpha1 demo_env u = Inr (zero_DBaaSProviderInventory_v1alpha1
     \<lparr>a1pinv_Status := zero_DBaaSInventoryStatus_v1alpha1
        \<lparr>a1ist_Conditions := [demo_condition DBaaSInventoryProviderSyncType]\<rparr>\<rparr>)"
  "UnmarshalConnectionV1alpha1 demo_env u = Inr (zero_DBaaSProviderConnection_v1alpha1
     \<lparr>a1pconn_Status := zero_DBaaSConnectionStatus_v1alpha1
        \<lparr>a1cst_Conditions := [demo_condition DBaaSConnectionProviderSyncType]\<rparr>\<rparr>)"
  "UnmarshalInstanceV1alpha1 demo_env u = Inr (zero_DBaaSProviderInstance_v1alpha1
     \<lparr>a1pins_Status := (a1pins_Status zero_DBaaSProviderInstance_v1alpha1)
        \<lparr>a1inst_Conditions := [demo_condition DBaaSInstanceProviderSyncType]\<rparr>\<rparr>)"
  by (simp_all add: demo_env_def)

lemma demo_data [env_simps]:
  "c_Status (demo_condition ty) = ConditionTrue"
  "c_Type (demo_condition ty) = ty"
  "inv_ObjectMeta demo_inventory = zero_ObjectMeta"
  "ois_Policy (inv_Spec demo_inventory) = None"
  "inv_CredentialsRef demo_inventory = None"
  "inv_Conditions demo_inventory = [demo_condition DBaaSInventoryReadyType]"
  "conn_ObjectMeta demo_connection = zero_ObjectMeta"
  "cs_DatabaseServiceID (conn_Spec demo_connection) = ''db''"
  "cst_Conditions (conn_Status demo_connection) = []"
  "instance_ObjectMeta zero_DBaaSInstance = zero_ObjectMeta"
  "inst_Conditions (instance_Status zero_DBaaSInstance) = []"
  "pol_Conditions demo_policy = [demo_condition DBaaSPolicyReadyType]"
  "ip_DisableProvisions (pol_Policy demo_policy) = None"
  "ps_GroupVersion (prov_Spec zero_DBaaSProvider) = []"
  "prov_ObjectMeta zero_DBaaSProvider = zero_ObjectMeta"
  by (simp_all add: demo_inventory_def demo_connection_def demo_condition_def demo_policy_def
      zero_DBaaSInventory_def zero_DBaaSOperatorInventorySpec_def zero_DBaaSConnection_def
      zero_DBaaSConnectionSpec_def zero_DBaaSInventoryStatus_def zero_DBaaSConnectionStatus_def
      zero_DBaaSInstance_def zero_DBaaSInstanceStatus_def zero_DBaaSPolicy_def
      zero_DBaaSPolicySpec_def zero_DBaaSInventoryPolicy_def zero_DBaaSProvider_def
      zero_DBaaSProviderSpec_def)

end
