(* ===== verification/Reconciler.thy ===== *)
theory Reconciler
  imports Conversion Metrics Example_World
begin

section \<open>The common reconciler\<close>

text \<open>
  \<open>controllers/dbaas_reconciler.go\<close>: the operations the inventory, connection, instance,
  policy and provider controllers share. Logging is not modelled.

  The generic operations take the DBaaS object as a value and return the object as it is
  afterwards; a callback that mutates the object through its pointer is a function on the
  object. What the code needs of an object's Go type is a record of operations
  (\<open>dbaas_ops\<close>), of which there is one for each of the three kinds of objects.
\<close>

abbreviation rdsProvider :: string where "rdsProvider \<equiv> ''rds-registration''"

subsection \<open>Objects\<close>

record 'o dbaas_ops =
  o_TypeName :: string
  o_ObjectMeta :: "'o \<Rightarrow> ObjectMeta"
  o_Conditions :: "'o \<Rightarrow> Condition list"
  o_SetConditions :: "Condition list \<Rightarrow> 'o \<Rightarrow> 'o"
  o_StatusUpdateEvent :: "'o \<Rightarrow> event"
  o_StatusUpdate :: "env \<Rightarrow> history \<Rightarrow> 'o \<Rightarrow> go_error + 'o"

text \<open>\<open>r.Client.Status().Update(ctx, object)\<close>.\<close>

definition statusUpdate :: "env \<Rightarrow> 'o dbaas_ops \<Rightarrow> 'o \<Rightarrow> (go_error + 'o) prog" where
  "statusUpdate E ops x = call (o_StatusUpdateEvent ops x) (\<lambda>h. o_StatusUpdate ops E h x)"

definition inventory_ops :: "DBaaSInventory dbaas_ops" where
  "inventory_ops = \<lparr>o_TypeName = ''DBaaSInventory'', o_ObjectMeta = inv_ObjectMeta,
     o_Conditions = inv_Conditions,
     o_SetConditions = (\<lambda>cs x. x\<lparr>inv_Status := (inv_Status x)\<lparr>ist_Conditions := cs\<rparr>\<rparr>),
     o_StatusUpdateEvent = EvStatusUpdateInventory,
     o_StatusUpdate = srv_StatusUpdateInventory\<rparr>"

definition connection_ops :: "DBaaSConnection dbaas_ops" where
  "connection_ops = \<lparr>o_TypeName = ''DBaaSConnection'', o_ObjectMeta = conn_ObjectMeta,
     o_Conditions = (\<lambda>x. cst_Conditions (conn_Status x)),
     o_SetConditions = (\<lambda>cs x. x\<lparr>conn_Status := (conn_Status x)\<lparr>cst_Conditions := cs\<rparr>\<rparr>),
     o_StatusUpdateEvent = EvStatusUpdateConnection,
     o_StatusUpdate = srv_StatusUpdateConnection\<rparr>"

definition instance_ops :: "DBaaSInstance dbaas_ops" where
  "instance_ops = \<lparr>o_TypeName = ''DBaaSInstance'', o_ObjectMeta = instance_ObjectMeta,
     o_Conditions = (\<lambda>x. inst_Conditions (instance_Status x)),
     o_SetConditions = (\<lambda>cs x. x\<lparr>instance_Status := (instance_Status x)\<lparr>inst_Conditions := cs\<rparr>\<rparr>),
     o_StatusUpdateEvent = EvStatusUpdateInstance,
     o_StatusUpdate = srv_StatusUpdateInstance\<rparr>"

subsection \<open>Providers and provider objects\<close>

definition getDBaaSProvider :: "env \<Rightarrow> string \<Rightarrow> (go_error + DBaaSProvider) prog" where
  "getDBaaSProvider E providerName = getProvider E ([], providerName)"

text \<open>\<open>DBaaSProvider.GetDBaaSAPIGroupVersion\<close> (api/v1beta1/dbaasprovider_webhook.go).\<close>

definition GetDBaaSAPIGroupVersion :: "env \<Rightarrow> DBaaSProvider \<Rightarrow> GroupVersion" where
  "GetDBaaSAPIGroupVersion E r =
     (let default = \<lparr>gv_Group = gv_Group GroupVersion_v1beta1, gv_Version = ''v1alpha1''\<rparr>
      in if ps_GroupVersion (prov_Spec r) \<noteq> [] then
           (case ParseGroupVersion E (ps_GroupVersion (prov_Spec r)) of
              Inr groupVersion \<Rightarrow> groupVersion
            | Inl err \<Rightarrow> default)
         else default)"

definition watchDBaaSProviderObject ::
    "env \<Rightarrow> string \<Rightarrow> string \<Rightarrow> string \<Rightarrow> GroupVersion \<Rightarrow> (go_error option) prog" where
  "watchDBaaSProviderObject E ctl ownerType providerObjectKind providerGroupVersion =
     watch E ctl ownerType \<lparr>gvk_Group = gv_Group providerGroupVersion,
       gvk_Version = gv_Version providerGroupVersion, gvk_Kind = providerObjectKind\<rparr>"

definition createProviderObject :: "ObjectMeta \<Rightarrow> GroupVersion \<Rightarrow> string \<Rightarrow> Unstructured" where
  "createProviderObject obj groupVersion providerObjectKind =
     \<lparr>u_GVK = \<lparr>gvk_Group = gv_Group groupVersion, gvk_Version = gv_Version groupVersion,
               gvk_Kind = providerObjectKind\<rparr>,
      u_ObjectMeta = named_meta (om_Namespace obj) (om_Name obj),
      u_Spec = None, u_Content = []\<rparr>"

definition providerObjectMutateFn ::
    "env \<Rightarrow> 'o dbaas_ops \<Rightarrow> 'o \<Rightarrow> ProviderSpec \<Rightarrow> Unstructured MutateFn" where
  "providerObjectMutateFn E ops obj spec = (\<lambda>providerObject.
     let u = providerObject\<lparr>u_Spec := Some spec\<rparr>;
         m = (u_ObjectMeta u)\<lparr>om_OwnerReferences := []\<rparr>
     in case SetControllerReference E (o_TypeName ops) (o_ObjectMeta ops obj) m of
          Inl err \<Rightarrow> Inl err
        | Inr m' \<Rightarrow> Inr (u\<lparr>u_ObjectMeta := m'\<rparr>))"

definition getProviderSpecStatusVersion :: "env \<Rightarrow> DBaaSProvider \<Rightarrow> GroupVersion" where
  "getProviderSpecStatusVersion E provider =
     (if GroupVersion_String E (GetDBaaSAPIGroupVersion E provider) =
           GroupVersion_String E GroupVersion_v1alpha1 \<and>
         om_Name (prov_ObjectMeta provider) \<noteq> rdsProvider
      then GroupVersion_v1alpha1 else GroupVersion_v1beta1)"

text \<open>
  The test that the controllers' callbacks make:
  \<open>r.getProviderSpecStatusVersion(provider).String() == v1alpha1.GroupVersion.String()\<close>.
\<close>

definition uses_v1alpha1 :: "env \<Rightarrow> DBaaSProvider \<Rightarrow> bool" where
  "uses_v1alpha1 E provider \<longleftrightarrow>
     GroupVersion_String E (getProviderSpecStatusVersion E provider) =
     GroupVersion_String E GroupVersion_v1alpha1"

lemma default_uses_v1alpha1:
  "GroupVersion_String E = GroupVersion_String ref_env \<Longrightarrow> uses_v1alpha1 E zero_DBaaSProvider"
  by (simp add: uses_v1alpha1_def getProviderSpecStatusVersion_def GetDBaaSAPIGroupVersion_def
      Let_def env_simps GroupVersion_v1alpha1_def GroupVersion_v1beta1_def)

lemma demo_uses_v1alpha1 [env_simps]: "uses_v1alpha1 demo_env zero_DBaaSProvider"
  by (rule default_uses_v1alpha1) (simp add: env_simps)

subsection \<open>Policies and namespaces\<close>

fun contains :: "string list \<Rightarrow> string \<Rightarrow> bool" where
  "contains [] str = False"
| "contains (v # s) str = (if v = str then True else contains s str)"

definition policyListByNS :: "env \<Rightarrow> string \<Rightarrow> (go_error + DBaaSPolicy list) prog" where
  "policyListByNS E ns = listPolicies E ns"

text \<open>\<open>getActivePolicy\<close> (dbaaspolicy_controller.go).\<close>

fun getActivePolicy :: "env \<Rightarrow> DBaaSPolicy list \<Rightarrow> DBaaSPolicy option" where
  "getActivePolicy E [] = None"
| "getActivePolicy E (p # ps) =
     (if IsStatusConditionTrue E (pol_Conditions p) DBaaSPolicyReadyType then Some p
      else getActivePolicy E ps)"

text \<open>
  The connection settings that apply to an inventory: its own policy if it has one, else the
  active policy's.
\<close>

definition effective_connections ::
    "DBaaSInventory \<Rightarrow> DBaaSPolicy option \<Rightarrow> string list \<times> LabelSelector option" where
  "effective_connections inventory activePolicy =
     (case ois_Policy (inv_Spec inventory) of
        Some p \<Rightarrow> ((case cp_Namespaces (ip_Connections p) of None \<Rightarrow> [] | Some nss \<Rightarrow> nss),
                   cp_NsSelector (ip_Connections p))
      | None \<Rightarrow>
          (case activePolicy of
             None \<Rightarrow> ([], None)
           | Some a \<Rightarrow>
              ((case cp_Namespaces (ip_Connections (pol_Policy a)) of None \<Rightarrow> [] | Some nss \<Rightarrow> nss),
               cp_NsSelector (ip_Connections (pol_Policy a)))))"

definition isValidConnectionNS ::
    "env \<Rightarrow> string \<Rightarrow> DBaaSInventory \<Rightarrow> DBaaSPolicy option \<Rightarrow> (go_error + bool) prog" where
  "isValidConnectionNS E ns inventory activePolicy =
     (if ns = inv_Namespace inventory then ret (Inr True)
      else
        let (validNamespaces, validNsSelector) = effective_connections inventory activePolicy
        in if contains validNamespaces ''*'' \<or> contains validNamespaces ns then ret (Inr True)
           else case validNsSelector of
             None \<Rightarrow> ret (Inr (contains validNamespaces ns))
           | Some sel \<Rightarrow>
               (case LabelSelectorAsSelector E sel of
                  Inl err \<Rightarrow> ret (Inl err)
                | Inr selector \<Rightarrow> do {
                    r \<leftarrow> listNamespaces E selector;
                    case r of
                      Inl err \<Rightarrow> ret (Inl err)
                    | Inr items \<Rightarrow>
                        ret (Inr (contains
                          (validNamespaces @ map (\<lambda>n. om_Name (nsp_ObjectMeta n)) items) ns))
                  }))"

definition canProvision :: "DBaaSInventory \<Rightarrow> DBaaSPolicy option \<Rightarrow> bool" where
  "canProvision inventory activePolicy =
     (case activePolicy of
        None \<Rightarrow> False
      | Some a \<Rightarrow>
          (case ois_Policy (inv_Spec inventory) of
             Some p \<Rightarrow> (case ip_DisableProvisions p of Some d \<Rightarrow> \<not> d | None \<Rightarrow> True)
           | None \<Rightarrow> (case ip_DisableProvisions (pol_Policy a) of Some d \<Rightarrow> \<not> d | None \<Rightarrow> True)))"

subsection \<open>Reconciling a provider resource\<close>

text \<open>
  The callbacks the three controllers pass. The spec callback may have effects (the instance
  controller converts through the API). The object the provider's answer is parsed into, and
  the parsing, are one function. The status callback returns the object with the merged
  status and the condition, or \<open>None\<close> where its type assertion would fail.
\<close>

record ('o, 'p) provider_callbacks =
  providerObjectKindFn :: "DBaaSProvider \<Rightarrow> string"
  DBaaSObjectSpecFn :: "'o \<Rightarrow> ProviderSpec prog"
  parseProviderObject :: "Unstructured \<Rightarrow> go_error + 'p"
  DBaaSObjectSyncStatusFn :: "'o \<Rightarrow> 'p \<Rightarrow> (Condition \<times> 'o) option"

text \<open>What the body of \<open>reconcileProviderResource\<close> leaves behind for its deferred function.\<close>

record 'o body_result =
  b_result :: ctrl_Result
  b_recErr :: "go_error option"
  b_condition :: Condition
  b_object :: 'o
  b_panicked :: bool

definition initial_condition :: "env \<Rightarrow> 'o dbaas_ops \<Rightarrow> 'o \<Rightarrow> string \<Rightarrow> Condition" where
  "initial_condition E ops obj readyType =
     (case FindStatusCondition E (o_Conditions ops obj) readyType of
        Some cond \<Rightarrow> cond
      | None \<Rightarrow> mkCondition readyType ConditionFalse ProviderReconcileInprogress
                  MsgProviderCRReconcileInProgress)"

definition reconcileProviderResource_body ::
    "env \<Rightarrow> 'o dbaas_ops \<Rightarrow> ('o, 'p) provider_callbacks \<Rightarrow> string \<Rightarrow> string \<Rightarrow> 'o \<Rightarrow>
     'o body_result prog" where
  "reconcileProviderResource_body E ops cb providerName readyType obj =
     (let condition = initial_condition E ops obj readyType;
          finish = (\<lambda>result recErr cond. \<lparr>b_result = result, b_recErr = recErr,
                      b_condition = cond, b_object = obj, b_panicked = False\<rparr>)
      in do {
        r \<leftarrow> getDBaaSProvider E providerName;
        case r of
          Inl err \<Rightarrow>
            ret (finish Result_zero (Some err)
              (if IsNotFound err
               then mkCondition readyType ConditionFalse DBaaSProviderNotFound (err_msg err)
               else condition))
        | Inr provider \<Rightarrow> do {
            spec \<leftarrow> DBaaSObjectSpecFn cb obj;
            r \<leftarrow> createOrUpdateProviderObject E
                   (createProviderObject (o_ObjectMeta ops obj)
                      (GetDBaaSAPIGroupVersion E provider) (providerObjectKindFn cb provider))
                   (providerObjectMutateFn E ops obj spec);
            case r of
              Inl err \<Rightarrow>
                ret (if IsConflict err then finish Result_requeue None condition
                     else finish Result_zero (Some err)
                       (mkCondition readyType ConditionFalse ProviderReconcileError (err_msg err)))
            | Inr (providerObject, res) \<Rightarrow>
                (case parseProviderObject cb providerObject of
                   Inl err \<Rightarrow>
                     ret (finish Result_zero (Some err)
                       (mkCondition readyType ConditionFalse ProviderParsingError (err_msg err)))
                 | Inr DBaaSProviderObject \<Rightarrow>
                     (case DBaaSObjectSyncStatusFn cb obj DBaaSProviderObject of
                        None \<Rightarrow> ret ((finish Result_zero None condition)\<lparr>b_panicked := True\<rparr>)
                      | Some (cond, obj') \<Rightarrow>
                          ret ((finish Result_zero None cond)\<lparr>b_object := obj'\<rparr>)))
          }
      })"

text \<open>The deferred function: the status is always updated.\<close>

definition reconcileProviderResource_deferred ::
    "env \<Rightarrow> 'o dbaas_ops \<Rightarrow> 'o body_result \<Rightarrow> (outcome \<times> 'o) prog" where
  "reconcileProviderResource_deferred E ops b =
     (let obj = o_SetConditions ops
                  (SetStatusCondition E (o_Conditions ops (b_object b)) (b_condition b)) (b_object b)
      in do {
        r \<leftarrow> statusUpdate E ops obj;
        ret (case r of
               Inl err \<Rightarrow>
                 (if b_panicked b then Panicked
                  else if IsConflict err then Returned Result_requeue (b_recErr b)
                  else Returned (b_result b)
                         (if b_recErr b = None then Some err else b_recErr b), obj)
             | Inr obj' \<Rightarrow>
                 (if b_panicked b then Panicked else Returned (b_result b) (b_recErr b), obj'))
      })"

definition reconcileProviderResource ::
    "env \<Rightarrow> 'o dbaas_ops \<Rightarrow> ('o, 'p) provider_callbacks \<Rightarrow> string \<Rightarrow> string \<Rightarrow> 'o \<Rightarrow>
     (outcome \<times> 'o) prog" where
  "reconcileProviderResource E ops cb providerName readyType obj = do {
     b \<leftarrow> reconcileProviderResource_body E ops cb providerName readyType obj;
     reconcileProviderResource_deferred E ops b
   }"

subsection \<open>Checking the inventory of a connection or an instance\<close>

text \<open>\<open>fmt.Sprintf("%v", ref)\<close> of a reference.\<close>

definition format_ref :: "NamespacedName \<Rightarrow> string" where
  "format_ref r = ''{'' @ nn_Namespace r @ '' '' @ nn_Name r @ ''}''"

record 'o check_result =
  ck_inventory :: DBaaSInventory
  ck_validNS :: bool
  ck_provision :: bool
  ck_err :: "go_error option"
  ck_object :: 'o

text \<open>\<open>Status().Update\<close> whose error is only logged.\<close>

definition try_status_update :: "env \<Rightarrow> 'o dbaas_ops \<Rightarrow> 'o \<Rightarrow> 'o prog" where
  "try_status_update E ops obj = do {
     r \<leftarrow> statusUpdate E ops obj;
     ret (case r of Inl errCond \<Rightarrow> obj | Inr obj' \<Rightarrow> obj')
   }"

definition checkInventory ::
    "env \<Rightarrow> 'o dbaas_ops \<Rightarrow> (string \<Rightarrow> string \<Rightarrow> 'o \<Rightarrow> 'o) \<Rightarrow> NamespacedName \<Rightarrow> 'o \<Rightarrow>
     'o check_result prog" where
  "checkInventory E ops statusErrorFn inventoryRef obj =
     (let result = (\<lambda>inventory validNS provision err obj.
            \<lparr>ck_inventory = inventory, ck_validNS = validNS, ck_provision = provision,
             ck_err = err, ck_object = obj\<rparr>)
      in do {
        r \<leftarrow> getInventory E (key_of_ref inventoryRef);
        case r of
          Inl err \<Rightarrow>
            if IsNotFound err then do {
              obj' \<leftarrow> try_status_update E ops
                (statusErrorFn DBaaSInventoryNotFound (err_msg err) obj);
              ret (result zero_DBaaSInventory False False (Some err) obj')
            } else ret (result zero_DBaaSInventory False False (Some err) obj)
        | Inr inventory \<Rightarrow> do {
            r \<leftarrow> policyListByNS E (inv_Namespace inventory);
            case r of
              Inl err \<Rightarrow> ret (result inventory False False (Some err) obj)
            | Inr policyList \<Rightarrow>
                (let activePolicy = getActivePolicy E policyList;
                     provision = canProvision inventory activePolicy
                 in do {
                   r \<leftarrow> isValidConnectionNS E (om_Namespace (o_ObjectMeta ops obj)) inventory
                          activePolicy;
                   case r of
                     Inl err \<Rightarrow> ret (result inventory False provision (Some err) obj)
                   | Inr validNS \<Rightarrow>
                       if validNS then
                         (let invCond = FindStatusCondition E (inv_Conditions inventory)
                                DBaaSInventoryReadyType
                          in if (case invCond of None \<Rightarrow> True
                                 | Some c \<Rightarrow> c_Status c = ConditionFalse) then do {
                               obj' \<leftarrow> try_status_update E ops
                                 (statusErrorFn DBaaSInventoryNotReady MsgInventoryNotReady obj);
                               ret (result inventory validNS provision
                                 (Some (OtherError (''inventory '' @ format_ref inventoryRef @
                                    '' is not ready''))) obj')
                             }
                             else if \<not> provision \<and> o_TypeName ops = ''DBaaSInstance'' then do {
                               obj' \<leftarrow> try_status_update E ops
                                 (statusErrorFn DBaaSInventoryNotProvisionable
                                    MsgInventoryNotProvisionable obj);
                               ret (result inventory validNS provision
                                 (Some (OtherError (''inventory '' @ format_ref inventoryRef @
                                    '' provisioning is disabled''))) obj')
                             }
                             else ret (result inventory validNS provision None obj))
                       else do {
                         obj' \<leftarrow> try_status_update E ops
                           (statusErrorFn DBaaSInvalidNamespace MsgInvalidNamespace obj);
                         ret (result inventory validNS provision None obj')
                       }
                 })
          }
      })"

subsection \<open>Labels of credentials\<close>

text \<open>
  The label the provider's operator looks for, by the provider's name
  (\<open>strings.Contains(name, "mongodb")\<close>).
\<close>

definition creds_label_key :: "string \<Rightarrow> string" where
  "creds_label_key providerName =
     (if sublist ''mongodb'' providerName then TypeLabelKeyMongo else TypeLabelKey)"

definition checkCredsRefLabel :: "env \<Rightarrow> DBaaSInventory \<Rightarrow> (go_error option) prog" where
  "checkCredsRefLabel E inventory =
     (case inv_CredentialsRef inventory of
        None \<Rightarrow> ret None
      | Some ref \<Rightarrow>
          if lor_Name ref = [] then ret None
          else
            let key = (inv_Namespace inventory, lor_Name ref)
            in do {
              r \<leftarrow> getSecret E key;
              case r of
                Inl err \<Rightarrow> ret (Some err)
              | Inr secret \<Rightarrow>
                  let k = creds_label_key (inv_ProviderName inventory);
                      labels = (if gomap_get [] (om_Labels (sec_ObjectMeta secret)) k \<noteq> TypeLabelValue
                                then [(k, TypeLabelValue)] else []);
                      secretPatch = \<lparr>sec_ObjectMeta = zero_ObjectMeta\<lparr>om_Labels := labels\<rparr>,
                                     sec_Data = []\<rparr>
                  in if om_Labels (sec_ObjectMeta secretPatch) \<noteq> [] then
                       (case MarshalSecret E secretPatch of
                          Inl err \<Rightarrow> ret (Some err)
                        | Inr patchBytes \<Rightarrow> patchSecret E key patchBytes)
                     else ret None
            })"

subsection \<open>Ownership\<close>

fun owner_ref_in :: "OwnerReference list \<Rightarrow> OwnerReference list \<Rightarrow> bool" where
  "owner_ref_in [] refs = False"
| "owner_ref_in (ownerRef # rs) refs =
     (if list_ex (\<lambda>ref. ownerRef = ref) refs then True else owner_ref_in rs refs)"

definition isOwner :: "env \<Rightarrow> string \<Rightarrow> ObjectMeta \<Rightarrow> ObjectMeta \<Rightarrow> bool \<times> go_error option" where
  "isOwner E ownerType owner ownedObj =
     (case SetControllerReference E ownerType owner (named_meta (om_Namespace owner) []) of
        Inl err \<Rightarrow> (False, Some err)
      | Inr exampleObj \<Rightarrow>
          (owner_ref_in (om_OwnerReferences exampleObj) (om_OwnerReferences ownedObj), None))"

text \<open>\<open>os.LookupEnv\<close> is the argument \<open>lookup\<close>.\<close>

definition GetInstallNamespace :: "(string \<Rightarrow> string option) \<Rightarrow> go_error + string" where
  "GetInstallNamespace lookup =
     (case lookup ''INSTALL_NAMESPACE'' of
        None \<Rightarrow> Inl (OtherError ''INSTALL_NAMESPACE must be set'')
      | Some ns \<Rightarrow> Inr ns)"

subsection \<open>Namespaces and provisioning\<close>

lemma contains_iff [simp]: "contains s str \<longleftrightarrow> str \<in> set s"
  by (induction s) auto

lemma getActivePolicy_None_iff:
  "getActivePolicy E ps = None \<longleftrightarrow>
     (\<forall>p \<in> set ps. \<not> IsStatusConditionTrue E (pol_Conditions p) DBaaSPolicyReadyType)"
  by (induction ps) auto

lemma getActivePolicy_SomeD:
  "getActivePolicy E ps = Some p \<Longrightarrow>
     p \<in> set ps \<and> IsStatusConditionTrue E (pol_Conditions p) DBaaSPolicyReadyType"
  by (induction ps) (auto split: if_splits)

lemma only_isValidConnectionNS [only_intros]:
  "(\<And>e. is_read e \<Longrightarrow> P e) \<Longrightarrow> only P (isValidConnectionNS E ns inventory activePolicy)"
  unfolding isValidConnectionNS_def by (intro only_intros; simp)

text \<open>A namespace is a valid connection namespace exactly if it is the inventory's own, or the
  settings that apply (those of the inventory's policy if it has one, else of the active
  policy) list it or the wildcard, or their selector selects it.\<close>

theorem valid_connection_namespace_iff:
  "fst (run_state (isValidConnectionNS E ns inventory activePolicy) h) = Inr True \<longleftrightarrow>
   (let (nss, sel) = effective_connections inventory activePolicy
    in ns = inv_Namespace inventory \<or> ''*'' \<in> set nss \<or> ns \<in> set nss \<or>
       (\<exists>s q items. sel = Some s \<and> LabelSelectorAsSelector E s = Inr q \<and>
          srv_ListNamespaces E h q = Inr items \<and>
          ns \<in> (\<lambda>n. om_Name (nsp_ObjectMeta n)) ` set items))"
  by (auto simp: isValidConnectionNS_def split: option.splits sum.splits prod.splits)

text \<open>The policy of an inventory takes precedence: with one, the active policy is not
  consulted for namespaces at all, and for provisioning only its existence counts; without
  an active policy nothing can be provisioned.\<close>

theorem inventory_policy_overrides:
  "canProvision inventory None = False \<and>
   (ois_Policy (inv_Spec inventory) = Some p \<longrightarrow>
      isValidConnectionNS E ns inventory a = isValidConnectionNS E ns inventory b \<and>
      canProvision inventory (Some c) = (ip_DisableProvisions p \<noteq> Some True)) \<and>
   (ois_Policy (inv_Spec inventory) = None \<longrightarrow>
      canProvision inventory (Some c) = (ip_DisableProvisions (pol_Policy c) \<noteq> Some True))"
  by (auto simp: canProvision_def isValidConnectionNS_def effective_connections_def
      split: option.splits)

theorem inventory_policy_overrides_witness:
  "canProvision (zero_DBaaSInventory\<lparr>inv_Spec := zero_DBaaSOperatorInventorySpec\<lparr>ois_Policy :=
      Some zero_DBaaSInventoryPolicy\<rparr>\<rparr>) (Some (zero_DBaaSPolicy\<lparr>pol_Spec :=
      \<lparr>pols_DBaaSInventoryPolicy = zero_DBaaSInventoryPolicy\<lparr>ip_DisableProvisions := Some True\<rparr>\<rparr>\<rparr>)) \<and>
   \<not> canProvision zero_DBaaSInventory (Some (zero_DBaaSPolicy\<lparr>pol_Spec :=
      \<lparr>pols_DBaaSInventoryPolicy = zero_DBaaSInventoryPolicy\<lparr>ip_DisableProvisions := Some True\<rparr>\<rparr>\<rparr>))"
  using inventory_policy_overrides [of "zero_DBaaSInventory\<lparr>inv_Spec :=
      zero_DBaaSOperatorInventorySpec\<lparr>ois_Policy := Some zero_DBaaSInventoryPolicy\<rparr>\<rparr>"
      zero_DBaaSInventoryPolicy]
    inventory_policy_overrides [of zero_DBaaSInventory]
  by (simp add: zero_DBaaSInventory_def zero_DBaaSOperatorInventorySpec_def
      zero_DBaaSInventoryPolicy_def)

subsection \<open>The contract of a DBaaS object and of a status callback\<close>

text \<open>
  What \<open>reconcileProviderResource\<close> relies on. Of the object: its conditions can be set, and
  setting them leaves the metadata; its status update is the status update event. Of the
  callbacks: the spec callback only reads, the status callback never fails its type assertion
  on what was parsed, keeps the metadata, and returns a condition of the ready type, which is
  true exactly for a provider object that is synced.
\<close>

locale dbaas_object =
  fixes ops :: "'o dbaas_ops"
  assumes conditions_set: "o_Conditions ops (o_SetConditions ops cs x) = cs"
    and meta_set: "o_ObjectMeta ops (o_SetConditions ops cs x) = o_ObjectMeta ops x"
    and event_is_update: "is_status_update (o_StatusUpdateEvent ops x)"
    and event_inj: "o_StatusUpdateEvent ops x = o_StatusUpdateEvent ops y \<longleftrightarrow> x = y"

locale provider_contract = dbaas_object ops
  for ops :: "'o dbaas_ops" +
  fixes E :: env
    and cb :: "('o, 'p) provider_callbacks"
    and readyType :: string
    and synced :: "'p \<Rightarrow> bool"
  assumes spec_reads: "only is_read (DBaaSObjectSpecFn cb x)"
    and sync_total: "parseProviderObject cb u = Inr p \<Longrightarrow> DBaaSObjectSyncStatusFn cb x p \<noteq> None"
    and sync_condition: "parseProviderObject cb u = Inr p \<Longrightarrow>
       DBaaSObjectSyncStatusFn cb x p = Some (c, x') \<Longrightarrow>
       c_Type c = readyType \<and> (c_Status c = ConditionTrue \<longleftrightarrow> synced p) \<and>
       o_ObjectMeta ops x' = o_ObjectMeta ops x"

interpretation inventory_obj: dbaas_object inventory_ops
  by unfold_locales (simp_all add: inventory_ops_def)

interpretation connection_obj: dbaas_object connection_ops
  by unfold_locales (simp_all add: connection_ops_def)

interpretation instance_obj: dbaas_object instance_ops
  by unfold_locales (simp_all add: instance_ops_def)

subsection \<open>What reconciling a provider resource does\<close>

text \<open>
  Why a status that the operator writes may say ready: either it said so before, and this
  time the operator got no further (the provider could not be read, or the provider object
  was modified concurrently); or the provider object was just written, and what the API
  server returned for it is synced.
\<close>

definition ready_justified ::
    "env \<Rightarrow> 'o dbaas_ops \<Rightarrow> (Unstructured \<Rightarrow> go_error + 'p) \<Rightarrow> ('p \<Rightarrow> bool) \<Rightarrow> string \<Rightarrow> 'o \<Rightarrow>
     event list \<Rightarrow> bool" where
  "ready_justified E ops parse synced readyType obj t \<longleftrightarrow>
     IsStatusConditionTrue E (o_Conditions ops obj) readyType \<or>
     (\<exists>h' x f u r p. EvCreateOrUpdateProviderObject x f \<in> set t \<and>
        key_of (u_ObjectMeta x) = key_of (o_ObjectMeta ops obj) \<and>
        srv_CreateOrUpdateProviderObject E h' x f = Inr (u, r) \<and>
        parse u = Inr p \<and> synced p)"

lemma initial_condition_type:
  "conditions_contract E \<Longrightarrow> c_Type (initial_condition E ops obj ty) = ty"
  by (auto simp: initial_condition_def dest: find_type split: option.splits)

lemma initial_condition_true:
  "conditions_contract E \<Longrightarrow> c_Status (initial_condition E ops obj ty) = ConditionTrue \<Longrightarrow>
     IsStatusConditionTrue E (o_Conditions ops obj) ty"
  by (auto simp: initial_condition_def is_true_iff split: option.splits)

context provider_contract
begin

lemma body_spec:
  assumes "conditions_contract E"
  shows "runs (reconcileProviderResource_body E ops cb providerName readyType obj) h (\<lambda>b t.
    \<not> b_panicked b \<and> c_Type (b_condition b) = readyType \<and>
    o_ObjectMeta ops (b_object b) = o_ObjectMeta ops obj \<and>
    list_all (\<lambda>e. is_read e \<or> is_provider_write e) t \<and>
    (c_Status (b_condition b) = ConditionTrue \<longrightarrow>
       ready_justified E ops (parseProviderObject cb) synced readyType obj t))"
proof -
  have keep: "c_Status (initial_condition E ops obj readyType) = ConditionTrue \<longrightarrow>
      ready_justified E ops (parseProviderObject cb) synced readyType obj t" for t
    using initial_condition_true [OF assms] by (auto simp: ready_justified_def)
  have written: "ready_justified E ops (parseProviderObject cb) synced readyType obj
      (e # t @ [EvCreateOrUpdateProviderObject (createProviderObject (o_ObjectMeta ops obj) gv k) f])"
    if "srv_CreateOrUpdateProviderObject E h' (createProviderObject (o_ObjectMeta ops obj) gv k) f
        = Inr (u, r)" "parseProviderObject cb u = Inr p" "synced p" for h' gv k f u r p t e
    using that unfolding ready_justified_def
    by (force simp: createProviderObject_def key_of_def)
  show ?thesis
    unfolding reconcileProviderResource_body_def Let_def getDBaaSProvider_def
    apply (intro runs_intros runs_only [OF spec_reads])
        apply (simp add: initial_condition_type [OF assms] keep)
    subgoal by (auto simp: initial_condition_type [OF assms] keep elim: list.pred_mono_strong)
    subgoal by (auto simp: elim: list.pred_mono_strong)
    subgoal using sync_total by auto
    subgoal using sync_condition by (auto intro: written elim: list.pred_mono_strong)
    done
qed

text \<open>
  The whole operation: it never panics; all it does besides reads and provider object writes
  is one status update, the last event; and the status it sends says ready only for one of
  the reasons of \<open>ready_justified\<close>.
\<close>

lemma reconcile_spec:
  assumes "conditions_contract E"
  shows "runs (reconcileProviderResource E ops cb providerName readyType obj) h (\<lambda>r t.
    (\<exists>res err. fst r = Returned res err) \<and>
    (\<exists>t0 x. t = t0 @ [o_StatusUpdateEvent ops x] \<and>
       list_all (\<lambda>e. is_read e \<or> is_provider_write e) t0 \<and>
       o_ObjectMeta ops x = o_ObjectMeta ops obj \<and>
       (IsStatusConditionTrue E (o_Conditions ops x) readyType \<longrightarrow>
          ready_justified E ops (parseProviderObject cb) synced readyType obj t0)))"
  unfolding reconcileProviderResource_def
proof (rule runs_bind, rule runs_conseq [OF body_spec [OF assms]])
  fix b :: "'o body_result" and t
  assume b: "\<not> b_panicked b \<and> c_Type (b_condition b) = readyType \<and>
    o_ObjectMeta ops (b_object b) = o_ObjectMeta ops obj \<and>
    list_all (\<lambda>e. is_read e \<or> is_provider_write e) t \<and>
    (c_Status (b_condition b) = ConditionTrue \<longrightarrow>
       ready_justified E ops (parseProviderObject cb) synced readyType obj t)"
  let ?x = "o_SetConditions ops
    (SetStatusCondition E (o_Conditions ops (b_object b)) (b_condition b)) (b_object b)"
  have x: "o_ObjectMeta ops ?x = o_ObjectMeta ops obj"
    "IsStatusConditionTrue E (o_Conditions ops ?x) readyType \<longleftrightarrow>
       c_Status (b_condition b) = ConditionTrue"
    using b is_true_set_same [OF assms, of _ "b_condition b"]
    by (simp_all add: meta_set conditions_set)
  show "runs (reconcileProviderResource_deferred E ops b) (h @ t) (\<lambda>r u.
    (\<exists>res err. fst r = Returned res err) \<and>
    (\<exists>t0 x. t @ u = t0 @ [o_StatusUpdateEvent ops x] \<and>
       list_all (\<lambda>e. is_read e \<or> is_provider_write e) t0 \<and>
       o_ObjectMeta ops x = o_ObjectMeta ops obj \<and>
       (IsStatusConditionTrue E (o_Conditions ops x) readyType \<longrightarrow>
          ready_justified E ops (parseProviderObject cb) synced readyType obj t0)))"
    unfolding reconcileProviderResource_deferred_def Let_def statusUpdate_def
    apply (intro runs_intros)
    using b x by (auto split: sum.splits)
qed

lemma only_reconcile:
  assumes "\<And>e. is_read e \<or> is_provider_write e \<or> is_status_update e \<Longrightarrow> P e"
  shows "only P (reconcileProviderResource E ops cb providerName readyType obj)"
  unfolding reconcileProviderResource_def reconcileProviderResource_body_def
    reconcileProviderResource_deferred_def Let_def getDBaaSProvider_def statusUpdate_def
  by (intro only_intros only_mono [OF spec_reads]) (simp_all add: assms event_is_update)

end

subsection \<open>The inventory gate\<close>

text \<open>
  When an inventory admits an object of Go type \<open>ty\<close> in namespace \<open>ns\<close>: the referenced
  inventory exists, its namespace's policies can be listed, the object's namespace is a valid
  connection namespace, the inventory's ready condition is present and not false, and an
  instance may be provisioned. The histories are those at which the operator asks, when it
  starts to check after \<open>h\<close>.
\<close>

definition inventory_admits ::
    "env \<Rightarrow> history \<Rightarrow> string \<Rightarrow> string \<Rightarrow> NamespacedName \<Rightarrow> DBaaSInventory \<Rightarrow> bool" where
  "inventory_admits E h ty ns ref inventory \<longleftrightarrow>
     srv_GetInventory E h (key_of_ref ref) = Inr inventory \<and>
     (\<exists>policies. srv_ListPolicies E (h @ [EvGetInventory (key_of_ref ref)])
          (inv_Namespace inventory) = Inr policies \<and>
        fst (run_state (isValidConnectionNS E ns inventory (getActivePolicy E policies))
          (h @ [EvGetInventory (key_of_ref ref), EvListPolicies (inv_Namespace inventory)]))
          = Inr True \<and>
        (ty = ''DBaaSInstance'' \<longrightarrow> canProvision inventory (getActivePolicy E policies))) \<and>
     (\<exists>c. FindStatusCondition E (inv_Conditions inventory) DBaaSInventoryReadyType = Some c \<and>
        c_Status c \<noteq> ConditionFalse)"

text \<open>
  The contract of a status error function: it puts a false ready condition with the given
  reason and message among the conditions.
\<close>

locale gated_object = dbaas_object ops
  for ops :: "'o dbaas_ops" +
  fixes E :: env
    and statusErrorFn :: "string \<Rightarrow> string \<Rightarrow> 'o \<Rightarrow> 'o"
    and readyType :: string
  assumes error_conditions: "o_Conditions ops (statusErrorFn reason msg x) =
      SetStatusCondition E (o_Conditions ops x) (mkCondition readyType ConditionFalse reason msg)"
begin

lemma error_not_ready:
  "conditions_contract E \<Longrightarrow>
     \<not> IsStatusConditionTrue E (o_Conditions ops (statusErrorFn reason msg x)) readyType"
  using is_true_set_same [of E _ "mkCondition readyType ConditionFalse reason msg"]
  by (simp add: error_conditions)

lemma check_spec:
  "runs (checkInventory E ops statusErrorFn ref obj) h (\<lambda>ck t.
    (ck_err ck = None \<and> ck_validNS ck \<longleftrightarrow>
       inventory_admits E h (o_TypeName ops) (om_Namespace (o_ObjectMeta ops obj)) ref
         (ck_inventory ck)) \<and>
    (ck_err ck = None \<and> ck_validNS ck \<longrightarrow> list_all is_read t \<and> ck_object ck = obj \<and>
       (o_TypeName ops = ''DBaaSInstance'' \<longrightarrow> ck_provision ck)) \<and>
    (\<not> (ck_err ck = None \<and> ck_validNS ck) \<longrightarrow>
       list_all is_read t \<and> ck_object ck = obj \<and> ck_err ck \<noteq> None \<or>
       (\<exists>t0 reason msg. list_all is_read t0 \<and>
          t = t0 @ [o_StatusUpdateEvent ops (statusErrorFn reason msg obj)])))"
  unfolding checkInventory_def Let_def policyListByNS_def try_status_update_def statusUpdate_def
  apply (intro runs_intros runs_only_value [OF only_isValidConnectionNS [of is_read]])
  apply (auto simp: inventory_admits_def split: option.splits)
  done

lemma only_checkInventory [only_intros]:
  assumes "\<And>e. is_read e \<or> is_status_update e \<Longrightarrow> P e"
  shows "only P (checkInventory E ops statusErrorFn ref obj)"
  unfolding checkInventory_def Let_def policyListByNS_def try_status_update_def statusUpdate_def
  by (intro only_intros only_isValidConnectionNS) (simp_all add: assms event_is_update)

end

subsection \<open>API versions, labels and owners\<close>

text \<open>
  Documented behaviour of \<open>schema.ParseGroupVersion\<close>: it turns a group/version string into a
  GroupVersion, the inverse of \<open>GroupVersion.String()\<close> on the versions of this API.
\<close>

definition gv_parse_contract :: "env \<Rightarrow> bool" where
  "gv_parse_contract E \<longleftrightarrow>
     (\<forall>gv \<in> {GroupVersion_v1alpha1, GroupVersion_v1beta1}.
        ParseGroupVersion E (GroupVersion_String E gv) = Inr gv)"

lemma GetDBaaSAPIGroupVersion_default:
  "ps_GroupVersion (prov_Spec r) = [] \<or> (\<exists>e. ParseGroupVersion E (ps_GroupVersion (prov_Spec r)) = Inl e)
    \<Longrightarrow> GetDBaaSAPIGroupVersion E r = GroupVersion_v1alpha1"
  by (auto simp: GetDBaaSAPIGroupVersion_def Let_def GroupVersion_v1alpha1_def GroupVersion_v1beta1_def)

lemma uses_v1alpha1_iff:
  "gv_string_contract E \<Longrightarrow> uses_v1alpha1 E p \<longleftrightarrow>
     GroupVersion_String E (GetDBaaSAPIGroupVersion E p) = GroupVersion_String E GroupVersion_v1alpha1 \<and>
     om_Name (prov_ObjectMeta p) \<noteq> rdsProvider"
  by (auto simp: uses_v1alpha1_def getProviderSpecStatusVersion_def gv_string_contract_def)

text \<open>A provider that was created as v1alpha1, or that gives no valid group version, gets
  v1alpha1 provider objects, except the RDS provider, which always gets v1beta1 ones.\<close>

theorem provider_object_version:
  assumes "gv_string_contract E" "gv_parse_contract E"
  shows "(uses_v1alpha1 E (DBaaSProvider_ConvertTo E src dst) \<longleftrightarrow>
      om_Name (a1prov_ObjectMeta src) \<noteq> rdsProvider) \<and>
    (ps_GroupVersion (prov_Spec p) = [] \<or>
      (\<exists>e. ParseGroupVersion E (ps_GroupVersion (prov_Spec p)) = Inl e) \<longrightarrow>
      uses_v1alpha1 E p = (om_Name (prov_ObjectMeta p) \<noteq> rdsProvider))"
proof
  have "ps_GroupVersion (prov_Spec (DBaaSProvider_ConvertTo E src dst)) =
      GroupVersion_String E GroupVersion_v1alpha1"
    by (simp add: DBaaSProvider_ConvertTo_def)
  then have "GetDBaaSAPIGroupVersion E (DBaaSProvider_ConvertTo E src dst) = GroupVersion_v1alpha1"
    using assms(2) GetDBaaSAPIGroupVersion_default [of "DBaaSProvider_ConvertTo E src dst" E]
    by (cases "ps_GroupVersion (prov_Spec (DBaaSProvider_ConvertTo E src dst)) = []")
      (simp_all add: GetDBaaSAPIGroupVersion_def gv_parse_contract_def)
  then show "uses_v1alpha1 E (DBaaSProvider_ConvertTo E src dst) \<longleftrightarrow>
      om_Name (a1prov_ObjectMeta src) \<noteq> rdsProvider"
    by (simp add: uses_v1alpha1_iff [OF assms(1)] DBaaSProvider_ConvertTo_def)
next
  show "ps_GroupVersion (prov_Spec p) = [] \<or>
      (\<exists>e. ParseGroupVersion E (ps_GroupVersion (prov_Spec p)) = Inl e) \<longrightarrow>
      uses_v1alpha1 E p = (om_Name (prov_ObjectMeta p) \<noteq> rdsProvider)"
    by (simp add: uses_v1alpha1_iff [OF assms(1)] GetDBaaSAPIGroupVersion_default)
qed

lemma ref_gv_parse_contract: "gv_parse_contract ref_env"
  by (simp add: gv_parse_contract_def env_simps ref_parse_gv_def Let_def
      GroupVersion_v1alpha1_def GroupVersion_v1beta1_def)

theorem provider_object_version_witness:
  "uses_v1alpha1 ref_env (DBaaSProvider_ConvertTo ref_env zero_DBaaSProvider_v1alpha1
     zero_DBaaSProvider) \<and> uses_v1alpha1 ref_env zero_DBaaSProvider"
proof -
  note c = ref_gv_string_contract [OF refl] ref_gv_parse_contract
  have "om_Name (a1prov_ObjectMeta zero_DBaaSProvider_v1alpha1) \<noteq> rdsProvider"
    "ps_GroupVersion (prov_Spec zero_DBaaSProvider) = []"
    "om_Name (prov_ObjectMeta zero_DBaaSProvider) \<noteq> rdsProvider"
    by (simp_all add: zero_DBaaSProvider_v1alpha1_def zero_DBaaSProvider_def
        zero_DBaaSProviderSpec_def)
  then show ?thesis
    using provider_object_version [OF c] by blast
qed

text \<open>The credentials secret of an inventory is patched exactly when it can be read, lacks
  the label its provider looks for, and the patch can be encoded; the patch carries that one
  label and nothing else of the secret, and no other request than the read is made.\<close>

theorem credentials_label_patched:
  "runs (checkCredsRefLabel E inventory) h (\<lambda>err t.
     (\<forall>key b. EvPatchSecret key b \<in> set t \<longleftrightarrow>
        (\<exists>ref secret. inv_CredentialsRef inventory = Some ref \<and> lor_Name ref \<noteq> [] \<and>
           key = (inv_Namespace inventory, lor_Name ref) \<and>
           srv_GetSecret E h key = Inr secret \<and>
           gomap_get [] (om_Labels (sec_ObjectMeta secret))
             (creds_label_key (inv_ProviderName inventory)) \<noteq> TypeLabelValue \<and>
           MarshalSecret E \<lparr>sec_ObjectMeta = zero_ObjectMeta\<lparr>om_Labels :=
               [(creds_label_key (inv_ProviderName inventory), TypeLabelValue)]\<rparr>,
             sec_Data = []\<rparr> = Inr b)) \<and>
     list_all (\<lambda>e. (\<exists>key. e = EvGetSecret key) \<or> (\<exists>key b. e = EvPatchSecret key b)) t)"
  unfolding checkCredsRefLabel_def Let_def
  by (intro runs_intros) (auto split: if_splits)

lemma only_checkCredsRefLabel [only_intros]:
  "(\<And>e. is_read e \<Longrightarrow> P e) \<Longrightarrow> (\<And>k b. P (EvPatchSecret k b)) \<Longrightarrow> only P (checkCredsRefLabel E inventory)"
  unfolding checkCredsRefLabel_def Let_def by (intro only_intros) simp_all

lemma owner_ref_in_iff: "owner_ref_in rs refs \<longleftrightarrow> set rs \<inter> set refs \<noteq> {}"
  by (induction rs) (auto simp: list_ex_iff)

text \<open>An object is found to own another exactly if the owner reference that the library
  would set for it is among the other's owner references; it is no owner when that reference
  cannot be built.\<close>

theorem is_owner_iff:
  "fst (isOwner E ty owner owned) \<longleftrightarrow>
     (\<exists>m r. SetControllerReference E ty owner (named_meta (om_Namespace owner) []) = Inr m \<and>
        r \<in> set (om_OwnerReferences m) \<and> r \<in> set (om_OwnerReferences owned))"
  by (auto simp: isOwner_def owner_ref_in_iff split: sum.splits)

subsection \<open>Status updates of a reconciliation\<close>

text \<open>
  \<open>updates_ok\<close>: among the events of a reconciliation there is at most one status update, and
  an object it reports ready is reported so for a reason \<open>J\<close> in the events.
\<close>

definition updates_ok ::
    "env \<Rightarrow> 'o dbaas_ops \<Rightarrow> string \<Rightarrow> (event list \<Rightarrow> bool) \<Rightarrow> event list \<Rightarrow> bool" where
  "updates_ok E ops ty J t \<longleftrightarrow>
     length (filter is_status_update t) \<le> 1 \<and>
     (\<forall>x. o_StatusUpdateEvent ops x \<in> set t \<and> IsStatusConditionTrue E (o_Conditions ops x) ty \<longrightarrow> J t)"

definition monotone_in_events :: "(event list \<Rightarrow> bool) \<Rightarrow> bool" where
  "monotone_in_events J \<longleftrightarrow> (\<forall>t t'. set t \<subseteq> set t' \<longrightarrow> J t \<longrightarrow> J t')"

lemma ready_justified_mono: "monotone_in_events (ready_justified E ops parse sy ty obj)"
  unfolding monotone_in_events_def ready_justified_def by blast

lemma monotone_ex [intro]: "(\<And>p. monotone_in_events (J p)) \<Longrightarrow> monotone_in_events (\<lambda>t. \<exists>p. J p t)"
  unfolding monotone_in_events_def by blast

lemma updates_ok_weaken:
  "updates_ok E ops ty J t \<Longrightarrow> (J t \<Longrightarrow> J' t) \<Longrightarrow> updates_ok E ops ty J' t"
  by (auto simp: updates_ok_def)

lemma telemetry_not_update: "telemetry e \<Longrightarrow> \<not> is_status_update e \<and> \<not> is_provider_write e"
  by (cases e) simp_all

abbreviation no_updates :: "event list \<Rightarrow> bool" where
  "no_updates t \<equiv> list_all (\<lambda>e. \<not> is_status_update e) t"

lemma reads_writes_ok: "list_all is_read t \<Longrightarrow> list_all (\<lambda>e. is_provider_write e \<longrightarrow> Q e) t"
  using is_read_not_write by (auto simp: list_all_iff)

lemma reads_no_updates: "list_all is_read t \<Longrightarrow> no_updates t"
  using is_read_not_write by (auto simp: list_all_iff)

lemma only_no_updates_creds: "only (\<lambda>e. \<not> is_status_update e) (checkCredsRefLabel E inventory)"
  by (intro only_intros) (auto dest: is_read_not_write)

context dbaas_object
begin

lemma updates_ok_quiet: "no_updates t \<Longrightarrow> updates_ok E ops ty J t"
  using event_is_update by (auto simp: updates_ok_def list_all_iff filter_empty_conv)

lemma updates_ok_extend:
  assumes "updates_ok E ops ty J t" "monotone_in_events J" "no_updates a" "no_updates b"
  shows "updates_ok E ops ty J (a @ t @ b)"
proof -
  have "filter is_status_update a = []" "filter is_status_update b = []"
    using assms(3,4) by (auto simp: list_all_iff filter_empty_conv)
  moreover have "o_StatusUpdateEvent ops x \<notin> set a \<union> set b" for x
    using assms(3,4) event_is_update by (auto simp: list_all_iff)
  moreover have "J t \<Longrightarrow> J (a @ t @ b)"
    using assms(2) unfolding monotone_in_events_def by (metis Un_upper1 Un_upper2 le_supI2 set_append)
  ultimately show ?thesis using assms(1) by (auto simp: updates_ok_def)
qed

lemma updates_ok_refused:
  assumes "no_updates t0" "\<not> IsStatusConditionTrue E (o_Conditions ops x) ty"
  shows "updates_ok E ops ty J (t0 @ [o_StatusUpdateEvent ops x])"
proof -
  have "filter is_status_update t0 = []"
    using assms(1) by (auto simp: list_all_iff filter_empty_conv)
  moreover have "o_StatusUpdateEvent ops y \<notin> set t0" for y
    using assms(1) event_is_update by (auto simp: list_all_iff)
  ultimately show ?thesis using assms(2) event_inj by (auto simp: updates_ok_def)
qed

end

context provider_contract
begin

lemma reconcile_updates:
  assumes "conditions_contract E"
  shows "runs (reconcileProviderResource E ops cb providerName readyType obj) h (\<lambda>r t.
    fst r \<noteq> Panicked \<and>
    updates_ok E ops readyType
      (ready_justified E ops (parseProviderObject cb) synced readyType obj) t)"
  using reconcile_spec [OF assms]
proof (rule runs_conseq)
  let ?J = "ready_justified E ops (parseProviderObject cb) synced readyType obj"
  fix r :: "outcome \<times> 'o" and t
  assume "(\<exists>res err. fst r = Returned res err) \<and>
    (\<exists>t0 x. t = t0 @ [o_StatusUpdateEvent ops x] \<and>
       list_all (\<lambda>e. is_read e \<or> is_provider_write e) t0 \<and>
       o_ObjectMeta ops x = o_ObjectMeta ops obj \<and>
       (IsStatusConditionTrue E (o_Conditions ops x) readyType \<longrightarrow> ?J t0))"
  then obtain t0 x where r: "fst r \<noteq> Panicked" and t: "t = t0 @ [o_StatusUpdateEvent ops x]"
    and ev: "list_all (\<lambda>e. is_read e \<or> is_provider_write e) t0"
    and j: "IsStatusConditionTrue E (o_Conditions ops x) readyType \<longrightarrow> ?J t0"
    by auto
  have no: "\<not> is_status_update e" if "e \<in> set t0" for e
    using ev that by (cases e) (auto simp: list_all_iff)
  have one: "filter is_status_update t0 = []" using no by (auto simp: filter_empty_conv)
  have same: "y = x" if "o_StatusUpdateEvent ops y \<in> set t" for y
    using that no [of "o_StatusUpdateEvent ops y"] event_is_update event_inj by (auto simp: t)
  have mono: "?J t0 \<Longrightarrow> ?J t"
    using ready_justified_mono unfolding monotone_in_events_def t by (metis Un_upper1 set_append)
  have "updates_ok E ops readyType ?J t"
    unfolding updates_ok_def
  proof (intro conjI allI impI)
    show "length (filter is_status_update t) \<le> 1"
      by (simp add: t one)
    fix y
    assume "o_StatusUpdateEvent ops y \<in> set t \<and> IsStatusConditionTrue E (o_Conditions ops y) readyType"
    then show "?J t" using same j mono by blast
  qed
  with r show "fst r \<noteq> Panicked \<and> updates_ok E ops readyType ?J t" by simp
qed

end

text \<open>
  What the generic operations promise to the controllers: a refusing gate sends at most one
  status update, which is not ready, and an open gate none; and a provider object is written
  at most once, under the object's own key, with the spec of the callback.
\<close>

context gated_object
begin

lemma check_updates:
  assumes "conditions_contract E"
  shows "runs (checkInventory E ops statusErrorFn ref obj) h (\<lambda>ck t.
    (if ck_err ck = None \<and> ck_validNS ck
     then list_all is_read t \<and> ck_object ck = obj \<and>
       inventory_admits E h (o_TypeName ops) (om_Namespace (o_ObjectMeta ops obj)) ref
         (ck_inventory ck)
     else updates_ok E ops readyType J t \<and> list_all (\<lambda>e. \<not> is_provider_write e) t))"
  using check_spec
proof (rule runs_conseq)
  fix ck :: "'o check_result" and t
  assume a: "(ck_err ck = None \<and> ck_validNS ck \<longleftrightarrow>
       inventory_admits E h (o_TypeName ops) (om_Namespace (o_ObjectMeta ops obj)) ref
         (ck_inventory ck)) \<and>
    (ck_err ck = None \<and> ck_validNS ck \<longrightarrow> list_all is_read t \<and> ck_object ck = obj \<and>
       (o_TypeName ops = ''DBaaSInstance'' \<longrightarrow> ck_provision ck)) \<and>
    (\<not> (ck_err ck = None \<and> ck_validNS ck) \<longrightarrow>
       list_all is_read t \<and> ck_object ck = obj \<and> ck_err ck \<noteq> None \<or>
       (\<exists>t0 reason msg. list_all is_read t0 \<and>
          t = t0 @ [o_StatusUpdateEvent ops (statusErrorFn reason msg obj)]))"
  have quiet: "no_updates t0 \<and> list_all (\<lambda>e. \<not> is_provider_write e) t0" if "list_all is_read t0" for t0
    using that is_read_not_write by (auto simp: list_all_iff)
  have upd: "\<not> is_provider_write (o_StatusUpdateEvent ops x)" for x
    using event_is_update [of x] by (cases "o_StatusUpdateEvent ops x") simp_all
  show "if ck_err ck = None \<and> ck_validNS ck
     then list_all is_read t \<and> ck_object ck = obj \<and>
       inventory_admits E h (o_TypeName ops) (om_Namespace (o_ObjectMeta ops obj)) ref
         (ck_inventory ck)
     else updates_ok E ops readyType J t \<and> list_all (\<lambda>e. \<not> is_provider_write e) t"
  proof (cases "ck_err ck = None \<and> ck_validNS ck")
    case False
    with a consider "list_all is_read t"
      | t0 reason msg where "list_all is_read t0"
          "t = t0 @ [o_StatusUpdateEvent ops (statusErrorFn reason msg obj)]" by blast
    then have "updates_ok E ops readyType J t \<and> list_all (\<lambda>e. \<not> is_provider_write e) t"
      using quiet upd updates_ok_quiet updates_ok_refused error_not_ready [OF assms]
      by cases auto
    then show ?thesis by (simp only: if_not_P [OF False])
  qed (use a in simp)
qed

end

definition written_for ::
    "env \<Rightarrow> 'o dbaas_ops \<Rightarrow> ('o, 'p) provider_callbacks \<Rightarrow> 'o \<Rightarrow> event \<Rightarrow> bool" where
  "written_for E ops cb obj e \<longleftrightarrow> (\<exists>p h'. e = EvCreateOrUpdateProviderObject
     (createProviderObject (o_ObjectMeta ops obj) (GetDBaaSAPIGroupVersion E p)
        (providerObjectKindFn cb p))
     (providerObjectMutateFn E ops obj (fst (run_state (DBaaSObjectSpecFn cb obj) h'))))"

text \<open>
  An event that, if it writes a provider object, writes one of the group, version and kind
  that some provider which was read declares.
\<close>

definition kind_written :: "env \<Rightarrow> (DBaaSProvider \<Rightarrow> string) \<Rightarrow> event \<Rightarrow> bool" where
  "kind_written E kind e \<longleftrightarrow> (\<forall>x f. e = EvCreateOrUpdateProviderObject x f \<longrightarrow>
     (\<exists>p h n. srv_GetProvider E h ([], n) = Inr p \<and>
        u_GVK x = u_GVK (createProviderObject zero_ObjectMeta (GetDBaaSAPIGroupVersion E p) (kind p))))"

context provider_contract
begin

lemma reconcile_writes:
  "runs (reconcileProviderResource E ops cb providerName readyType obj) h (\<lambda>r t.
    list_all (\<lambda>e. is_provider_write e \<longrightarrow> written_for E ops cb obj e) t)"
proof -
  have read: "list_all is_read t \<Longrightarrow> list_all (\<lambda>e. is_provider_write e \<longrightarrow> Q e) t" for t Q
    using is_read_not_write by (auto simp: list_all_iff)
  have upd: "\<not> is_provider_write (o_StatusUpdateEvent ops x)" for x
    using event_is_update [of x] by (cases "o_StatusUpdateEvent ops x") simp_all
  have w: "written_for E ops cb obj (EvCreateOrUpdateProviderObject
     (createProviderObject (o_ObjectMeta ops obj) (GetDBaaSAPIGroupVersion E p)
        (providerObjectKindFn cb p))
     (providerObjectMutateFn E ops obj (fst (run_state (DBaaSObjectSpecFn cb obj) h'))))" for p h'
    unfolding written_for_def by blast
  show ?thesis
    unfolding reconcileProviderResource_def reconcileProviderResource_body_def
      reconcileProviderResource_deferred_def Let_def getDBaaSProvider_def statusUpdate_def
    by (intro runs_intros runs_only_value [OF spec_reads]) (simp_all add: upd read w)
qed

lemma only_kind_written:
  "only (kind_written E (providerObjectKindFn cb))
     (reconcileProviderResource E ops cb providerName readyType obj)"
proof -
  have read: "list_all is_read t \<Longrightarrow> list_all (kind_written E k) t" for t k
    by (auto simp: list_all_iff kind_written_def)
  have upd: "kind_written E k (o_StatusUpdateEvent ops x)" for k x
    using event_is_update [of x] by (cases "o_StatusUpdateEvent ops x") (simp_all add: kind_written_def)
  have w: "kind_written E k (EvCreateOrUpdateProviderObject
     (createProviderObject m (GetDBaaSAPIGroupVersion E p) (k p)) f)"
    if "srv_GetProvider E h ([], n) = Inr p" for k p m f h n
    using that by (auto simp: kind_written_def createProviderObject_def)
  have g: "kind_written E k (EvGetProvider key)" for k key by (simp add: kind_written_def)
  show ?thesis
    unfolding only_def reconcileProviderResource_def reconcileProviderResource_body_def
      reconcileProviderResource_deferred_def Let_def getDBaaSProvider_def statusUpdate_def
    by (intro allI runs_intros runs_only_value [OF spec_reads]) (simp_all add: upd read w g)
qed

end

end
