(* ===== verification/Inventory_Controller.thy ===== *)
theory Inventory_Controller
  imports Reconciler
begin

section \<open>The inventory controller\<close>

text \<open>
  \<open>controllers/dbaasinventory_controller.go\<close>: reconciling a \<open>DBaaSInventory\<close> under an
  active policy by writing the provider's inventory object and merging its status back, and
  the handler of the delete event.
\<close>

subsection \<open>The handler\<close>

type_synonym provider_inventory = "DBaaSProviderInventory_v1alpha1 + DBaaSProviderInventory"

definition mergeInventoryStatus ::
    "env \<Rightarrow> DBaaSInventory \<Rightarrow> DBaaSProviderInventory \<Rightarrow> Condition \<times> DBaaSInventory" where
  "mergeInventoryStatus E inv' providerInv =
     (let specSync = FindStatusCondition E (ist_Conditions (pinv_Status providerInv))
            DBaaSInventoryProviderSyncType
      in (if (case specSync of None \<Rightarrow> False | Some c \<Rightarrow> c_Status c = ConditionTrue)
          then mkCondition DBaaSInventoryReadyType ConditionTrue Ready MsgProviderCRStatusSyncDone
          else mkCondition DBaaSInventoryReadyType ConditionFalse ProviderReconcileInprogress
                 MsgProviderCRReconcileInProgress,
          inv'\<lparr>inv_Status := pinv_Status providerInv\<rparr>))"

definition inventory_callbacks ::
    "env \<Rightarrow> DBaaSProvider \<Rightarrow> (DBaaSInventory, provider_inventory) provider_callbacks" where
  "inventory_callbacks E provider =
     \<lparr>providerObjectKindFn = (\<lambda>p. ps_InventoryKind (prov_Spec p)),
      DBaaSObjectSpecFn = (\<lambda>inventory. ret
        (if uses_v1alpha1 E provider
         then InventorySpecV1alpha1 (DBaaSOperatorInventorySpec_ConvertFrom
                zero_DBaaSOperatorInventorySpec_v1alpha1 (inv_Spec inventory))
         else InventorySpecV1beta1 (inv_Spec inventory))),
      parseProviderObject = (\<lambda>u.
        if uses_v1alpha1 E provider
        then map_sum id Inl (UnmarshalInventoryV1alpha1 E u)
        else map_sum id Inr (UnmarshalInventoryV1beta1 E u)),
      DBaaSObjectSyncStatusFn = (\<lambda>inventory i.
        if uses_v1alpha1 E provider then
          (case i of
             Inl providerInvV1alpha1 \<Rightarrow>
               Some (mergeInventoryStatus E inventory
                 (zero_DBaaSProviderInventory\<lparr>pinv_Status := DBaaSInventoryStatus_ConvertTo
                    (a1pinv_Status providerInvV1alpha1) (pinv_Status zero_DBaaSProviderInventory)\<rparr>))
           | Inr _ \<Rightarrow> None)
        else
          (case i of
             Inr providerInv \<Rightarrow> Some (mergeInventoryStatus E inventory providerInv)
           | Inl _ \<Rightarrow> None))\<rparr>"

text \<open>The part of \<open>Reconcile\<close> after its deferred metrics call is registered.\<close>

definition reconcile_inventory_object ::
    "env \<Rightarrow> DBaaSInventory \<Rightarrow> (outcome \<times> DBaaSInventory) prog" where
  "reconcile_inventory_object E inventory = do {
     r \<leftarrow> getDBaaSProvider E (inv_ProviderName inventory);
     case r of
       Inl err \<Rightarrow> ret (Returned Result_zero (Some err), inventory)
     | Inr provider \<Rightarrow>
         reconcileProviderResource E inventory_ops (inventory_callbacks E provider)
           (inv_ProviderName inventory) DBaaSInventoryReadyType inventory
   }"

text \<open>The branch without an active policy.\<close>

definition inventory_policy_missing :: "env \<Rightarrow> DBaaSInventory \<Rightarrow> outcome prog" where
  "inventory_policy_missing E inventory =
     (let cond = mkCondition DBaaSInventoryReadyType ConditionFalse DBaaSPolicyNotFound
                   MsgPolicyNotFound;
          inventory = inventory\<lparr>inv_Status := (inv_Status inventory)
            \<lparr>ist_Conditions := SetStatusCondition E (inv_Conditions inventory) cond\<rparr>\<rparr>
      in do {
        r \<leftarrow> statusUpdateInventory E inventory;
        ret (case r of
               Inl err \<Rightarrow> if IsConflict err then Returned Result_requeue None
                          else Returned Result_zero (Some err)
             | Inr _ \<Rightarrow> Returned Result_zero None)
      })"

definition DBaaSInventory_Reconcile :: "env \<Rightarrow> ObjectKey \<Rightarrow> outcome prog" where
  "DBaaSInventory_Reconcile E req = do {
     execution \<leftarrow> PlatformInstallStart E;
     r \<leftarrow> getInventory E req;
     case r of
       Inl err \<Rightarrow> ret (Returned Result_zero (if IsNotFound err then None else Some err))
     | Inr inventory \<Rightarrow>
         (let ev = (if om_DeletionTimestamp (inv_ObjectMeta inventory) \<noteq> None
                    then LabelEventValueDelete else LabelEventValueCreate)
          in do {
            r \<leftarrow> policyListByNS E (fst req);
            case r of
              Inl err \<Rightarrow> ret (Returned Result_zero (Some err))
            | Inr policyList \<Rightarrow>
                (case getActivePolicy E policyList of
                   None \<Rightarrow> inventory_policy_missing E inventory
                 | Some activePolicy \<Rightarrow> do {
                     err \<leftarrow> checkCredsRefLabel E inventory;
                     case err of
                       Some err \<Rightarrow> ret (if IsConflict err then Returned Result_requeue None
                                        else Returned Result_zero (Some err))
                     | None \<Rightarrow> do {
                         (out, inventory) \<leftarrow> reconcile_inventory_object E inventory;
                         SetInventoryMetrics E inventory execution ev [];
                         ret out
                       }
                   })
          })
   }"

text \<open>The delete handler; \<open>None\<close> stands for an event object of another Go type.\<close>

definition DBaaSInventory_Delete :: "env \<Rightarrow> DBaaSInventory option \<Rightarrow> (go_error option) prog" where
  "DBaaSInventory_Delete E obj = do {
     execution \<leftarrow> PlatformInstallStart E;
     case obj of
       None \<Rightarrow> ret None
     | Some inventory \<Rightarrow> do {
         SetInventoryMetrics E inventory execution LabelEventValueDelete [];
         ret None
       }
   }"

subsection \<open>Its callbacks meet the contract\<close>

text \<open>A provider inventory object is synced when its sync condition is true.\<close>

definition inventory_synced :: "env \<Rightarrow> provider_inventory \<Rightarrow> bool" where
  "inventory_synced E p \<longleftrightarrow>
     (\<exists>c. FindStatusCondition E
        (case p of Inl a \<Rightarrow> a1ist_Conditions (a1pinv_Status a) | Inr b \<Rightarrow> ist_Conditions (pinv_Status b))
        DBaaSInventoryProviderSyncType = Some c \<and> c_Status c = ConditionTrue)"

lemma inventory_status_conditions [simp]:
  "ist_Conditions (DBaaSInventoryStatus_ConvertTo s d) = a1ist_Conditions s"
  by (simp add: DBaaSInventoryStatus_ConvertTo_def Let_def split: option.splits)

interpretation inventory_provider: provider_contract inventory_ops E "inventory_callbacks E provider"
    DBaaSInventoryReadyType "inventory_synced E" for E provider
  by unfold_locales
    (auto simp: inventory_callbacks_def mergeInventoryStatus_def inventory_synced_def Let_def
      inventory_ops_def map_sum_def intro: only_intros split: sum.splits if_splits option.splits)

subsection \<open>Properties\<close>

lemma inventory_ops_simps [simp]:
  "o_StatusUpdateEvent inventory_ops = EvStatusUpdateInventory"
  "o_Conditions inventory_ops = inv_Conditions"
  "o_ObjectMeta inventory_ops = inv_ObjectMeta"
  by (simp_all add: inventory_ops_def)

abbreviation inventory_ready :: "env \<Rightarrow> DBaaSInventory \<Rightarrow> bool" where
  "inventory_ready E x \<equiv> IsStatusConditionTrue E (inv_Conditions x) DBaaSInventoryReadyType"

text \<open>Why an inventory may be reported ready, whatever version its provider uses.\<close>

definition inventory_ready_justified :: "env \<Rightarrow> DBaaSInventory \<Rightarrow> event list \<Rightarrow> bool" where
  "inventory_ready_justified E inventory t \<longleftrightarrow>
     (\<exists>provider. ready_justified E inventory_ops
        (parseProviderObject (inventory_callbacks E provider)) (inventory_synced E)
        DBaaSInventoryReadyType inventory t)"

abbreviation inventory_updates_ok :: "env \<Rightarrow> DBaaSInventory \<Rightarrow> event list \<Rightarrow> bool" where
  "inventory_updates_ok E inventory \<equiv> updates_ok E inventory_ops DBaaSInventoryReadyType
     (inventory_ready_justified E inventory)"

lemma inventory_justified_mono: "monotone_in_events (inventory_ready_justified E inventory)"
  unfolding inventory_ready_justified_def by (rule monotone_ex, rule ready_justified_mono)

lemma reconcile_inventory_object_updates:
  assumes "conditions_contract E"
  shows "runs (reconcile_inventory_object E inventory) h (\<lambda>r t.
    fst r \<noteq> Panicked \<and> inventory_updates_ok E inventory t)"
  unfolding reconcile_inventory_object_def getDBaaSProvider_def
proof (intro runs_intros)
  fix provider
  show "runs (reconcileProviderResource E inventory_ops (inventory_callbacks E provider)
      (inv_ProviderName inventory) DBaaSInventoryReadyType inventory)
      (h @ [EvGetProvider ([], inv_ProviderName inventory)])
      (\<lambda>r t. fst r \<noteq> Panicked \<and> inventory_updates_ok E inventory
         ([EvGetProvider ([], inv_ProviderName inventory)] @ t))"
    using inventory_provider.reconcile_updates [OF assms]
  proof (rule runs_conseq)
    fix r :: "outcome \<times> DBaaSInventory" and t
    assume a: "fst r \<noteq> Panicked \<and> updates_ok E inventory_ops DBaaSInventoryReadyType
      (ready_justified E inventory_ops (parseProviderObject (inventory_callbacks E provider))
        (inventory_synced E) DBaaSInventoryReadyType inventory) t"
    have "inventory_updates_ok E inventory t"
      by (rule updates_ok_weaken [OF conjunct2 [OF a]]) (auto simp: inventory_ready_justified_def)
    then show "fst r \<noteq> Panicked \<and> inventory_updates_ok E inventory
        ([EvGetProvider ([], inv_ProviderName inventory)] @ t)"
      using a inventory_obj.updates_ok_extend [OF _ inventory_justified_mono, where t = t
        and a = "[EvGetProvider ([], inv_ProviderName inventory)]" and b = "[]"] by simp
  qed
qed (auto intro: inventory_obj.updates_ok_quiet)

lemma no_updates_inventory_metrics:
  "only (\<lambda>e. \<not> is_status_update e) (SetInventoryMetrics E inventory x ev cd)"
  by (intro only_intros) (auto dest: telemetry_not_update)

lemma inventory_reconcile_updates:
  assumes "conditions_contract E"
  shows "runs (DBaaSInventory_Reconcile E req) h (\<lambda>out t. out \<noteq> Panicked \<and>
    ((\<exists>inventory. srv_GetInventory E (h @ [EvNow]) req = Inr inventory \<and>
        inventory_updates_ok E inventory t) \<or> no_updates t))"
proof -
  let ?a = "[EvNow, EvGetInventory req, EvListPolicies (fst req)]"
  have full: "inventory_updates_ok E inventory
      (EvNow # EvGetInventory req # EvListPolicies (fst req) # c @ t @ b)"
    if "inventory_updates_ok E inventory t" "no_updates c" "no_updates b" for inventory c t b
    using inventory_obj.updates_ok_extend [OF that(1) inventory_justified_mono, of "?a @ c" b] that
    by simp
  have missing: "inventory_updates_ok E inventory
      [EvNow, EvGetInventory req, EvListPolicies (fst req), EvStatusUpdateInventory
      (inventory\<lparr>inv_Status := (inv_Status inventory)\<lparr>ist_Conditions :=
         SetStatusCondition E (inv_Conditions inventory)
           (mkCondition DBaaSInventoryReadyType ConditionFalse r m)\<rparr>\<rparr>)]" for inventory r m
    using inventory_obj.updates_ok_refused [of ?a E _ DBaaSInventoryReadyType]
      is_true_set_same [OF assms, of _ "mkCondition DBaaSInventoryReadyType ConditionFalse r m"]
    by simp
  show ?thesis
    unfolding DBaaSInventory_Reconcile_def PlatformInstallStart_def policyListByNS_def
      inventory_policy_missing_def Let_def
    apply (intro runs_intros runs_only [OF only_no_updates_creds]
        runs_only [OF no_updates_inventory_metrics]
        reconcile_inventory_object_updates [OF assms, THEN runs_conseq])
    subgoal by simp
    subgoal by simp
    subgoal using missing by (simp split: sum.splits)
    subgoal by (auto intro: full)
    subgoal by simp
    done
qed

text \<open>An inventory of the example world that is not ready yet is reconciled to ready.\<close>

abbreviation fresh_env :: env where
  "fresh_env \<equiv> demo_env\<lparr>srv_GetInventory := \<lambda>h k. Inr zero_DBaaSInventory\<rparr>"

lemma fresh_conditions_contract: "conditions_contract fresh_env"
  by (rule ref_conditions_contract) (simp_all add: env_simps)

lemma fresh_uses: "uses_v1alpha1 fresh_env zero_DBaaSProvider"
  by (rule default_uses_v1alpha1) (simp add: env_simps)

lemma fresh_data:
  "inv_ObjectMeta zero_DBaaSInventory = zero_ObjectMeta"
  "inv_CredentialsRef zero_DBaaSInventory = None"
  "inv_Conditions zero_DBaaSInventory = []"
  by (simp_all add: zero_DBaaSInventory_def zero_DBaaSOperatorInventorySpec_def
      zero_DBaaSInventoryStatus_def)

lemma demo_inventory_resource:
  "runs (reconcileProviderResource fresh_env inventory_ops
     (inventory_callbacks fresh_env zero_DBaaSProvider) n DBaaSInventoryReadyType zero_DBaaSInventory) h
     (\<lambda>r t. fst r \<noteq> Panicked \<and> (\<exists>e \<in> set t. is_provider_write e) \<and>
       (\<exists>x. EvStatusUpdateInventory x \<in> set t \<and> inventory_ready fresh_env x))"
  by (simp add: runs_def reconcileProviderResource_def reconcileProviderResource_body_def
      reconcileProviderResource_deferred_def Let_def getDBaaSProvider_def statusUpdate_def
      inventory_callbacks_def ref_create_or_update_def providerObjectMutateFn_def env_simps fresh_uses
      mergeInventoryStatus_def DBaaSInventoryStatus_ConvertTo_def inventory_ops_def
      zero_DBaaSInventoryStatus_v1alpha1_def fresh_data)

lemma demo_inventory_written:
  "runs (DBaaSInventory_Reconcile fresh_env ([], [])) [] (\<lambda>out t.
     (\<exists>e \<in> set t. is_provider_write e) \<and>
     (\<exists>x. EvStatusUpdateInventory x \<in> set t \<and> inventory_ready fresh_env x))"
proof -
  have object: "runs (reconcile_inventory_object fresh_env zero_DBaaSInventory) h (\<lambda>r t.
     (\<exists>e \<in> set t. is_provider_write e) \<and>
     (\<exists>x. EvStatusUpdateInventory x \<in> set t \<and> inventory_ready fresh_env x))" for h
    unfolding reconcile_inventory_object_def getDBaaSProvider_def
    apply (rule runs_bind_value [OF run_state_call], simp add: env_simps)
    by (rule demo_inventory_resource [THEN runs_conseq]) (auto simp: env_simps)
  have creds: "run_state (checkCredsRefLabel fresh_env zero_DBaaSInventory) h = (None, h @ [])" for h
    by (simp add: checkCredsRefLabel_def fresh_data)
  show ?thesis
    unfolding DBaaSInventory_Reconcile_def PlatformInstallStart_def policyListByNS_def Let_def
    apply (intro runs_bind runs_call runs_return, simp add: env_simps fresh_data)
    apply (rule runs_bind_value [OF run_state_call], simp add: env_simps)
    apply (rule runs_bind_value [OF creds], simp)
    by (intro runs_intros object [THEN runs_conseq] runs_only [OF no_updates_inventory_metrics])
      (auto simp: env_simps)
qed

text \<open>C4: Reconciling an inventory never panics, updates the status of the inventory at most
  once, and reports it ready only if it was ready before, or if the provider object written
  in this reconciliation came back with a true sync condition.\<close>

theorem inventory_reconcile_ready_justified:
  assumes "conditions_contract E"
  shows "runs (DBaaSInventory_Reconcile E req) h (\<lambda>out t.
    out \<noteq> Panicked \<and>
    length (filter is_status_update t) \<le> 1 \<and>
    (\<forall>x. EvStatusUpdateInventory x \<in> set t \<and> inventory_ready E x \<longrightarrow>
       (\<exists>inventory. srv_GetInventory E (h @ [EvNow]) req = Inr inventory \<and>
          inventory_ready_justified E inventory t)))"
  using inventory_reconcile_updates [OF assms]
proof (rule runs_conseq)
  fix out t
  assume a: "out \<noteq> Panicked \<and>
    ((\<exists>inventory. srv_GetInventory E (h @ [EvNow]) req = Inr inventory \<and>
        inventory_updates_ok E inventory t) \<or> no_updates t)"
  then have "length (filter is_status_update t) \<le> 1 \<and>
    (\<forall>x. EvStatusUpdateInventory x \<in> set t \<and> inventory_ready E x \<longrightarrow>
       (\<exists>inventory. srv_GetInventory E (h @ [EvNow]) req = Inr inventory \<and>
          inventory_ready_justified E inventory t))"
    using inventory_obj.updates_ok_quiet [of t E _ "\<lambda>_. False"]
    unfolding updates_ok_def by auto
  with a show "out \<noteq> Panicked \<and>
    length (filter is_status_update t) \<le> 1 \<and>
    (\<forall>x. EvStatusUpdateInventory x \<in> set t \<and> inventory_ready E x \<longrightarrow>
       (\<exists>inventory. srv_GetInventory E (h @ [EvNow]) req = Inr inventory \<and>
          inventory_ready_justified E inventory t))" by blast
qed

theorem inventory_reconcile_ready_justified_witness:
  "runs (DBaaSInventory_Reconcile fresh_env ([], [])) [] (\<lambda>out t. out \<noteq> Panicked \<and>
     (\<exists>x. EvStatusUpdateInventory x \<in> set t \<and> inventory_ready fresh_env x) \<and>
     inventory_ready_justified fresh_env zero_DBaaSInventory t)"
  by (rule runs_conseq [OF runs_conj [OF demo_inventory_written
        inventory_reconcile_ready_justified [OF fresh_conditions_contract]]]) auto

text \<open>Without an active policy in the namespace, all that reconciling an inventory does is
  to report it not ready because no policy was found: no provider object is written, no
  secret is touched.\<close>

theorem inventory_needs_active_policy:
  assumes "conditions_contract E"
    and "srv_GetInventory E (h @ [EvNow]) req = Inr inventory"
    and "srv_ListPolicies E (h @ [EvNow, EvGetInventory req]) (fst req) = Inr policies"
    and "\<forall>p \<in> set policies. \<not> IsStatusConditionTrue E (pol_Conditions p) DBaaSPolicyReadyType"
  shows "runs (DBaaSInventory_Reconcile E req) h (\<lambda>out t.
    \<exists>x c. t = [EvNow, EvGetInventory req, EvListPolicies (fst req), EvStatusUpdateInventory x] \<and>
      inv_ObjectMeta x = inv_ObjectMeta inventory \<and> inv_Spec x = inv_Spec inventory \<and>
      FindStatusCondition E (inv_Conditions x) DBaaSInventoryReadyType = Some c \<and>
      c_Status c = ConditionFalse \<and> c_Reason c = DBaaSPolicyNotFound)"
proof -
  have none: "getActivePolicy E policies = None"
    using assms(4) by (simp add: getActivePolicy_None_iff)
  let ?c = "mkCondition DBaaSInventoryReadyType ConditionFalse DBaaSPolicyNotFound MsgPolicyNotFound"
  obtain c' where c': "FindStatusCondition E (SetStatusCondition E (inv_Conditions inventory) ?c)
      DBaaSInventoryReadyType = Some c'" "c_Status c' = ConditionFalse" "c_Reason c' = DBaaSPolicyNotFound"
    by (rule find_set_same [OF assms(1), of "inv_Conditions inventory" ?c]) simp
  show ?thesis
    unfolding DBaaSInventory_Reconcile_def PlatformInstallStart_def policyListByNS_def
      inventory_policy_missing_def Let_def
    by (intro runs_intros) (auto simp: assms(2,3) none c' split: sum.splits)
qed

theorem inventory_needs_active_policy_witness:
  "runs (DBaaSInventory_Reconcile
      (ref_env\<lparr>srv_GetInventory := \<lambda>h k. Inr zero_DBaaSInventory\<rparr>) ([], [])) []
    (\<lambda>out t. \<exists>x c. t = [EvNow, EvGetInventory ([], []), EvListPolicies [], EvStatusUpdateInventory x] \<and>
      inv_ObjectMeta x = inv_ObjectMeta zero_DBaaSInventory \<and>
      inv_Spec x = inv_Spec zero_DBaaSInventory \<and>
      FindStatusCondition (ref_env\<lparr>srv_GetInventory := \<lambda>h k. Inr zero_DBaaSInventory\<rparr>)
        (inv_Conditions x) DBaaSInventoryReadyType = Some c \<and>
      c_Status c = ConditionFalse \<and> c_Reason c = DBaaSPolicyNotFound)"
  using inventory_needs_active_policy [of
      "ref_env\<lparr>srv_GetInventory := \<lambda>h k. Inr zero_DBaaSInventory\<rparr>" "[]" "([], [])"
      zero_DBaaSInventory "[]"]
  by (simp add: ref_conditions_contract env_simps)

end
