(* ===== verification/Connection_Controller.thy ===== *)
theory Connection_Controller
  imports Reconciler
begin

section \<open>The connection controller\<close>

text \<open>
  \<open>controllers/dbaasconnection_controller.go\<close>: reconciling a \<open>DBaaSConnection\<close>. The
  developer topology deployment is created first, then the inventory gate decides, then the
  database service is resolved to an id, and only then the provider's connection object is
  written and its status merged back.
\<close>

subsection \<open>The handler\<close>

type_synonym provider_connection = "DBaaSProviderConnection_v1alpha1 + DBaaSProviderConnection"

definition deploymentMutateFn :: "env \<Rightarrow> DBaaSConnection \<Rightarrow> Deployment MutateFn" where
  "deploymentMutateFn E connection = (\<lambda>deployment.
     let cm = conn_ObjectMeta connection;
         m = dep_ObjectMeta deployment;
         annotations = (case om_Annotations m of None \<Rightarrow> [] | Some a \<Rightarrow> a);
         annotations = gomap_put ''managed-by'' ''dbaas-operator'' annotations;
         annotations = gomap_put ''owner'' (om_Name cm) annotations;
         annotations = gomap_put ''owner.kind'' (tm_Kind (conn_TypeMeta connection)) annotations;
         annotations = gomap_put ''owner.namespace'' (om_Namespace cm) annotations;
         spec = zero_DeploymentSpec\<lparr>dsp_Replicas := Some 0,
           dsp_Selector := [(''name'', ''bind-deploy'')],
           dsp_TemplateLabels := [(''name'', ''bind-deploy'')],
           dsp_Containers :=
             [zero_Container\<lparr>con_Name := ''bind-deploy'',
               con_Image := ''quay.io/ecosystem-appeng/busybox'',
               con_ImagePullPolicy := ''IfNotPresent'',
               con_Command := [''sh'', ''-c'', ''echo The app is running! && sleep 3600'']\<rparr>]\<rparr>;
         m = m\<lparr>om_Annotations := Some annotations, om_OwnerReferences := []\<rparr>
     in case SetControllerReference E ''DBaaSConnection'' cm m of
          Inl err \<Rightarrow> Inl err
        | Inr m' \<Rightarrow> Inr (deployment\<lparr>dep_ObjectMeta := m', dep_Spec := spec\<rparr>))"

definition reconcileDevTopologyResource ::
    "env \<Rightarrow> DBaaSConnection \<Rightarrow> (go_error + (Deployment \<times> OperationResult)) prog" where
  "reconcileDevTopologyResource E connection =
     createOrUpdateDeployment E
       (zero_Deployment (named_meta (om_Namespace (conn_ObjectMeta connection))
          (om_Name (conn_ObjectMeta connection))))
       (deploymentMutateFn E connection)"

definition mergeConnectionStatus ::
    "env \<Rightarrow> DBaaSConnection \<Rightarrow> DBaaSProviderConnection \<Rightarrow> Condition \<times> DBaaSConnection" where
  "mergeConnectionStatus E conn providerConn =
     (let specSync = FindStatusCondition E (cst_Conditions (pconn_Status providerConn))
            DBaaSConnectionProviderSyncType
      in (if (case specSync of None \<Rightarrow> False | Some c \<Rightarrow> c_Status c = ConditionTrue)
          then mkCondition DBaaSConnectionReadyType ConditionTrue Ready MsgProviderCRStatusSyncDone
          else mkCondition DBaaSConnectionReadyType ConditionFalse ProviderReconcileInprogress
                 MsgProviderCRReconcileInProgress,
          conn\<lparr>conn_Status := pconn_Status providerConn\<rparr>))"

definition getConnectionSpec ::
    "env \<Rightarrow> DBaaSConnectionSpec \<Rightarrow> (go_error + DBaaSConnectionSpec) prog" where
  "getConnectionSpec E spec =
     (if cs_DatabaseServiceID spec \<noteq> [] then ret (Inr spec)
      else case cs_DatabaseServiceRef spec of
        None \<Rightarrow> ret (Inl (OtherError ''database service reference is not properly set''))
      | Some databaseServiceRef \<Rightarrow>
          if nn_Name databaseServiceRef = [] then
            ret (Inl (OtherError ''database service reference is not properly set''))
          else if cs_DatabaseServiceType spec = None then do {
            r \<leftarrow> getInstance E (key_of_ref databaseServiceRef);
            ret (case r of
              Inl err \<Rightarrow> Inl (OtherError ''cannot read the instance reference'')
            | Inr ins \<Rightarrow>
                if nn_Namespace (ins_InventoryRef (instance_Spec ins)) \<noteq>
                     nn_Namespace (cs_InventoryRef spec) \<or>
                   nn_Name (ins_InventoryRef (instance_Spec ins)) \<noteq> nn_Name (cs_InventoryRef spec)
                then Inl (OtherError ''instance and connection don't use the same inventory reference'')
                else if inst_InstanceID (instance_Status ins) = []
                then Inl (OtherError ''instance ID is not available'')
                else Inr (spec\<lparr>cs_DatabaseServiceID := inst_InstanceID (instance_Status ins),
                               cs_DatabaseServiceRef := None\<rparr>))
          }
          else ret (Inl (OtherError (''using database service reference of type '' @
            FormatPointer E (cs_DatabaseServiceType spec) @ '' is not supported''))))"

text \<open>The status error function that \<open>Reconcile\<close> passes to \<open>checkInventory\<close>.\<close>

definition connection_status_error ::
    "env \<Rightarrow> string \<Rightarrow> string \<Rightarrow> DBaaSConnection \<Rightarrow> DBaaSConnection" where
  "connection_status_error E reason message connection =
     o_SetConditions connection_ops
       (SetStatusCondition E (o_Conditions connection_ops connection)
          (mkCondition DBaaSConnectionReadyType ConditionFalse reason message)) connection"

definition updateConnectionStatus :: "env \<Rightarrow> DBaaSConnection \<Rightarrow> Condition \<Rightarrow> DBaaSConnection prog" where
  "updateConnectionStatus E connection cond =
     try_status_update E connection_ops
       (o_SetConditions connection_ops
          (SetStatusCondition E (o_Conditions connection_ops connection) cond) connection)"

definition connection_callbacks ::
    "env \<Rightarrow> DBaaSProvider \<Rightarrow> DBaaSConnectionSpec \<Rightarrow>
     (DBaaSConnection, provider_connection) provider_callbacks" where
  "connection_callbacks E provider spec =
     \<lparr>providerObjectKindFn = (\<lambda>p. ps_ConnectionKind (prov_Spec p)),
      DBaaSObjectSpecFn = (\<lambda>connection. ret
        (if uses_v1alpha1 E provider
         then ConnectionSpecV1alpha1
                (DBaaSConnectionSpec_ConvertFrom zero_DBaaSConnectionSpec_v1alpha1 spec)
         else ConnectionSpecV1beta1 spec)),
      parseProviderObject = (\<lambda>u.
        if uses_v1alpha1 E provider
        then map_sum id Inl (UnmarshalConnectionV1alpha1 E u)
        else map_sum id Inr (UnmarshalConnectionV1beta1 E u)),
      DBaaSObjectSyncStatusFn = (\<lambda>connection i.
        if uses_v1alpha1 E provider then
          (case i of
             Inl providerConnV1alpha1 \<Rightarrow>
               Some (mergeConnectionStatus E connection
                 (zero_DBaaSProviderConnection\<lparr>pconn_Status := DBaaSConnectionStatus_ConvertTo
                    (a1pconn_Status providerConnV1alpha1)
                    (pconn_Status zero_DBaaSProviderConnection)\<rparr>))
           | Inr _ \<Rightarrow> None)
        else
          (case i of
             Inr providerConn \<Rightarrow> Some (mergeConnectionStatus E connection providerConn)
           | Inl _ \<Rightarrow> None))\<rparr>"

text \<open>The last branch of \<open>Reconcile\<close>: the gate is open.\<close>

definition reconcile_admitted_connection ::
    "env \<Rightarrow> Execution \<Rightarrow> string \<Rightarrow> DBaaSInventory \<Rightarrow> DBaaSConnection \<Rightarrow> outcome prog" where
  "reconcile_admitted_connection E execution ev inventory connection = do {
     r \<leftarrow> getConnectionSpec E (conn_Spec connection);
     case r of
       Inl err \<Rightarrow> do {
         _ \<leftarrow> updateConnectionStatus E connection
           (mkCondition DBaaSConnectionReadyType ConditionFalse DBaaSServiceNotAvailable (err_msg err));
         ret (Returned Result_zero (Some err))
       }
     | Inr spec \<Rightarrow> do {
         r \<leftarrow> getDBaaSProvider E (inv_ProviderName inventory);
         case r of
           Inl err \<Rightarrow> ret (Returned Result_zero (Some err))
         | Inr provider \<Rightarrow> do {
             (out, connection) \<leftarrow> reconcileProviderResource E connection_ops
               (connection_callbacks E provider spec) (inv_ProviderName inventory)
               DBaaSConnectionReadyType connection;
             case out of
               Panicked \<Rightarrow> ret Panicked
             | Returned result err \<Rightarrow> do {
                 SetConnectionMetrics E (inv_ProviderName inventory) (inv_Name inventory)
                   connection execution ev [];
                 ret (Returned result err)
               }
           }
       }
   }"

definition DBaaSConnection_Reconcile :: "env \<Rightarrow> ObjectKey \<Rightarrow> outcome prog" where
  "DBaaSConnection_Reconcile E req = do {
     execution \<leftarrow> PlatformInstallStart E;
     r \<leftarrow> getConnection E req;
     case r of
       Inl err \<Rightarrow> ret (Returned Result_zero (if IsNotFound err then None else Some err))
     | Inr connection \<Rightarrow>
         (let ev = (if om_DeletionTimestamp (conn_ObjectMeta connection) \<noteq> None
                    then LabelEventValueDelete else LabelEventValueCreate)
          in do {
            r \<leftarrow> reconcileDevTopologyResource E connection;
            case r of
              Inl err \<Rightarrow>
                ret (if IsConflict err then Returned Result_requeue None
                     else Returned Result_zero (Some err))
            | Inr res \<Rightarrow> do {
                ck \<leftarrow> checkInventory E connection_ops (connection_status_error E)
                  (cs_InventoryRef (conn_Spec connection)) connection;
                case ck_err ck of
                  Some err \<Rightarrow> ret (Returned Result_zero (Some err))
                | None \<Rightarrow>
                    if \<not> ck_validNS ck then ret (Returned Result_zero None)
                    else reconcile_admitted_connection E execution ev (ck_inventory ck) (ck_object ck)
              }
          })
   }"

definition DBaaSConnection_Delete :: "env \<Rightarrow> DBaaSConnection option \<Rightarrow> (go_error option) prog" where
  "DBaaSConnection_Delete E obj = do {
     execution \<leftarrow> PlatformInstallStart E;
     case obj of
       None \<Rightarrow> ret None
     | Some connectionObj \<Rightarrow> do {
         r \<leftarrow> getInventory E (key_of_ref (cs_InventoryRef (conn_Spec connectionObj)));
         let inventory = (case r of Inl _ \<Rightarrow> zero_DBaaSInventory | Inr i \<Rightarrow> i);
         SetConnectionMetrics E (inv_ProviderName inventory) (inv_Name inventory) connectionObj
           execution LabelEventValueDelete [];
         ret None
       }
   }"

subsection \<open>Its callbacks meet the contracts\<close>

definition connection_synced :: "env \<Rightarrow> provider_connection \<Rightarrow> bool" where
  "connection_synced E p \<longleftrightarrow>
     (\<exists>c. FindStatusCondition E
        (case p of Inl a \<Rightarrow> a1cst_Conditions (a1pconn_Status a)
                 | Inr b \<Rightarrow> cst_Conditions (pconn_Status b))
        DBaaSConnectionProviderSyncType = Some c \<and> c_Status c = ConditionTrue)"

lemma connection_ops_simps [simp]:
  "o_StatusUpdateEvent connection_ops = EvStatusUpdateConnection"
  "o_Conditions connection_ops = (\<lambda>x. cst_Conditions (conn_Status x))"
  "o_ObjectMeta connection_ops = conn_ObjectMeta"
  "o_TypeName connection_ops = ''DBaaSConnection''"
  "o_SetConditions connection_ops =
     (\<lambda>cs x. x\<lparr>conn_Status := (conn_Status x)\<lparr>cst_Conditions := cs\<rparr>\<rparr>)"
  by (simp_all add: connection_ops_def)

interpretation connection_provider: provider_contract connection_ops E
    "connection_callbacks E provider spec" DBaaSConnectionReadyType "connection_synced E"
    for E provider spec
  by unfold_locales
    (auto simp: connection_callbacks_def mergeConnectionStatus_def connection_synced_def Let_def
      DBaaSConnectionStatus_ConvertTo_def map_sum_def
      intro: only_intros split: sum.splits if_splits option.splits)

interpretation connection_gate: gated_object connection_ops E "connection_status_error E"
    DBaaSConnectionReadyType for E
  by unfold_locales (simp add: connection_status_error_def)

subsection \<open>Resolving the database service\<close>

text \<open>The spec that is passed on to the provider always names a database service by its id
  and keeps the inventory reference: it is the connection's own spec if that has an id, and
  otherwise the id of the referenced instance, which must be of the same inventory; every
  other case is an error.\<close>

theorem connection_spec_resolved:
  "runs (getConnectionSpec E spec) h (\<lambda>r t. list_all is_read t \<and>
     (\<forall>s. r = Inr s \<longleftrightarrow>
        (cs_DatabaseServiceID spec \<noteq> [] \<and> s = spec) \<or>
        (cs_DatabaseServiceID spec = [] \<and> cs_DatabaseServiceType spec = None \<and>
         (\<exists>ref ins. cs_DatabaseServiceRef spec = Some ref \<and> nn_Name ref \<noteq> [] \<and>
            srv_GetInstance E h (key_of_ref ref) = Inr ins \<and>
            key_of_ref (ins_InventoryRef (instance_Spec ins)) = key_of_ref (cs_InventoryRef spec) \<and>
            inst_InstanceID (instance_Status ins) \<noteq> [] \<and>
            s = spec\<lparr>cs_DatabaseServiceID := inst_InstanceID (instance_Status ins),
                    cs_DatabaseServiceRef := None\<rparr>))))"
  unfolding getConnectionSpec_def
  by (intro runs_intros) (auto simp: key_of_ref_def split: sum.splits)

lemma getConnectionSpec_id:
  "runs (getConnectionSpec E spec) h (\<lambda>r t. list_all is_read t \<and>
     (\<forall>s. r = Inr s \<longrightarrow> cs_DatabaseServiceID s \<noteq> []))"
  unfolding getConnectionSpec_def by (intro runs_intros) (auto split: sum.splits)

text \<open>The database service id that a provider spec names.\<close>

fun spec_service_id :: "ProviderSpec option \<Rightarrow> string" where
  "spec_service_id (Some (ConnectionSpecV1alpha1 s)) = a1cs_InstanceID s"
| "spec_service_id (Some (ConnectionSpecV1beta1 s)) = cs_DatabaseServiceID s"
| "spec_service_id _ = []"

text \<open>
  A write that a connection justifies: of the connection's own name, and whatever object the
  API server applies it to gets a spec that names a database service.
\<close>

definition connection_write :: "DBaaSConnection \<Rightarrow> event \<Rightarrow> bool" where
  "connection_write connection e \<longleftrightarrow>
     (\<exists>x f. e = EvCreateOrUpdateProviderObject x f \<and>
        key_of (u_ObjectMeta x) = key_of (conn_ObjectMeta connection) \<and>
        (\<forall>u u'. f u = Inr u' \<longrightarrow> spec_service_id (u_Spec u') \<noteq> []))"

lemma connection_write_written:
  assumes "cs_DatabaseServiceID spec \<noteq> []"
    and "written_for E connection_ops (connection_callbacks E provider spec) connection e"
  shows "connection_write connection e"
  using assms
  by (auto simp: written_for_def connection_write_def createProviderObject_def key_of_def
      providerObjectMutateFn_def connection_callbacks_def DBaaSConnectionSpec_ConvertFrom_def
      Let_def split: sum.splits option.splits)

subsection \<open>Status updates and writes of a reconciliation\<close>

abbreviation connection_ready :: "env \<Rightarrow> DBaaSConnection \<Rightarrow> bool" where
  "connection_ready E x \<equiv>
     IsStatusConditionTrue E (cst_Conditions (conn_Status x)) DBaaSConnectionReadyType"

definition connection_ready_justified :: "env \<Rightarrow> DBaaSConnection \<Rightarrow> event list \<Rightarrow> bool" where
  "connection_ready_justified E connection t \<longleftrightarrow>
     (\<exists>provider spec. ready_justified E connection_ops
        (parseProviderObject (connection_callbacks E provider spec)) (connection_synced E)
        DBaaSConnectionReadyType connection t)"

abbreviation connection_updates_ok :: "env \<Rightarrow> DBaaSConnection \<Rightarrow> event list \<Rightarrow> bool" where
  "connection_updates_ok E connection \<equiv> updates_ok E connection_ops DBaaSConnectionReadyType
     (connection_ready_justified E connection)"

abbreviation connection_writes_ok :: "DBaaSConnection \<Rightarrow> event list \<Rightarrow> bool" where
  "connection_writes_ok connection t \<equiv>
     list_all (\<lambda>e. is_provider_write e \<longrightarrow> connection_write connection e) t"

lemma connection_justified_mono: "monotone_in_events (connection_ready_justified E connection)"
  unfolding connection_ready_justified_def by (rule monotone_ex, rule monotone_ex, rule ready_justified_mono)

lemma connection_resource_step:
  assumes "conditions_contract E" "cs_DatabaseServiceID spec \<noteq> []"
  shows "runs (reconcileProviderResource E connection_ops (connection_callbacks E provider spec)
      n DBaaSConnectionReadyType connection) h (\<lambda>r t. fst r \<noteq> Panicked \<and>
        connection_updates_ok E connection t \<and> connection_writes_ok connection t)"
  using runs_conj [OF connection_provider.reconcile_updates [OF assms(1)]
      connection_provider.reconcile_writes]
proof (rule runs_conseq)
  fix r :: "outcome \<times> DBaaSConnection" and t
  let ?cb = "connection_callbacks E provider spec"
  assume a: "(fst r \<noteq> Panicked \<and> updates_ok E connection_ops DBaaSConnectionReadyType
      (ready_justified E connection_ops (parseProviderObject ?cb) (connection_synced E)
        DBaaSConnectionReadyType connection) t) \<and>
    list_all (\<lambda>e. is_provider_write e \<longrightarrow> written_for E connection_ops ?cb connection e) t"
  have "connection_updates_ok E connection t"
    by (rule updates_ok_weaken [OF conjunct2 [OF conjunct1 [OF a]]])
      (auto simp: connection_ready_justified_def)
  then show "fst r \<noteq> Panicked \<and> connection_updates_ok E connection t \<and>
      connection_writes_ok connection t"
    using a connection_write_written [OF assms(2)] by (auto simp: list_all_iff)
qed

lemma metrics_connection:
  "only (\<lambda>e. \<not> is_status_update e \<and> \<not> is_provider_write e)
     (SetConnectionMetrics E provider account c x ev cd)"
  by (intro only_intros) (auto dest: telemetry_not_update)

lemma admitted_connection_step:
  assumes "conditions_contract E"
  shows "runs (reconcile_admitted_connection E execution ev inventory connection) h (\<lambda>out t.
    out \<noteq> Panicked \<and> connection_updates_ok E connection t \<and> connection_writes_ok connection t)"
proof -
  have extend: "connection_updates_ok E connection (a @ e # t @ b)"
    if "connection_updates_ok E connection t" "list_all is_read a" "is_read e"
      "list_all (\<lambda>e. \<not> is_status_update e \<and> \<not> is_provider_write e) b" for a e t b
  proof -
    have "no_updates (a @ [e])" "no_updates b"
      using that(2-) is_read_not_write by (auto simp: list_all_iff)
    from connection_obj.updates_ok_extend [OF that(1) connection_justified_mono this]
    show ?thesis by simp
  qed
  have refused: "connection_updates_ok E connection (a @ [EvStatusUpdateConnection
      (connection_status_error E r m connection)])" if "list_all is_read a" for a r m
    using connection_obj.updates_ok_refused [OF reads_no_updates [OF that]]
      connection_gate.error_not_ready [OF assms] by simp
  have updated: "runs (updateConnectionStatus E connection
      (mkCondition DBaaSConnectionReadyType ConditionFalse r m)) h' (\<lambda>_ t.
        t = [EvStatusUpdateConnection (connection_status_error E r m connection)])" for r m h'
    unfolding updateConnectionStatus_def try_status_update_def statusUpdate_def
    by (intro runs_intros) (simp add: connection_status_error_def)
  have quiet: "connection_updates_ok E connection a" if "no_updates a" for a
    using connection_obj.updates_ok_quiet [OF that] .
  show ?thesis
    unfolding reconcile_admitted_connection_def getDBaaSProvider_def
    apply (intro runs_intros getConnectionSpec_id [THEN runs_conseq] updated [THEN runs_conseq]
        connection_resource_step [OF assms, THEN runs_conseq] runs_only [OF metrics_connection])
    subgoal using refused by (auto simp: reads_writes_ok)
    subgoal using quiet by (auto simp: reads_writes_ok reads_no_updates)
    subgoal by simp
    subgoal by (auto intro: extend dest: is_read_not_write simp: list_all_iff)
    subgoal by simp
    done
qed

text \<open>The events before the gate of a connection.\<close>

definition connection_prefix :: "env \<Rightarrow> ObjectKey \<Rightarrow> DBaaSConnection \<Rightarrow> event list" where
  "connection_prefix E req connection =
     [EvNow, EvGetConnection req,
      EvCreateOrUpdateDeployment
        (zero_Deployment (named_meta (om_Namespace (conn_ObjectMeta connection))
           (om_Name (conn_ObjectMeta connection))))
        (deploymentMutateFn E connection)]"

abbreviation connection_admitted ::
    "env \<Rightarrow> history \<Rightarrow> ObjectKey \<Rightarrow> DBaaSConnection \<Rightarrow> DBaaSInventory \<Rightarrow> bool" where
  "connection_admitted E h req connection inventory \<equiv>
     inventory_admits E (h @ connection_prefix E req connection) ''DBaaSConnection''
       (om_Namespace (conn_ObjectMeta connection)) (cs_InventoryRef (conn_Spec connection)) inventory"

lemma connection_reconcile_all:
  assumes "conditions_contract E"
  shows "runs (DBaaSConnection_Reconcile E req) h (\<lambda>out t. out \<noteq> Panicked \<and>
    ((\<exists>connection. srv_GetConnection E (h @ [EvNow]) req = Inr connection \<and>
        connection_updates_ok E connection t \<and> connection_writes_ok connection t \<and>
        ((\<exists>e \<in> set t. is_provider_write e) \<longrightarrow>
           (\<exists>inventory. connection_admitted E h req connection inventory))) \<or>
     list_all (\<lambda>e. \<not> is_status_update e \<and> \<not> is_provider_write e) t))"
proof -
  have extend: "connection_updates_ok E connection
      (EvNow # EvGetConnection req # EvCreateOrUpdateDeployment d f # a @ t)"
    if "connection_updates_ok E connection t" "list_all is_read a" for connection d f a t
    using connection_obj.updates_ok_extend [OF that(1) connection_justified_mono,
      of "[EvNow, EvGetConnection req, EvCreateOrUpdateDeployment d f] @ a" "[]"]
      reads_no_updates [OF that(2)] by simp
  have extend0: "connection_updates_ok E connection
      (EvNow # EvGetConnection req # EvCreateOrUpdateDeployment d f # t)"
    if "updates_ok E connection_ops DBaaSConnectionReadyType (\<lambda>_. False) t" for connection d f t
    using extend [OF updates_ok_weaken [OF that], of connection "[]"] by simp
  have no_write: "list_all (\<lambda>e. \<not> is_provider_write e) t \<Longrightarrow> connection_writes_ok c t" for t c
    by (simp add: list_all_iff)
  show ?thesis
    unfolding DBaaSConnection_Reconcile_def PlatformInstallStart_def Let_def
      reconcileDevTopologyResource_def
    apply (intro runs_intros
        connection_gate.check_updates [OF assms, where J = "\<lambda>_. False", THEN runs_conseq]
        admitted_connection_step [OF assms, THEN runs_conseq])
    subgoal by simp
    subgoal by simp
    subgoal by (auto intro: extend0 simp: no_write list_all_iff)
    subgoal by (auto intro: extend simp: connection_prefix_def reads_writes_ok)
    subgoal by (auto intro: extend0 simp: no_write list_all_iff)
    done
qed

text \<open>The connection of the example world is written, and reported ready.\<close>

lemma demo_connection_resource:
  "runs (reconcileProviderResource demo_env connection_ops
     (connection_callbacks demo_env zero_DBaaSProvider (conn_Spec demo_connection)) n
     DBaaSConnectionReadyType demo_connection) h (\<lambda>r t. fst r \<noteq> Panicked \<and>
       (\<exists>e \<in> set t. is_provider_write e) \<and>
       (\<exists>x. EvStatusUpdateConnection x \<in> set t \<and> connection_ready demo_env x))"
  by (simp add: runs_def reconcileProviderResource_def reconcileProviderResource_body_def
      reconcileProviderResource_deferred_def Let_def getDBaaSProvider_def statusUpdate_def
      connection_callbacks_def ref_create_or_update_def providerObjectMutateFn_def env_simps
      mergeConnectionStatus_def DBaaSConnectionStatus_ConvertTo_def connection_ops_def)

lemma demo_connection_written:
  "runs (DBaaSConnection_Reconcile demo_env ([], [])) [] (\<lambda>out t.
     (\<exists>e \<in> set t. is_provider_write e) \<and>
     (\<exists>x. EvStatusUpdateConnection x \<in> set t \<and> connection_ready demo_env x))"
proof -
  let ?Q = "\<lambda>t. (\<exists>e \<in> set t. is_provider_write e) \<and>
     (\<exists>x. EvStatusUpdateConnection x \<in> set t \<and> connection_ready demo_env x)"
  have spec: "run_state (getConnectionSpec demo_env (conn_Spec demo_connection)) h =
      (Inr (conn_Spec demo_connection), h @ [])" for h
    by (simp add: getConnectionSpec_def env_simps)
  have admitted: "runs (reconcile_admitted_connection demo_env x ev demo_inventory demo_connection) h
      (\<lambda>out. ?Q)" for x ev h
    unfolding reconcile_admitted_connection_def getDBaaSProvider_def
    apply (rule runs_bind_value [OF spec], simp add: env_simps)
    apply (rule runs_bind_value [OF run_state_call], simp add: env_simps)
    by (intro runs_intros demo_connection_resource [THEN runs_conseq] runs_only [OF metrics_connection])
      (auto simp: env_simps)
  have check: "run_state (checkInventory demo_env connection_ops f ref demo_connection) h =
      (\<lparr>ck_inventory = demo_inventory, ck_validNS = True,
        ck_provision = canProvision demo_inventory (Some demo_policy), ck_err = None,
        ck_object = demo_connection\<rparr>, h @ [EvGetInventory (key_of_ref ref), EvListPolicies []])" for f ref h
    by (simp add: checkInventory_def policyListByNS_def isValidConnectionNS_def Let_def env_simps)
  obtain d where deploy: "run_state (reconcileDevTopologyResource demo_env demo_connection)
      [EvNow, EvGetConnection ([], [])] = (Inr d, [EvNow, EvGetConnection ([], [])] @
        [EvCreateOrUpdateDeployment (zero_Deployment (named_meta [] []))
           (deploymentMutateFn demo_env demo_connection)])"
    by (auto simp: reconcileDevTopologyResource_def ref_create_or_update_def deploymentMutateFn_def
        Let_def env_simps)
  show ?thesis
    unfolding DBaaSConnection_Reconcile_def PlatformInstallStart_def Let_def
    apply (intro runs_bind runs_call runs_return, simp add: env_simps)
    apply (rule runs_bind_value [OF deploy], simp add: env_simps)
    apply (rule runs_bind_value [OF check], simp add: env_simps)
    by (rule admitted [THEN runs_conseq]) (simp add: env_simps)
qed
text \<open>C2: A provider connection object is written only if the connection's inventory admits it (it
  exists, is not marked unready, and the connection's namespace is valid for it); what is
  written has the connection's own namespace and name, and a spec that names a database
  service.\<close>

theorem connection_written_only_if_admitted:
  assumes "conditions_contract E"
  shows "runs (DBaaSConnection_Reconcile E req) h (\<lambda>out t.
    \<forall>e \<in> set t. is_provider_write e \<longrightarrow>
      (\<exists>connection inventory. srv_GetConnection E (h @ [EvNow]) req = Inr connection \<and>
         connection_admitted E h req connection inventory \<and> connection_write connection e))"
  using connection_reconcile_all [OF assms] by (rule runs_conseq) (auto simp: list_all_iff)

theorem connection_written_only_if_admitted_witness:
  "runs (DBaaSConnection_Reconcile demo_env ([], [])) [] (\<lambda>out t. \<exists>e \<in> set t. is_provider_write e \<and>
     (\<exists>inventory. connection_admitted demo_env [] ([], []) demo_connection inventory) \<and>
     connection_write demo_connection e)"
  by (rule runs_conseq [OF runs_conj [OF demo_connection_written
        connection_written_only_if_admitted [OF demo_conditions_contract]]])
    (auto simp: demo_env_simps(8))

text \<open>C5: Reconciling a connection never panics, updates its status at most once, and reports it
  ready only if it was ready before, or if the provider object written in this
  reconciliation came back with a true sync condition.\<close>

theorem connection_reconcile_ready_justified:
  assumes "conditions_contract E"
  shows "runs (DBaaSConnection_Reconcile E req) h (\<lambda>out t.
    out \<noteq> Panicked \<and>
    length (filter is_status_update t) \<le> 1 \<and>
    (\<forall>x. EvStatusUpdateConnection x \<in> set t \<and> connection_ready E x \<longrightarrow>
       (\<exists>connection. srv_GetConnection E (h @ [EvNow]) req = Inr connection \<and>
          connection_ready_justified E connection t)))"
  using connection_reconcile_all [OF assms]
proof (rule runs_conseq)
  fix out t
  assume a: "out \<noteq> Panicked \<and>
    ((\<exists>connection. srv_GetConnection E (h @ [EvNow]) req = Inr connection \<and>
        connection_updates_ok E connection t \<and> connection_writes_ok connection t \<and>
        ((\<exists>e \<in> set t. is_provider_write e) \<longrightarrow>
           (\<exists>inventory. connection_admitted E h req connection inventory))) \<or>
     list_all (\<lambda>e. \<not> is_status_update e \<and> \<not> is_provider_write e) t)"
  then consider connection where "srv_GetConnection E (h @ [EvNow]) req = Inr connection"
      "connection_updates_ok E connection t"
    | "no_updates t" by (auto simp: list_all_iff)
  then have "length (filter is_status_update t) \<le> 1 \<and>
    (\<forall>x. EvStatusUpdateConnection x \<in> set t \<and> connection_ready E x \<longrightarrow>
       (\<exists>connection. srv_GetConnection E (h @ [EvNow]) req = Inr connection \<and>
          connection_ready_justified E connection t))"
    using connection_obj.updates_ok_quiet [of t E _ "\<lambda>_. False"]
    by cases (auto simp: updates_ok_def)
  with a show "out \<noteq> Panicked \<and> length (filter is_status_update t) \<le> 1 \<and>
    (\<forall>x. EvStatusUpdateConnection x \<in> set t \<and> connection_ready E x \<longrightarrow>
       (\<exists>connection. srv_GetConnection E (h @ [EvNow]) req = Inr connection \<and>
          connection_ready_justified E connection t))" by blast
qed

theorem connection_reconcile_ready_justified_witness:
  "runs (DBaaSConnection_Reconcile demo_env ([], [])) [] (\<lambda>out t. out \<noteq> Panicked \<and>
     (\<exists>x. EvStatusUpdateConnection x \<in> set t \<and> connection_ready demo_env x) \<and>
     connection_ready_justified demo_env demo_connection t)"
  by (rule runs_conseq [OF runs_conj [OF demo_connection_written
        connection_reconcile_ready_justified [OF demo_conditions_contract]]])
    (auto simp: demo_env_simps(8))

end
