(* ===== verification/Instance_Controller.thy ===== *)
theory Instance_Controller
  imports Reconciler
begin

section \<open>The instance controller\<close>

text \<open>
  \<open>controllers/dbaasinstance_controller.go\<close>: reconciling a \<open>DBaaSInstance\<close>. The inventory
  gate also asks whether provisioning is allowed; the spec passed on to a v1alpha1 provider is
  converted through the API.
\<close>

subsection \<open>The handler\<close>

type_synonym provider_instance = "DBaaSProviderInstance_v1alpha1 + DBaaSProviderInstance"

definition mergeInstanceStatus ::
    "env \<Rightarrow> DBaaSInstance \<Rightarrow> DBaaSProviderInstance \<Rightarrow> Condition \<times> DBaaSInstance" where
  "mergeInstanceStatus E ins providerInst =
     (let status = pins_Status providerInst;
          status = (if inst_Phase status = [] then status\<lparr>inst_Phase := InstancePhaseUnknown\<rparr>
                    else status);
          specSync = FindStatusCondition E (inst_Conditions (pins_Status providerInst))
            DBaaSInstanceProviderSyncType
      in (if (case specSync of None \<Rightarrow> False | Some c \<Rightarrow> c_Status c = ConditionTrue)
          then mkCondition DBaaSInstanceReadyType ConditionTrue Ready MsgProviderCRStatusSyncDone
          else mkCondition DBaaSInstanceReadyType ConditionFalse ProviderReconcileInprogress
                 MsgProviderCRReconcileInProgress,
          ins\<lparr>instance_Status := status\<rparr>))"

text \<open>The status error function that \<open>Reconcile\<close> passes to \<open>checkInventory\<close>.\<close>

definition instance_status_error ::
    "env \<Rightarrow> string \<Rightarrow> string \<Rightarrow> DBaaSInstance \<Rightarrow> DBaaSInstance" where
  "instance_status_error E reason message ins =
     (let ins = o_SetConditions instance_ops
            (SetStatusCondition E (o_Conditions instance_ops ins)
               (mkCondition DBaaSInstanceReadyType ConditionFalse reason message)) ins
      in ins\<lparr>instance_Status := (instance_Status ins)\<lparr>inst_Phase := InstancePhaseError\<rparr>\<rparr>)"

definition instance_callbacks ::
    "env \<Rightarrow> DBaaSProvider \<Rightarrow> (DBaaSInstance, provider_instance) provider_callbacks" where
  "instance_callbacks E provider =
     \<lparr>providerObjectKindFn = (\<lambda>p. ps_InstanceKind (prov_Spec p)),
      DBaaSObjectSpecFn = (\<lambda>ins.
        if uses_v1alpha1 E provider then do {
          (err, spec) \<leftarrow> DBaaSInstanceSpec_ConvertFrom E zero_DBaaSInstanceSpec_v1alpha1
            (instance_Spec ins);
          ret (InstanceSpecV1alpha1 spec)
        }
        else ret (InstanceSpecV1beta1 (instance_Spec ins))),
      parseProviderObject = (\<lambda>u.
        if uses_v1alpha1 E provider
        then map_sum id Inl (UnmarshalInstanceV1alpha1 E u)
        else map_sum id Inr (UnmarshalInstanceV1beta1 E u)),
      DBaaSObjectSyncStatusFn = (\<lambda>ins i.
        if uses_v1alpha1 E provider then
          (case i of
             Inl providerInsV1alpha1 \<Rightarrow>
               Some (mergeInstanceStatus E ins
                 (zero_DBaaSProviderInstance\<lparr>pins_Status := DBaaSInstanceStatus_ConvertTo
                    (a1pins_Status providerInsV1alpha1) (pins_Status zero_DBaaSProviderInstance)\<rparr>))
           | Inr _ \<Rightarrow> None)
        else
          (case i of
             Inr providerIns \<Rightarrow> Some (mergeInstanceStatus E ins providerIns)
           | Inl _ \<Rightarrow> None))\<rparr>"

text \<open>The first conversion of \<open>Reconcile\<close>, whose only purpose is its error.\<close>

definition check_instance_conversion ::
    "env \<Rightarrow> DBaaSProvider \<Rightarrow> DBaaSInstance \<Rightarrow> (go_error option) prog" where
  "check_instance_conversion E provider ins =
     (if uses_v1alpha1 E provider then do {
        (err, spec) \<leftarrow> DBaaSInstanceSpec_ConvertFrom E zero_DBaaSInstanceSpec_v1alpha1
          (instance_Spec ins);
        ret err
      } else ret None)"

definition reconcile_admitted_instance ::
    "env \<Rightarrow> Execution \<Rightarrow> string \<Rightarrow> DBaaSInventory \<Rightarrow> DBaaSInstance \<Rightarrow> outcome prog" where
  "reconcile_admitted_instance E execution ev inventory ins = do {
     r \<leftarrow> getDBaaSProvider E (inv_ProviderName inventory);
     case r of
       Inl err \<Rightarrow> ret (Returned Result_zero (Some err))
     | Inr provider \<Rightarrow> do {
         err \<leftarrow> check_instance_conversion E provider ins;
         case err of
           Some err \<Rightarrow> ret (Returned Result_zero (Some err))
         | None \<Rightarrow> do {
             (out, ins) \<leftarrow> reconcileProviderResource E instance_ops
               (instance_callbacks E provider) (inv_ProviderName inventory)
               DBaaSInstanceReadyType ins;
             case out of
               Panicked \<Rightarrow> ret Panicked
             | Returned result err \<Rightarrow> do {
                 SetInstanceMetrics E (inv_ProviderName inventory) (inv_Name inventory)
                   ins execution ev [];
                 ret (Returned result err)
               }
           }
       }
   }"

definition DBaaSInstance_Reconcile :: "env \<Rightarrow> ObjectKey \<Rightarrow> outcome prog" where
  "DBaaSInstance_Reconcile E req = do {
     execution \<leftarrow> PlatformInstallStart E;
     r \<leftarrow> getInstance E req;
     case r of
       Inl err \<Rightarrow> ret (Returned Result_zero (if IsNotFound err then None else Some err))
     | Inr ins \<Rightarrow>
         (let ev = (if om_DeletionTimestamp (instance_ObjectMeta ins) \<noteq> None
                    then LabelEventValueDelete else LabelEventValueCreate)
          in do {
            ck \<leftarrow> checkInventory E instance_ops (instance_status_error E)
              (ins_InventoryRef (instance_Spec ins)) ins;
            case ck_err ck of
              Some err \<Rightarrow> ret (Returned Result_zero (Some err))
            | None \<Rightarrow>
                if \<not> ck_validNS ck then ret (Returned Result_zero None)
                else if \<not> ck_provision ck then ret (Returned Result_zero None)
                else reconcile_admitted_instance E execution ev (ck_inventory ck) (ck_object ck)
          })
   }"

definition DBaaSInstance_Delete :: "env \<Rightarrow> DBaaSInstance option \<Rightarrow> (go_error option) prog" where
  "DBaaSInstance_Delete E obj = do {
     execution \<leftarrow> PlatformInstallStart E;
     case obj of
       None \<Rightarrow> ret None
     | Some instanceObj \<Rightarrow> do {
         r \<leftarrow> getInventory E (key_of_ref (ins_InventoryRef (instance_Spec instanceObj)));
         let inventory = (case r of Inl _ \<Rightarrow> zero_DBaaSInventory | Inr i \<Rightarrow> i);
         SetInstanceMetrics E (inv_ProviderName inventory) (inv_Name inventory) instanceObj
           execution LabelEventValueDelete [];
         ret None
       }
   }"

subsection \<open>Its callbacks meet the contracts\<close>

definition instance_synced :: "env \<Rightarrow> provider_instance \<Rightarrow> bool" where
  "instance_synced E p \<longleftrightarrow>
     (\<exists>c. FindStatusCondition E
        (case p of Inl a \<Rightarrow> a1inst_Conditions (a1pins_Status a)
                 | Inr b \<Rightarrow> inst_Conditions (pins_Status b))
        DBaaSInstanceProviderSyncType = Some c \<and> c_Status c = ConditionTrue)"

lemma instance_ops_simps [simp]:
  "o_StatusUpdateEvent instance_ops = EvStatusUpdateInstance"
  "o_Conditions instance_ops = (\<lambda>x. inst_Conditions (instance_Status x))"
  "o_ObjectMeta instance_ops = instance_ObjectMeta"
  "o_TypeName instance_ops = ''DBaaSInstance''"
  "o_SetConditions instance_ops =
     (\<lambda>cs x. x\<lparr>instance_Status := (instance_Status x)\<lparr>inst_Conditions := cs\<rparr>\<rparr>)"
  by (simp_all add: instance_ops_def)

lemma only_instance_conversion [only_intros]:
  "(\<And>e. is_read e \<Longrightarrow> P e) \<Longrightarrow> only P (DBaaSInstanceSpec_ConvertFrom E dst src)"
  unfolding DBaaSInstanceSpec_ConvertFrom_def Let_def by (intro only_intros) simp_all

lemma instance_spec_reads: "only is_read (DBaaSObjectSpecFn (instance_callbacks E provider) x)"
  unfolding instance_callbacks_def provider_callbacks.simps by (intro only_intros)

interpretation instance_provider: provider_contract instance_ops E "instance_callbacks E provider"
    DBaaSInstanceReadyType "instance_synced E" for E provider
  by (unfold_locales, rule instance_spec_reads)
    (auto simp: instance_callbacks_def mergeInstanceStatus_def instance_synced_def Let_def
      DBaaSInstanceStatus_ConvertTo_def map_sum_def
      split: sum.splits if_splits option.splits)

interpretation instance_gate: gated_object instance_ops E "instance_status_error E"
    DBaaSInstanceReadyType for E
  by unfold_locales (simp add: instance_status_error_def Let_def)

subsection \<open>Status updates and writes of a reconciliation\<close>

text \<open>
  A write that an instance justifies: of the instance's own name, with a spec for the version
  the provider uses; a v1beta1 provider gets the instance's spec unchanged.
\<close>

definition instance_write :: "DBaaSInstance \<Rightarrow> event \<Rightarrow> bool" where
  "instance_write ins e \<longleftrightarrow>
     (\<exists>x f. e = EvCreateOrUpdateProviderObject x f \<and>
        key_of (u_ObjectMeta x) = key_of (instance_ObjectMeta ins) \<and>
        (\<forall>u u'. f u = Inr u' \<longrightarrow> (\<exists>s. u_Spec u' = Some (InstanceSpecV1alpha1 s)) \<or>
           u_Spec u' = Some (InstanceSpecV1beta1 (instance_Spec ins))))"

lemma instance_spec_value:
  "(\<exists>s. fst (run_state (DBaaSObjectSpecFn (instance_callbacks E provider) ins) h) =
      InstanceSpecV1alpha1 s) \<or>
   fst (run_state (DBaaSObjectSpecFn (instance_callbacks E provider) ins) h) =
      InstanceSpecV1beta1 (instance_Spec ins)"
  by (simp add: instance_callbacks_def split: prod.splits)

lemma instance_write_written:
  assumes "written_for E instance_ops (instance_callbacks E provider) ins e"
  shows "instance_write ins e"
  using assms instance_spec_value [of E provider ins]
  by (auto simp: written_for_def instance_write_def createProviderObject_def key_of_def
      providerObjectMutateFn_def Let_def split: sum.splits)

abbreviation instance_ready :: "env \<Rightarrow> DBaaSInstance \<Rightarrow> bool" where
  "instance_ready E x \<equiv>
     IsStatusConditionTrue E (inst_Conditions (instance_Status x)) DBaaSInstanceReadyType"

definition instance_ready_justified :: "env \<Rightarrow> DBaaSInstance \<Rightarrow> event list \<Rightarrow> bool" where
  "instance_ready_justified E ins t \<longleftrightarrow>
     (\<exists>provider. ready_justified E instance_ops
        (parseProviderObject (instance_callbacks E provider)) (instance_synced E)
        DBaaSInstanceReadyType ins t)"

abbreviation instance_updates_ok :: "env \<Rightarrow> DBaaSInstance \<Rightarrow> event list \<Rightarrow> bool" where
  "instance_updates_ok E ins \<equiv> updates_ok E instance_ops DBaaSInstanceReadyType
     (instance_ready_justified E ins)"

abbreviation instance_writes_ok :: "DBaaSInstance \<Rightarrow> event list \<Rightarrow> bool" where
  "instance_writes_ok ins t \<equiv> list_all (\<lambda>e. is_provider_write e \<longrightarrow> instance_write ins e) t"

lemma instance_justified_mono: "monotone_in_events (instance_ready_justified E ins)"
  unfolding instance_ready_justified_def by (rule monotone_ex, rule ready_justified_mono)

lemma instance_resource_step:
  assumes "conditions_contract E"
  shows "runs (reconcileProviderResource E instance_ops (instance_callbacks E provider)
      n DBaaSInstanceReadyType ins) h (\<lambda>r t. fst r \<noteq> Panicked \<and>
        instance_updates_ok E ins t \<and> instance_writes_ok ins t)"
  using runs_conj [OF instance_provider.reconcile_updates [OF assms(1)]
      instance_provider.reconcile_writes]
proof (rule runs_conseq)
  fix r :: "outcome \<times> DBaaSInstance" and t
  let ?cb = "instance_callbacks E provider"
  assume a: "(fst r \<noteq> Panicked \<and> updates_ok E instance_ops DBaaSInstanceReadyType
      (ready_justified E instance_ops (parseProviderObject ?cb) (instance_synced E)
        DBaaSInstanceReadyType ins) t) \<and>
    list_all (\<lambda>e. is_provider_write e \<longrightarrow> written_for E instance_ops ?cb ins e) t"
  have "instance_updates_ok E ins t"
    by (rule updates_ok_weaken [OF conjunct2 [OF conjunct1 [OF a]]])
      (auto simp: instance_ready_justified_def)
  then show "fst r \<noteq> Panicked \<and> instance_updates_ok E ins t \<and> instance_writes_ok ins t"
    using a instance_write_written by (auto simp: list_all_iff)
qed

lemma metrics_instance:
  "only (\<lambda>e. \<not> is_status_update e \<and> \<not> is_provider_write e)
     (SetInstanceMetrics E provider account i x ev cd)"
  by (intro only_intros) (auto dest: telemetry_not_update)

lemma only_check_instance_conversion: "only is_read (check_instance_conversion E provider ins)"
  unfolding check_instance_conversion_def by (intro only_intros)

lemma admitted_instance_step:
  assumes "conditions_contract E"
  shows "runs (reconcile_admitted_instance E execution ev inventory ins) h (\<lambda>out t.
    out \<noteq> Panicked \<and> instance_updates_ok E ins t \<and> instance_writes_ok ins t)"
proof -
  have extend: "instance_updates_ok E ins (e # a @ t @ b)"
    if "instance_updates_ok E ins t" "list_all is_read a" "is_read e"
      "list_all (\<lambda>e. \<not> is_status_update e \<and> \<not> is_provider_write e) b" for a e t b
  proof -
    have "no_updates (e # a)" "no_updates b"
      using that(2-) is_read_not_write by (auto simp: list_all_iff)
    from instance_obj.updates_ok_extend [OF that(1) instance_justified_mono this]
    show ?thesis by simp
  qed
  have quiet: "instance_updates_ok E ins (e # a)" if "list_all is_read a" "is_read e" for a e
    using instance_obj.updates_ok_quiet [OF reads_no_updates, of "e # a"] that by simp
  show ?thesis
    unfolding reconcile_admitted_instance_def getDBaaSProvider_def
    apply (intro runs_intros runs_only [OF only_check_instance_conversion]
        instance_resource_step [OF assms, THEN runs_conseq] runs_only [OF metrics_instance])
    subgoal using quiet [of "[]"] by simp
    subgoal by (auto intro: extend dest: is_read_not_write simp: list_all_iff)
    subgoal by simp
    subgoal by (auto intro: quiet simp: reads_writes_ok)
    done
qed

abbreviation instance_admitted ::
    "env \<Rightarrow> history \<Rightarrow> ObjectKey \<Rightarrow> DBaaSInstance \<Rightarrow> DBaaSInventory \<Rightarrow> bool" where
  "instance_admitted E h req ins inventory \<equiv>
     inventory_admits E (h @ [EvNow, EvGetInstance req]) ''DBaaSInstance''
       (om_Namespace (instance_ObjectMeta ins)) (ins_InventoryRef (instance_Spec ins)) inventory"

lemma instance_reconcile_all:
  assumes "conditions_contract E"
  shows "runs (DBaaSInstance_Reconcile E req) h (\<lambda>out t. out \<noteq> Panicked \<and>
    ((\<exists>ins. srv_GetInstance E (h @ [EvNow]) req = Inr ins \<and>
        instance_updates_ok E ins t \<and> instance_writes_ok ins t \<and>
        ((\<exists>e \<in> set t. is_provider_write e) \<longrightarrow>
           (\<exists>inventory. instance_admitted E h req ins inventory))) \<or>
     list_all (\<lambda>e. \<not> is_status_update e \<and> \<not> is_provider_write e) t))"
proof -
  have extend: "instance_updates_ok E ins (EvNow # EvGetInstance req # a @ t)"
    if "instance_updates_ok E ins t" "list_all is_read a" for ins a t
    using instance_obj.updates_ok_extend [OF that(1) instance_justified_mono,
      of "[EvNow, EvGetInstance req] @ a" "[]"] reads_no_updates [OF that(2)] by simp
  have extend0: "instance_updates_ok E ins (EvNow # EvGetInstance req # t)"
    if "updates_ok E instance_ops DBaaSInstanceReadyType (\<lambda>_. False) t" for ins t
    using extend [OF updates_ok_weaken [OF that], of ins "[]"] by simp
  have quiet: "instance_updates_ok E ins (EvNow # EvGetInstance req # a)"
    if "list_all is_read a" for ins a
    using instance_obj.updates_ok_quiet [OF reads_no_updates, of "EvNow # EvGetInstance req # a"] that
    by simp
  have no_write: "list_all (\<lambda>e. \<not> is_provider_write e) t \<Longrightarrow> instance_writes_ok c t" for t c
    by (simp add: list_all_iff)
  show ?thesis
    unfolding DBaaSInstance_Reconcile_def PlatformInstallStart_def Let_def
    apply (intro runs_intros
        instance_gate.check_updates [OF assms, where J = "\<lambda>_. False", THEN runs_conseq]
        admitted_instance_step [OF assms, THEN runs_conseq])
    subgoal by simp
    subgoal by (auto intro: extend0 simp: no_write list_all_iff)
    subgoal by (auto intro: quiet dest: is_read_not_write simp: reads_writes_ok list_all_iff)
    subgoal by (auto intro: extend simp: reads_writes_ok)
    subgoal by (auto intro: extend0 simp: no_write list_all_iff)
    done
qed

text \<open>The instance of the example world is written, and reported ready.\<close>

lemma demo_instance_conversion: "\<exists>sp. run_state (DBaaSInstanceSpec_ConvertFrom demo_env
    zero_DBaaSInstanceSpec_v1alpha1 (instance_Spec zero_DBaaSInstance)) h = ((None, sp), h @ [EvGetInventory ([], [])])"
  by (simp add: DBaaSInstanceSpec_ConvertFrom_def Let_def env_simps key_of_ref_def
      zero_DBaaSInstance_def zero_DBaaSInstanceSpec_def zero_NamespacedName_def)

lemma demo_instance_resource:
  "runs (reconcileProviderResource demo_env instance_ops
     (instance_callbacks demo_env zero_DBaaSProvider) n DBaaSInstanceReadyType zero_DBaaSInstance) h
     (\<lambda>r t. fst r \<noteq> Panicked \<and> (\<exists>e \<in> set t. is_provider_write e) \<and>
       (\<exists>x. EvStatusUpdateInstance x \<in> set t \<and> instance_ready demo_env x))"
proof -
  obtain sp where sp: "run_state (DBaaSInstanceSpec_ConvertFrom demo_env
    zero_DBaaSInstanceSpec_v1alpha1 (instance_Spec zero_DBaaSInstance))
      (h @ [EvGetProvider ([], n)]) = ((None, sp), h @ [EvGetProvider ([], n)] @ [EvGetInventory ([], [])])"
    using demo_instance_conversion [of "h @ [EvGetProvider ([], n)]"] by auto
  show ?thesis
    by (simp add: runs_def reconcileProviderResource_def reconcileProviderResource_body_def
      reconcileProviderResource_deferred_def Let_def getDBaaSProvider_def statusUpdate_def
      instance_callbacks_def ref_create_or_update_def providerObjectMutateFn_def env_simps sp
      mergeInstanceStatus_def DBaaSInstanceStatus_ConvertTo_def instance_ops_def)
qed

lemma demo_instance_written:
  "runs (DBaaSInstance_Reconcile demo_env ([], [])) [] (\<lambda>out t.
     (\<exists>e \<in> set t. is_provider_write e) \<and>
     (\<exists>x. EvStatusUpdateInstance x \<in> set t \<and> instance_ready demo_env x))"
proof -
  let ?Q = "\<lambda>t. (\<exists>e \<in> set t. is_provider_write e) \<and>
     (\<exists>x. EvStatusUpdateInstance x \<in> set t \<and> instance_ready demo_env x)"
  have convert: "\<exists>t. run_state (check_instance_conversion demo_env zero_DBaaSProvider zero_DBaaSInstance) h
      = (None, h @ t)" for h
    using demo_instance_conversion [of h] by (auto simp: check_instance_conversion_def env_simps)
  have admitted: "runs (reconcile_admitted_instance demo_env x ev demo_inventory zero_DBaaSInstance) h
      (\<lambda>out. ?Q)" for x ev h
  proof -
    obtain t where t: "run_state (check_instance_conversion demo_env zero_DBaaSProvider zero_DBaaSInstance)
        (h @ [EvGetProvider ([], inv_ProviderName demo_inventory)])
      = (None, (h @ [EvGetProvider ([], inv_ProviderName demo_inventory)]) @ t)"
      using convert by blast
    show ?thesis
      unfolding reconcile_admitted_instance_def getDBaaSProvider_def
      apply (rule runs_bind_value [OF run_state_call], simp add: env_simps)
      apply (rule runs_bind_value [OF t], simp add: env_simps)
      by (intro runs_intros demo_instance_resource [THEN runs_conseq] runs_only [OF metrics_instance])
        (auto simp: env_simps)
  qed
  have check: "run_state (checkInventory demo_env instance_ops f ref zero_DBaaSInstance) h =
      (\<lparr>ck_inventory = demo_inventory, ck_validNS = True, ck_provision = True, ck_err = None,
        ck_object = zero_DBaaSInstance\<rparr>, h @ [EvGetInventory (key_of_ref ref), EvListPolicies []])" for f ref h
    by (simp add: checkInventory_def policyListByNS_def isValidConnectionNS_def Let_def env_simps
        canProvision_def)
  show ?thesis
    unfolding DBaaSInstance_Reconcile_def PlatformInstallStart_def Let_def
    apply (intro runs_bind runs_call runs_return, simp add: env_simps)
    apply (rule runs_bind_value [OF check], simp add: env_simps)
    by (rule admitted [THEN runs_conseq]) (simp add: env_simps)
qed

text \<open>C3: A provider instance object is written only if the instance's inventory admits it: it
  exists, is not marked unready, the instance's namespace is valid for it, and provisioning
  against it is allowed by its own or the active policy; what is written has the instance's own
  namespace and name.\<close>

theorem instance_written_only_if_admitted:
  assumes "conditions_contract E"
  shows "runs (DBaaSInstance_Reconcile E req) h (\<lambda>out t.
    \<forall>e \<in> set t. is_provider_write e \<longrightarrow>
      (\<exists>ins inventory. srv_GetInstance E (h @ [EvNow]) req = Inr ins \<and>
         instance_admitted E h req ins inventory \<and> instance_write ins e))"
  using instance_reconcile_all [OF assms] by (rule runs_conseq) (auto simp: list_all_iff)

theorem instance_written_only_if_admitted_witness:
  "runs (DBaaSInstance_Reconcile demo_env ([], [])) [] (\<lambda>out t. \<exists>e \<in> set t. is_provider_write e \<and>
     (\<exists>inventory. instance_admitted demo_env [] ([], []) zero_DBaaSInstance inventory) \<and>
     instance_write zero_DBaaSInstance e)"
  by (rule runs_conseq [OF runs_conj [OF demo_instance_written
        instance_written_only_if_admitted [OF demo_conditions_contract]]])
    (auto simp: demo_env_simps(10))

text \<open>C6: Reconciling an instance never panics, updates its status at most once, and reports it
  ready only if it was ready before, or if the provider object written in this
  reconciliation came back with a true sync condition.\<close>

theorem instance_reconcile_ready_justified:
  assumes "conditions_contract E"
  shows "runs (DBaaSInstance_Reconcile E req) h (\<lambda>out t.
    out \<noteq> Panicked \<and>
    length (filter is_status_update t) \<le> 1 \<and>
    (\<forall>x. EvStatusUpdateInstance x \<in> set t \<and> instance_ready E x \<longrightarrow>
       (\<exists>ins. srv_GetInstance E (h @ [EvNow]) req = Inr ins \<and>
          instance_ready_justified E ins t)))"
  using instance_reconcile_all [OF assms]
proof (rule runs_conseq)
  fix out t
  assume a: "out \<noteq> Panicked \<and>
    ((\<exists>ins. srv_GetInstance E (h @ [EvNow]) req = Inr ins \<and>
        instance_updates_ok E ins t \<and> instance_writes_ok ins t \<and>
        ((\<exists>e \<in> set t. is_provider_write e) \<longrightarrow>
           (\<exists>inventory. instance_admitted E h req ins inventory))) \<or>
     list_all (\<lambda>e. \<not> is_status_update e \<and> \<not> is_provider_write e) t)"
  then consider ins where "srv_GetInstance E (h @ [EvNow]) req = Inr ins"
      "instance_updates_ok E ins t"
    | "no_updates t" by (auto simp: list_all_iff)
  then have "length (filter is_status_update t) \<le> 1 \<and>
    (\<forall>x. EvStatusUpdateInstance x \<in> set t \<and> instance_ready E x \<longrightarrow>
       (\<exists>ins. srv_GetInstance E (h @ [EvNow]) req = Inr ins \<and>
          instance_ready_justified E ins t))"
    using instance_obj.updates_ok_quiet [of t E _ "\<lambda>_. False"]
    by cases (auto simp: updates_ok_def)
  with a show "out \<noteq> Panicked \<and> length (filter is_status_update t) \<le> 1 \<and>
    (\<forall>x. EvStatusUpdateInstance x \<in> set t \<and> instance_ready E x \<longrightarrow>
       (\<exists>ins. srv_GetInstance E (h @ [EvNow]) req = Inr ins \<and>
          instance_ready_justified E ins t))" by blast
qed

theorem instance_reconcile_ready_justified_witness:
  "runs (DBaaSInstance_Reconcile demo_env ([], [])) [] (\<lambda>out t. out \<noteq> Panicked \<and>
     (\<exists>x. EvStatusUpdateInstance x \<in> set t \<and> instance_ready demo_env x) \<and>
     instance_ready_justified demo_env zero_DBaaSInstance t)"
  by (rule runs_conseq [OF runs_conj [OF demo_instance_written
        instance_reconcile_ready_justified [OF demo_conditions_contract]]])
    (auto simp: demo_env_simps(10))

subsection \<open>Without the client of the webhooks\<close>

text \<open>
  The conversion for a v1alpha1 provider reads the inventory through the client of the
  webhooks: without it no instance of such a provider is passed on.
\<close>

lemma conversion_without_client:
  "\<not> WebhookAPIClientSet E \<Longrightarrow> uses_v1alpha1 E provider \<Longrightarrow>
     runs (check_instance_conversion E provider ins) h (\<lambda>err t. err \<noteq> None \<and> list_all is_read t)"
  unfolding check_instance_conversion_def DBaaSInstanceSpec_ConvertFrom_def Let_def
  by (intro runs_intros) auto

lemma admitted_without_client:
  assumes "\<not> WebhookAPIClientSet E" "\<And>h n p. srv_GetProvider E h n = Inr p \<Longrightarrow> uses_v1alpha1 E p"
  shows "runs (reconcile_admitted_instance E ex ev inventory ins) h (\<lambda>out t. list_all is_read t)"
  unfolding reconcile_admitted_instance_def getDBaaSProvider_def
  by (intro runs_intros conversion_without_client [OF assms(1), THEN runs_conseq])
    (auto dest: assms(2))

lemma instance_without_client:
  assumes "conditions_contract E" "\<not> WebhookAPIClientSet E"
    "\<And>h n p. srv_GetProvider E h n = Inr p \<Longrightarrow> uses_v1alpha1 E p"
  shows "runs (DBaaSInstance_Reconcile E req) h (\<lambda>out t. list_all (\<lambda>e. \<not> is_provider_write e) t)"
proof -
  have check: "runs (checkInventory E instance_ops (instance_status_error E) ref ins) h
      (\<lambda>ck t. list_all (\<lambda>e. \<not> is_provider_write e) t)" for ref ins h
    by (rule runs_conseq [OF instance_gate.check_updates [OF assms(1)]])
      (auto simp: list_all_iff dest: is_read_not_write split: if_splits)
  show ?thesis
    unfolding DBaaSInstance_Reconcile_def PlatformInstallStart_def Let_def
    by (intro runs_intros check [THEN runs_conseq]
        admitted_without_client [OF assms(2,3), THEN runs_conseq])
      (auto simp: list_all_iff dest: is_read_not_write)
qed
end
