(* ===== verification/Policy_Controller.thy ===== *)
theory Policy_Controller
  imports Reconciler
begin

section \<open>The policy controllers\<close>

text \<open>
  \<open>controllers/dbaaspolicy_controller.go\<close> keeps one policy of each namespace active: the
  active policy's ready condition is true, and it owns a resource quota;
  \<open>controllers/dbaasdefaultpolicy_controller.go\<close> creates the default policy of the install
  namespace.
\<close>

subsection \<open>The policy handler\<close>

definition updateStatusCondition :: "env \<Rightarrow> DBaaSPolicy \<Rightarrow> Condition \<Rightarrow> outcome prog" where
  "updateStatusCondition E policy cond =
     (let policy = policy\<lparr>pol_Status := (pol_Status policy)
            \<lparr>polst_Conditions := SetStatusCondition E (pol_Conditions policy) cond\<rparr>\<rparr>
      in do {
        r \<leftarrow> statusUpdatePolicy E policy;
        ret (case r of
               Inl err \<Rightarrow> if IsConflict err then Returned Result_requeue None
                          else Returned Result_zero (Some err)
             | Inr _ \<Rightarrow> Returned Result_zero None)
      })"

definition policy_condition :: "DBaaSPolicy option \<Rightarrow> DBaaSPolicy \<Rightarrow> Condition" where
  "policy_condition activePolicy policy =
     (case activePolicy of
        None \<Rightarrow> mkCondition DBaaSPolicyReadyType ConditionTrue Ready MsgPolicyReady
      | Some a \<Rightarrow>
          if pol_Name a \<noteq> pol_Name policy
          then mkCondition DBaaSPolicyReadyType ConditionFalse DBaaSPolicyNotReady
                 (MsgPolicyNotReady @ '' - '' @ pol_Name a)
          else mkCondition DBaaSPolicyReadyType ConditionTrue Ready MsgPolicyReady)"

definition resource_quota :: "DBaaSPolicy \<Rightarrow> ResourceQuota" where
  "resource_quota policy =
     \<lparr>rq_ObjectMeta = named_meta (om_Namespace (pol_ObjectMeta policy)) (''dbaas-'' @ pol_Name policy),
      rq_GVK = \<lparr>gvk_Group = [], gvk_Version = [], gvk_Kind = []\<rparr>, rq_Hard = []\<rparr>"

definition resourceQuotaMutateFn :: "env \<Rightarrow> DBaaSPolicy \<Rightarrow> ResourceQuota MutateFn" where
  "resourceQuotaMutateFn E policy = (\<lambda>resQuota.
     let resQuota = resQuota
           \<lparr>rq_Hard := [(''count/dbaaspolicies.'' @ gv_Group GroupVersion_v1beta1, ''1'')],
            rq_GVK := \<lparr>gvk_Group = [], gvk_Version = ''v1'', gvk_Kind = ''ResourceQuota''\<rparr>\<rparr>
     in case SetControllerReference E ''DBaaSPolicy'' (pol_ObjectMeta policy)
               (rq_ObjectMeta resQuota) of
          Inl err \<Rightarrow> Inl err
        | Inr m \<Rightarrow> Inr (resQuota\<lparr>rq_ObjectMeta := m\<rparr>))"

text \<open>
  \<open>Reconcile\<close> from the point where its deferred metrics call is registered; the second result
  is the error code the deferred call reports.
\<close>

definition reconcile_policy_object ::
    "env \<Rightarrow> DBaaSPolicy option \<Rightarrow> DBaaSPolicy \<Rightarrow> (outcome \<times> string) prog" where
  "reconcile_policy_object E activePolicy policy =
     (let cond = policy_condition activePolicy policy;
          update = do {
            out \<leftarrow> updateStatusCondition E policy cond;
            ret (out, [])
          }
      in if c_Status cond = ConditionTrue then do {
           r \<leftarrow> createOrUpdateResourceQuota E (resource_quota policy)
             (resourceQuotaMutateFn E policy);
           case r of
             Inl err \<Rightarrow>
               ret (if IsConflict err
                    then (Returned Result_requeue (Some err), LabelErrorCdValueErrorResourceQuotaModified)
                    else (Returned Result_zero (Some err), LabelErrorCdValueErrUpdatingResourceQuota))
           | Inr res \<Rightarrow> update
         }
         else update)"

definition DBaaSPolicy_Reconcile :: "env \<Rightarrow> ObjectKey \<Rightarrow> outcome prog" where
  "DBaaSPolicy_Reconcile E req = do {
     execution \<leftarrow> PlatformInstallStart E;
     r \<leftarrow> policyListByNS E (fst req);
     case r of
       Inl err \<Rightarrow> ret (Returned Result_zero (Some err))
     | Inr policyList \<Rightarrow>
         (let activePolicy = getActivePolicy E policyList;
              go_on = (\<lambda>policy.
                let ev = (if om_DeletionTimestamp (pol_ObjectMeta policy) \<noteq> None
                          then LabelEventValueDelete else LabelEventValueCreate)
                in do {
                  (out, errCd) \<leftarrow> reconcile_policy_object E activePolicy policy;
                  SetPolicyMetrics E policy execution ev errCd;
                  ret out
                })
          in do {
            r \<leftarrow> getPolicy E req;
            case r of
              Inr policy \<Rightarrow> go_on policy
            | Inl err \<Rightarrow>
                if IsNotFound err then
                  (case policyList of
                     policy # _ \<Rightarrow>
                       if activePolicy = None then go_on policy
                       else ret (Returned Result_zero None)
                   | [] \<Rightarrow> ret (Returned Result_zero None))
                else ret (Returned Result_zero (Some err))
          })
   }"

definition DBaaSPolicy_Delete :: "env \<Rightarrow> DBaaSPolicy option \<Rightarrow> (go_error option) prog" where
  "DBaaSPolicy_Delete E obj = do {
     execution \<leftarrow> PlatformInstallStart E;
     case obj of
       None \<Rightarrow> ret None
     | Some policyObj \<Rightarrow> do {
         SetPolicyMetrics E policyObj execution LabelEventValueDelete [];
         ret None
       }
   }"

subsection \<open>The default policy\<close>

definition getDefaultPolicy :: "string \<Rightarrow> DBaaSPolicy" where
  "getDefaultPolicy inventoryNamespace =
     zero_DBaaSPolicy
       \<lparr>pol_ObjectMeta := named_meta inventoryNamespace ''cluster'',
        pol_Spec := \<lparr>pols_DBaaSInventoryPolicy = zero_DBaaSInventoryPolicy
          \<lparr>ip_Connections := zero_DBaaSConnectionPolicy\<lparr>cp_Namespaces := Some [''*'']\<rparr>\<rparr>\<rparr>,
        pol_TypeMeta := \<lparr>tm_Kind = ''DBaaSPolicy'', tm_APIVersion = ''dbaas.redhat.com/v1beta1''\<rparr>\<rparr>"

definition createDefaultPolicy :: "env \<Rightarrow> outcome prog" where
  "createDefaultPolicy E =
     (let defaultPolicy = getDefaultPolicy (InstallNamespace E)
      in do {
        r \<leftarrow> policyListByNS E (om_Namespace (pol_ObjectMeta defaultPolicy));
        case r of
          Inl err \<Rightarrow> ret (Returned Result_zero (Some err))
        | Inr policyList \<Rightarrow>
            if policyList = [] then do {
              r \<leftarrow> getPolicy E (key_of (pol_ObjectMeta defaultPolicy));
              case r of
                Inr _ \<Rightarrow> ret (Returned Result_zero None)
              | Inl err \<Rightarrow>
                  if IsNotFound err then do {
                    r \<leftarrow> createPolicy E defaultPolicy;
                    ret (case r of
                           Some err \<Rightarrow> Returned \<lparr>res_Requeue = False, res_RequeueAfter = 30000000000\<rparr>
                                         (Some err)
                         | None \<Rightarrow> Returned Result_zero None)
                  } else ret (Returned Result_zero None)
            }
            else ret (Returned Result_zero None)
      })"

definition DBaaSDefaultPolicy_Reconcile :: "env \<Rightarrow> ObjectKey \<Rightarrow> outcome prog" where
  "DBaaSDefaultPolicy_Reconcile E req = createDefaultPolicy E"

text \<open>
  The predicate \<open>ignoreOtherDeployments\<close>: only create events of deployments in the operator's
  namespace pass.
\<close>

fun ignoreOtherDeployments :: "env \<Rightarrow> watch_event \<Rightarrow> bool" where
  "ignoreOtherDeployments E (CreateEvent m) = (om_Namespace m = InstallNamespace E)"
| "ignoreOtherDeployments E (DeleteEvent m) = False"
| "ignoreOtherDeployments E (UpdateEvent old new) = False"
| "ignoreOtherDeployments E (GenericEvent m) = False"

subsection \<open>A namespace of policies as a state machine\<close>

text \<open>
  The state is the list of the policies of one namespace, together with the states it had
  before. Policies are created without status, edited (their status is a subresource), deleted,
  and reconciled. A reconciliation is the program \<open>DBaaSPolicy_Reconcile\<close> run in an environment
  that answers its list from the state \<open>seen\<close> and its read from the state \<open>got\<close>, and is otherwise
  arbitrary; the API server then applies the status updates among its events, or (conflict,
  failure) none of them. The reads come from a cache (\<open>main\<close> leaves policies cached) and other
  requests may come between them and the update, so \<open>seen\<close> and \<open>got\<close> may be states of the past.
\<close>

type_synonym policies = "DBaaSPolicy list"

abbreviation policy_active :: "env \<Rightarrow> DBaaSPolicy \<Rightarrow> bool" where
  "policy_active E p \<equiv> IsStatusConditionTrue E (pol_Conditions p) DBaaSPolicyReadyType"

definition serve_policies :: "env \<Rightarrow> policies \<Rightarrow> policies \<Rightarrow> env" where
  "serve_policies E seen got = E
     \<lparr>srv_ListPolicies := \<lambda>h ns. Inr seen,
      srv_GetPolicy := \<lambda>h k. case List.find (\<lambda>p. pol_Name p = snd k) got of
        None \<Rightarrow> Inl (NotFoundError ''policy not found'') | Some p \<Rightarrow> Inr p\<rparr>"

fun apply_event :: "policies \<Rightarrow> event \<Rightarrow> policies" where
  "apply_event st (EvStatusUpdatePolicy x) =
     map (\<lambda>p. if pol_Name p = pol_Name x then p\<lparr>pol_Status := pol_Status x\<rparr> else p) st"
| "apply_event st _ = st"

definition reconcile_events ::
    "env \<Rightarrow> history \<Rightarrow> string \<Rightarrow> string \<Rightarrow> policies \<Rightarrow> policies \<Rightarrow> event list" where
  "reconcile_events E h ns n seen got =
     drop (length h) (snd (run_state (DBaaSPolicy_Reconcile (serve_policies E seen got) (ns, n)) h))"

text \<open>
  How far the cache may lag behind: the policies that are active when the update arrives are
  active in what was listed. (The controller has one worker, so that this is about the time the
  cache needs to show the activation that the previous reconciliation wrote.)
\<close>

definition shows_active :: "env \<Rightarrow> policies \<Rightarrow> policies \<Rightarrow> bool" where
  "shows_active E seen st \<longleftrightarrow> (\<forall>p \<in> set st. policy_active E p \<longrightarrow>
     (\<exists>q \<in> set seen. pol_Name q = pol_Name p \<and> policy_active E q))"

inductive policy_step :: "env \<Rightarrow> policies list \<Rightarrow> policies \<Rightarrow> policies \<Rightarrow> bool" for E past where
  create: "pol_Conditions p = [] \<Longrightarrow> pol_Name p \<notin> pol_Name ` set st \<Longrightarrow>
     policy_step E past st (st @ [p])"
| edit: "(\<And>p. pol_Name (f p) = pol_Name p \<and> pol_Status (f p) = pol_Status p) \<Longrightarrow>
     policy_step E past st (map f st)"
| delete: "policy_step E past st (filter (\<lambda>p. pol_Name p \<noteq> n) st)"
| reconcile: "policy_step E past st (foldl apply_event st (reconcile_events E' h ns n seen got))"
    if "seen \<in> set (st # past)" "got \<in> set (st # past)" "shows_active E seen st"
       "\<forall>cs ty. IsStatusConditionTrue E' cs ty = IsStatusConditionTrue E cs ty"
       "\<forall>cs c. SetStatusCondition E' cs c = SetStatusCondition E cs c"
| rejected: "policy_step E past st st"

inductive policy_reachable :: "env \<Rightarrow> policies list \<Rightarrow> policies \<Rightarrow> bool" for E where
  init: "policy_reachable E [] []"
| step: "policy_reachable E past st \<Longrightarrow> policy_step E past st st' \<Longrightarrow>
     policy_reachable E (st # past) st'"

text \<open>The names are distinct and at most one policy is active.\<close>

definition policies_ok :: "env \<Rightarrow> policies \<Rightarrow> bool" where
  "policies_ok E st \<longleftrightarrow> distinct (map pol_Name st) \<and>
     (\<forall>p \<in> set st. \<forall>q \<in> set st. policy_active E p \<and> policy_active E q \<longrightarrow> pol_Name p = pol_Name q)"

lemma getActivePolicy_cong:
  "IsStatusConditionTrue E' = IsStatusConditionTrue E \<Longrightarrow> getActivePolicy E' ps = getActivePolicy E ps"
  by (induction ps) simp_all

lemma serve_policies_simps [simp]:
  "srv_ListPolicies (serve_policies E seen got) = (\<lambda>h ns. Inr seen)"
  "srv_GetPolicy (serve_policies E seen got) = (\<lambda>h k. case List.find (\<lambda>p. pol_Name p = snd k) got of
        None \<Rightarrow> Inl (NotFoundError ''policy not found'') | Some p \<Rightarrow> Inr p)"
  "IsStatusConditionTrue (serve_policies E seen got) = IsStatusConditionTrue E"
  "SetStatusCondition (serve_policies E seen got) = SetStatusCondition E"
  "SetControllerReference (serve_policies E seen got) = SetControllerReference E"
  "srv_CreateOrUpdateResourceQuota (serve_policies E seen got) = srv_CreateOrUpdateResourceQuota E"
  by (simp_all add: serve_policies_def)

text \<open>The status updates of policies among some events, and what they do to a state.\<close>

fun policy_updates :: "event list \<Rightarrow> DBaaSPolicy list" where
  "policy_updates [] = []"
| "policy_updates (EvStatusUpdatePolicy x # t) = x # policy_updates t"
| "policy_updates (_ # t) = policy_updates t"

lemma policy_updates_append [simp]: "policy_updates (t @ u) = policy_updates t @ policy_updates u"
  by (induction t rule: policy_updates.induct) simp_all

lemma policy_updates_telemetry: "list_all telemetry t \<Longrightarrow> policy_updates t = []"
  by (induction t rule: policy_updates.induct) simp_all

lemma foldl_apply_event:
  "foldl apply_event st t = foldl apply_event st (map EvStatusUpdatePolicy (policy_updates t))"
  by (induction t arbitrary: st rule: policy_updates.induct) simp_all

definition policy_updated :: "env \<Rightarrow> DBaaSPolicy option \<Rightarrow> DBaaSPolicy \<Rightarrow> DBaaSPolicy" where
  "policy_updated E activePolicy p = p\<lparr>pol_Status := (pol_Status p)
     \<lparr>polst_Conditions := SetStatusCondition E (pol_Conditions p) (policy_condition activePolicy p)\<rparr>\<rparr>"

lemma policy_object_updates:
  "runs (reconcile_policy_object E a p) h (\<lambda>r t.
     policy_updates t = [] \<or> policy_updates t = [policy_updated E a p])"
  unfolding reconcile_policy_object_def updateStatusCondition_def Let_def
  by (intro runs_intros) (simp_all add: policy_updated_def)

lemma metrics_policy: "only telemetry (SetPolicyMetrics E p x ev cd)"
  by (intro only_intros)

lemma find_name: "List.find (\<lambda>p. pol_Name p = n) st = Some p \<Longrightarrow> p \<in> set st \<and> pol_Name p = n"
  by (induction st) (auto split: if_splits)

text \<open>
  The policy that a reconciliation is about: the one it is asked for, or, where that does not
  exist and no policy is active, the first one.
\<close>

definition reconciled_policy :: "env \<Rightarrow> policies \<Rightarrow> policies \<Rightarrow> string \<Rightarrow> DBaaSPolicy \<Rightarrow> bool" where
  "reconciled_policy E seen got n p \<longleftrightarrow> List.find (\<lambda>p. pol_Name p = n) got = Some p \<or>
     List.find (\<lambda>p. pol_Name p = n) got = None \<and> getActivePolicy E seen = None \<and>
     seen \<noteq> [] \<and> p = hd seen"

lemma reconcile_policy_updates:
  "runs (DBaaSPolicy_Reconcile (serve_policies E seen got) (ns, n)) h (\<lambda>r t. policy_updates t = [] \<or>
     (\<exists>p. reconciled_policy E seen got n p \<and>
        policy_updates t = [policy_updated E (getActivePolicy E seen) p]))"
proof -
  let ?E = "serve_policies E seen got"
  have active: "getActivePolicy ?E ps = getActivePolicy E ps" for ps
    by (rule getActivePolicy_cong) simp
  have upd: "policy_updated ?E = policy_updated E"
    by (intro ext) (simp add: policy_updated_def)
  show ?thesis
    unfolding DBaaSPolicy_Reconcile_def PlatformInstallStart_def policyListByNS_def Let_def active
      reconciled_policy_def
    apply (intro runs_intros runs_only [OF metrics_policy]
        policy_object_updates [of ?E, unfolded upd, THEN runs_conseq])
    apply (auto simp: policy_updates_telemetry split: option.splits)
    done
qed

lemma policy_active_updated:
  "conditions_contract E \<Longrightarrow> policy_active E (policy_updated E a p) \<longleftrightarrow>
     (a = None \<or> pol_Name (the a) = pol_Name p)"
  using is_true_set_same [of E "pol_Conditions p" "policy_condition a p"]
  by (auto simp: policy_updated_def policy_condition_def split: option.splits if_splits)

lemma policy_updated_name [simp]: "pol_Name (policy_updated E a p) = pol_Name p"
  by (simp add: policy_updated_def)

text \<open>The state after an accepted update, and after a reconciliation.\<close>

definition with_status :: "DBaaSPolicy \<Rightarrow> policies \<Rightarrow> policies" where
  "with_status x st = map (\<lambda>p. if pol_Name p = pol_Name x then p\<lparr>pol_Status := pol_Status x\<rparr> else p) st"

lemma apply_policy_updates:
  "policy_updates t = [] \<Longrightarrow> foldl apply_event st t = st"
  "policy_updates t = [x] \<Longrightarrow> foldl apply_event st t = with_status x st"
  by (subst foldl_apply_event, simp add: with_status_def)+

lemma reconcile_state:
  "foldl apply_event st (reconcile_events E h ns n seen got) = st \<or>
   (\<exists>p. reconciled_policy E seen got n p \<and> foldl apply_event st (reconcile_events E h ns n seen got) =
      with_status (policy_updated E (getActivePolicy E seen) p) st)"
  using reconcile_policy_updates [of E seen got ns n h] apply_policy_updates
  by (auto simp: runs_def reconcile_events_def)

lemma with_status_names [simp]: "map pol_Name (with_status x st) = map pol_Name st"
  by (auto simp: with_status_def)

lemma with_status_cases:
  assumes "q \<in> set (with_status x st)"
  obtains r where "r \<in> set st" "pol_Name r = pol_Name q"
    "if pol_Name r = pol_Name x then pol_Status q = pol_Status x else q = r"
  using assms by (auto simp: with_status_def split: if_splits)

lemma with_status_mem:
  "p \<in> set st \<Longrightarrow> (if pol_Name p = pol_Name x then p\<lparr>pol_Status := pol_Status x\<rparr> else p) \<in> set (with_status x st)"
  by (auto simp: with_status_def)

lemma policies_ok_active:
  assumes "policies_ok E st" "p \<in> set st" "policy_active E p"
  shows "\<exists>q. getActivePolicy E st = Some q \<and> pol_Name q = pol_Name p"
proof -
  have "getActivePolicy E st \<noteq> None"
    using assms(2,3) getActivePolicy_None_iff by blast
  then obtain q where "getActivePolicy E st = Some q" by blast
  then show ?thesis
    using assms getActivePolicy_SomeD unfolding policies_ok_def by blast
qed

lemma with_status_ok:
  assumes "conditions_contract E" "policies_ok E st" "policies_ok E seen" "shows_active E seen st"
  shows "policies_ok E (with_status (policy_updated E (getActivePolicy E seen) p) st)"
proof -
  let ?x = "policy_updated E (getActivePolicy E seen) p"
  have other: "pol_Name r = pol_Name p" if r: "r \<in> set st" "policy_active E r" "policy_active E ?x" for r
  proof -
    obtain q where "q \<in> set seen" "pol_Name q = pol_Name r" "policy_active E q"
      using assms(4) r unfolding shows_active_def by blast
    then show ?thesis
      using policies_ok_active [OF assms(3)] r(3) policy_active_updated [OF assms(1)] by force
  qed
  have origin: "\<exists>r \<in> set st. pol_Name r = pol_Name q \<and>
      (if pol_Name q = pol_Name p then policy_active E ?x else policy_active E r)"
    if "q \<in> set (with_status ?x st)" "policy_active E q" for q
    using that(1) by (rule with_status_cases) (use that(2) in \<open>auto split: if_splits\<close>)
  have "pol_Name q = pol_Name q'" if q: "q \<in> set (with_status ?x st)" "q' \<in> set (with_status ?x st)"
    "policy_active E q" "policy_active E q'" for q q'
    using origin [OF q(1,3)] origin [OF q(2,4)] other assms(2) unfolding policies_ok_def
    by (metis (no_types, lifting))
  moreover have "distinct (map pol_Name st)" using assms(2) by (simp add: policies_ok_def)
  ultimately show ?thesis unfolding policies_ok_def with_status_names by blast
qed

lemma not_active_without_conditions:
  "conditions_contract E \<Longrightarrow> pol_Conditions p = [] \<Longrightarrow> \<not> policy_active E p"
  using find_type [of E "[]"] by (auto simp: is_true_iff)

lemma policy_updated_cong:
  assumes "\<forall>cs ty. IsStatusConditionTrue E' cs ty = IsStatusConditionTrue E cs ty"
    "\<forall>cs c. SetStatusCondition E' cs c = SetStatusCondition E cs c"
  shows "policy_updated E' (getActivePolicy E' st) p = policy_updated E (getActivePolicy E st) p"
proof -
  have "IsStatusConditionTrue E' = IsStatusConditionTrue E" using assms(1) by (intro ext) simp
  from getActivePolicy_cong [OF this] show ?thesis
    using assms(2) by (simp add: policy_updated_def)
qed

lemma policy_step_ok:
  assumes "conditions_contract E" "\<forall>s \<in> set (st # past). policies_ok E s" "policy_step E past st st'"
  shows "policies_ok E st'"
proof -
  have ok: "policies_ok E st" using assms(2) by simp
  from assms(3) show ?thesis
  proof (cases rule: policy_step.cases)
    case (create p)
    have "q \<in> set st" if "q \<in> set st'" "policy_active E q" for q
      using that create not_active_without_conditions [OF assms(1)] by auto
    moreover have "distinct (map pol_Name st')"
      using ok create by (simp add: policies_ok_def)
    ultimately show ?thesis using ok unfolding policies_ok_def by blast
  next
    case (edit f)
    have f: "pol_Name (f p) = pol_Name p" "pol_Status (f p) = pol_Status p" for p
      using edit(2) by blast+
    have active: "policy_active E (f p) = policy_active E p" for p by (simp add: f)
    have names: "map pol_Name st' = map pol_Name st" by (simp add: edit(1) f)
    have "pol_Name (f p) = pol_Name (f q)"
      if "p \<in> set st" "q \<in> set st" "policy_active E (f p)" "policy_active E (f q)" for p q
      using ok that unfolding policies_ok_def f active by blast
    then have "\<forall>p \<in> set st'. \<forall>q \<in> set st'. policy_active E p \<and> policy_active E q \<longrightarrow> pol_Name p = pol_Name q"
      unfolding edit(1) set_map by blast
    moreover have "distinct (map pol_Name st')" using ok unfolding policies_ok_def names by (rule conjunct1)
    ultimately show ?thesis unfolding policies_ok_def by (intro conjI)
  next
    case (delete n)
    then have "set st' \<subseteq> set st" "distinct (map pol_Name st')"
      using ok by (auto simp: policies_ok_def distinct_map_filter)
    then show ?thesis using ok unfolding policies_ok_def by blast
  next
    case (reconcile seen got E' h ns n)
    have "policies_ok E seen" using assms(2) reconcile(2) by blast
    with reconcile_state [of st E' h ns n seen got] show ?thesis
      using with_status_ok [OF assms(1) ok _ reconcile(4)] policy_updated_cong [OF reconcile(5,6)]
        reconcile(1) ok by auto
  next
    case rejected
    then show ?thesis using ok by simp
  qed
qed

text \<open>C1: At most one policy of a namespace is active at any time, whatever the order of creations,
  edits, deletions, reconciliations and rejected updates, and also if a reconciliation works with
  outdated reads, provided that the policy that is active when its status update arrives was
  already active in the list of policies it has read. (Without that the guarantee fails: lemma
  \<open>two_active_after_outdated_list\<close>.)\<close>

theorem at_most_one_active_policy:
  assumes "conditions_contract E" "policy_reachable E past st"
    and "p \<in> set st" "q \<in> set st" "policy_active E p" "policy_active E q"
  shows "p = q"
proof -
  have "\<forall>s \<in> set (st # past). policies_ok E s"
    using assms(2)
  proof (induction rule: policy_reachable.induct)
    case init
    then show ?case by (simp add: policies_ok_def)
  next
    case (step past st st')
    from policy_step_ok [OF assms(1) step.IH step.hyps(2)] step.IH show ?case by simp
  qed
  then have "policies_ok E st" by simp
  then have d: "distinct (map pol_Name st)" and n: "pol_Name p = pol_Name q"
    using assms(3-6) unfolding policies_ok_def by blast+
  show ?thesis using inj_onD [OF _ n assms(3,4)] d by (simp add: distinct_map)
qed

text \<open>An active policy stays the active policy through every reconciliation of any policy of
  its namespace that reads the current policies.\<close>

theorem active_policy_stays:
  assumes "conditions_contract E" "policies_ok E st" "p \<in> set st" "policy_active E p"
  shows "\<exists>p' \<in> set (foldl apply_event st (reconcile_events E h ns n st st)).
    pol_Name p' = pol_Name p \<and> policy_active E p'"
proof -
  obtain a where a: "getActivePolicy E st = Some a" "pol_Name a = pol_Name p"
    using policies_ok_active [OF assms(2-4)] by blast
  from reconcile_state [of st E h ns n st st] show ?thesis
  proof (elim disjE exE conjE)
    assume "foldl apply_event st (reconcile_events E h ns n st st) = st"
    then show ?thesis using assms(3,4) by auto
  next
    fix r
    let ?x = "policy_updated E (getActivePolicy E st) r"
    assume st: "foldl apply_event st (reconcile_events E h ns n st st) = with_status ?x st"
    have "policy_active E ?x" if "pol_Name p = pol_Name r"
      using policy_active_updated [OF assms(1)] a that by simp
    then show ?thesis
      unfolding st using assms(4) by (intro bexI [OF _ with_status_mem [OF assms(3), of ?x]]) auto
  qed
qed

subsection \<open>Taking over\<close>

text \<open>
  The resource quota of a policy is taken by a server that accepts what the mutate function
  makes, unless a quota of that name is controlled by somebody else.
\<close>

definition quotas_free ::
    "env \<Rightarrow> (history \<Rightarrow> ObjectKey \<Rightarrow> ResourceQuota option) \<Rightarrow> policies \<Rightarrow> bool" where
  "quotas_free E stored st \<longleftrightarrow> (\<forall>p \<in> set st. \<forall>h quota.
     stored h (om_Namespace (pol_ObjectMeta p), ''dbaas-'' @ pol_Name p) = Some quota \<longrightarrow>
     unclaimed E ''DBaaSPolicy'' (pol_ObjectMeta p) (rq_ObjectMeta quota))"

lemma quota_accepted:
  assumes "owner_contract E" "quotas_free E stored st" "p \<in> set st"
    and "server_accepts rq_ObjectMeta stored (srv_CreateOrUpdateResourceQuota E)"
  shows "\<exists>r. srv_CreateOrUpdateResourceQuota E h (resource_quota p) (resourceQuotaMutateFn E p) = Inr r"
proof (rule server_acceptsD [OF assms(4)])
  fix x'
  assume "stored h (key_of (rq_ObjectMeta (resource_quota p))) = Some x' \<or> x' = resource_quota p"
    and key: "key_of (rq_ObjectMeta x') = key_of (rq_ObjectMeta (resource_quota p))"
  then have "unclaimed E ''DBaaSPolicy'' (pol_ObjectMeta p) (rq_ObjectMeta x')"
    using assms(2,3) by (auto simp: quotas_free_def resource_quota_def key_of_def unclaimed_def)
  with assms(1) obtain rs where "SetControllerReference E ''DBaaSPolicy'' (pol_ObjectMeta p) (rq_ObjectMeta x')
      = Inr ((rq_ObjectMeta x')\<lparr>om_OwnerReferences := rs\<rparr>)"
    by (rule owner_contractD) simp
  then show "\<exists>y. resourceQuotaMutateFn E p x' = Inr y \<and>
      key_of (rq_ObjectMeta y) = key_of (rq_ObjectMeta (resource_quota p))"
    using key by (simp add: resourceQuotaMutateFn_def Let_def key_of_def)
qed

lemma takeover_updates:
  assumes "owner_contract E" "quotas_free E stored st"
    and "server_accepts rq_ObjectMeta stored (srv_CreateOrUpdateResourceQuota E)"
    and "st \<noteq> []" "getActivePolicy E st = None"
  shows "runs (DBaaSPolicy_Reconcile (serve_policies E st st) (ns, n)) h (\<lambda>r t.
    \<exists>p \<in> set st. reconciled_policy E st st n p \<and> policy_updates t = [policy_updated E None p])"
proof -
  let ?E = "serve_policies E st st"
  have active: "getActivePolicy ?E st = None"
    using assms(5) getActivePolicy_cong [of ?E E st] by simp
  have upd: "policy_updated ?E = policy_updated E"
    by (intro ext) (simp add: policy_updated_def)
  have mutate: "resourceQuotaMutateFn ?E = resourceQuotaMutateFn E"
    by (intro ext) (simp add: resourceQuotaMutateFn_def)
  have accepted: "srv_CreateOrUpdateResourceQuota E h (resource_quota p) (resourceQuotaMutateFn E p) \<noteq> Inl e"
    if "p \<in> set st" for p h e
    using quota_accepted [OF assms(1,2) that assms(3), of h] by auto
  have object: "runs (reconcile_policy_object ?E a p) h' (\<lambda>r t.
      a = None \<and> p \<in> set st \<longrightarrow> policy_updates t = [policy_updated E None p])" for a p h'
    unfolding reconcile_policy_object_def updateStatusCondition_def Let_def upd [symmetric] mutate
    by (intro runs_intros) (auto simp: accepted policy_updated_def policy_condition_def)
  show ?thesis
    unfolding DBaaSPolicy_Reconcile_def PlatformInstallStart_def policyListByNS_def Let_def
      reconciled_policy_def
    apply (intro runs_intros runs_only [OF metrics_policy] object [THEN runs_conseq])
    using assms(4) active assms(5)
    by (auto simp: policy_updates_telemetry dest: find_name split: option.splits if_splits)
qed

text \<open>C28: When no policy of a namespace is active (the active one was deleted, say), the next
  reconciliation of any name that reads the current policies makes one of the policies active,
  if the API server accepts the resource quota, which nobody else controls, and the status
  update.\<close>

theorem policy_takeover:
  assumes "conditions_contract E" "owner_contract E"
    and "st \<noteq> []" "getActivePolicy E st = None" "quotas_free E stored st"
    and "server_accepts rq_ObjectMeta stored (srv_CreateOrUpdateResourceQuota E)"
  shows "\<exists>p \<in> set (foldl apply_event st (reconcile_events E h ns n st st)). policy_active E p"
proof -
  obtain p where p: "p \<in> set st"
    "policy_updates (reconcile_events E h ns n st st) = [policy_updated E None p]"
    using takeover_updates [OF assms(2,5,6,3,4), of ns n h] by (auto simp: runs_def reconcile_events_def)
  let ?x = "policy_updated E None p"
  have "policy_active E ?x" using policy_active_updated [OF assms(1)] by simp
  then show ?thesis
    unfolding apply_policy_updates(2) [OF p(2)]
    by (intro bexI [OF _ with_status_mem [OF p(1), of ?x]]) simp
qed

text \<open>A concrete namespace for the witnesses: one policy, created and then reconciled.\<close>

definition one_policy :: policies where
  "one_policy = [zero_DBaaSPolicy]"

lemma ref_contracts: "conditions_contract ref_env" "owner_contract ref_env" "quotas_free ref_env (\<lambda>h k. None) st"
    "server_accepts rq_ObjectMeta (\<lambda>h k. None) (srv_CreateOrUpdateResourceQuota ref_env)"
  by (rule ref_conditions_contract ref_owner_contract; simp)+
    (simp_all add: quotas_free_def env_simps ref_server_accepts)

theorem policy_takeover_witness:
  "\<exists>p \<in> set (foldl apply_event one_policy (reconcile_events ref_env [] [] [] one_policy one_policy)).
     policy_active ref_env p"
proof (rule policy_takeover [OF ref_contracts(1,2) _ _ ref_contracts(3,4)])
  show "one_policy \<noteq> []" by (simp add: one_policy_def)
  show "getActivePolicy ref_env one_policy = None"
    by (simp add: one_policy_def env_simps zero_DBaaSPolicy_def)
qed

text \<open>One reconciliation of a policy in a namespace without an active one.\<close>

lemma first_reconciliation:
  assumes "p \<in> set st" "getActivePolicy ref_env st = None"
    "List.find (\<lambda>q. pol_Name q = pol_Name p) st = Some p"
  shows "foldl apply_event st' (reconcile_events ref_env [] [] (pol_Name p) st st) =
     with_status (policy_updated ref_env None p) st'"
proof -
  have "st \<noteq> []" using assms(1) by auto
  from takeover_updates [OF ref_contracts(2,3,4) this assms(2), of "[]" "pol_Name p" "[]"]
  have "policy_updates (reconcile_events ref_env [] [] (pol_Name p) st st) =
      [policy_updated ref_env None p]"
    using assms(3) by (auto simp: runs_def reconcile_events_def reconciled_policy_def)
  then show ?thesis by (rule apply_policy_updates(2))
qed

definition one_active :: policies where
  "one_active = with_status (policy_updated ref_env None zero_DBaaSPolicy) one_policy"

lemma one_policy_reconciled:
  "foldl apply_event one_policy (reconcile_events ref_env [] [] [] one_policy one_policy) = one_active"
  using first_reconciliation [of zero_DBaaSPolicy one_policy]
  by (simp add: one_policy_def one_active_def env_simps zero_DBaaSPolicy_def)

lemma one_active_reachable: "policy_reachable ref_env [one_policy, []] one_active"
proof -
  have "policy_reachable ref_env [[]] one_policy"
    using policy_reachable.step [OF policy_reachable.init policy_step.create [of zero_DBaaSPolicy]]
    by (simp add: one_policy_def zero_DBaaSPolicy_def)
  moreover have "shows_active ref_env one_policy one_policy" by (auto simp: shows_active_def)
  ultimately show ?thesis
    using policy_reachable.step [OF _ policy_step.reconcile [of one_policy one_policy "[[]]" one_policy
        ref_env ref_env "[]" "[]" "[]"]] one_policy_reconciled by simp
qed

lemma one_active_active: "p \<in> set one_active \<Longrightarrow> policy_active ref_env p"
  using policy_active_updated [OF ref_contracts(1)]
  by (auto simp: one_active_def one_policy_def with_status_def)

theorem at_most_one_active_policy_witness:
  "policy_reachable ref_env [one_policy, []] one_active \<and> policy_active ref_env (hd one_active) \<and>
   policy_active ref_env (last one_active) \<and> hd one_active = last one_active"
proof -
  have "hd one_active \<in> set one_active" "last one_active \<in> set one_active"
    by (simp_all add: one_active_def one_policy_def with_status_def)
  then show ?thesis
    using at_most_one_active_policy [OF ref_contracts(1) one_active_reachable]
      one_active_active one_active_reachable by blast
qed

theorem active_policy_stays_witness:
  "\<exists>p' \<in> set (foldl apply_event one_active (reconcile_events ref_env [] [] ''x'' one_active one_active)).
    pol_Name p' = pol_Name (hd one_active) \<and> policy_active ref_env p'"
proof (rule active_policy_stays [OF ref_contracts(1)])
  show "policies_ok ref_env one_active"
    by (simp add: policies_ok_def one_active_def one_policy_def with_status_def)
  show "hd one_active \<in> set one_active" by (simp add: one_active_def one_policy_def with_status_def)
  then show "policy_active ref_env (hd one_active)" by (rule one_active_active)
qed

text \<open>
  What the side condition of \<open>at_most_one_active_policy\<close> excludes: two policies are reconciled one
  after the other, and the second reconciliation still reads what the first one read.
\<close>

definition named_policy :: "string \<Rightarrow> DBaaSPolicy" where
  "named_policy n = zero_DBaaSPolicy\<lparr>pol_ObjectMeta := named_meta [] n\<rparr>"

lemma two_active_after_outdated_list:
  defines "st \<equiv> [named_policy ''a'', named_policy ''b'']"
  defines "st' \<equiv> foldl apply_event st (reconcile_events ref_env [] [] ''a'' st st)"
  defines "st'' \<equiv> foldl apply_event st' (reconcile_events ref_env [] [] ''b'' st st)"
  shows "map pol_Name st'' = [''a'', ''b''] \<and> (\<forall>p \<in> set st''. policy_active ref_env p)"
proof -
  have inactive: "getActivePolicy ref_env st = None"
    by (simp add: st_def named_policy_def zero_DBaaSPolicy_def env_simps)
  have "st' = with_status (policy_updated ref_env None (named_policy ''a'')) st"
    unfolding st'_def using first_reconciliation [of "named_policy ''a''" st] inactive
    by (simp add: st_def named_policy_def)
  moreover have "st'' = with_status (policy_updated ref_env None (named_policy ''b'')) st'"
    unfolding st''_def using first_reconciliation [of "named_policy ''b''" st] inactive
    by (simp add: st_def named_policy_def)
  ultimately show ?thesis
    using policy_active_updated [OF ref_contracts(1)]
    by (auto simp: st_def with_status_def named_policy_def)
qed

subsection \<open>The resource quota and the default policy\<close>

text \<open>Reconciling a policy touches a resource quota only for a policy that is to be active:
  a policy that is not the active one while another is gets no quota, only a status that
  names the active policy.\<close>

theorem quota_only_for_active:
  "runs (DBaaSPolicy_Reconcile (serve_policies E st st) (ns, n)) h (\<lambda>out t.
    \<forall>x f. EvCreateOrUpdateResourceQuota x f \<in> set t \<longrightarrow>
      (\<exists>p \<in> set st. rq_ObjectMeta x = named_meta (om_Namespace (pol_ObjectMeta p)) (''dbaas-'' @ pol_Name p) \<and>
         (\<forall>a. getActivePolicy E st = Some a \<longrightarrow> pol_Name a = pol_Name p)))"
proof -
  let ?E = "serve_policies E st st"
  have active: "getActivePolicy ?E st = getActivePolicy E st"
    by (rule getActivePolicy_cong) simp
  have object: "runs (reconcile_policy_object ?E a p) h' (\<lambda>r t. \<forall>x f.
      EvCreateOrUpdateResourceQuota x f \<in> set t \<longrightarrow>
      rq_ObjectMeta x = named_meta (om_Namespace (pol_ObjectMeta p)) (''dbaas-'' @ pol_Name p) \<and>
      (\<forall>b. a = Some b \<longrightarrow> pol_Name b = pol_Name p))" for a p h'
    unfolding reconcile_policy_object_def updateStatusCondition_def Let_def
    by (intro runs_intros)
      (auto simp: resource_quota_def policy_condition_def split: option.splits if_splits)
  have tele: "list_all telemetry t \<Longrightarrow> EvCreateOrUpdateResourceQuota x f \<notin> set t" for t x f
    by (auto simp: list_all_iff)
  show ?thesis
    unfolding DBaaSPolicy_Reconcile_def PlatformInstallStart_def policyListByNS_def Let_def
    apply (intro runs_intros runs_only [OF metrics_policy] object [THEN runs_conseq])
    using active
    by (auto simp: tele dest: find_name split: option.splits if_splits)
qed

text \<open>The reconciliation that makes the one policy active does write its quota.\<close>

lemma one_policy_quota:
  "\<exists>x f. EvCreateOrUpdateResourceQuota x f \<in>
     set (snd (run_state (DBaaSPolicy_Reconcile (serve_policies ref_env one_policy one_policy) ([], [])) []))"
  by (simp add: DBaaSPolicy_Reconcile_def PlatformInstallStart_def policyListByNS_def
      reconcile_policy_object_def updateStatusCondition_def policy_condition_def one_policy_def
      serve_policies_def zero_DBaaSPolicy_def env_simps SetPolicyMetrics_def
      setPolicyRequestDurationSeconds_def UpdateRequestsDurationHistogram_def UpdateErrorsTotal_def
      ref_create_or_update_def resourceQuotaMutateFn_def resource_quota_def Let_def)

theorem quota_only_for_active_witness:
  "\<exists>x f. EvCreateOrUpdateResourceQuota x f \<in>
       set (snd (run_state (DBaaSPolicy_Reconcile (serve_policies ref_env one_policy one_policy) ([], [])) [])) \<and>
     rq_ObjectMeta x = named_meta [] ''dbaas-''"
  using one_policy_quota quota_only_for_active [of ref_env one_policy "[]" "[]" "[]"]
  by (auto simp: runs_def one_policy_def zero_DBaaSPolicy_def)

text \<open>The default policy is created only in an install namespace without any policy, and
  once it is active every namespace is a valid connection namespace for an inventory
  without a policy of its own.\<close>

theorem default_policy_created_and_open:
  "runs (createDefaultPolicy E) h (\<lambda>out t.
     (\<forall>p. EvCreatePolicy p \<in> set t \<longrightarrow>
        p = getDefaultPolicy (InstallNamespace E) \<and>
        srv_ListPolicies E h (InstallNamespace E) = Inr [] \<and>
        (\<exists>e. srv_GetPolicy E (h @ [EvListPolicies (InstallNamespace E)]) (InstallNamespace E, ''cluster'')
           = Inl e \<and> IsNotFound e)) \<and>
     length (filter (\<lambda>e. \<not> is_read e) t) \<le> 1) \<and>
   (ois_Policy (inv_Spec inventory) = None \<longrightarrow>
      fst (run_state (isValidConnectionNS E' ns inventory (Some (getDefaultPolicy ins_ns))) h') = Inr True)"
proof (intro conjI impI)
  show "runs (createDefaultPolicy E) h (\<lambda>out t.
     (\<forall>p. EvCreatePolicy p \<in> set t \<longrightarrow>
        p = getDefaultPolicy (InstallNamespace E) \<and>
        srv_ListPolicies E h (InstallNamespace E) = Inr [] \<and>
        (\<exists>e. srv_GetPolicy E (h @ [EvListPolicies (InstallNamespace E)]) (InstallNamespace E, ''cluster'')
           = Inl e \<and> IsNotFound e)) \<and>
     length (filter (\<lambda>e. \<not> is_read e) t) \<le> 1)"
    unfolding createDefaultPolicy_def Let_def policyListByNS_def
    by (intro runs_intros) (auto simp: getDefaultPolicy_def key_of_def split: option.splits)
  assume "ois_Policy (inv_Spec inventory) = None"
  then show "fst (run_state (isValidConnectionNS E' ns inventory (Some (getDefaultPolicy ins_ns))) h') = Inr True"
    by (simp add: isValidConnectionNS_def effective_connections_def getDefaultPolicy_def
        zero_DBaaSInventoryPolicy_def zero_DBaaSConnectionPolicy_def)
qed

theorem default_policy_created_and_open_witness:
  "fst (run_state (isValidConnectionNS ref_env ''other'' zero_DBaaSInventory
     (Some (getDefaultPolicy ''ns''))) []) = Inr True"
proof -
  have "ois_Policy (inv_Spec zero_DBaaSInventory) = None"
    by (simp add: zero_DBaaSInventory_def zero_DBaaSOperatorInventorySpec_def)
  then show ?thesis
    using default_policy_created_and_open [of ref_env "[]" zero_DBaaSInventory] by blast
qed

end
