(* ===== verification/Provider_Controller.thy ===== *)
theory Provider_Controller
  imports Reconciler
begin

section \<open>The provider controller and the delete events\<close>

text \<open>
  \<open>controllers/dbaasprovider_controller.go\<close>: for every \<open>DBaaSProvider\<close> the controller makes
  the inventory, connection and instance controllers watch the provider's objects, so that a
  change of a provider object reconciles its owner. \<open>controllers/event_handler.go\<close>: the
  event handler that calls a controller's \<open>Delete\<close> instead of reconciling.
\<close>

subsection \<open>The handler\<close>

definition DBaaSProvider_Reconcile :: "env \<Rightarrow> ObjectKey \<Rightarrow> outcome prog" where
  "DBaaSProvider_Reconcile E req = do {
     execution \<leftarrow> PlatformInstallStart E;
     r \<leftarrow> getProvider E req;
     case r of
       Inl err \<Rightarrow> ret (Returned Result_zero (if IsNotFound err then None else Some err))
     | Inr provider \<Rightarrow>
         (let ev = (if om_DeletionTimestamp (prov_ObjectMeta provider) \<noteq> None
                    then LabelEventValueDelete else LabelEventValueCreate);
              groupVersion = GetDBaaSAPIGroupVersion E provider
          in do {
            err \<leftarrow> watchDBaaSProviderObject E ''InventoryCtrl'' ''DBaaSInventory''
              (ps_InventoryKind (prov_Spec provider)) groupVersion;
            case err of
              Some err \<Rightarrow> ret (Returned Result_zero (Some err))
            | None \<Rightarrow> do {
                err \<leftarrow> watchDBaaSProviderObject E ''ConnectionCtrl'' ''DBaaSConnection''
                  (ps_ConnectionKind (prov_Spec provider)) groupVersion;
                case err of
                  Some err \<Rightarrow> ret (Returned Result_zero (Some err))
                | None \<Rightarrow> do {
                    err \<leftarrow> watchDBaaSProviderObject E ''InstanceCtrl'' ''DBaaSInstance''
                      (ps_InstanceKind (prov_Spec provider)) groupVersion;
                    case err of
                      Some err \<Rightarrow> ret (Returned Result_zero (Some err))
                    | None \<Rightarrow> do {
                        SetProviderMetrics E provider (om_Name (prov_ObjectMeta provider))
                          execution ev [];
                        ret (Returned Result_zero None)
                      }
                  }
              }
          })
   }"

definition DBaaSProvider_Delete :: "env \<Rightarrow> DBaaSProvider option \<Rightarrow> (go_error option) prog" where
  "DBaaSProvider_Delete E obj = do {
     execution \<leftarrow> PlatformInstallStart E;
     case obj of
       None \<Rightarrow> ret None
     | Some providerObj \<Rightarrow> do {
         SetProviderMetrics E providerObj (om_Name (prov_ObjectMeta providerObj)) execution
           LabelEventValueDelete [];
         ret None
       }
   }"

text \<open>The predicate of the controller's own watch: creations, and changes of the generation.\<close>

fun filterEventPredicate :: "watch_event \<Rightarrow> bool" where
  "filterEventPredicate (CreateEvent m) = True"
| "filterEventPredicate (UpdateEvent old new) = (om_Generation new \<noteq> om_Generation old)"
| "filterEventPredicate (DeleteEvent m) = False"
| "filterEventPredicate (GenericEvent m) = False"

text \<open>
  \<open>EventHandlerWithDelete.Delete\<close>, with the controller's \<open>Delete\<close> on the event's object as the
  argument; it only logs, and enqueues nothing.
\<close>

definition EventHandlerWithDelete_Delete :: "(go_error option) prog \<Rightarrow> unit prog" where
  "EventHandlerWithDelete_Delete delete_controller = do {
     err \<leftarrow> delete_controller;
     ret ()
   }"

subsection \<open>What is watched\<close>

text \<open>The watches of a provider: controller, owner type, kind of the objects.\<close>

definition provider_watches :: "env \<Rightarrow> DBaaSProvider \<Rightarrow> (string \<times> string \<times> GroupVersionKind) list" where
  "provider_watches E provider =
     (let gvk = (\<lambda>k. u_GVK (createProviderObject zero_ObjectMeta (GetDBaaSAPIGroupVersion E provider) k))
      in [(''InventoryCtrl'', ''DBaaSInventory'', gvk (ps_InventoryKind (prov_Spec provider))),
          (''ConnectionCtrl'', ''DBaaSConnection'', gvk (ps_ConnectionKind (prov_Spec provider))),
          (''InstanceCtrl'', ''DBaaSInstance'', gvk (ps_InstanceKind (prov_Spec provider)))])"

fun watches :: "event list \<Rightarrow> (string \<times> string \<times> GroupVersionKind) list" where
  "watches [] = []"
| "watches (EvWatch ctl ow gvk # t) = (ctl, ow, gvk) # watches t"
| "watches (_ # t) = watches t"

lemma watches_append [simp]: "watches (t @ u) = watches t @ watches u"
  by (induction t rule: watches.induct) simp_all

lemma watches_telemetry: "list_all telemetry t \<Longrightarrow> watches t = []"
  by (induction t rule: watches.induct) simp_all

lemma metrics_provider: "only telemetry (SetProviderMetrics E p a x ev cd)"
  by (intro only_intros)

text \<open>Reconciling a provider that exists sets up its watches in the order inventory,
  connection, instance, for exactly the group, version and kind that the operator's
  controllers write for the provider; it stops at the first watch that fails and returns its
  error, and returns no error exactly when all three were set up.\<close>

theorem provider_watches_complete:
  assumes "srv_GetProvider E (h @ [EvNow]) req = Inr provider"
  shows "runs (DBaaSProvider_Reconcile E req) h (\<lambda>out t.
    prefix (watches t) (provider_watches E provider) \<and> watches t \<noteq> [] \<and>
    (out = Returned Result_zero None \<and> watches t = provider_watches E provider \<or>
     (\<exists>err h' ctl ow gvk. out = Returned Result_zero (Some err) \<and>
        last (watches t) = (ctl, ow, gvk) \<and> srv_Watch E h' ctl ow gvk = Some err)))"
  unfolding DBaaSProvider_Reconcile_def PlatformInstallStart_def watchDBaaSProviderObject_def Let_def
  by (intro runs_intros runs_only [OF metrics_provider])
    (use assms in \<open>auto simp: watches_telemetry provider_watches_def createProviderObject_def\<close>)

theorem provider_watches_complete_witness:
  "runs (DBaaSProvider_Reconcile (ref_env\<lparr>srv_GetProvider := \<lambda>h k. Inr zero_DBaaSProvider\<rparr>) ([], ''p'')) []
     (\<lambda>out t. watches t \<noteq> [])"
  by (rule runs_conseq [OF provider_watches_complete [where provider = zero_DBaaSProvider]]) simp_all

text \<open>The predicate of the provider watch lets through a creation and an update that changes
  the generation, and nothing else.\<close>

theorem provider_events_filtered:
  "filterEventPredicate e \<longleftrightarrow> (\<exists>m. e = CreateEvent m) \<or>
     (\<exists>old new. e = UpdateEvent old new \<and> om_Generation old \<noteq> om_Generation new)"
  by (cases e) auto

end
