(* ===== verification/Webhooks.thy ===== *)
theory Webhooks
  imports Reference_Env
begin

section \<open>The admission webhooks\<close>

text \<open>
  \<open>api/v1beta1/*_webhook.go\<close>: what the API server asks before it stores a connection, an
  inventory or a policy. The connection webhook is a function of the object (and of the
  stored one, for an update); the inventory webhook reads the secret, the provider and the
  list of inventories through the webhook's API client. Registering the webhooks and their
  index is not modelled; the index by \<open>spec.providerRef.name\<close> is the client call
  \<open>listInventoriesByField\<close>.
\<close>

subsection \<open>Verdicts\<close>

text \<open>
  \<open>field.Invalid(path, value, detail)\<close> with the value it reports, another error, or a panic
  (the nil pointer \<open>CredentialsRef\<close>).
\<close>

datatype bad_value = StringValue string | ReferenceValue NamespacedName
  | OptionalReferenceValue "NamespacedName option" | OptionalTypeValue "DatabaseServiceType option"
  | LocalReferenceValue LocalObjectReference

datatype admission_error =
    FieldInvalid "string list" bad_value string
  | ApiError go_error

datatype admission = Allowed | Denied admission_error | Crashed

subsection \<open>Connections (dbaasconnection_webhook.go)\<close>

definition validateCreateDBaaSConnectionSpec :: "DBaaSConnection \<Rightarrow> admission" where
  "validateCreateDBaaSConnectionSpec r =
     (let sp = conn_Spec r;
          named = (case cs_DatabaseServiceRef sp of None \<Rightarrow> False | Some ref \<Rightarrow> nn_Name ref \<noteq> [])
      in if cs_DatabaseServiceID sp \<noteq> [] \<and> named then
           Denied (FieldInvalid [''spec'', ''databaseServiceID'']
             (StringValue (cs_DatabaseServiceID sp))
             ''both databaseServiceID and databaseServiceRef are specified'')
         else if cs_DatabaseServiceID sp = [] \<and> \<not> named then
           Denied (FieldInvalid [''spec'', ''databaseServiceID'']
             (StringValue (cs_DatabaseServiceID sp))
             ''either databaseServiceID or databaseServiceRef must be specified'')
         else if cs_DatabaseServiceRef sp \<noteq> None \<and> cs_DatabaseServiceType sp \<noteq> None then
           Denied (FieldInvalid [''spec'', ''databaseServiceRef'']
             (OptionalReferenceValue (cs_DatabaseServiceRef sp))
             ''when using databaseServiceRef, databaseServiceType must not be specified'')
         else Allowed)"

definition validateUpdateDBaaSConnectionSpec :: "DBaaSConnection \<Rightarrow> DBaaSConnection \<Rightarrow> admission" where
  "validateUpdateDBaaSConnectionSpec r old =
     (let sp = conn_Spec r; osp = conn_Spec old
      in if cs_DatabaseServiceID sp \<noteq> cs_DatabaseServiceID osp then
           Denied (FieldInvalid [''spec'', ''databaseServiceID'']
             (StringValue (cs_DatabaseServiceID sp)) ''databaseServiceID is immutable'')
         else if cs_InventoryRef sp \<noteq> cs_InventoryRef osp then
           Denied (FieldInvalid [''spec'', ''inventoryRef'']
             (ReferenceValue (cs_InventoryRef sp)) ''inventoryRef is immutable'')
         else if cs_DatabaseServiceRef sp \<noteq> cs_DatabaseServiceRef osp then
           Denied (FieldInvalid [''spec'', ''databaseServiceRef'']
             (OptionalReferenceValue (cs_DatabaseServiceRef sp)) ''databaseServiceRef is immutable'')
         else if cs_DatabaseServiceType sp \<noteq> cs_DatabaseServiceType osp then
           Denied (FieldInvalid [''spec'', ''databaseServiceType'']
             (OptionalTypeValue (cs_DatabaseServiceType sp)) ''databaseServiceType is immutable'')
         else Allowed)"

definition DBaaSConnection_ValidateCreate :: "DBaaSConnection \<Rightarrow> admission" where
  "DBaaSConnection_ValidateCreate r = validateCreateDBaaSConnectionSpec r"

definition DBaaSConnection_ValidateUpdate :: "DBaaSConnection \<Rightarrow> DBaaSConnection \<Rightarrow> admission" where
  "DBaaSConnection_ValidateUpdate r old = validateUpdateDBaaSConnectionSpec r old"

definition DBaaSConnection_ValidateDelete :: "DBaaSConnection \<Rightarrow> admission" where
  "DBaaSConnection_ValidateDelete r = Allowed"

subsection \<open>Policies (dbaaspolicy_webhook.go)\<close>

text \<open>The check of a namespace selector, which the policy and the inventory webhook share.\<close>

definition check_selector :: "env \<Rightarrow> LabelSelector option \<Rightarrow> admission" where
  "check_selector E sel =
     (case sel of
        None \<Rightarrow> Allowed
      | Some s \<Rightarrow> (case LabelSelectorAsSelector E s of Inl err \<Rightarrow> Denied (ApiError err) | Inr _ \<Rightarrow> Allowed))"

definition validatePolicy :: "env \<Rightarrow> DBaaSPolicy \<Rightarrow> admission" where
  "validatePolicy E policy = check_selector E (cp_NsSelector (ip_Connections (pol_Policy policy)))"

definition DBaaSPolicy_ValidateCreate :: "env \<Rightarrow> DBaaSPolicy \<Rightarrow> admission" where
  "DBaaSPolicy_ValidateCreate E r = validatePolicy E r"

definition DBaaSPolicy_ValidateUpdate :: "env \<Rightarrow> DBaaSPolicy \<Rightarrow> DBaaSPolicy \<Rightarrow> admission" where
  "DBaaSPolicy_ValidateUpdate E r old = validatePolicy E r"

definition DBaaSPolicy_ValidateDelete :: "DBaaSPolicy \<Rightarrow> admission" where
  "DBaaSPolicy_ValidateDelete r = Allowed"

subsection \<open>Inventories (dbaasinventory_webhook.go)\<close>

abbreviation providerNameKey :: string where "providerNameKey \<equiv> ''spec.providerRef.name''"

definition missing_credential :: "Secret \<Rightarrow> CredentialField \<Rightarrow> LocalObjectReference \<Rightarrow> admission" where
  "missing_credential secret credField ref =
     Denied (FieldInvalid [''spec'', ''credentialsRef''] (LocalReferenceValue ref)
       (''credentialsRef is invalid: '' @ cf_Key credField @ '' is required in secret '' @
        om_Name (sec_ObjectMeta secret)))"

fun mandatory_fields :: "DBaaSInventory \<Rightarrow> Secret \<Rightarrow> CredentialField list \<Rightarrow> admission" where
  "mandatory_fields inventory secret [] = Allowed"
| "mandatory_fields inventory secret (credField # cs) =
     (if cf_Required credField \<and>
         (case map_of (sec_Data secret) (cf_Key credField) of None \<Rightarrow> True | Some v \<Rightarrow> v = [])
      then (case inv_CredentialsRef inventory of
              None \<Rightarrow> Crashed
            | Some ref \<Rightarrow> missing_credential secret credField ref)
      else mandatory_fields inventory secret cs)"

definition validateInventoryMandatoryFields ::
    "DBaaSInventory \<Rightarrow> Secret \<Rightarrow> DBaaSProvider \<Rightarrow> admission" where
  "validateInventoryMandatoryFields inventory secret provider =
     mandatory_fields inventory secret (ps_CredentialFields (prov_Spec provider))"

definition validateRDS :: "env \<Rightarrow> (go_error option) prog" where
  "validateRDS E = do {
     r \<leftarrow> listInventoriesByField E providerNameKey RdsRegistration;
     ret (case r of
            Inl err \<Rightarrow> Some err
          | Inr items \<Rightarrow>
              (case items of
                 [] \<Rightarrow> None
               | i # _ \<Rightarrow> Some (OtherError (''only one provider account for RDS can exist in a cluster, but there is already a provider account '' @
                   inv_Name i @ '' created''))))
   }"

definition validateInventory :: "env \<Rightarrow> DBaaSInventory \<Rightarrow> DBaaSInventory option \<Rightarrow> admission prog" where
  "validateInventory E inventory oldInv =
     (if (case oldInv of None \<Rightarrow> False | Some old \<Rightarrow> inv_ProviderName old \<noteq> inv_ProviderName inventory) then
        ret (Denied (FieldInvalid [''spec'', ''providerRef'', ''name'']
          (StringValue (inv_ProviderName inventory))
          ''provider name is immutable for provider accounts''))
      else case inv_CredentialsRef inventory of
        None \<Rightarrow> ret Crashed
      | Some ref \<Rightarrow> do {
          r \<leftarrow> getSecret E (inv_Namespace inventory, lor_Name ref);
          case r of
            Inl err \<Rightarrow> ret (Denied (ApiError err))
          | Inr secret \<Rightarrow> do {
              r \<leftarrow> getProvider E ([], inv_ProviderName inventory);
              case r of
                Inl err \<Rightarrow> ret (Denied (ApiError err))
              | Inr provider \<Rightarrow> do {
                  rds \<leftarrow> (if oldInv = None \<and> inv_ProviderName inventory = RdsRegistration
                          then validateRDS E else ret None);
                  ret (case rds of
                         Some err \<Rightarrow> Denied (ApiError err)
                       | None \<Rightarrow>
                           (case ois_Policy (inv_Spec inventory) of
                              None \<Rightarrow> validateInventoryMandatoryFields inventory secret provider
                            | Some p \<Rightarrow>
                                (case check_selector E (cp_NsSelector (ip_Connections p)) of
                                   Allowed \<Rightarrow> validateInventoryMandatoryFields inventory secret provider
                                 | refused \<Rightarrow> refused)))
                }
            }
        })"

definition DBaaSInventory_ValidateCreate :: "env \<Rightarrow> DBaaSInventory \<Rightarrow> admission prog" where
  "DBaaSInventory_ValidateCreate E r = validateInventory E r None"

definition DBaaSInventory_ValidateUpdate :: "env \<Rightarrow> DBaaSInventory \<Rightarrow> DBaaSInventory \<Rightarrow> admission prog" where
  "DBaaSInventory_ValidateUpdate E r old = validateInventory E r (Some old)"

definition DBaaSInventory_ValidateDelete :: "DBaaSInventory \<Rightarrow> admission" where
  "DBaaSInventory_ValidateDelete r = Allowed"

subsection \<open>Connections: what is stored\<close>

text \<open>A spec that names exactly one database service, and by a reference only without a type.\<close>

definition names_one_service :: "DBaaSConnectionSpec \<Rightarrow> bool" where
  "names_one_service sp \<longleftrightarrow>
     (cs_DatabaseServiceID sp = []) = (\<exists>ref. cs_DatabaseServiceRef sp = Some ref \<and> nn_Name ref \<noteq> []) \<and>
     (cs_DatabaseServiceRef sp = None \<or> cs_DatabaseServiceType sp = None)"

lemma create_allowed_iff:
  "DBaaSConnection_ValidateCreate c = Allowed \<longleftrightarrow> names_one_service (conn_Spec c)"
  by (auto simp: DBaaSConnection_ValidateCreate_def validateCreateDBaaSConnectionSpec_def
      names_one_service_def Let_def split: option.splits)

lemma update_allowed_iff:
  "DBaaSConnection_ValidateUpdate c old = Allowed \<longleftrightarrow> conn_Spec c = conn_Spec old"
  by (auto simp: DBaaSConnection_ValidateUpdate_def validateUpdateDBaaSConnectionSpec_def Let_def)

text \<open>
  A connection as the API server may hold it: admitted at its creation, and changed since by
  admitted updates and by updates of the status only.
\<close>

inductive stored_connection :: "DBaaSConnection \<Rightarrow> DBaaSConnection \<Rightarrow> bool" where
  created: "DBaaSConnection_ValidateCreate c = Allowed \<Longrightarrow> stored_connection c c"
| updated: "stored_connection c old \<Longrightarrow> DBaaSConnection_ValidateUpdate new old = Allowed \<Longrightarrow>
     stored_connection c new"
| status: "stored_connection c old \<Longrightarrow> stored_connection c (old\<lparr>conn_Status := s\<rparr>)"

lemma stored_connection_spec:
  "stored_connection c x \<Longrightarrow> conn_Spec x = conn_Spec c \<and> names_one_service (conn_Spec x)"
  by (induction rule: stored_connection.induct) (auto simp: create_allowed_iff update_allowed_iff)

text \<open>C35: A connection is admitted at creation exactly if it names one database service, either by
  id or by a reference with a name, and no type beside a reference; whatever updates are
  admitted later, its spec is the one it was created with.\<close>

theorem connection_spec_immutable:
  "(DBaaSConnection_ValidateCreate c = Allowed \<longleftrightarrow> names_one_service (conn_Spec c)) \<and>
   (DBaaSConnection_ValidateUpdate new old = Allowed \<longleftrightarrow> conn_Spec new = conn_Spec old) \<and>
   (stored_connection c x \<longrightarrow> conn_Spec x = conn_Spec c \<and> names_one_service (conn_Spec x))"
  using stored_connection_spec create_allowed_iff update_allowed_iff by blast

theorem connection_spec_immutable_witness:
  "let c = zero_DBaaSConnection\<lparr>conn_Spec := zero_DBaaSConnectionSpec\<lparr>cs_DatabaseServiceID := ''db''\<rparr>\<rparr>
   in stored_connection c (c\<lparr>conn_Status := zero_DBaaSConnectionStatus\<rparr>) \<and>
      names_one_service (conn_Spec c)"
proof -
  let ?c = "zero_DBaaSConnection\<lparr>conn_Spec := zero_DBaaSConnectionSpec\<lparr>cs_DatabaseServiceID := ''db''\<rparr>\<rparr>"
  have "DBaaSConnection_ValidateCreate ?c = Allowed"
    by (simp add: create_allowed_iff names_one_service_def zero_DBaaSConnectionSpec_def)
  then have "stored_connection ?c (?c\<lparr>conn_Status := zero_DBaaSConnectionStatus\<rparr>)"
    by (intro stored_connection.status [OF stored_connection.created])
  then show ?thesis
    using connection_spec_immutable [of ?c _ _ "?c\<lparr>conn_Status := zero_DBaaSConnectionStatus\<rparr>"]
    by (simp add: Let_def)
qed

subsection \<open>Inventories: what is admitted\<close>

lemma mandatory_fields_iff:
  "inv_CredentialsRef inventory \<noteq> None \<Longrightarrow>
   mandatory_fields inventory secret cs = Allowed \<longleftrightarrow>
     (\<forall>f \<in> set cs. cf_Required f \<longrightarrow> (\<exists>v. map_of (sec_Data secret) (cf_Key f) = Some v \<and> v \<noteq> []))"
  by (induction cs) (auto simp: missing_credential_def split: option.splits)

lemma check_selector_iff:
  "check_selector E sel = Allowed \<longleftrightarrow>
     (\<forall>s. sel = Some s \<longrightarrow> (\<exists>q. LabelSelectorAsSelector E s = Inr q))"
  by (auto simp: check_selector_def split: option.splits sum.splits)

lemma check_selector_case:
  "(case check_selector E sel of Allowed \<Rightarrow> x | Denied d \<Rightarrow> Denied d | Crashed \<Rightarrow> Crashed) = Allowed \<longleftrightarrow>
     check_selector E sel = Allowed \<and> x = Allowed"
  by (auto split: admission.splits)

text \<open>The selector of an inventory's own policy, if any.\<close>

definition own_selector :: "DBaaSInventory \<Rightarrow> LabelSelector option" where
  "own_selector inventory =
     Option.bind (ois_Policy (inv_Spec inventory)) (\<lambda>p. cp_NsSelector (ip_Connections p))"

text \<open>C36: An inventory is admitted exactly if an update leaves its provider's name, its secret and
  provider can be read, no other inventory of an RDS provider is listed when one is created,
  the selector of its own policy compiles, and the secret has a value for every field that
  the provider requires.\<close>

theorem inventory_admitted_iff:
  "fst (run_state (validateInventory E inventory oldInv) h) = Allowed \<longleftrightarrow>
   (\<forall>old. oldInv = Some old \<longrightarrow> inv_ProviderName inventory = inv_ProviderName old) \<and>
   (\<exists>ref secret provider.
      inv_CredentialsRef inventory = Some ref \<and>
      srv_GetSecret E h (inv_Namespace inventory, lor_Name ref) = Inr secret \<and>
      srv_GetProvider E (h @ [EvGetSecret (inv_Namespace inventory, lor_Name ref)])
        ([], inv_ProviderName inventory) = Inr provider \<and>
      (oldInv = None \<and> inv_ProviderName inventory = RdsRegistration \<longrightarrow>
         srv_ListInventoriesByField E
           (h @ [EvGetSecret (inv_Namespace inventory, lor_Name ref),
                 EvGetProvider ([], inv_ProviderName inventory)])
           providerNameKey RdsRegistration = Inr []) \<and>
      (\<forall>s. own_selector inventory = Some s \<longrightarrow> (\<exists>q. LabelSelectorAsSelector E s = Inr q)) \<and>
      (\<forall>f \<in> set (ps_CredentialFields (prov_Spec provider)). cf_Required f \<longrightarrow>
         (\<exists>v. map_of (sec_Data secret) (cf_Key f) = Some v \<and> v \<noteq> [])))"
proof (cases "inv_CredentialsRef inventory")
  case None
  then show ?thesis by (simp add: validateInventory_def)
next
  case (Some ref)
  then have "validateInventoryMandatoryFields inventory secret provider = Allowed \<longleftrightarrow>
     (\<forall>f \<in> set (ps_CredentialFields (prov_Spec provider)). cf_Required f \<longrightarrow>
         (\<exists>v. map_of (sec_Data secret) (cf_Key f) = Some v \<and> v \<noteq> []))" for secret provider
    unfolding validateInventoryMandatoryFields_def by (intro mandatory_fields_iff) simp
  note simps = this check_selector_iff check_selector_case own_selector_def
  show ?thesis
    by (auto simp: validateInventory_def validateRDS_def Some simps
        split: option.splits sum.splits list.splits)
qed

text \<open>An inventory and the environment that admits it, for the witnesses.\<close>

definition rds_inventory :: DBaaSInventory where
  "rds_inventory = zero_DBaaSInventory\<lparr>inv_Spec := zero_DBaaSOperatorInventorySpec
     \<lparr>ois_ProviderRef := zero_NamespacedName\<lparr>nn_Name := RdsRegistration\<rparr>,
      ois_DBaaSInventorySpec := \<lparr>is_CredentialsRef = Some \<lparr>lor_Name = ''creds''\<rparr>\<rparr>\<rparr>\<rparr>"

definition rds_secret :: Secret where
  "rds_secret = \<lparr>sec_ObjectMeta = zero_ObjectMeta, sec_Data = [(''AWS_REGION'', ''us-east-1'')]\<rparr>"

definition rds_provider :: DBaaSProvider where
  "rds_provider = zero_DBaaSProvider\<lparr>prov_Spec := zero_DBaaSProviderSpec
     \<lparr>ps_CredentialFields := [\<lparr>cf_Key = ''AWS_REGION'', cf_DisplayName = [], cf_Type = [],
        cf_Required = True, cf_HelpText = []\<rparr>]\<rparr>\<rparr>"

definition rds_env :: env where
  "rds_env = ref_env\<lparr>srv_GetSecret := \<lambda>h k. Inr rds_secret, srv_GetProvider := \<lambda>h k. Inr rds_provider\<rparr>"

theorem inventory_admitted_iff_witness:
  "fst (run_state (validateInventory rds_env rds_inventory None) []) = Allowed \<and>
   fst (run_state (validateInventory (rds_env\<lparr>srv_GetSecret := \<lambda>h k. Inr (rds_secret\<lparr>sec_Data := []\<rparr>)\<rparr>)
     rds_inventory None) []) \<noteq> Allowed"
  unfolding inventory_admitted_iff
  by (simp add: rds_env_def rds_inventory_def rds_provider_def rds_secret_def own_selector_def
      zero_DBaaSOperatorInventorySpec_def env_simps)

subsection \<open>At most one RDS inventory\<close>

text \<open>
  The inventories of the cluster as a state machine: an inventory is created or updated when
  the webhook admits it, in an environment that answers the list of inventories from the
  state and everything else arbitrarily; metadata and status change freely, and inventories
  are deleted.
\<close>

definition serve_inventories :: "env \<Rightarrow> DBaaSInventory list \<Rightarrow> env" where
  "serve_inventories E st = E\<lparr>srv_ListInventoriesByField :=
     \<lambda>h f v. Inr (filter (\<lambda>i. inv_ProviderName i = v) st)\<rparr>"

lemma serve_inventories_list [simp]:
  "srv_ListInventoriesByField (serve_inventories E st) =
     (\<lambda>h f v. Inr (filter (\<lambda>i. inv_ProviderName i = v) st))"
  by (simp add: serve_inventories_def)

inductive inventory_step :: "DBaaSInventory list \<Rightarrow> DBaaSInventory list \<Rightarrow> bool" where
  create: "fst (run_state (DBaaSInventory_ValidateCreate (serve_inventories E st) x) h) = Allowed \<Longrightarrow>
     inventory_step st (st @ [x])"
| update: "k < length st \<Longrightarrow>
     fst (run_state (DBaaSInventory_ValidateUpdate (serve_inventories E st) x (st ! k)) h) = Allowed \<Longrightarrow>
     inventory_step st (st[k := x])"
| status: "k < length st \<Longrightarrow>
     inventory_step st (st[k := (st ! k)\<lparr>inv_ObjectMeta := m, inv_Status := s\<rparr>])"
| delete: "inventory_step (xs @ x # ys) (xs @ ys)"

inductive inventory_reachable :: "DBaaSInventory list \<Rightarrow> bool" where
  init: "inventory_reachable []"
| step: "inventory_reachable st \<Longrightarrow> inventory_step st st' \<Longrightarrow> inventory_reachable st'"

abbreviation rds_inventories :: "DBaaSInventory list \<Rightarrow> DBaaSInventory list" where
  "rds_inventories \<equiv> filter (\<lambda>i. inv_ProviderName i = RdsRegistration)"

lemma admitted_update_provider:
  "fst (run_state (DBaaSInventory_ValidateUpdate E x old) h) = Allowed \<Longrightarrow>
     inv_ProviderName x = inv_ProviderName old"
  by (simp add: DBaaSInventory_ValidateUpdate_def validateInventory_def split: if_splits)

lemma admitted_create_rds:
  "fst (run_state (DBaaSInventory_ValidateCreate (serve_inventories E st) x) h) = Allowed \<Longrightarrow>
     inv_ProviderName x = RdsRegistration \<Longrightarrow> rds_inventories st = []"
  by (auto simp: DBaaSInventory_ValidateCreate_def validateInventory_def validateRDS_def
      split: option.splits sum.splits list.splits)

lemma filter_update_same:
  "k < length xs \<Longrightarrow> P y = P (xs ! k) \<Longrightarrow> length (filter P (xs[k := y])) = length (filter P xs)"
proof (induction xs arbitrary: k)
  case (Cons x xs)
  then show ?case by (cases k) auto
qed simp

lemma inventory_step_rds:
  assumes "inventory_step st st'" "length (rds_inventories st) \<le> 1"
  shows "length (rds_inventories st') \<le> 1"
  using assms
proof (cases rule: inventory_step.cases)
  case (create E x h)
  then show ?thesis using assms(2) admitted_create_rds [of E st x h] by auto
next
  case (update k E x h)
  then show ?thesis
    using filter_update_same [OF update(2), of "\<lambda>i. inv_ProviderName i = RdsRegistration" x]
      admitted_update_provider [OF update(3)] assms(2) by simp
next
  case (status k m s)
  then show ?thesis
    using filter_update_same [OF status(2), of "\<lambda>i. inv_ProviderName i = RdsRegistration"]
      assms(2) by simp
qed (auto split: if_splits)

text \<open>C18: As long as the webhook's list of inventories is up to date, there is never more than
  one inventory of the RDS provider in the cluster.\<close>

theorem at_most_one_rds_inventory:
  assumes "inventory_reachable st"
  shows "length (rds_inventories st) \<le> 1"
  using assms
  by (induction rule: inventory_reachable.induct) (use inventory_step_rds in auto)

lemma rds_inventory_created: "inventory_reachable [rds_inventory]"
proof -
  have "fst (run_state (DBaaSInventory_ValidateCreate (serve_inventories rds_env []) rds_inventory) []) = Allowed"
    by (simp add: DBaaSInventory_ValidateCreate_def validateInventory_def validateRDS_def
        validateInventoryMandatoryFields_def rds_env_def rds_inventory_def rds_provider_def
        rds_secret_def zero_DBaaSOperatorInventorySpec_def serve_inventories_def)
  from inventory_reachable.step [OF inventory_reachable.init inventory_step.create [OF this]]
  show ?thesis by simp
qed

theorem at_most_one_rds_inventory_witness:
  "length (rds_inventories [rds_inventory]) = 1"
proof -
  have "rds_inventories [rds_inventory] = [rds_inventory]"
    by (simp add: rds_inventory_def zero_DBaaSOperatorInventorySpec_def)
  then show ?thesis using at_most_one_rds_inventory [OF rds_inventory_created] by simp
qed

end
