(* ===== verification/Write_Bounds.thy ===== *)
theory Write_Bounds
  imports Inventory_Controller Connection_Controller Instance_Controller Policy_Controller
begin

section \<open>How much one reconciliation writes\<close>

text \<open>
  Bounds on the number of writes of one reconciliation of the controllers of inventories,
  connections, instances and policies, counted over its events.
\<close>

subsection \<open>Counting\<close>

definition status_updates :: "event list \<Rightarrow> nat" where
  "status_updates t = length (filter is_status_update t)"

definition object_writes :: "event list \<Rightarrow> nat" where
  "object_writes t = length (filter is_provider_write t)"

lemma counts_simps [simp]:
  "status_updates [] = 0" "object_writes [] = 0"
  "status_updates (e # t) = (if is_status_update e then 1 else 0) + status_updates t"
  "object_writes (e # t) = (if is_provider_write e then 1 else 0) + object_writes t"
  "status_updates (t @ u) = status_updates t + status_updates u"
  "object_writes (t @ u) = object_writes t + object_writes u"
  by (simp_all add: status_updates_def object_writes_def)

definition quiet :: "event \<Rightarrow> bool" where
  "quiet e \<longleftrightarrow> \<not> is_status_update e \<and> \<not> is_provider_write e"

lemma quiet_read: "is_read e \<Longrightarrow> quiet e"
  by (simp add: quiet_def is_read_not_write)

lemma quiet_telemetry: "telemetry e \<Longrightarrow> quiet e"
  by (simp add: quiet_def telemetry_not_update)

lemma quiet_events [simp]:
  "quiet (EvPatchSecret k b)" "quiet (EvCreateOrUpdateDeployment x f)"
  by (simp_all add: quiet_def)

lemma quiet_counts: "list_all quiet t \<Longrightarrow> status_updates t = 0 \<and> object_writes t = 0"
  by (induction t) (simp_all add: quiet_def)

lemma read_counts: "list_all is_read t \<Longrightarrow> status_updates t = 0 \<and> object_writes t = 0"
  using quiet_read by (intro quiet_counts) (auto simp: list_all_iff)

text \<open>At most so many status updates and writes of provider objects.\<close>

definition writes_at_most :: "nat \<Rightarrow> nat \<Rightarrow> event list \<Rightarrow> bool" where
  "writes_at_most m n t \<longleftrightarrow> status_updates t \<le> m \<and> object_writes t \<le> n"

subsection \<open>The shared reconciler\<close>

lemma statusUpdate_event:
  "runs (statusUpdate E ops x) h (\<lambda>r t. t = [o_StatusUpdateEvent ops x])"
  unfolding statusUpdate_def by (intro runs_intros) simp

context provider_contract
begin

lemma update_not_write: "\<not> is_provider_write (o_StatusUpdateEvent ops x)"
  using event_is_update [of x] by (cases "o_StatusUpdateEvent ops x") simp_all

lemma reconcile_counts:
  "runs (reconcileProviderResource E ops cb providerName readyType obj) h
     (\<lambda>r t. status_updates t = 1 \<and> object_writes t \<le> 1)"
  unfolding reconcileProviderResource_def reconcileProviderResource_body_def
    reconcileProviderResource_deferred_def Let_def getDBaaSProvider_def
  by (intro runs_intros runs_only [OF spec_reads] statusUpdate_event [THEN runs_conseq])
    (auto simp: read_counts event_is_update update_not_write split: sum.splits option.splits
      intro!: runs_intros statusUpdate_event [THEN runs_conseq])

end

context gated_object
begin

lemma check_counts:
  "runs (checkInventory E ops statusErrorFn ref obj) h (\<lambda>ck t. object_writes t = 0 \<and>
     status_updates t \<le> (if ck_err ck = None \<and> ck_validNS ck then 0 else 1))"
proof (rule runs_conseq [OF check_spec])
  have no_write: "\<not> is_provider_write (o_StatusUpdateEvent ops x)" for x
    using event_is_update [of x] by (cases "o_StatusUpdateEvent ops x") simp_all
  show "object_writes t = 0 \<and> status_updates t \<le> (if ck_err ck = None \<and> ck_validNS ck then 0 else 1)"
    if "(ck_err ck = None \<and> ck_validNS ck \<longleftrightarrow>
         inventory_admits E h (o_TypeName ops) (om_Namespace (o_ObjectMeta ops obj)) ref
           (ck_inventory ck)) \<and>
      (ck_err ck = None \<and> ck_validNS ck \<longrightarrow> list_all is_read t \<and> ck_object ck = obj \<and>
         (o_TypeName ops = ''DBaaSInstance'' \<longrightarrow> ck_provision ck)) \<and>
      (\<not> (ck_err ck = None \<and> ck_validNS ck) \<longrightarrow>
         list_all is_read t \<and> ck_object ck = obj \<and> ck_err ck \<noteq> None \<or>
         (\<exists>t0 reason msg. list_all is_read t0 \<and>
            t = t0 @ [o_StatusUpdateEvent ops (statusErrorFn reason msg obj)]))" for ck t
    using that read_counts by (cases "ck_err ck = None \<and> ck_validNS ck") (auto simp: no_write)
qed

end

subsection \<open>The reconciliations\<close>

text \<open>Parts that write nothing of this kind.\<close>

lemma quiet_parts:
  "only quiet (SetInventoryMetrics E i x ev cd)"
  "only quiet (SetConnectionMetrics E p a c x ev cd)"
  "only quiet (SetInstanceMetrics E p a n x ev cd)"
  "only quiet (SetPolicyMetrics E y x ev cd)"
  "only quiet (checkCredsRefLabel E i)"
  "only quiet (reconcileDevTopologyResource E c)"
  "only quiet (getConnectionSpec E spec)"
  "only quiet (check_instance_conversion E provider n)"
  unfolding checkCredsRefLabel_def reconcileDevTopologyResource_def getConnectionSpec_def
    check_instance_conversion_def Let_def
  by (intro only_intros; simp add: quiet_read quiet_telemetry)+

lemma runs_quiet:
  "only quiet m \<Longrightarrow> (\<And>a t. status_updates t = 0 \<Longrightarrow> object_writes t = 0 \<Longrightarrow> Q a t) \<Longrightarrow> runs m h Q"
  by (rule runs_only) (use quiet_counts in blast)+

lemma inventory_writes:
  "runs (DBaaSInventory_Reconcile E req) h (\<lambda>_ t. writes_at_most 1 1 t)"
  unfolding DBaaSInventory_Reconcile_def PlatformInstallStart_def policyListByNS_def
    inventory_policy_missing_def reconcile_inventory_object_def getDBaaSProvider_def Let_def
  by (intro runs_intros runs_quiet [OF quiet_parts(1)] runs_quiet [OF quiet_parts(5)]
      inventory_provider.reconcile_counts [THEN runs_conseq])
    (auto simp: writes_at_most_def)

lemma connection_writes:
  "runs (DBaaSConnection_Reconcile E req) h (\<lambda>_ t. writes_at_most 1 1 t)"
  unfolding DBaaSConnection_Reconcile_def PlatformInstallStart_def reconcile_admitted_connection_def
    updateConnectionStatus_def try_status_update_def getDBaaSProvider_def Let_def
  by (intro runs_intros runs_quiet [OF quiet_parts(2)] runs_quiet [OF quiet_parts(6)]
      runs_quiet [OF quiet_parts(7)] connection_gate.check_counts [THEN runs_conseq]
      statusUpdate_event [THEN runs_conseq] connection_provider.reconcile_counts [THEN runs_conseq])
    (auto simp: writes_at_most_def)

lemma instance_writes:
  "runs (DBaaSInstance_Reconcile E req) h (\<lambda>_ t. writes_at_most 1 1 t)"
  unfolding DBaaSInstance_Reconcile_def PlatformInstallStart_def reconcile_admitted_instance_def
    getDBaaSProvider_def Let_def
  by (intro runs_intros runs_quiet [OF quiet_parts(3)] runs_quiet [OF quiet_parts(8)]
      instance_gate.check_counts [THEN runs_conseq] instance_provider.reconcile_counts [THEN runs_conseq])
    (auto simp: writes_at_most_def)

lemma policy_writes:
  "runs (DBaaSPolicy_Reconcile E req) h (\<lambda>_ t. writes_at_most 1 0 t)"
  unfolding DBaaSPolicy_Reconcile_def PlatformInstallStart_def policyListByNS_def
    reconcile_policy_object_def updateStatusCondition_def Let_def
  by (intro runs_intros runs_quiet [OF quiet_parts(4)])
    (auto simp: writes_at_most_def split: option.splits)

text \<open>C30: One reconciliation writes little: for inventories, connections and instances it sends at
  most one status update and at most one provider object, on every path through the handlers
  and whatever the API server answers; for policies at most one status update and no provider
  object.\<close>

theorem writes_bounded:
  "runs (DBaaSInventory_Reconcile E req) h (\<lambda>_ t. writes_at_most 1 1 t) \<and>
   runs (DBaaSConnection_Reconcile E req) h (\<lambda>_ t. writes_at_most 1 1 t) \<and>
   runs (DBaaSInstance_Reconcile E req) h (\<lambda>_ t. writes_at_most 1 1 t) \<and>
   runs (DBaaSPolicy_Reconcile E req) h (\<lambda>_ t. writes_at_most 1 0 t)"
  by (intro conjI inventory_writes connection_writes instance_writes policy_writes)

end
