(* ===== verification/Progress.thy ===== *)
theory Progress
  imports Inventory_Controller Connection_Controller Instance_Controller
begin

section \<open>What a provider reports is passed on\<close>

text \<open>
  The other direction of the safety properties of the controllers: when nothing stands in the
  way, a reconciliation reports its object ready exactly if the provider says that its object
  is synchronised.
\<close>

text \<open>
  The API server takes what the mutate function makes of a provider object of the given name,
  and what it returns can be parsed and is synchronised exactly if \<open>s\<close>.
\<close>

definition provider_accepts ::
    "env \<Rightarrow> ObjectKey \<Rightarrow> (Unstructured \<Rightarrow> go_error + 'p) \<Rightarrow> ('p \<Rightarrow> bool) \<Rightarrow> bool \<Rightarrow> bool" where
  "provider_accepts E k parse synced s \<longleftrightarrow>
     (\<exists>stored. server_accepts u_ObjectMeta stored (srv_CreateOrUpdateProviderObject E)) \<and>
     (\<forall>h x f u r. key_of (u_ObjectMeta x) = k \<and> srv_CreateOrUpdateProviderObject E h x f = Inr (u, r) \<longrightarrow>
        (\<exists>p. parse u = Inr p \<and> (synced p \<longleftrightarrow> s)))"

text \<open>
  The mutate function clears the owner references before it sets its own, on an object of the
  owner's namespace.
\<close>

lemma unclaimed_cleared:
  "om_Namespace m = om_Namespace owner \<Longrightarrow> unclaimed E ty owner (m\<lparr>om_OwnerReferences := []\<rparr>)"
  by (simp add: unclaimed_def)

lemma provider_object_mutated:
  assumes "owner_contract E" "key_of (u_ObjectMeta x) = key_of (o_ObjectMeta ops obj)"
    and "o_TypeName ops \<in> {''DBaaSInventory'', ''DBaaSConnection'', ''DBaaSInstance'', ''DBaaSPolicy''}"
  shows "\<exists>y. providerObjectMutateFn E ops obj a x = Inr y \<and> key_of (u_ObjectMeta y) = key_of (u_ObjectMeta x)"
proof -
  have "om_Namespace (u_ObjectMeta x) = om_Namespace (o_ObjectMeta ops obj)"
    using assms(2) by (simp add: key_of_def)
  from owner_contractD [OF assms(1) unclaimed_cleared [OF this] assms(3)]
  obtain rs where "SetControllerReference E (o_TypeName ops) (o_ObjectMeta ops obj)
      ((u_ObjectMeta x)\<lparr>om_OwnerReferences := []\<rparr>) =
    Inr ((u_ObjectMeta x)\<lparr>om_OwnerReferences := [], om_OwnerReferences := rs\<rparr>)" by metis
  then show ?thesis by (simp add: providerObjectMutateFn_def Let_def key_of_def)
qed

lemma provider_acceptsD:
  assumes "provider_accepts E (key_of (o_ObjectMeta ops obj)) parse synced s" "owner_contract E"
    and "o_TypeName ops \<in> {''DBaaSInventory'', ''DBaaSConnection'', ''DBaaSInstance'', ''DBaaSPolicy''}"
    and "x = createProviderObject (o_ObjectMeta ops obj) gv kind"
  shows "srv_CreateOrUpdateProviderObject E h x (providerObjectMutateFn E ops obj a) \<noteq> Inl err"
    and "srv_CreateOrUpdateProviderObject E h x f = Inr (u, r) \<Longrightarrow> \<exists>p. parse u = Inr p \<and> (synced p \<longleftrightarrow> s)"
proof -
  have key: "key_of (u_ObjectMeta x) = key_of (o_ObjectMeta ops obj)"
    by (simp add: assms(4) createProviderObject_def key_of_def)
  obtain stored where "server_accepts u_ObjectMeta stored (srv_CreateOrUpdateProviderObject E)"
    using assms(1) unfolding provider_accepts_def by blast
  then have "\<exists>r. srv_CreateOrUpdateProviderObject E h x (providerObjectMutateFn E ops obj a) = Inr r"
    by (rule server_acceptsD) (use provider_object_mutated [OF assms(2) _ assms(3)] key in metis)
  then show "srv_CreateOrUpdateProviderObject E h x (providerObjectMutateFn E ops obj a) \<noteq> Inl err" by auto
  show "srv_CreateOrUpdateProviderObject E h x f = Inr (u, r) \<Longrightarrow> \<exists>p. parse u = Inr p \<and> (synced p \<longleftrightarrow> s)"
    using assms(1) key unfolding provider_accepts_def by blast
qed

context provider_contract
begin

lemma body_mirrors:
  assumes "\<And>h. srv_GetProvider E h ([], n) = Inr provider"
    and "provider_accepts E (key_of (o_ObjectMeta ops obj)) (parseProviderObject cb) synced s"
    and "owner_contract E"
    and "o_TypeName ops \<in> {''DBaaSInventory'', ''DBaaSConnection'', ''DBaaSInstance'', ''DBaaSPolicy''}"
  shows "runs (reconcileProviderResource_body E ops cb n readyType obj) h (\<lambda>b t.
    \<not> b_panicked b \<and> c_Type (b_condition b) = readyType \<and>
    (c_Status (b_condition b) = ConditionTrue \<longleftrightarrow> s) \<and>
    o_ObjectMeta ops (b_object b) = o_ObjectMeta ops obj)"
  unfolding reconcileProviderResource_body_def Let_def getDBaaSProvider_def
  apply (intro runs_intros runs_only [OF spec_reads])
      apply (simp add: assms(1))
  subgoal by (simp add: provider_acceptsD(1) [OF assms(2-4) refl])
  subgoal by (auto dest: provider_acceptsD(2) [OF assms(2-4) refl])
  subgoal using sync_total by auto
  subgoal using sync_condition by (fastforce dest: provider_acceptsD(2) [OF assms(2-4) refl])
  done

lemma reconcile_mirrors:
  assumes "conditions_contract E"
    and "\<And>h. srv_GetProvider E h ([], n) = Inr provider"
    and "provider_accepts E (key_of (o_ObjectMeta ops obj)) (parseProviderObject cb) synced s"
    and "owner_contract E"
    and "o_TypeName ops \<in> {''DBaaSInventory'', ''DBaaSConnection'', ''DBaaSInstance'', ''DBaaSPolicy''}"
  shows "runs (reconcileProviderResource E ops cb n readyType obj) h (\<lambda>r t. \<exists>x.
    o_StatusUpdateEvent ops x \<in> set t \<and> o_ObjectMeta ops x = o_ObjectMeta ops obj \<and>
    (IsStatusConditionTrue E (o_Conditions ops x) readyType \<longleftrightarrow> s))"
  unfolding reconcileProviderResource_def reconcileProviderResource_deferred_def Let_def
    statusUpdate_def
  apply (rule runs_bind [OF body_mirrors [OF assms(2-5), THEN runs_conseq]])
  apply (intro runs_intros)
   apply (auto simp: is_true_set_same [OF assms(1)] conditions_set meta_set
      intro!: exI [of _ "o_SetConditions ops (SetStatusCondition E _ _) _"])
  done

end

text \<open>An inventory that admits an object is the one that the check hands on.\<close>

context gated_object
begin

lemma check_open:
  assumes "inventory_admits E h (o_TypeName ops) (om_Namespace (o_ObjectMeta ops obj)) ref inventory"
  shows "runs (checkInventory E ops statusErrorFn ref obj) h (\<lambda>ck t.
    ck_err ck = None \<and> ck_validNS ck \<and> ck_inventory ck = inventory \<and> ck_object ck = obj \<and>
    (o_TypeName ops = ''DBaaSInstance'' \<longrightarrow> ck_provision ck))"
  unfolding checkInventory_def Let_def policyListByNS_def try_status_update_def statusUpdate_def
  using assms
  by (intro runs_intros runs_only_value [OF only_isValidConnectionNS [of is_read]])
    (auto simp: inventory_admits_def split: option.splits)

end

subsection \<open>The controllers\<close>

text \<open>
  Nothing stands in the way of an admitted object: its inventory's provider is there, and the
  provider objects are taken and come back synchronised exactly if \<open>s\<close>.
\<close>

definition provider_answers ::
    "env \<Rightarrow> ObjectKey \<Rightarrow> (DBaaSProvider \<Rightarrow> Unstructured \<Rightarrow> go_error + 'p) \<Rightarrow> ('p \<Rightarrow> bool) \<Rightarrow> bool \<Rightarrow>
     DBaaSInventory \<Rightarrow> bool" where
  "provider_answers E k parse synced s inventory \<longleftrightarrow>
     (\<exists>provider. (\<forall>h. srv_GetProvider E h ([], inv_ProviderName inventory) = Inr provider) \<and>
        provider_accepts E k (parse provider) synced s)"

lemma deployment_accepted:
  assumes "owner_contract E" "server_accepts dep_ObjectMeta stored (srv_CreateOrUpdateDeployment E)"
  shows "\<exists>r. srv_CreateOrUpdateDeployment E h
      (zero_Deployment (named_meta (om_Namespace (conn_ObjectMeta connection))
         (om_Name (conn_ObjectMeta connection)))) (deploymentMutateFn E connection) = Inr r"
proof (rule server_acceptsD [OF assms(2)])
  let ?owner = "conn_ObjectMeta connection"
  let ?x = "zero_Deployment (named_meta (om_Namespace ?owner) (om_Name ?owner))"
  fix x :: Deployment
  assume key: "key_of (dep_ObjectMeta x) = key_of (dep_ObjectMeta ?x)"
  let ?m = "\<lambda>ann. (dep_ObjectMeta x)\<lparr>om_Annotations := ann\<rparr>"
  have ns: "om_Namespace (?m ann) = om_Namespace ?owner" for ann
    using key by (simp add: key_of_def zero_Deployment_def)
  have "\<exists>rs. SetControllerReference E ''DBaaSConnection'' ?owner ((?m ann)\<lparr>om_OwnerReferences := []\<rparr>) =
    Inr ((?m ann)\<lparr>om_OwnerReferences := rs\<rparr>)" for ann
    by (rule owner_contractD [OF assms(1) unclaimed_cleared [OF ns], of "''DBaaSConnection''" ann])
      (auto intro: exI)
  then obtain rs where "\<And>ann. SetControllerReference E ''DBaaSConnection'' ?owner
      ((?m ann)\<lparr>om_OwnerReferences := []\<rparr>) = Inr ((?m ann)\<lparr>om_OwnerReferences := rs ann\<rparr>)" by metis
  with key show "\<exists>y. deploymentMutateFn E connection x = Inr y \<and>
      key_of (dep_ObjectMeta y) = key_of (dep_ObjectMeta ?x)"
    by (simp add: deploymentMutateFn_def Let_def key_of_def)
qed

lemma only_getConnectionSpec: "only is_read (getConnectionSpec E sp)"
  unfolding only_def by (intro allI runs_conseq [OF getConnectionSpec_id]) simp

text \<open>C7: When nothing stands in the way, a connection mirrors its provider: if an inventory admits
  the connection, its database service is resolved (by an id or by a reference), the API server
  accepts what the mutate functions make of the deployment and of the provider's object, the
  provider is there, and what the API server returns for the provider connection is synchronised or
  not, then the reconciliation asks for a status of the same connection that is ready
  exactly if it is synchronised, whatever the connection said before.\<close>

theorem connection_ready_mirrors_provider:
  assumes "conditions_contract E"
    and conn: "srv_GetConnection E (h @ [EvNow]) req = Inr connection"
    and owner: "owner_contract E"
    and depl: "server_accepts dep_ObjectMeta stored (srv_CreateOrUpdateDeployment E)"
    and adm: "connection_admitted E h req connection inventory"
    and spec: "\<And>h. fst (run_state (getConnectionSpec E (conn_Spec connection)) h) = Inr sp"
    and prov: "provider_answers E (key_of (conn_ObjectMeta connection))
      (\<lambda>p. parseProviderObject (connection_callbacks E p sp)) (connection_synced E) s inventory"
  shows "runs (DBaaSConnection_Reconcile E req) h (\<lambda>out t. \<exists>x.
    EvStatusUpdateConnection x \<in> set t \<and> conn_ObjectMeta x = conn_ObjectMeta connection \<and>
    (connection_ready E x \<longleftrightarrow> s))"
proof -
  obtain provider where p: "\<And>h. srv_GetProvider E h ([], inv_ProviderName inventory) = Inr provider"
    and a: "provider_accepts E (key_of (o_ObjectMeta connection_ops connection))
      (parseProviderObject (connection_callbacks E provider sp)) (connection_synced E) s"
    using prov unfolding provider_answers_def by auto
  have gate: "h @ [EvNow, EvGetConnection req, EvCreateOrUpdateDeployment
      (zero_Deployment (named_meta (om_Namespace (conn_ObjectMeta connection))
           (om_Name (conn_ObjectMeta connection)))) (deploymentMutateFn E connection)]
     = h @ connection_prefix E req connection"
    by (simp add: connection_prefix_def)
  obtain d where deployed: "srv_CreateOrUpdateDeployment E (h @ [EvNow, EvGetConnection req])
      (zero_Deployment (named_meta (om_Namespace (conn_ObjectMeta connection))
           (om_Name (conn_ObjectMeta connection)))) (deploymentMutateFn E connection) = Inr d"
    using deployment_accepted [OF owner depl] by blast
  have admitted: "runs (reconcile_admitted_connection E x ev inventory connection) h' (\<lambda>out t. \<exists>x.
    EvStatusUpdateConnection x \<in> set t \<and> conn_ObjectMeta x = conn_ObjectMeta connection \<and>
    (connection_ready E x \<longleftrightarrow> s))" for x ev h'
    unfolding reconcile_admitted_connection_def getDBaaSProvider_def
    apply (rule runs_bind, rule runs_only_value [OF only_getConnectionSpec])
    apply (simp add: spec)
    apply (rule runs_bind_value [OF run_state_call], simp add: p)
    by (intro runs_intros connection_provider.reconcile_mirrors [OF assms(1) p a owner, THEN runs_conseq]
        runs_only [OF metrics_connection]) auto
  show ?thesis
    unfolding DBaaSConnection_Reconcile_def PlatformInstallStart_def Let_def
      reconcileDevTopologyResource_def
    apply (intro runs_bind runs_call runs_return, simp add: conn split del: if_split)
    apply (intro runs_bind runs_call)
    apply (simp add: deployed gate split del: if_split)
    apply (rule runs_bind, rule connection_gate.check_open [where inventory = inventory, THEN runs_conseq])
     apply (simp add: adm)
    apply (simp split del: if_split)
    by (rule admitted [THEN runs_conseq]) auto
qed

text \<open>C8: When nothing stands in the way, an instance mirrors its provider: if an inventory admits
  the instance, its parameters convert, the provider is there and its objects are accepted, and what
  the API server returns for the provider instance is synchronised or not, then the
  reconciliation asks for a status of the same instance that is ready exactly if it is
  synchronised, whatever the instance said before.\<close>

theorem instance_ready_mirrors_provider:
  assumes "conditions_contract E"
    and ins: "srv_GetInstance E (h @ [EvNow]) req = Inr ins"
    and owner: "owner_contract E"
    and adm: "instance_admitted E h req ins inventory"
    and conv: "\<And>p h. fst (run_state (check_instance_conversion E p ins) h) = None"
    and prov: "provider_answers E (key_of (instance_ObjectMeta ins))
      (\<lambda>p. parseProviderObject (instance_callbacks E p)) (instance_synced E) s inventory"
  shows "runs (DBaaSInstance_Reconcile E req) h (\<lambda>out t. \<exists>x.
    EvStatusUpdateInstance x \<in> set t \<and> instance_ObjectMeta x = instance_ObjectMeta ins \<and>
    (instance_ready E x \<longleftrightarrow> s))"
proof -
  obtain provider where p: "\<And>h. srv_GetProvider E h ([], inv_ProviderName inventory) = Inr provider"
    and a: "provider_accepts E (key_of (o_ObjectMeta instance_ops ins))
      (parseProviderObject (instance_callbacks E provider)) (instance_synced E) s"
    using prov unfolding provider_answers_def by auto
  have admitted: "runs (reconcile_admitted_instance E x ev inventory ins) h' (\<lambda>out t. \<exists>x.
    EvStatusUpdateInstance x \<in> set t \<and> instance_ObjectMeta x = instance_ObjectMeta ins \<and>
    (instance_ready E x \<longleftrightarrow> s))" for x ev h'
    unfolding reconcile_admitted_instance_def getDBaaSProvider_def
    apply (rule runs_bind_value [OF run_state_call], simp add: p)
    apply (rule runs_bind, rule runs_only_value [OF only_check_instance_conversion])
    apply (simp add: conv)
    by (intro runs_intros instance_provider.reconcile_mirrors [OF assms(1) p a owner, THEN runs_conseq]
        runs_only [OF metrics_instance]) auto
  show ?thesis
    unfolding DBaaSInstance_Reconcile_def PlatformInstallStart_def Let_def
    apply (intro runs_bind runs_call runs_return, simp add: ins split del: if_split)
    apply (rule runs_bind, rule instance_gate.check_open [where inventory = inventory, THEN runs_conseq])
     apply (simp add: adm)
    apply (simp split del: if_split)
    by (rule admitted [THEN runs_conseq]) auto
qed

text \<open>C9: When nothing stands in the way, an inventory mirrors its provider: with an active policy
  in the namespace, labelled credentials, a provider that is there and whose objects are
  accepted, the reconciliation asks for a status of the same inventory that is ready exactly if what
  the API server returns for the provider inventory is synchronised, whatever the inventory
  said before.\<close>

theorem inventory_ready_mirrors_provider:
  assumes "conditions_contract E"
    and inv: "srv_GetInventory E (h @ [EvNow]) req = Inr inventory"
    and owner: "owner_contract E"
    and pol: "srv_ListPolicies E (h @ [EvNow, EvGetInventory req]) (fst req) = Inr policies"
      "getActivePolicy E policies = Some policy"
    and creds: "\<And>h. fst (run_state (checkCredsRefLabel E inventory) h) = None"
    and prov: "provider_answers E (key_of (inv_ObjectMeta inventory))
      (\<lambda>p. parseProviderObject (inventory_callbacks E p)) (inventory_synced E) s inventory"
  shows "runs (DBaaSInventory_Reconcile E req) h (\<lambda>out t. \<exists>x.
    EvStatusUpdateInventory x \<in> set t \<and> inv_ObjectMeta x = inv_ObjectMeta inventory \<and>
    (inventory_ready E x \<longleftrightarrow> s))"
proof -
  obtain provider where p: "\<And>h. srv_GetProvider E h ([], inv_ProviderName inventory) = Inr provider"
    and a: "provider_accepts E (key_of (o_ObjectMeta inventory_ops inventory))
      (parseProviderObject (inventory_callbacks E provider)) (inventory_synced E) s"
    using prov unfolding provider_answers_def by auto
  show ?thesis
    unfolding DBaaSInventory_Reconcile_def PlatformInstallStart_def policyListByNS_def Let_def
      reconcile_inventory_object_def getDBaaSProvider_def
    apply (intro runs_bind runs_call runs_return, simp add: inv split del: if_split)
    apply (intro runs_bind runs_call, simp add: pol split del: if_split)
    apply (rule runs_bind, rule runs_only_value [OF only_no_updates_creds])
    apply (simp add: creds split del: if_split)
    apply (intro runs_bind runs_call, simp add: p split del: if_split)
    by (intro runs_intros inventory_provider.reconcile_mirrors [OF assms(1) p a owner, THEN runs_conseq]
        runs_only [OF no_updates_inventory_metrics]) (auto simp: inventory_ops_def)
qed

subsection \<open>In the example world\<close>

lemma demo_owner_contract: "owner_contract demo_env"
  by (rule ref_owner_contract) (simp_all add: env_simps)

lemma demo_servers:
  "server_accepts u_ObjectMeta (\<lambda>h k. None) (srv_CreateOrUpdateProviderObject demo_env)"
  "server_accepts dep_ObjectMeta (\<lambda>h k. None) (srv_CreateOrUpdateDeployment demo_env)"
  by (simp_all add: env_simps ref_server_accepts)

lemma demo_provider_accepts:
  assumes "\<And>u. \<exists>p. parse u = Inr p \<and> synced p"
  shows "provider_accepts demo_env k parse synced True"
  unfolding provider_accepts_def using assms demo_servers(1) by blast

lemma demo_inventory_admits:
  "inventory_admits demo_env h ty [] ref demo_inventory"
  by (simp add: inventory_admits_def isValidConnectionNS_def env_simps canProvision_def)

lemma demo_uses: "uses_v1alpha1 demo_env zero_DBaaSProvider"
  by (rule default_uses_v1alpha1) (simp add: env_simps)

theorem connection_ready_mirrors_provider_witness:
  "runs (DBaaSConnection_Reconcile demo_env ([], [])) [] (\<lambda>out t. \<exists>x.
     EvStatusUpdateConnection x \<in> set t \<and>
     conn_ObjectMeta x = conn_ObjectMeta demo_connection \<and> (connection_ready demo_env x \<longleftrightarrow> True))"
proof (rule connection_ready_mirrors_provider [OF demo_conditions_contract _
      demo_owner_contract demo_servers(2)])
  show "fst (run_state (getConnectionSpec demo_env (conn_Spec demo_connection)) h) =
      Inr (conn_Spec demo_connection)" for h
    by (simp add: getConnectionSpec_def env_simps)
  show "provider_answers demo_env (key_of (conn_ObjectMeta demo_connection))
      (\<lambda>p. parseProviderObject (connection_callbacks demo_env p (conn_Spec demo_connection)))
      (connection_synced demo_env) True demo_inventory"
    unfolding provider_answers_def
    by (intro exI [of _ zero_DBaaSProvider] conjI demo_provider_accepts)
      (simp_all add: connection_callbacks_def connection_synced_def demo_uses env_simps)
qed (simp_all add: env_simps demo_inventory_admits)

theorem instance_ready_mirrors_provider_witness:
  "runs (DBaaSInstance_Reconcile demo_env ([], [])) [] (\<lambda>out t. \<exists>x.
     EvStatusUpdateInstance x \<in> set t \<and>
     instance_ObjectMeta x = instance_ObjectMeta zero_DBaaSInstance \<and>
     (instance_ready demo_env x \<longleftrightarrow> True))"
proof (rule instance_ready_mirrors_provider [OF demo_conditions_contract _ demo_owner_contract])
  show "provider_answers demo_env (key_of (instance_ObjectMeta zero_DBaaSInstance))
      (\<lambda>p. parseProviderObject (instance_callbacks demo_env p))
      (instance_synced demo_env) True demo_inventory"
    unfolding provider_answers_def
    by (intro exI [of _ zero_DBaaSProvider] conjI demo_provider_accepts)
      (simp_all add: instance_callbacks_def instance_synced_def demo_uses env_simps)
  show "fst (run_state (check_instance_conversion demo_env p zero_DBaaSInstance) h) = None" for p h
    using demo_instance_conversion [of h] by (auto simp: check_instance_conversion_def env_simps)
qed (simp_all add: env_simps demo_inventory_admits)

theorem inventory_ready_mirrors_provider_witness:
  "runs (DBaaSInventory_Reconcile demo_env ([], [])) [] (\<lambda>out t. \<exists>x.
     EvStatusUpdateInventory x \<in> set t \<and> inv_ObjectMeta x = inv_ObjectMeta demo_inventory \<and>
     (inventory_ready demo_env x \<longleftrightarrow> True))"
proof (rule inventory_ready_mirrors_provider [OF demo_conditions_contract _ demo_owner_contract])
  show "provider_answers demo_env (key_of (inv_ObjectMeta demo_inventory))
      (\<lambda>p. parseProviderObject (inventory_callbacks demo_env p))
      (inventory_synced demo_env) True demo_inventory"
    unfolding provider_answers_def
    by (intro exI [of _ zero_DBaaSProvider] conjI demo_provider_accepts)
      (simp_all add: inventory_callbacks_def inventory_synced_def demo_uses env_simps)
  show "getActivePolicy demo_env [demo_policy] = Some demo_policy"
    by (simp add: env_simps)
  show "fst (run_state (checkCredsRefLabel demo_env demo_inventory) h) = None" for h
    by (simp add: checkCredsRefLabel_def env_simps)
qed (simp_all add: env_simps)

end
