(* ===== verification/Platform_Client.thy ===== *)
theory Platform_Client
  imports Metrics "HOL-Library.Multiset"
begin

section \<open>The environment of the platform stack\<close>

text \<open>
  What the platform controller and its reconcilers use beside the environment \<open>env\<close> of the
  other controllers: the answers to the platform requests, helpers of the libraries, the
  process environment and the files embedded in the binary. Nothing of it is defined here.

  Also here: the functions of the Go standard library the stack uses (\<open>strconv.Itoa\<close>,
  \<open>strings.TrimSpace\<close>), and \<open>controllers/util/openshift.go\<close>.
\<close>

subsection \<open>Environment\<close>

text \<open>
  \<open>p_Ack\<close> answers the requests of which the operator uses only the error (create, update,
  delete and the \<open>CreateOrUpdate\<close>s). \<open>p_EnvImages\<close> is the result of decoding the embedded
  file \<open>config/default/manager-env-images.yaml\<close>, a deployment with at least one container.
  \<open>p_LookupEnv\<close> is \<open>os.LookupEnv\<close>. The three quick starts are files embedded in the binary,
  \<open>p_UnmarshalQuickStart\<close> gives the spec of such a file. \<open>p_RangeQuickStarts\<close> and
  \<open>p_RangePlatforms\<close> are the orders in which a \<open>range\<close> loop visits a Go map, which the language
  leaves open.
\<close>

record penv =
  p_env :: env
  p_operatorNameVersion :: string
  p_LookupEnv :: "string \<Rightarrow> string option"
  p_EnvImages :: "go_error + Container \<times> Container list"
  p_TimeBefore :: "time \<Rightarrow> time option \<Rightarrow> bool"
  p_PlatformGVK :: "go_error + GroupVersionKind"
  p_GetControllerOf :: "ObjectMeta \<Rightarrow> OwnerReference option"
  p_UnmarshalQuickStart :: "string \<Rightarrow> go_error + string"
  p_adminQuickStart :: string
  p_devInstanceQuickStart :: string
  p_devConnectQuickStart :: string
  p_RangeQuickStarts :: "(string, string) gomap \<Rightarrow> (string, string) gomap"
  p_RangePlatforms ::
    "(PlatformName, PlatformConfig) gomap \<Rightarrow> (PlatformName, PlatformConfig) gomap"
  p_Ack :: "history \<Rightarrow> platform_request \<Rightarrow> go_error option"
  p_GetPlatform :: "history \<Rightarrow> ObjectKey \<Rightarrow> go_error + DBaaSPlatform"
  p_ListPlatforms :: "history \<Rightarrow> string \<Rightarrow> go_error + DBaaSPlatform list"
  p_StatusUpdatePlatform :: "history \<Rightarrow> DBaaSPlatform \<Rightarrow> go_error + DBaaSPlatform"
  p_GetCSV :: "history \<Rightarrow> ObjectKey \<Rightarrow> go_error + ClusterServiceVersion"
  p_GetCRD :: "history \<Rightarrow> string \<Rightarrow> go_error + CustomResourceDefinition"
  p_ListWebhookConfigurations ::
    "history \<Rightarrow> string \<Rightarrow> string \<Rightarrow> go_error + ValidatingWebhookConfiguration list"
  p_GetConfigMap :: "history \<Rightarrow> ObjectKey \<Rightarrow> go_error + ConfigMap"
  p_ListDeployments :: "history \<Rightarrow> string \<Rightarrow> go_error + Deployment list"
  p_GetDeployment :: "history \<Rightarrow> ObjectKey \<Rightarrow> go_error + Deployment"
  p_GetSubscription :: "history \<Rightarrow> ObjectKey \<Rightarrow> go_error + Subscription"
  p_GetOperatorConsole :: "history \<Rightarrow> string \<Rightarrow> go_error + OperatorConsole"
  p_BeginMonitoringStack :: "history \<Rightarrow> MonitoringStack \<Rightarrow> go_error + MonitoringStack"
  p_GetClusterVersion :: "history \<Rightarrow> string \<Rightarrow> go_error + ClusterVersion"
  p_GetConsole :: "history \<Rightarrow> string \<Rightarrow> go_error + string"
  p_GetInfrastructure :: "history \<Rightarrow> string \<Rightarrow> go_error + Infrastructure"

text \<open>
  The Go language specification on \<open>range\<close> over a map: every entry is visited, and visited
  once.
\<close>

definition range_contract :: "penv \<Rightarrow> bool" where
  "range_contract P \<longleftrightarrow> (\<forall>m. mset (p_RangeQuickStarts P m) = mset m) \<and>
     (\<forall>m. mset (p_RangePlatforms P m) = mset m)"

text \<open>A request whose answer is \<open>f\<close>, and one of which only the error is used.\<close>

abbreviation ask :: "platform_request \<Rightarrow> (history \<Rightarrow> 'a) \<Rightarrow> 'a prog" where
  "ask r f \<equiv> call (EvPlatform r) f"

abbreviation ack :: "penv \<Rightarrow> platform_request \<Rightarrow> (go_error option) prog" where
  "ack P r \<equiv> call (EvPlatform r) (\<lambda>h. p_Ack P h r)"

abbreviation getCSV :: "penv \<Rightarrow> ObjectKey \<Rightarrow> (go_error + ClusterServiceVersion) prog" where
  "getCSV P k \<equiv> ask (GetCSV k) (\<lambda>h. p_GetCSV P h k)"

abbreviation listDeployments :: "penv \<Rightarrow> string \<Rightarrow> (go_error + Deployment list) prog" where
  "listDeployments P ns \<equiv> ask (ListDeployments ns) (\<lambda>h. p_ListDeployments P h ns)"

text \<open>Requests that change nothing.\<close>

fun is_platform_read :: "platform_request \<Rightarrow> bool" where
  "is_platform_read (GetPlatform k) = True"
| "is_platform_read (ListPlatforms ns) = True"
| "is_platform_read (GetCSV k) = True"
| "is_platform_read (GetCRD n) = True"
| "is_platform_read (ListWebhookConfigurations k v) = True"
| "is_platform_read (GetConfigMap k) = True"
| "is_platform_read (ListDeployments ns) = True"
| "is_platform_read (GetDeployment k) = True"
| "is_platform_read (GetSubscriptionObject k) = True"
| "is_platform_read (GetOperatorConsole n) = True"
| "is_platform_read (BeginCreateOrUpdateMonitoringStack x) = True"
| "is_platform_read (GetClusterVersion n) = True"
| "is_platform_read (GetConsole n) = True"
| "is_platform_read (GetInfrastructure n) = True"
| "is_platform_read _ = False"

subsection \<open>Errors that wrap another, and the Go standard library\<close>

text \<open>
  \<open>fmt.Errorf("...: %w", err)\<close>: the message gets a prefix, and what the error is
  recognised as stays.
\<close>

fun wrap_err :: "string \<Rightarrow> go_error \<Rightarrow> go_error" where
  "wrap_err m (NotFoundError e) = NotFoundError (m @ e)"
| "wrap_err m (ConflictError e) = ConflictError (m @ e)"
| "wrap_err m (OtherError e) = OtherError (m @ e)"

text \<open>\<open>strconv.Itoa\<close>.\<close>

definition digit :: "nat \<Rightarrow> char" where
  "digit d = ''0123456789'' ! d"

fun nat_digits :: "nat \<Rightarrow> string" where
  "nat_digits n = (if n < 10 then [digit n] else nat_digits (n div 10) @ [digit (n mod 10)])"

declare nat_digits.simps [simp del]

definition Itoa :: "int \<Rightarrow> string" where
  "Itoa i = (if i < 0 then CHR ''-'' # nat_digits (nat (- i)) else nat_digits (nat i))"

text \<open>\<open>strings.TrimSpace\<close>, for the ASCII white space.\<close>

definition is_space :: "char \<Rightarrow> bool" where
  "is_space c \<longleftrightarrow> c = CHR '' '' \<or> c = CHR 0x09 \<or> c = CHR 0x0A \<or> c = CHR 0x0B \<or> c = CHR 0x0C \<or> c = CHR 0x0D"

definition TrimSpace :: "string \<Rightarrow> string" where
  "TrimSpace s = rev (dropWhile is_space (rev (dropWhile is_space s)))"

subsection \<open>Cluster information (util/openshift.go)\<close>

definition VersionKeyName :: string where "VersionKeyName = ''version''"

definition ClusterResourceName :: string where "ClusterResourceName = ''cluster''"

definition GetClusterIDVersion :: "penv \<Rightarrow> (string \<times> string \<times> go_error option) prog" where
  "GetClusterIDVersion P = do {
     r \<leftarrow> ask (GetClusterVersion VersionKeyName) (\<lambda>h. p_GetClusterVersion P h VersionKeyName);
     ret (case r of
            Inl err \<Rightarrow> ([], [], Some err)
          | Inr v \<Rightarrow> (cv_ClusterID v, cv_Version v, None))
   }"

definition GetOpenshiftConsoleURL :: "penv \<Rightarrow> (string \<times> go_error option) prog" where
  "GetOpenshiftConsoleURL P = do {
     r \<leftarrow> ask (GetConsole ClusterResourceName) (\<lambda>h. p_GetConsole P h ClusterResourceName);
     ret (case r of Inl err \<Rightarrow> ([], Some err) | Inr url \<Rightarrow> (url, None))
   }"

definition GetOpenshiftPlatform :: "penv \<Rightarrow> (string \<times> go_error option) prog" where
  "GetOpenshiftPlatform P = do {
     r \<leftarrow> ask (GetInfrastructure ClusterResourceName)
            (\<lambda>h. p_GetInfrastructure P h ClusterResourceName);
     ret (case r of
            Inl err \<Rightarrow> if IsNotFound err then ([], None) else ([], Some err)
          | Inr infra \<Rightarrow>
              (case inf_PlatformType infra of None \<Rightarrow> ([], None) | Some ty \<Rightarrow> (ty, None)))
   }"

end
