(* ===== verification/Platform_Metrics.thy ===== *)
theory Platform_Metrics
  imports Platform_Client
begin

section \<open>Metrics of the platform stack\<close>

text \<open>
  \<open>controllers/metrics/dbaas_platform_metrics.go\<close> and the version information of
  \<open>metrics.go\<close>.
\<close>

definition SetOpenShiftInstallationInfoMetric ::
    "string \<Rightarrow> string \<Rightarrow> string \<Rightarrow> string \<Rightarrow> string \<Rightarrow> unit prog" where
  "SetOpenShiftInstallationInfoMetric operatorVersion consoleURL platformType creationTime clusterVersion =
     metric_op (GaugeSet MetricNameOperatorVersion
       [(MetricLabelVersion, operatorVersion), (MetricLabelConsoleULR, consoleURL),
        (MetricLabelPlatformName, platformType), (MetricLabelCreationTimestamp, creationTime),
        (ClusterVersionLabel, clusterVersion)] 1)"

text \<open>
  The loop of \<open>PlatformStackInstallationMetric\<close>: one observation per condition; the duration
  is the time since the start of the reconciliation until the ready condition is met, and
  that condition's from then on.
\<close>

fun observe_stack :: "env \<Rightarrow> string \<Rightarrow> ObjectMeta \<Rightarrow> time \<Rightarrow> Condition list \<Rightarrow> unit prog" where
  "observe_stack E version m duration [] = ret ()"
| "observe_stack E version m duration (cond # cs) =
     (let duration = (if c_Type cond = DBaaSPlatformReadyType
                      then c_LastTransitionTime cond - om_CreationTimestamp m else duration)
      in do {
        metric_op (HistogramObserveWith MetricNameDBaaSStackInstallationTotalDuration
          [(MetricLabelVersion, version),
           (MetricLabelCreationTimestamp, TimeString E (om_CreationTimestamp m))] duration);
        observe_stack E version m duration cs
      })"

definition PlatformStackInstallationMetric ::
    "env \<Rightarrow> DBaaSPlatform \<Rightarrow> string \<Rightarrow> Execution \<Rightarrow> unit prog" where
  "PlatformStackInstallationMetric E platform version e = do {
     t \<leftarrow> now E;
     observe_stack E version (plat_ObjectMeta platform) (t - begin_time e)
       (plst_Conditions (plat_Status platform))
   }"

definition platform_labels :: "PlatformName \<Rightarrow> PlatformInstlnStatus \<Rightarrow> string \<Rightarrow> (string \<times> string) list" where
  "platform_labels nm status version =
     [(MetricLabelName, nm), (MetricLabelStatus, status), (MetricLabelVersion, version)]"

definition SetPlatformStatusMetric ::
    "PlatformName \<Rightarrow> PlatformInstlnStatus \<Rightarrow> string \<Rightarrow> unit prog" where
  "SetPlatformStatusMetric platformName status version =
     (let g = MetricNameDBaaSPlatformInstallationStatus;
          set_gauge = (\<lambda>v. metric_op (GaugeSet g (platform_labels platformName status version) v));
          del = (\<lambda>s. metric_op (GaugeDelete g (platform_labels platformName s version)))
      in if platformName = [] then ret ()
         else if status = ResultFailed then do {
           set_gauge 0; del ResultSuccess; del ResultInProgress
         }
         else if status = ResultSuccess then do {
           del ResultInProgress; del ResultFailed; set_gauge 1
         }
         else if status = ResultInProgress then do {
           set_gauge 2; del ResultSuccess; del ResultFailed
         }
         else ret ())"

definition setPlatformRequestDurationSeconds ::
    "env \<Rightarrow> DBaaSPlatform \<Rightarrow> string \<Rightarrow> Execution \<Rightarrow> string \<Rightarrow> unit prog" where
  "setPlatformRequestDurationSeconds E platform account execution ev =
     (let m = plat_ObjectMeta platform
      in if ev = LabelEventValueCreate then do {
           t \<leftarrow> now E;
           UpdateRequestsDurationHistogram LabelValueNone account (om_Namespace m)
             LabelResourceValuePlatform ev (t - om_CreationTimestamp m)
         } else if ev = LabelEventValueDelete then do {
           t \<leftarrow> now E;
           UpdateRequestsDurationHistogram LabelValueNone account (om_Namespace m)
             LabelResourceValuePlatform ev (t - deletion_start m execution)
         } else ret ())"

definition SetPlatformMetrics ::
    "env \<Rightarrow> DBaaSPlatform \<Rightarrow> string \<Rightarrow> Execution \<Rightarrow> string \<Rightarrow> string \<Rightarrow> unit prog" where
  "SetPlatformMetrics E platform account execution ev errCd = do {
     setPlatformRequestDurationSeconds E platform account execution ev;
     UpdateErrorsTotal LabelValueNone account (om_Namespace (plat_ObjectMeta platform))
       LabelResourceValuePlatform ev errCd
   }"

subsection \<open>They touch nothing but the registry and the clock\<close>

lemma only_SetOpenShiftInstallationInfoMetric [only_intros]:
  "(\<And>e. telemetry e \<Longrightarrow> P e) \<Longrightarrow> only P (SetOpenShiftInstallationInfoMetric a b c d e)"
  unfolding SetOpenShiftInstallationInfoMetric_def by (intro only_intros) (simp add: fits_vector)

lemma only_observe_stack [only_intros]:
  "(\<And>e. telemetry e \<Longrightarrow> P e) \<Longrightarrow> only P (observe_stack E v m d cs)"
  by (induction cs arbitrary: d) (auto simp: Let_def fits_vector intro!: only_intros)

lemma only_PlatformStackInstallationMetric [only_intros]:
  "(\<And>e. telemetry e \<Longrightarrow> P e) \<Longrightarrow> only P (PlatformStackInstallationMetric E p v x)"
  unfolding PlatformStackInstallationMetric_def by (intro only_intros) (simp_all add: fits_vector)

lemma only_SetPlatformStatusMetric [only_intros]:
  "(\<And>e. telemetry e \<Longrightarrow> P e) \<Longrightarrow> only P (SetPlatformStatusMetric n s v)"
  unfolding SetPlatformStatusMetric_def platform_labels_def Let_def
  by (intro only_intros) (simp_all add: fits_vector)

lemma only_SetPlatformMetrics [only_intros]:
  "(\<And>e. telemetry e \<Longrightarrow> P e) \<Longrightarrow> only P (SetPlatformMetrics E p a x ev cd)"
  unfolding SetPlatformMetrics_def setPlatformRequestDurationSeconds_def Let_def
  by (intro only_intros) (simp_all add: fits_vector)

end
