(* ===== verification/Platform_Config.thy ===== *)
theory Platform_Config
  imports Platform_Client
begin

section \<open>Configuration of the platform stack\<close>

text \<open>
  \<open>controllers/reconcilers/constants.go\<close>: what is installed, with the versions and images
  from the process environment or else from the embedded file; and
  \<open>controllers/reconcilers/olm_helper.go\<close>: the objects of the operator lifecycle manager.
\<close>

subsection \<open>Constants (constants.go)\<close>

abbreviation InstallNamespace_operators :: string where
  "InstallNamespace_operators \<equiv> ''openshift-operators''"
abbreviation CatalogNamespace :: string where "CatalogNamespace \<equiv> ''openshift-marketplace''"
abbreviation DBaaSQuickStartVersion :: string where
  "DBaaSQuickStartVersion \<equiv> ''dbaas-quick-starts:0.6.0''"

abbreviation crunchyBridgeCatalogImg :: string where
  "crunchyBridgeCatalogImg \<equiv> ''RELATED_IMAGE_CRUNCHY_BRIDGE_CATALOG''"
abbreviation crunchyBridgeCSV :: string where "crunchyBridgeCSV \<equiv> ''CSV_VERSION_CRUNCHY_BRIDGE''"
abbreviation crunchyBridgeName :: string where "crunchyBridgeName \<equiv> ''crunchy-bridge''"
abbreviation crunchyBridgeDisplayName :: string where
  "crunchyBridgeDisplayName \<equiv> ''Crunchy Bridge Operator''"
abbreviation crunchyBridgeDeployment :: string where
  "crunchyBridgeDeployment \<equiv> ''crunchy-bridge-operator-controller-manager''"
abbreviation crunchyBridgePkg :: string where "crunchyBridgePkg \<equiv> ''crunchy-bridge-operator''"
abbreviation crunchyBridgeChannel :: string where "crunchyBridgeChannel \<equiv> ''alpha''"

abbreviation cockroachDBCSV :: string where "cockroachDBCSV \<equiv> ''CSV_VERSION_COCKROACHDB''"
abbreviation cockroachDBCatalogImg :: string where
  "cockroachDBCatalogImg \<equiv> ''RELATED_IMAGE_COCKROACHDB_CATALOG''"
abbreviation cockroachDBName :: string where "cockroachDBName \<equiv> ''ccapi-k8s''"
abbreviation cockroachDBDisplayName :: string where
  "cockroachDBDisplayName \<equiv> ''CockroachDB Cloud Operator''"
abbreviation cockroachDBDeployment :: string where
  "cockroachDBDeployment \<equiv> ''ccapi-k8s-operator-controller-manager''"
abbreviation cockroachDBPkg :: string where "cockroachDBPkg \<equiv> ''ccapi-k8s-operator''"
abbreviation cockroachDBChannel :: string where "cockroachDBChannel \<equiv> ''alpha''"

abbreviation dbaasDynamicPluginImg :: string where
  "dbaasDynamicPluginImg \<equiv> ''RELATED_IMAGE_DBAAS_DYNAMIC_PLUGIN''"
abbreviation dbaasDynamicPluginVersion :: string where
  "dbaasDynamicPluginVersion \<equiv> ''CSV_VERSION_DBAAS_DYNAMIC_PLUGIN''"
abbreviation dbaasDynamicPluginName :: string where
  "dbaasDynamicPluginName \<equiv> ''dbaas-dynamic-plugin''"
abbreviation dbaasDynamicPluginDisplayName :: string where
  "dbaasDynamicPluginDisplayName \<equiv> ''OpenShift Database as a Service Dynamic Plugin''"

abbreviation rdsProviderCSV :: string where "rdsProviderCSV \<equiv> ''CSV_VERSION_RDS_PROVIDER''"
abbreviation rdsProviderCatalogImg :: string where
  "rdsProviderCatalogImg \<equiv> ''RELATED_IMAGE_RDS_PROVIDER_CATALOG''"
abbreviation rdsProviderName :: string where "rdsProviderName \<equiv> ''rds-provider''"
abbreviation rdsProviderDisplayName :: string where
  "rdsProviderDisplayName \<equiv> ''OpenShift Database Access Provider Operator for Amazon RDS''"
abbreviation rdsProviderDeployment :: string where
  "rdsProviderDeployment \<equiv> ''rds-dbaas-operator-controller-manager''"
abbreviation rdsProviderPkg :: string where "rdsProviderPkg \<equiv> ''rds-dbaas-operator''"
abbreviation rdsProviderChannel :: string where "rdsProviderChannel \<equiv> ''alpha''"

abbreviation ObservabilityName :: string where "ObservabilityName \<equiv> ''observability''"
abbreviation ObservabilityDisplayName :: string where
  "ObservabilityDisplayName \<equiv> ''Observability Operator''"

subsection \<open>Values from the environment\<close>

fun getEnvVarValue :: "string \<Rightarrow> EnvVar list \<Rightarrow> string" where
  "getEnvVarValue envName [] = []"
| "getEnvVarValue envName (v # vs) =
     (if ev_Name v = envName then ev_Value v else getEnvVarValue envName vs)"

definition fetchEnvValue :: "penv \<Rightarrow> string \<Rightarrow> string" where
  "fetchEnvValue P envVar =
     (case p_LookupEnv P envVar of
        Some imageValue \<Rightarrow> imageValue
      | None \<Rightarrow>
          (case p_EnvImages P of
             Inl err \<Rightarrow> []
           | Inr (c, cs) \<Rightarrow> getEnvVarValue envVar (con_Env c)))"

definition Getenv :: "penv \<Rightarrow> string \<Rightarrow> string" where
  "Getenv P v = (case p_LookupEnv P v of None \<Rightarrow> [] | Some x \<Rightarrow> x)"

definition GetObservabilityConfig :: "penv \<Rightarrow> ObservabilityConfig" where
  "GetObservabilityConfig P =
     \<lparr>ocf_AuthType = Getenv P ''RHOBS_AUTH_TYPE'',
      ocf_RemoteWritesURL = Getenv P ''RHOBS_API_URL'',
      ocf_RHSSOTokenURL = Getenv P ''RH_SSO_TOKEN_ENDPOINT'',
      ocf_AddonName = Getenv P ''ADDON_NAME'',
      ocf_RHOBSSecretName = Getenv P ''ADDON_NAME'' @ ''-prom-remote-write''\<rparr>"

definition InstallationPlatforms :: "penv \<Rightarrow> (PlatformName, PlatformConfig) gomap" where
  "InstallationPlatforms P =
     [(DBaaSDynamicPluginInstallation, zero_PlatformConfig
         \<lparr>pc_Name := dbaasDynamicPluginName,
          pc_CSV := fetchEnvValue P dbaasDynamicPluginVersion,
          pc_Image := fetchEnvValue P dbaasDynamicPluginImg,
          pc_DisplayName := dbaasDynamicPluginDisplayName,
          pc_Type := TypeConsolePlugin\<rparr>),
      (CrunchyBridgeInstallation, zero_PlatformConfig
         \<lparr>pc_Name := crunchyBridgeName,
          pc_CSV := fetchEnvValue P crunchyBridgeCSV,
          pc_DeploymentName := crunchyBridgeDeployment,
          pc_Image := fetchEnvValue P crunchyBridgeCatalogImg,
          pc_PackageName := crunchyBridgePkg,
          pc_Channel := crunchyBridgeChannel,
          pc_DisplayName := crunchyBridgeDisplayName,
          pc_Type := TypeOperator\<rparr>),
      (CockroachDBInstallation, zero_PlatformConfig
         \<lparr>pc_Name := cockroachDBName,
          pc_CSV := fetchEnvValue P cockroachDBCSV,
          pc_DeploymentName := cockroachDBDeployment,
          pc_Image := fetchEnvValue P cockroachDBCatalogImg,
          pc_PackageName := cockroachDBPkg,
          pc_Channel := cockroachDBChannel,
          pc_DisplayName := cockroachDBDisplayName,
          pc_Type := TypeOperator\<rparr>),
      (DBaaSQuickStartInstallation, zero_PlatformConfig
         \<lparr>pc_Type := TypeQuickStart, pc_CSV := DBaaSQuickStartVersion\<rparr>),
      (RDSProviderInstallation, zero_PlatformConfig
         \<lparr>pc_Name := rdsProviderName,
          pc_CSV := fetchEnvValue P rdsProviderCSV,
          pc_DeploymentName := rdsProviderDeployment,
          pc_Image := fetchEnvValue P rdsProviderCatalogImg,
          pc_PackageName := rdsProviderPkg,
          pc_Channel := rdsProviderChannel,
          pc_DisplayName := rdsProviderDisplayName,
          pc_Type := TypeOperator\<rparr>),
      (ObservabilityInstallation, zero_PlatformConfig
         \<lparr>pc_Name := ObservabilityName,
          pc_DisplayName := ObservabilityDisplayName,
          pc_Type := TypeObservability\<rparr>)]"

subsection \<open>Objects of the operator lifecycle manager (olm_helper.go)\<close>

definition GetClusterServiceVersion :: "string \<Rightarrow> string \<Rightarrow> ClusterServiceVersion" where
  "GetClusterServiceVersion ns nm = zero_ClusterServiceVersion\<lparr>csv_ObjectMeta := named_meta ns nm\<rparr>"

definition GetSubscription :: "string \<Rightarrow> string \<Rightarrow> Subscription" where
  "GetSubscription ns nm = \<lparr>sub_ObjectMeta = named_meta ns nm, sub_Spec = None\<rparr>"

definition GetOperatorGroup :: "string \<Rightarrow> string \<Rightarrow> OperatorGroup" where
  "GetOperatorGroup ns nm = \<lparr>og_ObjectMeta = named_meta ns nm, og_Spec = ZeroOperatorGroupSpec\<rparr>"

definition GetCatalogSource :: "string \<Rightarrow> string \<Rightarrow> CatalogSource" where
  "GetCatalogSource ns nm = zero_CatalogSource\<lparr>cat_ObjectMeta := named_meta ns nm\<rparr>"

definition GetDBaaSOperatorCSV ::
    "penv \<Rightarrow> string \<Rightarrow> string \<Rightarrow> (go_error + ClusterServiceVersion) prog" where
  "GetDBaaSOperatorCSV P ns nm =
     (let csv = GetClusterServiceVersion ns nm
      in getCSV P (key_of (csv_ObjectMeta csv)))"

lemma olm_keys [simp]:
  "key_of (csv_ObjectMeta (GetClusterServiceVersion ns nm)) = (ns, nm)"
  "key_of (sub_ObjectMeta (GetSubscription ns nm)) = (ns, nm)"
  "key_of (cat_ObjectMeta (GetCatalogSource ns nm)) = (ns, nm)"
  by (simp_all add: GetClusterServiceVersion_def GetSubscription_def GetCatalogSource_def key_of_def)

text \<open>Whether the platform is already the controller of a cluster service version.\<close>

definition CheckOwnerReferenceSet ::
    "penv \<Rightarrow> DBaaSPlatform \<Rightarrow> ClusterServiceVersion \<Rightarrow> go_error + bool" where
  "CheckOwnerReferenceSet P cr csv =
     (case p_PlatformGVK P of
        Inl err \<Rightarrow> Inl err
      | Inr gvk \<Rightarrow>
          let apiVersion = GroupVersion_String (p_env P)
                \<lparr>gv_Group = gvk_Group gvk, gv_Version = gvk_Version gvk\<rparr>
          in case p_GetControllerOf P (csv_ObjectMeta csv) of
               None \<Rightarrow> Inr False
             | Some existing \<Rightarrow>
                 (case ParseGroupVersion (p_env P) apiVersion of
                    Inl err \<Rightarrow> Inl err
                  | Inr refGV \<Rightarrow>
                      (case ParseGroupVersion (p_env P) (or_APIVersion existing) of
                         Inl err \<Rightarrow> Inl err
                       | Inr existingGV \<Rightarrow>
                           Inr (gv_Group refGV = gv_Group existingGV \<and>
                                gvk_Kind gvk = or_Kind existing \<and>
                                om_Name (plat_ObjectMeta cr) = or_Name existing))))"

subsection \<open>The platforms\<close>

lemma platform_names: "map fst (InstallationPlatforms P) =
   [DBaaSDynamicPluginInstallation, CrunchyBridgeInstallation, CockroachDBInstallation,
    DBaaSQuickStartInstallation, RDSProviderInstallation, ObservabilityInstallation]"
  by (simp add: InstallationPlatforms_def)

lemma platform_names_distinct: "distinct (map fst (InstallationPlatforms P))"
  by (simp add: platform_names)

lemma platform_types:
  "(n, c) \<in> set (InstallationPlatforms P) \<Longrightarrow>
     pc_Type c \<in> {TypeQuickStart, TypeConsolePlugin, TypeOperator, TypeObservability}"
  by (auto simp: InstallationPlatforms_def)

lemma getEnvVarValue_map_of:
  "getEnvVarValue v env = (case map_of (map (\<lambda>e. (ev_Name e, ev_Value e)) env) v of
     None \<Rightarrow> [] | Some x \<Rightarrow> x)"
  by (induction env) auto

end
