(* ===== verification/Platform_Reconcilers.thy ===== *)
theory Platform_Reconcilers
  imports Platform_Config
begin

section \<open>The interface of the platform reconcilers\<close>

text \<open>
  \<open>controllers/reconcilers/reconciler.go\<close>: what the platform controller calls of each of its
  reconcilers, the contract it relies on, and the control flow all reconcilers share: steps
  that are taken in order until one of them is not successful.
\<close>

type_synonym step = "(PlatformInstlnStatus \<times> go_error option) prog"

record platform_reconciler =
  pr_Reconcile :: "DBaaSPlatform \<Rightarrow> step"
  pr_Cleanup :: "DBaaSPlatform \<Rightarrow> step"

definition success :: "PlatformInstlnStatus \<times> go_error option" where
  "success = (ResultSuccess, None)"

definition in_progress :: "PlatformInstlnStatus \<times> go_error option" where
  "in_progress = (ResultInProgress, None)"

definition failed :: "go_error \<Rightarrow> PlatformInstlnStatus \<times> go_error option" where
  "failed err = (ResultFailed, Some err)"

text \<open>\<open>status, err := m; if status != ResultSuccess \{ return status, err \}\<close>.\<close>

definition next_step :: "step \<Rightarrow> step \<Rightarrow> step" where
  "next_step m k = do {
     (status, err) \<leftarrow> m;
     if status \<noteq> ResultSuccess then ret (status, err) else k
   }"

text \<open>\<open>err := Delete(...); if err != nil && !IsNotFound(err) \{ return ResultFailed, err \}\<close>.\<close>

definition delete_step :: "penv \<Rightarrow> platform_request \<Rightarrow> step \<Rightarrow> step" where
  "delete_step P r k = do {
     err \<leftarrow> ack P r;
     case err of
       None \<Rightarrow> k
     | Some e \<Rightarrow> if IsNotFound e then k else ret (failed e)
   }"

text \<open>A \<open>CreateOrUpdate\<close> that fails on every error, and one that retries a conflict.\<close>

definition apply_step :: "penv \<Rightarrow> platform_request \<Rightarrow> step" where
  "apply_step P r = do {
     err \<leftarrow> ack P r;
     ret (case err of None \<Rightarrow> success | Some e \<Rightarrow> failed e)
   }"

definition retry_result :: "go_error option \<Rightarrow> PlatformInstlnStatus \<times> go_error option" where
  "retry_result err = (case err of
     None \<Rightarrow> success | Some e \<Rightarrow> if IsConflict e then in_progress else failed e)"

definition retry_step :: "penv \<Rightarrow> platform_request \<Rightarrow> step" where
  "retry_step P r = do {
     err \<leftarrow> ack P r;
     ret (retry_result err)
   }"

lemma result_simps [simp]:
  "fst success = ResultSuccess" "fst in_progress = ResultInProgress" "fst (failed e) = ResultFailed"
  "snd success = None" "snd in_progress = None" "snd (failed e) = Some e"
  by (simp_all add: success_def in_progress_def failed_def)

text \<open>How these steps run: one rule for each of them.\<close>

lemma runs_next_step [runs_intros]:
  assumes "runs m h (\<lambda>r t. if fst r = ResultSuccess then runs k (h @ t) (\<lambda>b u. Q b (t @ u)) else Q r t)"
  shows "runs (next_step m k) h Q"
  unfolding next_step_def
proof (rule runs_bind, rule runs_conseq [OF assms])
  fix r t
  assume r: "if fst r = ResultSuccess then runs k (h @ t) (\<lambda>b u. Q b (t @ u)) else Q r t"
  show "runs (case r of (status, err) \<Rightarrow> if status \<noteq> ResultSuccess then ret (status, err) else k)
      (h @ t) (\<lambda>b u. Q b (t @ u))"
    using r by (cases r) (auto intro: runs_intros)
qed

lemma runs_apply_step [runs_intros]:
  "(p_Ack P h r = None \<Longrightarrow> Q success [EvPlatform r]) \<Longrightarrow>
   (\<And>e. p_Ack P h r = Some e \<Longrightarrow> Q (failed e) [EvPlatform r]) \<Longrightarrow> runs (apply_step P r) h Q"
  unfolding apply_step_def by (intro runs_intros) (auto split: option.splits)

lemma runs_delete_step [runs_intros]:
  "(p_Ack P h r = None \<or> (\<exists>e. p_Ack P h r = Some e \<and> IsNotFound e) \<Longrightarrow>
      runs k (h @ [EvPlatform r]) (\<lambda>b u. Q b (EvPlatform r # u))) \<Longrightarrow>
   (\<And>e. p_Ack P h r = Some e \<Longrightarrow> \<not> IsNotFound e \<Longrightarrow> Q (failed e) [EvPlatform r]) \<Longrightarrow>
   runs (delete_step P r k) h Q"
  unfolding delete_step_def by (intro runs_intros) (auto intro: runs_intros)

lemma runs_retry_step [runs_intros]:
  "(p_Ack P h r = None \<Longrightarrow> Q success [EvPlatform r]) \<Longrightarrow>
   (\<And>e. p_Ack P h r = Some e \<Longrightarrow> Q (retry_result (Some e)) [EvPlatform r]) \<Longrightarrow>
   runs (retry_step P r) h Q"
  unfolding retry_step_def by (intro runs_intros) (cases "p_Ack P h r"; simp add: retry_result_def)

lemma retry_not_success [simp]: "fst (retry_result (Some e)) \<noteq> ResultSuccess"
  by (simp add: retry_result_def)

subsection \<open>The contract\<close>

text \<open>
  A result names one of the three states, and carries an error exactly when it is the failed
  one. A reconciler reports nothing itself: neither a status of the platform nor a metric.
\<close>

definition result_ok :: "PlatformInstlnStatus \<times> go_error option \<Rightarrow> bool" where
  "result_ok r \<longleftrightarrow> fst r \<in> {ResultSuccess, ResultFailed, ResultInProgress} \<and>
     (snd r \<noteq> None \<longleftrightarrow> fst r = ResultFailed)"

fun reports :: "event \<Rightarrow> bool" where
  "reports (EvPlatform (StatusUpdatePlatform x)) = True"
| "reports (EvMetric m) = True"
| "reports e = (is_status_update e \<or> telemetry e)"

definition sound_step :: "step \<Rightarrow> bool" where
  "sound_step m \<longleftrightarrow> (\<forall>h. runs m h (\<lambda>r t. result_ok r \<and> list_all (\<lambda>e. \<not> reports e) t))"

locale platform_reconciler_contract =
  fixes R :: platform_reconciler
  assumes reconcile_sound: "sound_step (pr_Reconcile R cr)"
    and cleanup_sound: "sound_step (pr_Cleanup R cr)"
begin

lemma reconcile_runs:
  "runs (pr_Reconcile R cr) h (\<lambda>r t. result_ok r \<and> list_all (\<lambda>e. \<not> reports e) t)"
  using reconcile_sound by (simp add: sound_step_def)

lemma cleanup_runs:
  "runs (pr_Cleanup R cr) h (\<lambda>r t. result_ok r \<and> list_all (\<lambda>e. \<not> reports e) t)"
  using cleanup_sound by (simp add: sound_step_def)

end

subsection \<open>Rules for sound steps\<close>

named_theorems sound_intros "rules for sound steps, one per construct"

lemma result_ok_simps [simp]:
  "result_ok success" "result_ok in_progress" "result_ok (failed e)" "result_ok (retry_result x)"
  by (auto simp: result_ok_def success_def in_progress_def failed_def retry_result_def
      split: option.splits)

lemma sound_return [sound_intros]: "result_ok r \<Longrightarrow> sound_step (ret r)"
  unfolding sound_step_def by (intro allI runs_intros) simp

lemma sound_bind [sound_intros]:
  assumes "only (\<lambda>e. \<not> reports e) m" "\<And>a. sound_step (f a)"
  shows "sound_step (State_Monad.bind m f)"
  unfolding sound_step_def
proof
  fix h
  show "runs (State_Monad.bind m f) h (\<lambda>r t. result_ok r \<and> list_all (\<lambda>e. \<not> reports e) t)"
  proof (rule runs_bind, rule runs_conseq [OF only_runs [OF assms(1)]])
    fix a t
    assume t: "list_all (\<lambda>e. \<not> reports e) t"
    have "runs (f a) (h @ t) (\<lambda>r u. result_ok r \<and> list_all (\<lambda>e. \<not> reports e) u)"
      using assms(2) by (simp add: sound_step_def)
    then show "runs (f a) (h @ t) (\<lambda>b u. result_ok b \<and> list_all (\<lambda>e. \<not> reports e) (t @ u))"
      by (rule runs_conseq) (simp add: t)
  qed
qed

lemma sound_next [sound_intros]:
  assumes "sound_step m" "sound_step k"
  shows "sound_step (next_step m k)"
  unfolding sound_step_def
proof
  fix h
  have m: "runs m h (\<lambda>r t. result_ok r \<and> list_all (\<lambda>e. \<not> reports e) t)"
    using assms(1) by (simp add: sound_step_def)
  have k: "runs k h' (\<lambda>r t. result_ok r \<and> list_all (\<lambda>e. \<not> reports e) t)" for h'
    using assms(2) by (simp add: sound_step_def)
  show "runs (next_step m k) h (\<lambda>r t. result_ok r \<and> list_all (\<lambda>e. \<not> reports e) t)"
    unfolding next_step_def
    by (intro runs_intros m [THEN runs_conseq] k [THEN runs_conseq]) auto
qed

lemma sound_if [sound_intros]:
  "(b \<Longrightarrow> sound_step m) \<Longrightarrow> (\<not> b \<Longrightarrow> sound_step n) \<Longrightarrow> sound_step (if b then m else n)"
  by simp

lemma sound_case_sum [sound_intros]:
  "(\<And>e. sound_step (f e)) \<Longrightarrow> (\<And>v. sound_step (g v)) \<Longrightarrow>
     sound_step (case x of Inl e \<Rightarrow> f e | Inr v \<Rightarrow> g v)"
  by (cases x) simp_all

lemma sound_case_option [sound_intros]:
  "sound_step m \<Longrightarrow> (\<And>v. sound_step (g v)) \<Longrightarrow> sound_step (case x of None \<Rightarrow> m | Some v \<Rightarrow> g v)"
  by (cases x) simp_all

lemma sound_case_prod [sound_intros]:
  "(\<And>a b. sound_step (f a b)) \<Longrightarrow> sound_step (case x of (a, b) \<Rightarrow> f a b)"
  by (cases x) simp_all

lemma sound_apply [sound_intros]: "\<not> reports (EvPlatform r) \<Longrightarrow> sound_step (apply_step P r)"
  unfolding apply_step_def by (intro sound_intros only_intros) (auto split: option.splits)

lemma sound_retry [sound_intros]: "\<not> reports (EvPlatform r) \<Longrightarrow> sound_step (retry_step P r)"
  unfolding retry_step_def by (intro sound_intros only_intros) simp_all

lemma sound_delete [sound_intros]:
  "\<not> reports (EvPlatform r) \<Longrightarrow> sound_step k \<Longrightarrow> sound_step (delete_step P r k)"
  unfolding delete_step_def by (intro sound_intros only_intros) simp_all

end
