(* ===== verification/Example_Platform.thy ===== *)
theory Example_Platform
  imports Platform_Config Example_World
begin

section \<open>An example cluster for the platform stack\<close>

text \<open>
  A cluster in which every request of the platform stack succeeds: the witnesses of the
  theorems about the platform are evaluated in it, with the answers they need put in by
  record update.
\<close>

definition demo_owner :: OwnerReference where
  "demo_owner = \<lparr>or_APIVersion = ''dbaas/v1beta1'', or_Kind = ''DBaaSPlatform'', or_Name = ''platform'',
     or_UID = [], or_Controller = Some True\<rparr>"

definition demo_csv :: ClusterServiceVersion where
  "demo_csv = zero_ClusterServiceVersion\<lparr>csv_ObjectMeta := zero_ObjectMeta
     \<lparr>om_OwnerReferences := [demo_owner]\<rparr>, csv_Phase := CSVPhaseSucceeded\<rparr>"

definition demo_deployment :: "string \<Rightarrow> Deployment" where
  "demo_deployment nm = (zero_Deployment (zero_ObjectMeta\<lparr>om_Name := nm\<rparr>))
     \<lparr>dep_StatusReplicas := 1, dep_ReadyReplicas := 1\<rparr>"

definition demo_platform :: DBaaSPlatform where
  "demo_platform = zero_DBaaSPlatform\<lparr>plat_ObjectMeta := zero_ObjectMeta\<lparr>om_Name := ''platform''\<rparr>\<rparr>"

definition demo_penv :: penv where
  "demo_penv = \<lparr>
     p_env = demo_env,
     p_operatorNameVersion = ''dbaas-operator.v0.4.0'',
     p_LookupEnv = (\<lambda>v. None),
     p_EnvImages = Inr (zero_Container, []),
     p_TimeBefore = (\<lambda>t u. case u of None \<Rightarrow> False | Some u \<Rightarrow> t < u),
     p_PlatformGVK = Inr \<lparr>gvk_Group = ''dbaas'', gvk_Version = ''v1beta1'', gvk_Kind = ''DBaaSPlatform''\<rparr>,
     p_GetControllerOf = (\<lambda>m. List.find (\<lambda>r. or_Controller r = Some True) (om_OwnerReferences m)),
     p_UnmarshalQuickStart = (\<lambda>s. Inr s),
     p_adminQuickStart = ''admin'',
     p_devInstanceQuickStart = ''instance'',
     p_devConnectQuickStart = ''connect'',
     p_RangeQuickStarts = id,
     p_RangePlatforms = id,
     p_Ack = (\<lambda>h r. None),
     p_GetPlatform = (\<lambda>h k. Inr demo_platform),
     p_ListPlatforms = (\<lambda>h ns. Inr [demo_platform]),
     p_StatusUpdatePlatform = (\<lambda>h x. Inr x),
     p_GetCSV = (\<lambda>h k. Inr demo_csv),
     p_GetCRD = (\<lambda>h n. no_object),
     p_ListWebhookConfigurations = (\<lambda>h s v. Inr []),
     p_GetConfigMap = (\<lambda>h k. no_object),
     p_ListDeployments = (\<lambda>h ns. Inr [demo_deployment ''operator'']),
     p_GetDeployment = (\<lambda>h k. Inr (demo_deployment (snd k))),
     p_GetSubscription = (\<lambda>h k. no_object),
     p_GetOperatorConsole = (\<lambda>h n. no_object),
     p_BeginMonitoringStack = (\<lambda>h x. Inr x),
     p_GetClusterVersion = (\<lambda>h n. no_object),
     p_GetConsole = (\<lambda>h n. no_object),
     p_GetInfrastructure = (\<lambda>h n. no_object)\<rparr>"

lemma demo_penv_simps [env_simps]:
  "p_env demo_penv = demo_env"
  "p_LookupEnv demo_penv = (\<lambda>v. None)"
  "p_EnvImages demo_penv = Inr (zero_Container, [])"
  "p_PlatformGVK demo_penv =
     Inr \<lparr>gvk_Group = ''dbaas'', gvk_Version = ''v1beta1'', gvk_Kind = ''DBaaSPlatform''\<rparr>"
  "p_GetControllerOf demo_penv =
     (\<lambda>m. List.find (\<lambda>r. or_Controller r = Some True) (om_OwnerReferences m))"
  "p_UnmarshalQuickStart demo_penv = (\<lambda>s. Inr s)"
  "p_RangeQuickStarts demo_penv = id"
  "p_RangePlatforms demo_penv = id"
  "p_Ack demo_penv = (\<lambda>h r. None)"
  "p_GetPlatform demo_penv = (\<lambda>h k. Inr demo_platform)"
  "p_StatusUpdatePlatform demo_penv = (\<lambda>h x. Inr x)"
  "p_GetCSV demo_penv = (\<lambda>h k. Inr demo_csv)"
  "p_GetCRD demo_penv = (\<lambda>h n. no_object)"
  "p_ListDeployments demo_penv = (\<lambda>h ns. Inr [demo_deployment ''operator''])"
  "p_GetDeployment demo_penv = (\<lambda>h k. Inr (demo_deployment (snd k)))"
  "p_GetSubscription demo_penv = (\<lambda>h k. no_object)"
  "p_GetOperatorConsole demo_penv = (\<lambda>h n. no_object)"
  "p_BeginMonitoringStack demo_penv = (\<lambda>h x. Inr x)"
  by (simp_all add: demo_penv_def)

lemma demo_range_contract: "range_contract demo_penv"
  by (simp add: range_contract_def env_simps)

end
