(* ===== verification/Platform_Setup.thy ===== *)
theory Platform_Setup
  imports Platform_Reconcilers Example_Platform
begin

section \<open>Setting up and repairing the platform\<close>

text \<open>
  \<open>controllers/dbaasplatform_controller.go\<close>, the parts beside the reconciliation: what the
  controller creates when the process starts (the objects the RDS controller needs, the platform
  resource), and what it repairs before every reconciliation (conversion webhooks, an upgrade of
  the RDS controller).
\<close>

subsection \<open>The repair of conversion webhooks\<close>

definition webhook_conversion_ok :: "CustomResourceDefinition \<Rightarrow> bool" where
  "webhook_conversion_ok crd =
     (case crd_Conversion crd of
        None \<Rightarrow> False
      | Some conv \<Rightarrow> crc_Strategy conv = ''Webhook'' \<and>
          (case crc_WebhookClientConfig conv of
             None \<Rightarrow> False
           | Some clientConfig \<Rightarrow>
               (case clientConfig of None \<Rightarrow> False | Some caBundle \<Rightarrow> caBundle \<noteq> None)))"

fun check_crds :: "penv \<Rightarrow> string list \<Rightarrow> (go_error + bool) prog" where
  "check_crds P [] = ret (Inr True)"
| "check_crds P (crdName # names) = do {
     r \<leftarrow> ask (GetCRD crdName) (\<lambda>h. p_GetCRD P h crdName);
     case r of
       Inl err \<Rightarrow> ret (Inl err)
     | Inr crd \<Rightarrow> if \<not> webhook_conversion_ok crd then ret (Inr False) else check_crds P names
   }"

fun checkConversionWebhookHealth :: "penv \<Rightarrow> WebhookDescription list \<Rightarrow> (go_error + bool) prog" where
  "checkConversionWebhookHealth P [] = ret (Inr True)"
| "checkConversionWebhookHealth P (webhook # webhooks) = do {
     r \<leftarrow> check_crds P (wd_ConversionCRDs webhook);
     case r of
       Inl err \<Rightarrow> ret (Inl err)
     | Inr ok \<Rightarrow> if \<not> ok then ret (Inr False) else checkConversionWebhookHealth P webhooks
   }"

fun delete_old_webhooks ::
    "penv \<Rightarrow> time option \<Rightarrow> ValidatingWebhookConfiguration list \<Rightarrow> (go_error option) prog" where
  "delete_old_webhooks P lastUpdate [] = ret None"
| "delete_old_webhooks P lastUpdate (w # ws) =
     (if p_TimeBefore P (om_CreationTimestamp (vwc_ObjectMeta w)) lastUpdate then do {
        err \<leftarrow> ack P (DeleteWebhookConfiguration w);
        case err of
          Some e \<Rightarrow> ret (Some e)
        | None \<Rightarrow> delete_old_webhooks P lastUpdate ws
      }
      else delete_old_webhooks P lastUpdate ws)"

definition fixConversionWebhooks :: "penv \<Rightarrow> (go_error option) prog" where
  "fixConversionWebhooks P = do {
     r \<leftarrow> GetDBaaSOperatorCSV P (InstallNamespace (p_env P)) (p_operatorNameVersion P);
     case r of
       Inl err \<Rightarrow> ret (Some err)
     | Inr owner \<Rightarrow>
         if csv_Phase owner = CSVPhaseSucceeded \<or> csv_Phase owner = CSVPhaseInstalling then do {
           r \<leftarrow> checkConversionWebhookHealth P (csv_WebhookDefinitions owner);
           case r of
             Inl err \<Rightarrow> ret (Some err)
           | Inr ok \<Rightarrow>
               if \<not> ok then do {
                 r \<leftarrow> ask (ListWebhookConfigurations ''olm.owner'' (p_operatorNameVersion P))
                   (\<lambda>h. p_ListWebhookConfigurations P h ''olm.owner'' (p_operatorNameVersion P));
                 case r of
                   Inl err \<Rightarrow> ret (Some err)
                 | Inr vwebhooks \<Rightarrow> delete_old_webhooks P (csv_LastUpdateTime owner) vwebhooks
               }
               else ret None
         }
         else ret None
   }"

subsection \<open>The RDS controller\<close>

definition rds_secret_object :: "env \<Rightarrow> Secret" where
  "rds_secret_object E = \<lparr>sec_ObjectMeta = named_meta (InstallNamespace E) ''ack-rds-user-secrets'',
     sec_Data = []\<rparr>"

definition rds_config_map :: "env \<Rightarrow> ConfigMap" where
  "rds_config_map E = \<lparr>cm_ObjectMeta = named_meta (InstallNamespace E) ''ack-rds-user-config'',
     cm_Data = []\<rparr>"

definition prepareRDSController :: "penv \<Rightarrow> (go_error option) prog" where
  "prepareRDSController P =
     (let secret = rds_secret_object (p_env P); cm = rds_config_map (p_env P);
          prepare_config_map = do {
            r \<leftarrow> ask (GetConfigMap (key_of (cm_ObjectMeta cm)))
                   (\<lambda>h. p_GetConfigMap P h (key_of (cm_ObjectMeta cm)));
            case r of
              Inl err \<Rightarrow>
                if IsNotFound err then ack P (CreateConfigMap (cm\<lparr>cm_Data :=
                  [(''AWS_REGION'', ''dummy''), (''AWS_ENDPOINT_URL'', []),
                   (''ACK_ENABLE_DEVELOPMENT_LOGGING'', ''false''), (''ACK_WATCH_NAMESPACE'', []),
                   (''ACK_LOG_LEVEL'', ''info''), (''ACK_RESOURCE_TAGS'', ''dbaas'')]\<rparr>))
                else ret (Some err)
            | Inr _ \<Rightarrow> ret None
          }
      in do {
        r \<leftarrow> getSecret (p_env P) (key_of (sec_ObjectMeta secret));
        case r of
          Inl err \<Rightarrow>
            if IsNotFound err then do {
              err \<leftarrow> ack P (CreateSecret (secret\<lparr>sec_Data :=
                [(''AWS_ACCESS_KEY_ID'', ''dummy''), (''AWS_SECRET_ACCESS_KEY'', ''dummy'')]\<rparr>));
              case err of Some e \<Rightarrow> ret (Some e) | None \<Rightarrow> prepare_config_map
            }
            else ret (Some err)
        | Inr _ \<Rightarrow> prepare_config_map
      })"

definition rds_upgrade_failure :: string where
  "rds_upgrade_failure =
     ''install strategy failed: Deployment.apps \"ack-rds-controller\" is invalid: spec.selector: '' @
     ''Invalid value: v1.LabelSelector{MatchLabels:map[string]string{\"app.kubernetes.io/name\":\"ack-rds-controller\"}, '' @
     ''MatchExpressions:[]v1.LabelSelectorRequirement(nil)}: field is immutable''"

definition fixRDSControllerUpgrade :: "penv \<Rightarrow> (go_error option) prog" where
  "fixRDSControllerUpgrade P =
     (let ns = InstallNamespace (p_env P); csv = GetClusterServiceVersion ns ''ack-rds-controller.v0.1.3''
      in do {
        r \<leftarrow> getCSV P (key_of (csv_ObjectMeta csv));
        case r of
          Inl err \<Rightarrow> ret (if IsNotFound err then None else Some err)
        | Inr csv \<Rightarrow>
            if csv_Phase csv = CSVPhaseFailed \<and> csv_Reason csv = CSVReasonComponentFailed \<and>
               csv_Message csv = rds_upgrade_failure
            then ack P (DeleteDeployment (ns, ''ack-rds-controller''))
            else ret None
      })"

subsection \<open>The platform resource\<close>

definition default_platform :: "string \<Rightarrow> DBaaSPlatform" where
  "default_platform ns = zero_DBaaSPlatform
     \<lparr>plat_ObjectMeta := zero_ObjectMeta
        \<lparr>om_Name := ''dbaas-platform'', om_Namespace := TrimSpace ns,
         om_Labels := [(''managed-by'', ''dbaas-operator'')]\<rparr>,
      plat_Spec := \<lparr>pls_SyncPeriod = Some 180\<rparr>\<rparr>"

definition createPlatformCR :: "penv \<Rightarrow> (go_error + DBaaSPlatform) prog" where
  "createPlatformCR P =
     (let ns = InstallNamespace (p_env P)
      in do {
        r \<leftarrow> ask (ListPlatforms ns) (\<lambda>h. p_ListPlatforms P h ns);
        case r of
          Inl err \<Rightarrow>
            ret (Inl (wrap_err ''could not get a list of dbaas platform intallation CR: '' err))
        | Inr items \<Rightarrow>
            (case items of
               [] \<Rightarrow> do {
                 r \<leftarrow> GetDBaaSOperatorCSV P ns (p_operatorNameVersion P);
                 case r of
                   Inl err \<Rightarrow> ret (Inl (wrap_err ''could not create dbaas platform intallation CR: '' err))
                 | Inr owner \<Rightarrow>
                     (case SetControllerReference (p_env P) ''ClusterServiceVersion''
                             (csv_ObjectMeta owner) (plat_ObjectMeta (default_platform ns)) of
                        Inl err \<Rightarrow>
                          ret (Inl (wrap_err ''could not create dbaas platform intallation CR: '' err))
                      | Inr m \<Rightarrow>
                          (let cr = (default_platform ns)\<lparr>plat_ObjectMeta := m\<rparr>
                           in do {
                             err \<leftarrow> ack P (CreatePlatform cr);
                             ret (case err of
                                    Some e \<Rightarrow> Inl (wrap_err
                                      (''could not create  CR in '' @ ns @ '' namespace: '') e)
                                  | None \<Rightarrow> Inr cr)
                           }))
               }
             | [cr] \<Rightarrow> ret (Inr cr)
             | _ \<Rightarrow> ret (Inl (OtherError
                 (''too many DBaaSPlafrom resources found. Expecting 1, found '' @
                  Itoa (int (length items)) @ '' DBaaSPlatform resources in '' @ ns @ '' namespace''))))
      })"

subsection \<open>The platform resource is created once\<close>

text \<open>The platform resource is created only when the install namespace has none, with the
  default synchronisation period and the operator's cluster service version as its controller;
  a single existing one is returned as it is, two or more are an error, and nothing else is
  ever written.\<close>

theorem platform_created_once:
  "let ns = InstallNamespace (p_env P)
   in runs (createPlatformCR P) h (\<lambda>r t.
     (\<forall>e. e \<in> set t \<and> \<not> (\<exists>q. e = EvPlatform q \<and> is_platform_read q) \<longleftrightarrow>
        (\<exists>owner m. p_ListPlatforms P h ns = Inr [] \<and>
           p_GetCSV P (h @ [EvPlatform (ListPlatforms ns)]) (ns, p_operatorNameVersion P) = Inr owner \<and>
           SetControllerReference (p_env P) ''ClusterServiceVersion'' (csv_ObjectMeta owner)
             (plat_ObjectMeta (default_platform ns)) = Inr m \<and>
           e = EvPlatform (CreatePlatform ((default_platform ns)\<lparr>plat_ObjectMeta := m\<rparr>)))) \<and>
     (\<forall>items. p_ListPlatforms P h ns = Inr items \<and> items \<noteq> [] \<longrightarrow>
        (if length items = 1 then r = Inr (hd items) else \<exists>m. r = Inl (OtherError m))))"
  unfolding createPlatformCR_def GetDBaaSOperatorCSV_def Let_def
  by (intro runs_intros) (auto split: option.splits)

theorem platform_created_once_witness:
  "fst (run_state (createPlatformCR demo_penv) []) = Inr demo_platform"
  using platform_created_once [of demo_penv "[]"]
  by (simp add: runs_def Let_def demo_penv_def)

subsection \<open>What the repairs delete\<close>

text \<open>
  Some definition among those whose conversion webhook the operator's version declares is not
  set up, as far as it was looked up.
\<close>

definition conversion_broken :: "penv \<Rightarrow> ClusterServiceVersion \<Rightarrow> event list \<Rightarrow> bool" where
  "conversion_broken P owner t \<longleftrightarrow> (\<exists>n h crd.
     n \<in> set (concat (map wd_ConversionCRDs (csv_WebhookDefinitions owner))) \<and>
     EvPlatform (GetCRD n) \<in> set t \<and> p_GetCRD P h n = Inr crd \<and> \<not> webhook_conversion_ok crd)"

lemma check_crds_runs:
  "runs (check_crds P ns) h (\<lambda>r t. list_all (\<lambda>e. \<exists>n \<in> set ns. e = EvPlatform (GetCRD n)) t \<and>
     (r = Inr False \<longrightarrow> (\<exists>n \<in> set ns. EvPlatform (GetCRD n) \<in> set t \<and>
        (\<exists>h' crd. p_GetCRD P h' n = Inr crd \<and> \<not> webhook_conversion_ok crd))) \<and>
     (r = Inr True \<longrightarrow> t = map (\<lambda>n. EvPlatform (GetCRD n)) ns))"
proof (induction ns arbitrary: h)
  case Nil
  then show ?case by (auto intro: runs_intros)
next
  case (Cons n ns)
  show ?case
    unfolding check_crds.simps
    by (intro runs_intros Cons.IH [THEN runs_conseq]) (auto simp: list_all_iff)
qed

lemma check_health_runs:
  "runs (checkConversionWebhookHealth P ws) h (\<lambda>r t.
     list_all (\<lambda>e. \<exists>n. e = EvPlatform (GetCRD n)) t \<and>
     (r = Inr False \<longrightarrow> (\<exists>n \<in> set (concat (map wd_ConversionCRDs ws)). EvPlatform (GetCRD n) \<in> set t \<and>
        (\<exists>h' crd. p_GetCRD P h' n = Inr crd \<and> \<not> webhook_conversion_ok crd))))"
proof (induction ws arbitrary: h)
  case Nil
  then show ?case by (auto intro: runs_intros)
next
  case (Cons w ws)
  show ?case
    unfolding checkConversionWebhookHealth.simps
    by (intro runs_intros check_crds_runs [THEN runs_conseq] Cons.IH [THEN runs_conseq])
      (auto simp: list_all_iff)
qed

lemma delete_old_webhooks_runs:
  "runs (delete_old_webhooks P lastUpdate ws) h (\<lambda>r t.
     prefix t (map (\<lambda>w. EvPlatform (DeleteWebhookConfiguration w))
       (filter (\<lambda>w. p_TimeBefore P (om_CreationTimestamp (vwc_ObjectMeta w)) lastUpdate) ws)))"
proof (induction ws arbitrary: h)
  case Nil
  then show ?case by (auto intro: runs_intros)
next
  case (Cons w ws)
  show ?case
    unfolding delete_old_webhooks.simps
    by (intro runs_intros Cons.IH [THEN runs_conseq]) auto
qed

lemma deleted_webhook_old:
  assumes "prefix t (map (\<lambda>w. EvPlatform (DeleteWebhookConfiguration w)) (filter old ws))"
    and "EvPlatform (DeleteWebhookConfiguration w) \<in> set t"
  shows "w \<in> set ws \<and> old w"
  using set_mono_prefix [OF assms(1)] assms(2) by auto

lemma no_deletion_in_lookups:
  "list_all (\<lambda>e. \<exists>n. e = EvPlatform (GetCRD n)) t \<Longrightarrow> EvPlatform (DeleteWebhookConfiguration w) \<notin> set t"
  by (auto simp: list_all_iff)

text \<open>C27: A validating webhook configuration is deleted only while the operator's own version is
  installed or being installed, when a definition whose conversion webhook that version declares
  was found without one, and only if the configuration belongs to the operator and is older than
  the last change of the version's status.\<close>

theorem webhooks_deleted_only_if_outdated:
  "runs (fixConversionWebhooks P) h (\<lambda>r t. \<forall>w. EvPlatform (DeleteWebhookConfiguration w) \<in> set t \<longrightarrow>
     (\<exists>owner ws h'. p_GetCSV P h (InstallNamespace (p_env P), p_operatorNameVersion P) = Inr owner \<and>
        csv_Phase owner \<in> {CSVPhaseSucceeded, CSVPhaseInstalling} \<and>
        conversion_broken P owner t \<and>
        p_ListWebhookConfigurations P h' ''olm.owner'' (p_operatorNameVersion P) = Inr ws \<and>
        w \<in> set ws \<and>
        p_TimeBefore P (om_CreationTimestamp (vwc_ObjectMeta w)) (csv_LastUpdateTime owner)))"
  unfolding fixConversionWebhooks_def GetDBaaSOperatorCSV_def Let_def
  apply (intro runs_intros check_health_runs [THEN runs_conseq]
      delete_old_webhooks_runs [THEN runs_conseq])
  apply (auto simp: no_deletion_in_lookups conversion_broken_def dest!: deleted_webhook_old)
  done

text \<open>A version that declares a conversion webhook which its definition does not have.\<close>

definition demo_webhook :: ValidatingWebhookConfiguration where
  "demo_webhook = \<lparr>vwc_ObjectMeta = zero_ObjectMeta\<lparr>om_CreationTimestamp := 1\<rparr>\<rparr>"

definition demo_webhook_env :: penv where
  "demo_webhook_env = demo_penv
     \<lparr>p_GetCSV := \<lambda>h k. Inr (demo_csv\<lparr>csv_LastUpdateTime := Some 2,
        csv_WebhookDefinitions := [\<lparr>wd_ConversionCRDs = [''dbaasinventories'']\<rparr>]\<rparr>),
      p_GetCRD := \<lambda>h n. Inr \<lparr>crd_ObjectMeta = zero_ObjectMeta, crd_Conversion = None\<rparr>,
      p_ListWebhookConfigurations := \<lambda>h s v. Inr [demo_webhook]\<rparr>"

lemma demo_webhook_deleted:
  "EvPlatform (DeleteWebhookConfiguration demo_webhook) \<in>
     set (snd (run_state (fixConversionWebhooks demo_webhook_env) []))"
  by (simp add: fixConversionWebhooks_def GetDBaaSOperatorCSV_def demo_webhook_env_def demo_penv_def
      demo_csv_def zero_ClusterServiceVersion_def webhook_conversion_ok_def demo_webhook_def Let_def)

theorem webhooks_deleted_only_if_outdated_witness:
  "\<exists>owner. p_GetCSV demo_webhook_env [] (InstallNamespace demo_env, ''dbaas-operator.v0.4.0'') = Inr owner \<and>
     conversion_broken demo_webhook_env owner (snd (run_state (fixConversionWebhooks demo_webhook_env) []))"
proof -
  have "p_env demo_webhook_env = demo_env" "p_operatorNameVersion demo_webhook_env = ''dbaas-operator.v0.4.0''"
    by (simp_all add: demo_webhook_env_def demo_penv_def)
  then show ?thesis
    using webhooks_deleted_only_if_outdated [of demo_webhook_env "[]"] demo_webhook_deleted
    by (fastforce simp: runs_def)
qed

text \<open>The object that was asked for does not exist.\<close>

definition missing :: "go_error + 'a \<Rightarrow> bool" where
  "missing r \<longleftrightarrow> (case r of Inl e \<Rightarrow> IsNotFound e | Inr _ \<Rightarrow> False)"

definition rds_secret_requests :: "penv \<Rightarrow> history \<Rightarrow> event list" where
  "rds_secret_requests P h =
     (let k = (InstallNamespace (p_env P), ''ack-rds-user-secrets'')
      in EvGetSecret k # (if missing (srv_GetSecret (p_env P) h k)
           then [EvPlatform (CreateSecret ((rds_secret_object (p_env P))\<lparr>sec_Data :=
             [(''AWS_ACCESS_KEY_ID'', ''dummy''), (''AWS_SECRET_ACCESS_KEY'', ''dummy'')]\<rparr>))] else []))"

definition rds_config_requests :: "penv \<Rightarrow> history \<Rightarrow> event list" where
  "rds_config_requests P h =
     (let k = (InstallNamespace (p_env P), ''ack-rds-user-config'')
      in EvPlatform (GetConfigMap k) # (if missing (p_GetConfigMap P h k)
           then [EvPlatform (CreateConfigMap ((rds_config_map (p_env P))\<lparr>cm_Data :=
             [(''AWS_REGION'', ''dummy''), (''AWS_ENDPOINT_URL'', []),
              (''ACK_ENABLE_DEVELOPMENT_LOGGING'', ''false''), (''ACK_WATCH_NAMESPACE'', []),
              (''ACK_LOG_LEVEL'', ''info''), (''ACK_RESOURCE_TAGS'', ''dbaas'')]\<rparr>))] else []))"

text \<open>The deployment of the RDS controller is deleted exactly when its version 0.1.3 is found to
  have failed for the one known reason; and the preparation of the RDS controller reads the
  secret and then the configuration it needs, creates each of them if and only if it is missing,
  and stops early only with an error: an existing object is never overwritten.\<close>

theorem rds_controller_repaired:
  "runs (fixRDSControllerUpgrade P) h (\<lambda>r t. \<forall>k. EvPlatform (DeleteDeployment k) \<in> set t \<longleftrightarrow>
      k = (InstallNamespace (p_env P), ''ack-rds-controller'') \<and>
      (\<exists>csv. p_GetCSV P h (InstallNamespace (p_env P), ''ack-rds-controller.v0.1.3'') = Inr csv \<and>
         csv_Phase csv = CSVPhaseFailed \<and> csv_Reason csv = CSVReasonComponentFailed \<and>
         csv_Message csv = rds_upgrade_failure)) \<and>
   runs (prepareRDSController P) h (\<lambda>r t.
      let u = rds_secret_requests P h; es = u @ rds_config_requests P (h @ u)
      in if r = None then t = es else prefix t es)"
proof
  show "runs (fixRDSControllerUpgrade P) h (\<lambda>r t. \<forall>k. EvPlatform (DeleteDeployment k) \<in> set t \<longleftrightarrow>
      k = (InstallNamespace (p_env P), ''ack-rds-controller'') \<and>
      (\<exists>csv. p_GetCSV P h (InstallNamespace (p_env P), ''ack-rds-controller.v0.1.3'') = Inr csv \<and>
         csv_Phase csv = CSVPhaseFailed \<and> csv_Reason csv = CSVReasonComponentFailed \<and>
         csv_Message csv = rds_upgrade_failure))"
    unfolding fixRDSControllerUpgrade_def Let_def by (intro runs_intros) auto
  show "runs (prepareRDSController P) h (\<lambda>r t.
      let u = rds_secret_requests P h; es = u @ rds_config_requests P (h @ u)
      in if r = None then t = es else prefix t es)"
    unfolding prepareRDSController_def Let_def
    by (intro runs_intros)
      (simp_all add: rds_secret_requests_def rds_config_requests_def missing_def key_of_def
        rds_secret_object_def rds_config_map_def)
qed

end
