(* ===== verification/Provider_Installation.thy ===== *)
theory Provider_Installation
  imports Platform_Reconcilers Example_Platform
begin

section \<open>Installing the provider operators\<close>

text \<open>
  \<open>controllers/reconcilers/providersinstallation\<close>: a provider's operator is installed through
  the operator lifecycle manager, by a catalog source, a subscription and an operator group;
  when its deployment is ready, the platform becomes the owner of its cluster service version.
\<close>

subsection \<open>The steps\<close>

definition catalog_source_of :: "PlatformConfig \<Rightarrow> CatalogSource" where
  "catalog_source_of config = GetCatalogSource CatalogNamespace (pc_Name config @ ''-catalogsource'')"

definition subscription_of :: "PlatformConfig \<Rightarrow> DBaaSPlatform \<Rightarrow> Subscription" where
  "subscription_of config cr =
     GetSubscription (om_Namespace (plat_ObjectMeta cr)) (pc_Name config @ ''-subscription'')"

definition catalogSourceMutateFn :: "PlatformConfig \<Rightarrow> CatalogSource MutateFn" where
  "catalogSourceMutateFn config = (\<lambda>catalogsource. Inr (catalogsource\<lparr>cat_Spec :=
     \<lparr>css_SourceType = SourceTypeGrpc, css_Image = pc_Image config,
      css_DisplayName = pc_DisplayName config,
      css_SecurityContextConfig = Some SecurityLegacy\<rparr>\<rparr>))"

definition reconcileCatalogSource :: "penv \<Rightarrow> PlatformConfig \<Rightarrow> step" where
  "reconcileCatalogSource P config = apply_step P
     (CreateOrUpdateCatalogSource (catalog_source_of config) (catalogSourceMutateFn config))"

definition subscriptionMutateFn :: "penv \<Rightarrow> PlatformConfig \<Rightarrow> DBaaSPlatform \<Rightarrow> Subscription MutateFn" where
  "subscriptionMutateFn P config cr = (\<lambda>subscription.
     case SetControllerReference (p_env P) ''DBaaSPlatform'' (plat_ObjectMeta cr)
            (sub_ObjectMeta subscription) of
       Inl err \<Rightarrow> Inl err
     | Inr m \<Rightarrow>
         let catalogsource = cat_ObjectMeta (catalog_source_of config);
             spec = \<lparr>ssp_CatalogSource = om_Name catalogsource,
               ssp_CatalogSourceNamespace = om_Namespace catalogsource,
               ssp_Package = pc_PackageName config,
               ssp_Channel = pc_Channel config,
               ssp_StartingCSV = [],
               ssp_InstallPlanApproval = ApprovalAutomatic,
               ssp_ConfigEnv = None\<rparr>;
             spec = (if pc_CSV config \<noteq> [] then spec\<lparr>ssp_StartingCSV := pc_CSV config\<rparr> else spec);
             spec = (case pls_SyncPeriod (plat_Spec cr) of
                       None \<Rightarrow> spec
                     | Some period \<Rightarrow> spec\<lparr>ssp_ConfigEnv :=
                         Some [\<lparr>ev_Name = ''SYNC_PERIOD_MIN'', ev_Value = Itoa period\<rparr>]\<rparr>)
         in Inr (subscription\<lparr>sub_ObjectMeta := m, sub_Spec := Some spec\<rparr>))"

definition reconcileSubscription :: "penv \<Rightarrow> PlatformConfig \<Rightarrow> DBaaSPlatform \<Rightarrow> step" where
  "reconcileSubscription P config cr = apply_step P
     (CreateOrUpdateSubscription (subscription_of config cr) (subscriptionMutateFn P config cr))"

definition operatorGroupMutateFn :: "OperatorGroup MutateFn" where
  "operatorGroupMutateFn = (\<lambda>g. Inr (g\<lparr>og_Spec := ZeroOperatorGroupSpec\<rparr>))"

definition reconcileOperatorGroup :: "penv \<Rightarrow> step" where
  "reconcileOperatorGroup P = apply_step P
     (CreateOrUpdateOperatorGroup (GetOperatorGroup InstallNamespace_operators ''global-operators'')
        operatorGroupMutateFn)"

fun operator_ready :: "string \<Rightarrow> Deployment list \<Rightarrow> bool" where
  "operator_ready nm [] = False"
| "operator_ready nm (deployment # ds) =
     (if om_Name (dep_ObjectMeta deployment) = nm \<and> dep_ReadyReplicas deployment > 0 then True
      else operator_ready nm ds)"

definition waitForOperator :: "penv \<Rightarrow> PlatformConfig \<Rightarrow> DBaaSPlatform \<Rightarrow> step" where
  "waitForOperator P config cr = do {
     r \<leftarrow> listDeployments P (om_Namespace (plat_ObjectMeta cr));
     ret (case r of
            Inl err \<Rightarrow> failed err
          | Inr deployments \<Rightarrow>
              if operator_ready (pc_DeploymentName config) deployments then success else in_progress)
   }"

definition csv_of :: "PlatformConfig \<Rightarrow> DBaaSPlatform \<Rightarrow> ClusterServiceVersion" where
  "csv_of config cr = GetClusterServiceVersion (om_Namespace (plat_ObjectMeta cr)) (pc_CSV config)"

definition reconcileCSV :: "penv \<Rightarrow> PlatformConfig \<Rightarrow> DBaaSPlatform \<Rightarrow> step" where
  "reconcileCSV P config cr = do {
     r \<leftarrow> getCSV P (key_of (csv_ObjectMeta (csv_of config cr)));
     case r of
       Inl err \<Rightarrow> ret (if IsNotFound err then in_progress else failed err)
     | Inr csv \<Rightarrow>
         (case CheckOwnerReferenceSet P cr csv of
            Inl err \<Rightarrow> ret (failed err)
          | Inr owned \<Rightarrow>
              if owned then ret success
              else case SetControllerReference (p_env P) ''DBaaSPlatform'' (plat_ObjectMeta cr)
                          (csv_ObjectMeta csv) of
                     Inl err \<Rightarrow> ret (failed err)
                   | Inr m \<Rightarrow> do {
                       err \<leftarrow> ack P (UpdateCSV (csv\<lparr>csv_ObjectMeta := m\<rparr>));
                       ret (case err of Some e \<Rightarrow> failed e | None \<Rightarrow> in_progress)
                     })
   }"

definition provider_Reconcile :: "penv \<Rightarrow> PlatformConfig \<Rightarrow> DBaaSPlatform \<Rightarrow> step" where
  "provider_Reconcile P config cr =
     next_step (reconcileCatalogSource P config)
    (next_step (reconcileSubscription P config cr)
    (next_step (reconcileOperatorGroup P)
    (next_step (waitForOperator P config cr)
    (next_step (reconcileCSV P config cr)
    (ret success)))))"

fun delete_deployments :: "penv \<Rightarrow> string \<Rightarrow> Deployment list \<Rightarrow> step \<Rightarrow> step" where
  "delete_deployments P nm [] k = k"
| "delete_deployments P nm (d # ds) k =
     (if om_Name (dep_ObjectMeta d) = nm
      then delete_step P (DeleteDeployment (key_of (dep_ObjectMeta d))) (delete_deployments P nm ds k)
      else delete_deployments P nm ds k)"

definition provider_Cleanup :: "penv \<Rightarrow> PlatformConfig \<Rightarrow> DBaaSPlatform \<Rightarrow> step" where
  "provider_Cleanup P config cr =
     delete_step P (DeleteSubscription (key_of (sub_ObjectMeta (subscription_of config cr))))
    (delete_step P (DeleteCatalogSource (key_of (cat_ObjectMeta (catalog_source_of config))))
    (do {
       r \<leftarrow> listDeployments P (om_Namespace (plat_ObjectMeta cr));
       case r of
         Inl err \<Rightarrow> ret (failed err)
       | Inr deployments \<Rightarrow>
           delete_deployments P (pc_DeploymentName config) deployments
          (delete_step P (DeleteCSV (key_of (csv_ObjectMeta (csv_of config cr))))
          (ret success))
     }))"

definition provider_installation :: "penv \<Rightarrow> PlatformConfig \<Rightarrow> platform_reconciler" where
  "provider_installation P config =
     \<lparr>pr_Reconcile = provider_Reconcile P config, pr_Cleanup = provider_Cleanup P config\<rparr>"

subsection \<open>It meets the contract of the platform reconcilers\<close>

lemma sound_delete_deployments [sound_intros]:
  "sound_step k \<Longrightarrow> sound_step (delete_deployments P nm ds k)"
  by (induction ds) (auto intro: sound_intros)

interpretation provider_installation: platform_reconciler_contract "provider_installation P config"
  for P config
proof
  show "sound_step (pr_Reconcile (provider_installation P config) cr)" for cr
    unfolding provider_installation_def provider_Reconcile_def reconcileCatalogSource_def
      reconcileSubscription_def reconcileOperatorGroup_def waitForOperator_def reconcileCSV_def
    by (auto intro!: sound_intros only_intros split: option.splits sum.splits)
  show "sound_step (pr_Cleanup (provider_installation P config) cr)" for cr
    unfolding provider_installation_def provider_Cleanup_def
    by (auto intro!: sound_intros only_intros)
qed

subsection \<open>What an installation has done\<close>

lemma operator_ready_iff:
  "operator_ready nm ds \<longleftrightarrow> (\<exists>d \<in> set ds. om_Name (dep_ObjectMeta d) = nm \<and> dep_ReadyReplicas d > 0)"
  by (induction ds) auto

text \<open>The requests of an installation, up to the adoption of the cluster service version.\<close>

definition install_requests :: "penv \<Rightarrow> PlatformConfig \<Rightarrow> DBaaSPlatform \<Rightarrow> event list" where
  "install_requests P config cr = map EvPlatform
     [CreateOrUpdateCatalogSource (catalog_source_of config) (catalogSourceMutateFn config),
      CreateOrUpdateSubscription (subscription_of config cr) (subscriptionMutateFn P config cr),
      CreateOrUpdateOperatorGroup (GetOperatorGroup InstallNamespace_operators ''global-operators'')
        operatorGroupMutateFn,
      ListDeployments (om_Namespace (plat_ObjectMeta cr)),
      GetCSV (om_Namespace (plat_ObjectMeta cr), pc_CSV config)]"

text \<open>
  What the environment answers: the deployment of the provider's operator is listed with a
  ready replica, and the cluster service version that is read has the platform as its owner.
\<close>

definition operator_running :: "penv \<Rightarrow> PlatformConfig \<Rightarrow> DBaaSPlatform \<Rightarrow> history \<Rightarrow> bool" where
  "operator_running P config cr h \<longleftrightarrow>
     (\<exists>ds. p_ListDeployments P h (om_Namespace (plat_ObjectMeta cr)) = Inr ds \<and>
        (\<exists>d \<in> set ds. om_Name (dep_ObjectMeta d) = pc_DeploymentName config \<and> dep_ReadyReplicas d > 0))"

definition csv_adopted :: "penv \<Rightarrow> PlatformConfig \<Rightarrow> DBaaSPlatform \<Rightarrow> history \<Rightarrow> bool" where
  "csv_adopted P config cr h \<longleftrightarrow>
     (\<exists>csv. p_GetCSV P h (om_Namespace (plat_ObjectMeta cr), pc_CSV config) = Inr csv \<and>
        CheckOwnerReferenceSet P cr csv = Inr True)"

lemmas provider_step_defs = reconcileCatalogSource_def reconcileSubscription_def
  reconcileOperatorGroup_def waitForOperator_def reconcileCSV_def

lemma key_of_csv [simp]:
  "key_of (csv_ObjectMeta (csv_of config cr)) = (om_Namespace (plat_ObjectMeta cr), pc_CSV config)"
  by (simp add: csv_of_def GetClusterServiceVersion_def key_of_def)

text \<open>The installation of a provider sends its requests in a fixed order, the catalog source
  before the subscription, the operator group, the deployments and the cluster service version,
  and stops at the first one that does not succeed; beyond them it sends at most one update of
  the cluster service version, which ends the run.\<close>

theorem provider_install_order:
  "runs (provider_Reconcile P config cr) h (\<lambda>r t.
     prefix t (install_requests P config cr) \<or>
     (\<exists>csv. t = install_requests P config cr @ [EvPlatform (UpdateCSV csv)]) \<and> fst r \<noteq> ResultSuccess)"
  unfolding provider_Reconcile_def provider_step_defs
  by (intro runs_intros) (auto simp: install_requests_def split: sum.splits option.splits if_splits intro!: runs_intros)

text \<open>C20: The installation of a provider reports success exactly when the catalog source, the
  subscription and the operator group were applied without an error, the provider's operator
  has a ready replica in the list of deployments, and the cluster service version that is read
  after that is already controlled by the platform.\<close>

theorem provider_install_succeeds_iff:
  "let es = install_requests P config cr; ack_at = (\<lambda>k. p_Ack P (h @ take k es))
   in fst (fst (run_state (provider_Reconcile P config cr) h)) = ResultSuccess \<longleftrightarrow>
     ack_at 0 (CreateOrUpdateCatalogSource (catalog_source_of config) (catalogSourceMutateFn config)) = None \<and>
     ack_at 1 (CreateOrUpdateSubscription (subscription_of config cr) (subscriptionMutateFn P config cr)) = None \<and>
     ack_at 2 (CreateOrUpdateOperatorGroup
       (GetOperatorGroup InstallNamespace_operators ''global-operators'') operatorGroupMutateFn) = None \<and>
     operator_running P config cr (h @ take 3 es) \<and>
     csv_adopted P config cr (h @ take 4 es)"
proof -
  let ?es = "install_requests P config cr"
  have "runs (provider_Reconcile P config cr) h (\<lambda>r t. fst r = ResultSuccess \<longleftrightarrow>
     p_Ack P h (CreateOrUpdateCatalogSource (catalog_source_of config) (catalogSourceMutateFn config)) = None \<and>
     p_Ack P (h @ take 1 ?es) (CreateOrUpdateSubscription (subscription_of config cr) (subscriptionMutateFn P config cr)) = None \<and>
     p_Ack P (h @ take 2 ?es) (CreateOrUpdateOperatorGroup
       (GetOperatorGroup InstallNamespace_operators ''global-operators'') operatorGroupMutateFn) = None \<and>
     operator_running P config cr (h @ take 3 ?es) \<and> csv_adopted P config cr (h @ take 4 ?es))"
    unfolding provider_Reconcile_def provider_step_defs
    by (intro runs_intros)
      (auto simp: install_requests_def operator_running_def csv_adopted_def operator_ready_iff
        split: sum.splits option.splits if_splits intro!: runs_intros)
  then show ?thesis by (simp add: runs_def Let_def)
qed







end
