(* ===== verification/Quickstart_Installation.thy ===== *)
theory Quickstart_Installation
  imports Platform_Reconcilers Example_Platform
begin

section \<open>Installing the quick starts\<close>

text \<open>
  \<open>controllers/reconcilers/quickstartinstallation\<close>: the quick starts of the console are read
  from files embedded in the binary and applied one after the other, in the order in which Go
  visits their table.
\<close>

subsection \<open>The reconciler\<close>

definition quickStarts :: "penv \<Rightarrow> (string, string) gomap" where
  "quickStarts P =
     [(''accessing-the-database-access-menu-for-configuring-and-monitoring'', p_adminQuickStart P),
      (''accessing-the-developer-workspace-and-adding-a-database-instance'', p_devInstanceQuickStart P),
      (''connecting-an-application-to-a-database-instance-using-the-topology-view'',
       p_devConnectQuickStart P)]"

definition getQuickStartModel :: "string \<Rightarrow> ConsoleQuickStart" where
  "getQuickStartModel nm = \<lparr>cqs_ObjectMeta = zero_ObjectMeta\<lparr>om_Name := nm\<rparr>, cqs_Spec = []\<rparr>"

definition quickStartMutateFn :: "string \<Rightarrow> ConsoleQuickStart MutateFn" where
  "quickStartMutateFn spec = (\<lambda>quickStart. Inr (quickStart
     \<lparr>cqs_ObjectMeta := (cqs_ObjectMeta quickStart)
        \<lparr>om_Annotations := Some [(''categories'', ''Database management'')]\<rparr>,
      cqs_Spec := spec\<rparr>))"

definition createQuickStartCR :: "penv \<Rightarrow> string \<Rightarrow> string \<Rightarrow> step" where
  "createQuickStartCR P qsName qsBytes =
     (let quickStart = getQuickStartModel qsName
      in case p_UnmarshalQuickStart P qsBytes of
           Inl err \<Rightarrow> ret (retry_result (Some err))
         | Inr spec \<Rightarrow> retry_step P (CreateOrUpdateQuickStart quickStart (quickStartMutateFn spec)))"

fun create_quick_starts :: "penv \<Rightarrow> (string, string) gomap \<Rightarrow> step" where
  "create_quick_starts P [] = ret success"
| "create_quick_starts P ((qsName, qsBytes) # qs) =
     next_step (createQuickStartCR P qsName qsBytes) (create_quick_starts P qs)"

definition quickstart_Reconcile :: "penv \<Rightarrow> DBaaSPlatform \<Rightarrow> step" where
  "quickstart_Reconcile P cr = create_quick_starts P (p_RangeQuickStarts P (quickStarts P))"

fun delete_quick_starts :: "penv \<Rightarrow> (string, string) gomap \<Rightarrow> step" where
  "delete_quick_starts P [] = ret success"
| "delete_quick_starts P ((qsName, qsBytes) # qs) =
     delete_step P (DeleteQuickStart (om_Name (cqs_ObjectMeta (getQuickStartModel qsName))))
       (delete_quick_starts P qs)"

definition quickstart_Cleanup :: "penv \<Rightarrow> DBaaSPlatform \<Rightarrow> step" where
  "quickstart_Cleanup P cr = delete_quick_starts P (p_RangeQuickStarts P (quickStarts P))"

definition quickstart_installation :: "penv \<Rightarrow> platform_reconciler" where
  "quickstart_installation P =
     \<lparr>pr_Reconcile = quickstart_Reconcile P, pr_Cleanup = quickstart_Cleanup P\<rparr>"

subsection \<open>It meets the contract of the platform reconcilers\<close>

lemma sound_create_quick_starts [sound_intros]: "sound_step (create_quick_starts P qs)"
  by (induction P qs rule: create_quick_starts.induct)
    (auto simp: createQuickStartCR_def Let_def intro!: sound_intros)

lemma sound_delete_quick_starts [sound_intros]: "sound_step (delete_quick_starts P qs)"
  by (induction P qs rule: delete_quick_starts.induct) (auto intro!: sound_intros)

interpretation quickstart_installation: platform_reconciler_contract "quickstart_installation P" for P
  by unfold_locales
    (simp_all add: quickstart_installation_def quickstart_Reconcile_def quickstart_Cleanup_def sound_intros)

subsection \<open>What is installed and removed\<close>

text \<open>The request that applies the quick start of the given name from its file.\<close>

definition applies_quick_start :: "penv \<Rightarrow> string \<times> string \<Rightarrow> event \<Rightarrow> bool" where
  "applies_quick_start P q e \<longleftrightarrow> (\<exists>spec. p_UnmarshalQuickStart P (snd q) = Inr spec \<and>
     e = EvPlatform (CreateOrUpdateQuickStart (getQuickStartModel (fst q)) (quickStartMutateFn spec)))"

lemma applies_quick_startI:
  "p_UnmarshalQuickStart P b = Inr spec \<Longrightarrow> applies_quick_start P (n, b)
     (EvPlatform (CreateOrUpdateQuickStart (getQuickStartModel n) (quickStartMutateFn spec)))"
  by (simp add: applies_quick_start_def)

lemma create_quick_starts_runs:
  "runs (create_quick_starts P qs) h (\<lambda>r t.
     list_all2 (applies_quick_start P) (take (length t) qs) t \<and>
     (fst r = ResultSuccess \<longrightarrow> length t = length qs))"
proof (induction P qs arbitrary: h rule: create_quick_starts.induct)
  case (1 P)
  then show ?case by (auto intro: runs_intros)
next
  case (2 P qsName qsBytes qs)
  show ?case
    unfolding create_quick_starts.simps createQuickStartCR_def Let_def
    by (intro runs_intros; simp; (rule 2 [THEN runs_conseq])?)
      (auto intro: applies_quick_startI)
qed

lemma delete_quick_starts_runs:
  "runs (delete_quick_starts P qs) h (\<lambda>r t.
     fst r = ResultSuccess \<longrightarrow> t = map (\<lambda>q. EvPlatform (DeleteQuickStart (fst q))) qs)"
proof (induction P qs arbitrary: h rule: delete_quick_starts.induct)
  case (1 P)
  then show ?case by (auto intro: runs_intros)
next
  case (2 P qsName qsBytes qs)
  show ?case
    unfolding delete_quick_starts.simps
    by (intro runs_intros 2 [THEN runs_conseq]) (auto simp: getQuickStartModel_def)
qed

lemma quick_starts_ranged:
  assumes "range_contract P"
  shows "mset (p_RangeQuickStarts P (quickStarts P)) = mset (quickStarts P)"
  using assms by (simp add: range_contract_def)

text \<open>In whatever order Go visits the table of quick starts, an installation that reports
  success has applied each of the three quick starts once, from its own file, and nothing else;
  and a removal that reports success has asked for the deletion of exactly these three.\<close>

theorem quick_starts_complete:
  assumes "range_contract P"
  shows "runs (quickstart_Reconcile P cr) h (\<lambda>r t. fst r = ResultSuccess \<longrightarrow>
      (\<exists>qs. mset qs = mset (quickStarts P) \<and> list_all2 (applies_quick_start P) qs t)) \<and>
    runs (quickstart_Cleanup P cr) h (\<lambda>r t. fst r = ResultSuccess \<longrightarrow>
      mset t = mset (map (\<lambda>q. EvPlatform (DeleteQuickStart (fst q))) (quickStarts P)))"
proof
  show "runs (quickstart_Reconcile P cr) h (\<lambda>r t. fst r = ResultSuccess \<longrightarrow>
      (\<exists>qs. mset qs = mset (quickStarts P) \<and> list_all2 (applies_quick_start P) qs t))"
    unfolding quickstart_Reconcile_def
    by (rule runs_conseq [OF create_quick_starts_runs]) (use quick_starts_ranged [OF assms] in auto)
  show "runs (quickstart_Cleanup P cr) h (\<lambda>r t. fst r = ResultSuccess \<longrightarrow>
      mset t = mset (map (\<lambda>q. EvPlatform (DeleteQuickStart (fst q))) (quickStarts P)))"
    unfolding quickstart_Cleanup_def
    by (rule runs_conseq [OF delete_quick_starts_runs])
      (simp add: quick_starts_ranged [OF assms])
qed

lemma demo_quickstart_success:
  "fst (run_state (quickstart_Reconcile demo_penv demo_platform) []) = success"
  "fst (run_state (quickstart_Cleanup demo_penv demo_platform) []) = success"
  by (simp_all add: quickstart_Reconcile_def quickstart_Cleanup_def quickStarts_def env_simps
      createQuickStartCR_def next_step_def retry_step_def retry_result_def delete_step_def success_def)

theorem quick_starts_complete_witness:
  "length (snd (run_state (quickstart_Reconcile demo_penv demo_platform) [])) = 3 \<and>
   length (snd (run_state (quickstart_Cleanup demo_penv demo_platform) [])) = 3"
proof -
  have three: "length (quickStarts demo_penv) = 3" by (simp add: quickStarts_def)
  note c = quick_starts_complete [OF demo_range_contract, of demo_platform "[]"]
  from c obtain qs where "mset qs = mset (quickStarts demo_penv)"
    "list_all2 (applies_quick_start demo_penv) qs
       (snd (run_state (quickstart_Reconcile demo_penv demo_platform) []))"
    using demo_quickstart_success by (auto simp: runs_def)
  then have "length (snd (run_state (quickstart_Reconcile demo_penv demo_platform) [])) = 3"
    using three by (metis list_all2_lengthD mset_eq_length)
  moreover have "mset (snd (run_state (quickstart_Cleanup demo_penv demo_platform) [])) =
      mset (map (\<lambda>q. EvPlatform (DeleteQuickStart (fst q))) (quickStarts demo_penv))"
    using c demo_quickstart_success by (auto simp: runs_def)
  then have "length (snd (run_state (quickstart_Cleanup demo_penv demo_platform) [])) = 3"
    using three by (metis length_map mset_eq_length)
  ultimately show ?thesis by blast
qed

end
