(* ===== verification/Console_Plugin.thy ===== *)
theory Console_Plugin
  imports Platform_Reconcilers Example_Platform
begin

section \<open>Installing the console plugin\<close>

text \<open>
  \<open>controllers/reconcilers/consoleplugin\<close>: the dynamic plugin of the console is a service, a
  deployment, a console plugin object, and an entry in the list of plugins of the console.
\<close>

subsection \<open>Objects\<close>

abbreviation serviceCertPrefix :: string where "serviceCertPrefix \<equiv> ''serve-cert-''"
abbreviation (input) consolePort :: int where "consolePort \<equiv> 9001"

definition getService :: "PlatformConfig \<Rightarrow> DBaaSPlatform \<Rightarrow> Service" where
  "getService config cr =
     \<lparr>svc_ObjectMeta = named_meta (om_Namespace (plat_ObjectMeta cr)) (pc_Name config),
      svc_Ports = [], svc_Selector = [], svc_Type = [], svc_SessionAffinity = []\<rparr>"

definition getDeployment :: "PlatformConfig \<Rightarrow> DBaaSPlatform \<Rightarrow> Deployment" where
  "getDeployment config cr =
     zero_Deployment (named_meta (om_Namespace (plat_ObjectMeta cr)) (pc_Name config))"

definition getConsolePlugin :: "PlatformConfig \<Rightarrow> ConsolePlugin" where
  "getConsolePlugin config =
     \<lparr>cpl_ObjectMeta = zero_ObjectMeta\<lparr>om_Name := pc_Name config\<rparr>, cpl_DisplayName = [],
      cpl_Service = \<lparr>cps_Name = [], cps_Namespace = [], cps_Port = 0, cps_BasePath = []\<rparr>\<rparr>"

definition getOperatorConsole :: OperatorConsole where
  "getOperatorConsole = \<lparr>oco_ObjectMeta = zero_ObjectMeta\<lparr>om_Name := ''cluster''\<rparr>,
     oco_Plugins = [], oco_Conditions = None\<rparr>"

subsection \<open>The plugins of the console\<close>

fun has_plugin :: "string \<Rightarrow> string list \<Rightarrow> bool" where
  "has_plugin nm [] = False"
| "has_plugin nm (p # ps) = (if p = nm then True else has_plugin nm ps)"

definition addPlugin :: "PlatformConfig \<Rightarrow> string list \<Rightarrow> string list \<times> bool" where
  "addPlugin config plugins =
     (if has_plugin (pc_Name config) plugins then (plugins, False)
      else (plugins @ [pc_Name config], True))"

fun removePlugin :: "PlatformConfig \<Rightarrow> string list \<Rightarrow> string list" where
  "removePlugin config [] = []"
| "removePlugin config (p # ps) = (if p = pc_Name config then ps else p # removePlugin config ps)"

subsection \<open>The steps\<close>

definition serviceMutateFn :: "penv \<Rightarrow> PlatformConfig \<Rightarrow> DBaaSPlatform \<Rightarrow> Service MutateFn" where
  "serviceMutateFn P config cr = (\<lambda>service.
     case SetControllerReference (p_env P) ''DBaaSPlatform'' (plat_ObjectMeta cr)
            (svc_ObjectMeta service) of
       Inl err \<Rightarrow> Inl err
     | Inr m \<Rightarrow> Inr (service
         \<lparr>svc_ObjectMeta := m
            \<lparr>om_Annotations := Some
               [(''service.beta.openshift.io/serving-cert-secret-name'',
                 serviceCertPrefix @ pc_Name config)],
             om_Labels :=
               [(''app'', pc_Name config),
                (''app.kubernetes.io/component'', pc_Name config),
                (''app.kubernetes.io/instance'', pc_Name config),
                (''app.kubernetes.io/part-of'', pc_Name config)]\<rparr>,
          svc_Ports :=
            [\<lparr>svp_Name = Itoa consolePort @ ''-tcp'', svp_Protocol = ''TCP'',
              svp_Port = consolePort, svp_TargetPort = consolePort\<rparr>],
          svc_Selector := [(''app'', pc_Name config)],
          svc_Type := ''ClusterIP'',
          svc_SessionAffinity := ''None''\<rparr>))"

definition reconcileService :: "penv \<Rightarrow> PlatformConfig \<Rightarrow> DBaaSPlatform \<Rightarrow> step" where
  "reconcileService P config cr = retry_step P
     (CreateOrUpdateService (getService config cr) (serviceMutateFn P config cr))"

definition plugin_container :: "PlatformConfig \<Rightarrow> Container" where
  "plugin_container config = zero_Container
     \<lparr>con_Name := pc_Name config,
      con_Image := pc_Image config,
      con_Ports := [\<lparr>cpt_ContainerPort = consolePort, cpt_Protocol = ''TCP''\<rparr>],
      con_ImagePullPolicy := ''Always'',
      con_Args := [''--ssl'', ''--cert=/var/serving-cert/tls.crt'', ''--key=/var/serving-cert/tls.key''],
      con_VolumeMounts :=
        [\<lparr>vm_Name = serviceCertPrefix @ pc_Name config, vm_ReadOnly = True,
          vm_MountPath = ''/var/serving-cert''\<rparr>],
      con_Env := pc_Envs config,
      con_SecurityContext := Some
        \<lparr>sc_AllowPrivilegeEscalation = Some False, sc_CapabilitiesDrop = Some [''ALL''],
         sc_ReadOnlyRootFilesystem = Some True, sc_RunAsNonRoot = Some True\<rparr>,
      con_LivenessProbe := Some
        \<lparr>prb_TCPSocketPort = Some consolePort, prb_InitialDelaySeconds = 5, prb_PeriodSeconds = 0\<rparr>,
      con_ReadinessProbe := Some
        \<lparr>prb_TCPSocketPort = Some consolePort, prb_InitialDelaySeconds = 30, prb_PeriodSeconds = 20\<rparr>\<rparr>"

definition pluginDeploymentMutateFn ::
    "penv \<Rightarrow> PlatformConfig \<Rightarrow> DBaaSPlatform \<Rightarrow> Deployment MutateFn" where
  "pluginDeploymentMutateFn P config cr = (\<lambda>deployment.
     case SetControllerReference (p_env P) ''DBaaSPlatform'' (plat_ObjectMeta cr)
            (dep_ObjectMeta deployment) of
       Inl err \<Rightarrow> Inl err
     | Inr m \<Rightarrow> Inr (deployment
         \<lparr>dep_ObjectMeta := m\<lparr>om_Labels :=
            [(''app'', pc_Name config),
             (''app.kubernetes.io/component'', pc_Name config),
             (''app.kubernetes.io/instance'', pc_Name config),
             (''app.kubernetes.io/part-of'', pc_Name config),
             (''app.openshift.io/runtime-namespace'', om_Namespace (plat_ObjectMeta cr))]\<rparr>,
          dep_Spec := (dep_Spec deployment)
            \<lparr>dsp_Replicas := Some 3,
             dsp_Selector := [(''app'', pc_Name config)],
             dsp_TemplateLabels := [(''app'', pc_Name config)],
             dsp_Containers := [plugin_container config],
             dsp_Volumes :=
               [\<lparr>vol_Name = serviceCertPrefix @ pc_Name config,
                 vol_SecretName = Some (serviceCertPrefix @ pc_Name config),
                 vol_DefaultMode = Some 420\<rparr>],
             dsp_RestartPolicy := ''Always'',
             dsp_DNSPolicy := ''ClusterFirst'',
             dsp_Strategy := \<lparr>dst_Type = ''RollingUpdate'', dst_MaxUnavailable = Some ''25%'',
               dst_MaxSurge = Some ''25%''\<rparr>\<rparr>\<rparr>))"

definition reconcileDeployment :: "penv \<Rightarrow> PlatformConfig \<Rightarrow> DBaaSPlatform \<Rightarrow> step" where
  "reconcileDeployment P config cr = do {
     r \<leftarrow> createOrUpdateDeployment (p_env P) (getDeployment config cr)
            (pluginDeploymentMutateFn P config cr);
     case r of
       Inl err \<Rightarrow> ret (retry_result (Some err))
     | Inr (deployment, res) \<Rightarrow> do {
         r \<leftarrow> ask (GetDeployment (key_of (dep_ObjectMeta deployment)))
                (\<lambda>h. p_GetDeployment P h (key_of (dep_ObjectMeta deployment)));
         ret (case r of
                Inl err \<Rightarrow> if IsNotFound err then in_progress else failed err
              | Inr deployment \<Rightarrow>
                  if dep_ReadyReplicas deployment = dep_StatusReplicas deployment then success
                  else in_progress)
       }
   }"

definition consolePluginMutateFn ::
    "PlatformConfig \<Rightarrow> DBaaSPlatform \<Rightarrow> ConsolePlugin MutateFn" where
  "consolePluginMutateFn config cr = (\<lambda>plugin. Inr (plugin
     \<lparr>cpl_DisplayName := pc_DisplayName config,
      cpl_Service := \<lparr>cps_Name = pc_Name config, cps_Namespace = om_Namespace (plat_ObjectMeta cr),
        cps_Port = consolePort, cps_BasePath = ''/''\<rparr>\<rparr>))"

definition createConsolePluginCR :: "penv \<Rightarrow> PlatformConfig \<Rightarrow> DBaaSPlatform \<Rightarrow> step" where
  "createConsolePluginCR P config cr = retry_step P
     (CreateOrUpdateConsolePlugin (getConsolePlugin config) (consolePluginMutateFn config cr))"

fun deployment_available :: "OperatorCondition list \<Rightarrow> bool" where
  "deployment_available [] = False"
| "deployment_available (c # cs) =
     (if opc_Type c = ''DeploymentAvailable'' then opc_Status c = ''True'' else deployment_available cs)"

definition enableConsolePluginConfig :: "penv \<Rightarrow> PlatformConfig \<Rightarrow> step" where
  "enableConsolePluginConfig P config = do {
     r \<leftarrow> ask (GetOperatorConsole (om_Name (oco_ObjectMeta getOperatorConsole)))
            (\<lambda>h. p_GetOperatorConsole P h (om_Name (oco_ObjectMeta getOperatorConsole)));
     case r of
       Inl err \<Rightarrow> ret (failed err)
     | Inr console \<Rightarrow>
         (case addPlugin config (oco_Plugins console) of
            (plugins, add) \<Rightarrow>
              if add then do {
                err \<leftarrow> ack P (UpdateOperatorConsole (console\<lparr>oco_Plugins := plugins\<rparr>));
                ret (case err of
                       Some e \<Rightarrow> if IsConflict e then in_progress else failed e
                     | None \<Rightarrow> in_progress)
              }
              else ret (case oco_Conditions console of
                          Some cs \<Rightarrow> if deployment_available cs then success else in_progress
                        | None \<Rightarrow> in_progress))
   }"

definition plugin_Reconcile :: "penv \<Rightarrow> PlatformConfig \<Rightarrow> DBaaSPlatform \<Rightarrow> step" where
  "plugin_Reconcile P config cr =
     next_step (reconcileService P config cr)
    (next_step (reconcileDeployment P config cr)
    (next_step (createConsolePluginCR P config cr)
    (next_step (enableConsolePluginConfig P config)
    (ret success))))"

definition plugin_Cleanup :: "penv \<Rightarrow> PlatformConfig \<Rightarrow> DBaaSPlatform \<Rightarrow> step" where
  "plugin_Cleanup P config cr = do {
     r \<leftarrow> ask (GetOperatorConsole (om_Name (oco_ObjectMeta getOperatorConsole)))
            (\<lambda>h. p_GetOperatorConsole P h (om_Name (oco_ObjectMeta getOperatorConsole)));
     case r of
       Inl err \<Rightarrow> ret (failed err)
     | Inr console \<Rightarrow> do {
         err \<leftarrow> ack P (UpdateOperatorConsole
                  (console\<lparr>oco_Plugins := removePlugin config (oco_Plugins console)\<rparr>));
         case err of
           Some e \<Rightarrow> ret (failed e)
         | None \<Rightarrow>
             delete_step P (DeleteConsolePlugin (om_Name (cpl_ObjectMeta (getConsolePlugin config))))
            (delete_step P (DeleteDeployment (key_of (dep_ObjectMeta (getDeployment config cr))))
            (delete_step P (DeleteService (key_of (svc_ObjectMeta (getService config cr))))
            (ret success)))
       }
   }"

definition plugin_installation :: "penv \<Rightarrow> PlatformConfig \<Rightarrow> platform_reconciler" where
  "plugin_installation P config =
     \<lparr>pr_Reconcile = plugin_Reconcile P config, pr_Cleanup = plugin_Cleanup P config\<rparr>"

subsection \<open>It meets the contract of the platform reconcilers\<close>

lemmas plugin_step_defs = reconcileService_def reconcileDeployment_def createConsolePluginCR_def
  enableConsolePluginConfig_def

interpretation plugin_installation: platform_reconciler_contract "plugin_installation P config"
  for P config
proof
  show "sound_step (pr_Reconcile (plugin_installation P config) cr)" for cr
    unfolding plugin_installation_def plugin_Reconcile_def plugin_step_defs addPlugin_def
    by (auto intro!: sound_intros only_intros split: option.splits sum.splits)
  show "sound_step (pr_Cleanup (plugin_installation P config) cr)" for cr
    unfolding plugin_installation_def plugin_Cleanup_def
    by (auto intro!: sound_intros only_intros)
qed

subsection \<open>The list of plugins\<close>

lemma has_plugin_iff: "has_plugin nm ps \<longleftrightarrow> nm \<in> set ps"
  by (induction ps) auto

lemma removePlugin_remove1: "removePlugin config ps = remove1 (pc_Name config) ps"
  by (induction ps) auto

text \<open>Enabling the plugin appends its name to the console's plugins exactly if it is missing and
  is idempotent; disabling it takes one entry of that name away; neither touches any other
  plugin or their order; and disabling undoes enabling.\<close>

theorem plugin_list_laws:
  "let nm = pc_Name config; (qs, add) = addPlugin config ps; others = filter (\<lambda>p. p \<noteq> nm)
   in (add \<longleftrightarrow> nm \<notin> set ps) \<and> nm \<in> set qs \<and> addPlugin config qs = (qs, False) \<and>
      others qs = others ps \<and> others (removePlugin config ps) = others ps \<and>
      (if nm \<in> set ps then mset ps = add_mset nm (mset (removePlugin config ps))
       else removePlugin config qs = ps)"
  by (auto simp: addPlugin_def has_plugin_iff removePlugin_remove1 remove1_append remove1_idem
      filter_remove1 Let_def)

subsection \<open>What an installation has done\<close>

definition service_request :: "penv \<Rightarrow> PlatformConfig \<Rightarrow> DBaaSPlatform \<Rightarrow> platform_request" where
  "service_request P config cr =
     CreateOrUpdateService (getService config cr) (serviceMutateFn P config cr)"

definition console_plugin_request :: "PlatformConfig \<Rightarrow> DBaaSPlatform \<Rightarrow> platform_request" where
  "console_plugin_request config cr =
     CreateOrUpdateConsolePlugin (getConsolePlugin config) (consolePluginMutateFn config cr)"

text \<open>The requests up to the console itself, for the deployment that the second one returns.\<close>

definition plugin_requests :: "penv \<Rightarrow> PlatformConfig \<Rightarrow> DBaaSPlatform \<Rightarrow> Deployment \<Rightarrow> event list" where
  "plugin_requests P config cr d =
     [EvPlatform (service_request P config cr),
      EvCreateOrUpdateDeployment (getDeployment config cr) (pluginDeploymentMutateFn P config cr),
      EvPlatform (GetDeployment (key_of (dep_ObjectMeta d))),
      EvPlatform (console_plugin_request config cr)]"

text \<open>Service, deployment and console plugin are in place, after the events \<open>h\<close>.\<close>

definition plugin_deployed :: "penv \<Rightarrow> PlatformConfig \<Rightarrow> DBaaSPlatform \<Rightarrow> history \<Rightarrow> Deployment \<Rightarrow> bool" where
  "plugin_deployed P config cr h d \<longleftrightarrow>
     (let es = plugin_requests P config cr d
      in p_Ack P h (service_request P config cr) = None \<and>
         (\<exists>res. srv_CreateOrUpdateDeployment (p_env P) (h @ take 1 es) (getDeployment config cr)
            (pluginDeploymentMutateFn P config cr) = Inr (d, res)) \<and>
         (\<exists>d'. p_GetDeployment P (h @ take 2 es) (key_of (dep_ObjectMeta d)) = Inr d' \<and>
            dep_ReadyReplicas d' = dep_StatusReplicas d') \<and>
         p_Ack P (h @ take 3 es) (console_plugin_request config cr) = None)"

definition console_available :: "OperatorConsole \<Rightarrow> bool" where
  "console_available c \<longleftrightarrow> (\<exists>cs. oco_Conditions c = Some cs \<and> deployment_available cs)"

text \<open>C25: The plugin is reported installed exactly when its service, deployment and console plugin
  object were applied, the deployment that is read back has as many ready replicas as replicas
  (none at all, for instance), and the console that is read after that already lists the plugin
  and has its own deployment available: the run that enables the plugin is still in progress.\<close>

theorem plugin_install_succeeds_iff:
  "fst (fst (run_state (plugin_Reconcile P config cr) h)) = ResultSuccess \<longleftrightarrow>
     (\<exists>d console. plugin_deployed P config cr h d \<and>
        p_GetOperatorConsole P (h @ plugin_requests P config cr d) ''cluster'' = Inr console \<and>
        pc_Name config \<in> set (oco_Plugins console) \<and> console_available console)"
proof -
  have "runs (plugin_Reconcile P config cr) h (\<lambda>r t. fst r = ResultSuccess \<longleftrightarrow>
     (\<exists>d console. plugin_deployed P config cr h d \<and>
        p_GetOperatorConsole P (h @ plugin_requests P config cr d) ''cluster'' = Inr console \<and>
        pc_Name config \<in> set (oco_Plugins console) \<and> console_available console))"
    unfolding plugin_Reconcile_def plugin_step_defs
    by (intro runs_intros)
      (auto simp: plugin_deployed_def plugin_requests_def service_request_def Let_def
        console_plugin_request_def console_available_def addPlugin_def has_plugin_iff
        getOperatorConsole_def split: sum.splits option.splits if_splits intro!: runs_intros)
  then show ?thesis by (simp add: runs_def)
qed

text \<open>The console is written only when everything else of the plugin is in place and the plugin
  is not yet listed, and what is written differs from the console that was read by the
  plugin's name at the end of its plugins.\<close>

theorem console_written_last:
  "runs (plugin_Reconcile P config cr) h (\<lambda>r t. \<forall>c. EvPlatform (UpdateOperatorConsole c) \<in> set t \<longrightarrow>
     (\<exists>d console. plugin_deployed P config cr h d \<and>
        p_GetOperatorConsole P (h @ plugin_requests P config cr d) ''cluster'' = Inr console \<and>
        pc_Name config \<notin> set (oco_Plugins console) \<and>
        c = console\<lparr>oco_Plugins := oco_Plugins console @ [pc_Name config]\<rparr>))"
  unfolding plugin_Reconcile_def plugin_step_defs
  by (intro runs_intros)
    (auto simp: plugin_deployed_def plugin_requests_def service_request_def Let_def
      console_plugin_request_def addPlugin_def has_plugin_iff
      getOperatorConsole_def split: sum.splits option.splits if_splits intro!: runs_intros)

text \<open>A console that lists another plugin.\<close>

definition demo_console_env :: penv where
  "demo_console_env = demo_penv\<lparr>p_GetOperatorConsole :=
     \<lambda>h n. Inr (getOperatorConsole\<lparr>oco_Plugins := [''other'']\<rparr>)\<rparr>"

definition demo_plugin_config :: PlatformConfig where
  "demo_plugin_config = zero_PlatformConfig\<lparr>pc_Name := ''plugin''\<rparr>"

lemma demo_console_written:
  "\<exists>c. EvPlatform (UpdateOperatorConsole c) \<in>
     set (snd (run_state (plugin_Reconcile demo_console_env demo_plugin_config demo_platform) []))"
  by (simp add: plugin_Reconcile_def plugin_step_defs next_step_def retry_step_def retry_result_def
      success_def in_progress_def demo_console_env_def demo_plugin_config_def env_simps ref_create_or_update_def
      pluginDeploymentMutateFn_def addPlugin_def getOperatorConsole_def getDeployment_def
      demo_deployment_def zero_Deployment_def zero_PlatformConfig_def)

theorem console_written_last_witness:
  "\<exists>c. EvPlatform (UpdateOperatorConsole c) \<in>
       set (snd (run_state (plugin_Reconcile demo_console_env demo_plugin_config demo_platform) [])) \<and>
     oco_Plugins c = [''other'', ''plugin'']"
proof -
  obtain c where c: "EvPlatform (UpdateOperatorConsole c) \<in>
      set (snd (run_state (plugin_Reconcile demo_console_env demo_plugin_config demo_platform) []))"
    using demo_console_written by blast
  then have "oco_Plugins c = [''other'', ''plugin'']"
    using console_written_last [of demo_console_env demo_plugin_config demo_platform "[]"]
    by (auto simp: runs_def demo_console_env_def demo_plugin_config_def)
  with c show ?thesis by blast
qed

end
