(* ===== verification/Observability.thy ===== *)
theory Observability
  imports Platform_Reconcilers Example_Platform
begin

section \<open>Installing the monitoring stack\<close>

text \<open>
  \<open>controllers/reconcilers/observability\<close>: when the observability operator is subscribed to, a
  monitoring stack and a service monitor are created in the namespace of the platform; the
  configuration of the remote write depends on the process environment and on a secret.

  The mutate function of the monitoring stack sends requests itself. Its \<open>CreateOrUpdate\<close> is
  therefore two requests here: one that gives the stored stack, or the one to create, and one
  that writes the result of the mutate function.
\<close>

subsection \<open>Objects\<close>

abbreviation clusterIDLabel :: string where "clusterIDLabel \<equiv> ''cluster_id''"
abbreviation crNameForMonitoringStack :: string where
  "crNameForMonitoringStack \<equiv> ''dbaas-operator-mso''"
abbreviation crNameForServiceMonitor :: string where
  "crNameForServiceMonitor \<equiv> ''dbaas-operator-service-monitor''"
abbreviation rhobsRemoteWriteConfigIDKey :: string where
  "rhobsRemoteWriteConfigIDKey \<equiv> ''prom-remote-write-config-id''"
abbreviation rhobsRemoteWriteConfigName :: string where
  "rhobsRemoteWriteConfigName \<equiv> ''prom-remote-write-config-secret''"
abbreviation rhobsTokenKey :: string where "rhobsTokenKey \<equiv> ''rhobs-token''"
abbreviation authTypeDex :: string where "authTypeDex \<equiv> ''dex''"
abbreviation authTypeRedhat :: string where "authTypeRedhat \<equiv> ''redhat-sso''"
abbreviation serviceMonitorPeriod :: string where "serviceMonitorPeriod \<equiv> ''30s''"

abbreviation metricsToInclude :: "string list" where
  "metricsToInclude \<equiv>
     [''dbaas_.*$'', ''csv_succeeded$'', ''csv_abnormal$'', ''ALERTS$'', ''subscription_sync_total'']"
abbreviation (input) obs_replicas :: int where "obs_replicas \<equiv> 1"

definition setExporterLables :: "(string, string) gomap" where
  "setExporterLables = [(''app'', ''dbaas-prometheus'')]"

definition getDefaultMonitoringStackCR :: "string \<Rightarrow> MonitoringStack" where
  "getDefaultMonitoringStackCR ns = \<lparr>mst_ObjectMeta = named_meta ns crNameForMonitoringStack,
     mst_Spec = \<lparr>mss_LogLevel = [], mss_ResourceSelector = None, mss_PrometheusConfig = None\<rparr>\<rparr>"

definition getDefaultServiceMonitor :: "string \<Rightarrow> ServiceMonitor" where
  "getDefaultServiceMonitor ns =
     \<lparr>smo_ObjectMeta = (named_meta ns crNameForServiceMonitor)\<lparr>om_Labels := setExporterLables\<rparr>,
      smo_Endpoints = [\<lparr>enp_Interval = serviceMonitorPeriod, enp_Path = ''/metrics'',
        enp_Port = ''metrics'', enp_Scheme = ''http''\<rparr>],
      smo_Selector = setExporterLables\<rparr>"

text \<open>\<open>strings.Join\<close>.\<close>

fun Join :: "string list \<Rightarrow> string \<Rightarrow> string" where
  "Join [] sep = []"
| "Join [s] sep = s"
| "Join (s # t # ts) sep = s @ sep @ Join (t # ts) sep"

definition writeRelabelConfigs :: "RelabelConfig list" where
  "writeRelabelConfigs = [\<lparr>rlc_SourceLabels = [''__name__''],
     rlc_Regex = ''('' @ Join metricsToInclude ''|'' @ '')'', rlc_Action = ''keep''\<rparr>]"

text \<open>The TLS configuration, of which only \<open>InsecureSkipVerify\<close> is set.\<close>

definition tlsConfig :: "bool option" where
  "tlsConfig = Some True"

subsection \<open>The remote write\<close>

definition validateSecret ::
    "penv \<Rightarrow> ObservabilityConfig \<Rightarrow> string \<Rightarrow> (go_error + Secret) prog" where
  "validateSecret P config ns = do {
     r \<leftarrow> getSecret (p_env P) (ns, ocf_RHOBSSecretName config);
     ret (case r of
            Inl err \<Rightarrow>
              Inl (if IsNotFound err
                   then OtherError (''rhobs remote write secret not found in namespace '' @ ns)
                   else err)
          | Inr secret \<Rightarrow> Inr secret)
   }"

definition missing_key :: "string \<Rightarrow> go_error" where
  "missing_key k = OtherError (''rhobs secret does not contain a value for key '' @ k)"

definition getDexRemoteWriteSpec ::
    "penv \<Rightarrow> ObservabilityConfig \<Rightarrow> string \<Rightarrow> (RemoteWriteSpec \<times> go_error option) prog" where
  "getDexRemoteWriteSpec P config ns =
     (let remoteWriteSpec = zero_RemoteWriteSpec
      in if ocf_RemoteWritesURL config \<noteq> [] then do {
           r \<leftarrow> validateSecret P config ns;
           ret (case r of
                  Inl err \<Rightarrow> (remoteWriteSpec, Some err)
                | Inr secret \<Rightarrow>
                    (case map_of (sec_Data secret) rhobsTokenKey of
                       None \<Rightarrow> (remoteWriteSpec, Some (missing_key rhobsTokenKey))
                     | Some rhobsToken \<Rightarrow> (remoteWriteSpec
                         \<lparr>rws_URL := ocf_RemoteWritesURL config,
                          rws_BearerToken := rhobsToken,
                          rws_InsecureSkipVerify := tlsConfig,
                          rws_WriteRelabelConfigs := writeRelabelConfigs\<rparr>, None)))
         }
         else ret (remoteWriteSpec, None))"

definition rhobs_oauth2 :: "ObservabilityConfig \<Rightarrow> string \<Rightarrow> OAuth2" where
  "rhobs_oauth2 config rhobsAudience =
     \<lparr>oa_ClientIDSecret = Some \<lparr>sks_Name = ocf_RHOBSSecretName config,
        sks_Key = rhobsRemoteWriteConfigIDKey\<rparr>,
      oa_ClientSecret = \<lparr>sks_Name = ocf_RHOBSSecretName config,
        sks_Key = rhobsRemoteWriteConfigName\<rparr>,
      oa_TokenURL = ocf_RHSSOTokenURL config,
      oa_Scopes = [],
      oa_EndpointParams = [(''audience'', rhobsAudience)]\<rparr>"

definition getRHOBSRemoteWriteSpec ::
    "penv \<Rightarrow> ObservabilityConfig \<Rightarrow> string \<Rightarrow> (RemoteWriteSpec \<times> go_error option) prog" where
  "getRHOBSRemoteWriteSpec P config ns =
     (let remoteWriteSpec = zero_RemoteWriteSpec
      in if ocf_RemoteWritesURL config \<noteq> [] \<and> ocf_RHSSOTokenURL config \<noteq> [] \<and>
            ocf_RHOBSSecretName config \<noteq> [] then do {
           r \<leftarrow> validateSecret P config ns;
           ret (case r of
                  Inl err \<Rightarrow> (remoteWriteSpec, Some err)
                | Inr secret \<Rightarrow>
                    (let data = sec_Data secret
                     in if map_of data rhobsRemoteWriteConfigIDKey = None
                        then (remoteWriteSpec, Some (missing_key rhobsRemoteWriteConfigIDKey))
                        else if map_of data rhobsRemoteWriteConfigName = None
                        then (remoteWriteSpec, Some (missing_key rhobsRemoteWriteConfigName))
                        else case map_of data ''rhobs-audience'' of
                               None \<Rightarrow> (remoteWriteSpec, Some (missing_key ''rhobs-audience''))
                             | Some rhobsAudience \<Rightarrow> (remoteWriteSpec
                                 \<lparr>rws_URL := ocf_RemoteWritesURL config,
                                  rws_OAuth2 := Some (rhobs_oauth2 config rhobsAudience),
                                  rws_InsecureSkipVerify := tlsConfig,
                                  rws_WriteRelabelConfigs := writeRelabelConfigs\<rparr>, None)))
         }
         else ret (remoteWriteSpec, None))"

definition configureRemoteWrite ::
    "penv \<Rightarrow> ObservabilityConfig \<Rightarrow> string \<Rightarrow> (RemoteWriteSpec \<times> go_error option) prog" where
  "configureRemoteWrite P config ns =
     (if ocf_AuthType config = authTypeDex then getDexRemoteWriteSpec P config ns
      else if ocf_AuthType config = authTypeRedhat then getRHOBSRemoteWriteSpec P config ns
      else ret (zero_RemoteWriteSpec,
             Some (OtherError (''unknown auth type '' @ ocf_AuthType config))))"

definition setPrometheusConfig ::
    "penv \<Rightarrow> ObservabilityConfig \<Rightarrow> string \<Rightarrow> (PrometheusConfig \<times> go_error option) prog" where
  "setPrometheusConfig P config ns =
     (let prometheusConfig = \<lparr>pmc_Replicas = Some obs_replicas, pmc_ExternalLabels = [],
            pmc_RemoteWrite = []\<rparr>
      in do {
        r \<leftarrow> GetClusterIDVersion P;
        case r of
          (clusterID, _, Some err) \<Rightarrow> ret (prometheusConfig, Some err)
        | (clusterID, _, None) \<Rightarrow>
            (let prometheusConfig =
                   (if clusterID \<noteq> []
                    then prometheusConfig\<lparr>pmc_ExternalLabels := [(clusterIDLabel, clusterID)]\<rparr>
                    else prometheusConfig)
             in do {
               (remoteWriteSpec, _) \<leftarrow> configureRemoteWrite P config ns;
               ret (prometheusConfig
                      \<lparr>pmc_RemoteWrite := pmc_RemoteWrite prometheusConfig @ [remoteWriteSpec]\<rparr>, None)
             })
      })"

subsection \<open>The steps\<close>

text \<open>
  \<open>NewReconciler\<close> leaves the field \<open>config\<close> of the reconciler at its zero value.
\<close>

definition observability_config :: PlatformConfig where
  "observability_config = zero_PlatformConfig"

definition cleanObsOldSubscription :: "penv \<Rightarrow> PlatformConfig \<Rightarrow> DBaaSPlatform \<Rightarrow> step" where
  "cleanObsOldSubscription P config cr =
     (let ns = om_Namespace (plat_ObjectMeta cr);
          subscription = GetSubscription ns (pc_Name config @ ''-subscription'');
          csv = GetClusterServiceVersion ns ''observability-operator.v0.0.13''
      in delete_step P (DeleteSubscription (key_of (sub_ObjectMeta subscription)))
        (delete_step P (DeleteCSV (key_of (csv_ObjectMeta csv)))
        (ret success)))"

definition stack_with_spec :: "MonitoringStack \<Rightarrow> MonitoringStack" where
  "stack_with_spec stack = stack
     \<lparr>mst_ObjectMeta := (mst_ObjectMeta stack)\<lparr>om_Labels := [(''managed-by'', ''dbaas-operator'')]\<rparr>,
      mst_Spec := \<lparr>mss_LogLevel = ''debug'', mss_ResourceSelector = Some setExporterLables,
        mss_PrometheusConfig = None\<rparr>\<rparr>"

definition monitoringStackMutateFn ::
    "penv \<Rightarrow> ObservabilityConfig \<Rightarrow> DBaaSPlatform \<Rightarrow> MonitoringStack \<Rightarrow>
     (go_error + MonitoringStack) prog" where
  "monitoringStackMutateFn P config cr stack =
     (let stack = stack_with_spec stack
      in do {
        stack \<leftarrow>
          (if ocf_RemoteWritesURL config \<noteq> [] \<and> ocf_AuthType config \<noteq> [] \<and> ocf_AddonName config \<noteq> []
           then do {
             (prometheusConfig, _) \<leftarrow>
               setPrometheusConfig P config (om_Namespace (mst_ObjectMeta stack));
             ret (stack\<lparr>mst_Spec := (mst_Spec stack)\<lparr>mss_PrometheusConfig := Some prometheusConfig\<rparr>\<rparr>)
           }
           else ret stack);
        ret (case SetControllerReference (p_env P) ''DBaaSPlatform'' (plat_ObjectMeta cr)
                    (mst_ObjectMeta stack) of
               Inl err \<Rightarrow> Inl err
             | Inr m \<Rightarrow> Inr (stack\<lparr>mst_ObjectMeta := m\<rparr>))
      })"

definition createUpdateObservabilityMonitoringStackCR :: "penv \<Rightarrow> DBaaSPlatform \<Rightarrow> step" where
  "createUpdateObservabilityMonitoringStackCR P cr =
     (let config = GetObservabilityConfig P;
          monitoringStackCR = getDefaultMonitoringStackCR (om_Namespace (plat_ObjectMeta cr))
      in do {
        r \<leftarrow> ask (BeginCreateOrUpdateMonitoringStack monitoringStackCR)
               (\<lambda>h. p_BeginMonitoringStack P h monitoringStackCR);
        case r of
          Inl err \<Rightarrow> ret (retry_result (Some err))
        | Inr stack \<Rightarrow> do {
            r \<leftarrow> monitoringStackMutateFn P config cr stack;
            case r of
              Inl err \<Rightarrow> ret (retry_result (Some err))
            | Inr stack \<Rightarrow> retry_step P (EndCreateOrUpdateMonitoringStack stack)
          }
      })"

definition serviceMonitorMutateFn :: "penv \<Rightarrow> DBaaSPlatform \<Rightarrow> ServiceMonitor MutateFn" where
  "serviceMonitorMutateFn P cr = (\<lambda>monitor.
     case SetControllerReference (p_env P) ''DBaaSPlatform'' (plat_ObjectMeta cr)
            (smo_ObjectMeta monitor) of
       Inl err \<Rightarrow> Inl err
     | Inr m \<Rightarrow> Inr (monitor\<lparr>smo_ObjectMeta := m\<rparr>))"

definition createObservabilityServiceMonitorCR :: "penv \<Rightarrow> DBaaSPlatform \<Rightarrow> step" where
  "createObservabilityServiceMonitorCR P cr = retry_step P
     (CreateOrUpdateServiceMonitor (getDefaultServiceMonitor (om_Namespace (plat_ObjectMeta cr)))
        (serviceMonitorMutateFn P cr))"

definition observability_Reconcile :: "penv \<Rightarrow> DBaaSPlatform \<Rightarrow> step" where
  "observability_Reconcile P cr =
     next_step (cleanObsOldSubscription P observability_config cr)
     (let subscription = GetSubscription ''openshift-observability-operator'' ''observability-operator'';
          key = key_of (sub_ObjectMeta subscription)
      in do {
        r \<leftarrow> ask (GetSubscriptionObject key) (\<lambda>h. p_GetSubscription P h key);
        case r of
          Inl err \<Rightarrow> ret (if \<not> IsNotFound err then failed err else success)
        | Inr _ \<Rightarrow>
            next_step (createUpdateObservabilityMonitoringStackCR P cr)
           (next_step (createObservabilityServiceMonitorCR P cr)
           (ret success))
      })"

definition observability_Cleanup :: "penv \<Rightarrow> DBaaSPlatform \<Rightarrow> step" where
  "observability_Cleanup P cr =
     (let ns = om_Namespace (plat_ObjectMeta cr)
      in delete_step P (DeleteMonitoringStack (key_of (mst_ObjectMeta (getDefaultMonitoringStackCR ns))))
        (delete_step P (DeleteServiceMonitor (key_of (smo_ObjectMeta (getDefaultServiceMonitor ns))))
        (ret success)))"

definition observability_installation :: "penv \<Rightarrow> platform_reconciler" where
  "observability_installation P =
     \<lparr>pr_Reconcile = observability_Reconcile P, pr_Cleanup = observability_Cleanup P\<rparr>"

subsection \<open>It meets the contract of the platform reconcilers\<close>

lemma only_setPrometheusConfig [only_intros]:
  "(\<And>k. Q (EvGetSecret k)) \<Longrightarrow> (\<And>n. Q (EvPlatform (GetClusterVersion n))) \<Longrightarrow>
     only Q (setPrometheusConfig P config ns)"
  unfolding setPrometheusConfig_def GetClusterIDVersion_def configureRemoteWrite_def
    getDexRemoteWriteSpec_def getRHOBSRemoteWriteSpec_def validateSecret_def Let_def
  by (intro only_intros) auto

lemma only_monitoringStackMutateFn [only_intros]:
  "(\<And>k. Q (EvGetSecret k)) \<Longrightarrow> (\<And>n. Q (EvPlatform (GetClusterVersion n))) \<Longrightarrow>
     only Q (monitoringStackMutateFn P config cr stack)"
  unfolding monitoringStackMutateFn_def Let_def by (intro only_intros) auto

lemma sound_monitoring_stack [sound_intros]:
  "sound_step (createUpdateObservabilityMonitoringStackCR P cr)"
  unfolding createUpdateObservabilityMonitoringStackCR_def Let_def
  by (intro sound_intros only_intros) auto

interpretation observability_installation:
  platform_reconciler_contract "observability_installation P" for P
proof
  show "sound_step (pr_Reconcile (observability_installation P) cr)" for cr
    unfolding observability_installation_def observability_Reconcile_def cleanObsOldSubscription_def
      createObservabilityServiceMonitorCR_def Let_def
    by (auto intro!: sound_intros only_intros)
  show "sound_step (pr_Cleanup (observability_installation P) cr)" for cr
    unfolding observability_installation_def observability_Cleanup_def Let_def
    by (auto intro!: sound_intros)
qed

subsection \<open>When the monitoring stack is written\<close>

fun writes_monitoring :: "event \<Rightarrow> bool" where
  "writes_monitoring (EvPlatform (BeginCreateOrUpdateMonitoringStack x)) = True"
| "writes_monitoring (EvPlatform (EndCreateOrUpdateMonitoringStack x)) = True"
| "writes_monitoring (EvPlatform (CreateOrUpdateServiceMonitor x f)) = True"
| "writes_monitoring e = False"

abbreviation obs_subscription :: ObjectKey where
  "obs_subscription \<equiv> (''openshift-observability-operator'', ''observability-operator'')"

text \<open>Every run first asks for the deletion of a subscription of the name
  \<open>-subscription\<close>, without the name of the platform that the same code puts in front of it for
  a provider; and the monitoring stack and the service monitor are written only if the
  subscription of the observability operator was found, without which the installation reports
  success at once.\<close>

theorem monitoring_needs_operator:
  "runs (observability_Reconcile P cr) h (\<lambda>r t.
     prefix [EvPlatform (DeleteSubscription (om_Namespace (plat_ObjectMeta cr), ''-subscription''))] t \<and>
     (list_ex writes_monitoring t \<longrightarrow>
        (\<exists>s. p_GetSubscription P (h @ take 2 t) obs_subscription = Inr s)) \<and>
     (\<forall>e. length t = 3 \<and> p_GetSubscription P (h @ take 2 t) obs_subscription = Inl e \<longrightarrow>
        (fst r = ResultSuccess \<longleftrightarrow> IsNotFound e)))"
proof -
  have tail: "runs (next_step (createUpdateObservabilityMonitoringStackCR P cr)
      (next_step (createObservabilityServiceMonitorCR P cr) (ret success))) h' (\<lambda>r t. True)" for h'
  proof -
    have "sound_step (next_step (createUpdateObservabilityMonitoringStackCR P cr)
        (next_step (createObservabilityServiceMonitorCR P cr) (ret success)))"
      unfolding createObservabilityServiceMonitorCR_def by (intro sound_intros) simp_all
    then have "runs (next_step (createUpdateObservabilityMonitoringStackCR P cr)
        (next_step (createObservabilityServiceMonitorCR P cr) (ret success))) h'
        (\<lambda>r t. result_ok r \<and> list_all (\<lambda>e. \<not> reports e) t)"
      by (simp add: sound_step_def)
    then show ?thesis by (rule runs_conseq) simp
  qed
  show ?thesis
    unfolding observability_Reconcile_def cleanObsOldSubscription_def observability_config_def
      zero_PlatformConfig_def Let_def
    by (intro runs_intros; simp; (intro runs_intros tail [THEN runs_conseq])?; auto)
qed

lemma demo_without_operator:
  "length (snd (run_state (observability_Reconcile demo_penv demo_platform) [])) = 3"
  by (simp add: observability_Reconcile_def cleanObsOldSubscription_def next_step_def delete_step_def
      success_def env_simps Let_def demo_penv_def)

theorem monitoring_needs_operator_witness:
  "fst (fst (run_state (observability_Reconcile demo_penv demo_platform) [])) = ResultSuccess \<and>
   \<not> list_ex writes_monitoring (snd (run_state (observability_Reconcile demo_penv demo_platform) []))"
proof -
  have "p_GetSubscription demo_penv h k = no_object" for h k by (simp add: demo_penv_def)
  then show ?thesis
    using monitoring_needs_operator [of demo_penv demo_platform "[]"] demo_without_operator
    by (auto simp: runs_def)
qed

subsection \<open>The remote write\<close>









end
