(* ===== verification/Platform_Controller.thy ===== *)
theory Platform_Controller
  imports Platform_Metrics Platform_Setup Provider_Installation Quickstart_Installation Console_Plugin Observability
begin

section \<open>The platform controller\<close>

text \<open>
  \<open>controllers/dbaasplatform_controller.go\<close>: one reconciliation visits the platforms to install
  in the order of a Go map, calls the reconciler of each until one is not yet successful, and
  records what they report in the status of the platform resource. The field
  \<open>installComplete\<close> of the controller, which outlives a reconciliation, is passed in and out.
\<close>

subsection \<open>The status of the platforms\<close>

definition RequeueDelaySuccess :: time where "RequeueDelaySuccess = 10 * 1000000000"
definition RequeueDelayError :: time where "RequeueDelayError = 5 * 1000000000"

fun FindStatusPlatform :: "PlatformStatus list \<Rightarrow> PlatformName \<Rightarrow> PlatformStatus option" where
  "FindStatusPlatform [] platformName = None"
| "FindStatusPlatform (s # ss) platformName =
     (if pst_PlatformName s = platformName then Some s else FindStatusPlatform ss platformName)"

text \<open>\<open>FindStatusPlatform\<close> returns a pointer into the slice: what is written through it.\<close>

fun update_found :: "PlatformName \<Rightarrow> (PlatformStatus \<Rightarrow> PlatformStatus) \<Rightarrow> PlatformStatus list \<Rightarrow>
    PlatformStatus list" where
  "update_found platformName f [] = []"
| "update_found platformName f (s # ss) =
     (if pst_PlatformName s = platformName then f s # ss else s # update_found platformName f ss)"

definition setStatusPlatform :: "PlatformStatus list \<Rightarrow> PlatformStatus \<Rightarrow> PlatformStatus list" where
  "setStatusPlatform PlatformsStatus newPlatformStatus =
     (case FindStatusPlatform PlatformsStatus (pst_PlatformName newPlatformStatus) of
        None \<Rightarrow> PlatformsStatus @ [newPlatformStatus]
      | Some existing \<Rightarrow>
          update_found (pst_PlatformName newPlatformStatus)
            (\<lambda>s. s\<lparr>pst_PlatformStatus := pst_PlatformStatus newPlatformStatus,
                   pst_LastMessage := pst_LastMessage newPlatformStatus\<rparr>) PlatformsStatus)"

definition setStatusCondition ::
    "env \<Rightarrow> Condition list \<Rightarrow> string \<Rightarrow> ConditionStatus \<Rightarrow> string \<Rightarrow> string \<Rightarrow> Condition list" where
  "setStatusCondition E Conditions conditionType status reason message =
     SetStatusCondition E Conditions (mkCondition conditionType status reason message)"

definition set_ready ::
    "env \<Rightarrow> DBaaSPlatformStatus \<Rightarrow> ConditionStatus \<Rightarrow> string \<Rightarrow> string \<Rightarrow> DBaaSPlatformStatus" where
  "set_ready E nextStatus status reason message = nextStatus\<lparr>plst_Conditions :=
     setStatusCondition E (plst_Conditions nextStatus) DBaaSPlatformReadyType status reason message\<rparr>"

subsection \<open>The reconcilers of the platforms\<close>

definition getReconcilerForPlatform :: "penv \<Rightarrow> PlatformConfig \<Rightarrow> platform_reconciler option" where
  "getReconcilerForPlatform P platformConfig =
     (if pc_Type platformConfig = TypeOperator then Some (provider_installation P platformConfig)
      else if pc_Type platformConfig = TypeConsolePlugin
      then Some (plugin_installation P platformConfig)
      else if pc_Type platformConfig = TypeQuickStart then Some (quickstart_installation P)
      else if pc_Type platformConfig = TypeObservability then Some (observability_installation P)
      else None)"

definition setOpenShiftInstallationInfo :: "penv \<Rightarrow> DBaaSPlatform \<Rightarrow> unit prog" where
  "setOpenShiftInstallationInfo P cr = do {
     (consoleURL, _) \<leftarrow> GetOpenshiftConsoleURL P;
     (platformType, _) \<leftarrow> GetOpenshiftPlatform P;
     (_, clusterVersion, _) \<leftarrow> GetClusterIDVersion P;
     SetOpenShiftInstallationInfoMetric (p_operatorNameVersion P) consoleURL platformType
       (TimeString (p_env P) (om_CreationTimestamp (plat_ObjectMeta cr))) clusterVersion
   }"

subsection \<open>The reconciliation\<close>

text \<open>
  The loop over the platforms. It ends with an error of a reconciler, or with \<open>finished\<close> and the
  next status of the platform resource.
\<close>

definition visit_platform ::
    "penv \<Rightarrow> DBaaSPlatform \<Rightarrow> PlatformName \<Rightarrow> PlatformConfig \<Rightarrow> platform_reconciler \<Rightarrow> step" where
  "visit_platform P cr platform platformConfig reconciler =
     (if om_DeletionTimestamp (plat_ObjectMeta cr) = None then do {
        (status, err) \<leftarrow> pr_Reconcile reconciler cr;
        SetPlatformStatusMetric platform status (pc_CSV platformConfig);
        ret (status, err)
      }
      else pr_Cleanup reconciler cr)"

definition stack_in_progress ::
    "penv \<Rightarrow> Execution \<Rightarrow> DBaaSPlatform \<Rightarrow> DBaaSPlatformStatus \<Rightarrow> DBaaSPlatformStatus prog" where
  "stack_in_progress P execution cr nextStatus =
     (if om_DeletionTimestamp (plat_ObjectMeta cr) = None then do {
        PlatformStackInstallationMetric (p_env P) cr (p_operatorNameVersion P) execution;
        ret (set_ready (p_env P) nextStatus ConditionFalse InstallationInprogress
          ''DBaaS platform stack install in progress'')
      }
      else ret (set_ready (p_env P) nextStatus ConditionUnknown InstallationCleanup
             ''DBaaS platform stack cleanup in progress''))"

fun platform_loop ::
    "penv \<Rightarrow> Execution \<Rightarrow> DBaaSPlatform \<Rightarrow> (PlatformName, PlatformConfig) gomap \<Rightarrow>
     DBaaSPlatformStatus \<Rightarrow> (go_error + bool \<times> DBaaSPlatformStatus) prog" where
  "platform_loop P execution cr [] nextStatus = ret (Inr (True, nextStatus))"
| "platform_loop P execution cr ((platform, platformConfig) # platforms) nextStatus =
     (case getReconcilerForPlatform P platformConfig of
        None \<Rightarrow> platform_loop P execution cr platforms nextStatus
      | Some reconciler \<Rightarrow> do {
          (status, err) \<leftarrow> visit_platform P cr platform platformConfig reconciler;
          case err of
            Some e \<Rightarrow> ret (Inl e)
          | None \<Rightarrow>
              (let nextStatus = nextStatus\<lparr>plst_PlatformsStatus :=
                     setStatusPlatform (plst_PlatformsStatus nextStatus)
                       \<lparr>pst_PlatformName = platform, pst_PlatformStatus = status,
                        pst_LastMessage = []\<rparr>\<rparr>
               in if status \<noteq> ResultSuccess then do {
                    nextStatus \<leftarrow> stack_in_progress P execution cr nextStatus;
                    ret (Inr (False, nextStatus))
                  }
                  else platform_loop P execution cr platforms nextStatus)
        })"

definition updateStatus ::
    "penv \<Rightarrow> DBaaSPlatform \<Rightarrow> DBaaSPlatformStatus \<Rightarrow> (outcome \<times> DBaaSPlatform) prog" where
  "updateStatus P cr nextStatus =
     (let done = Returned \<lparr>res_Requeue = True, res_RequeueAfter = RequeueDelaySuccess\<rparr> None
      in if plat_Status cr \<noteq> nextStatus then
           (let cr = cr\<lparr>plat_Status := nextStatus\<rparr>
            in do {
              r \<leftarrow> ask (StatusUpdatePlatform cr) (\<lambda>h. p_StatusUpdatePlatform P h cr);
              ret (case r of
                     Inl err \<Rightarrow>
                       (Returned \<lparr>res_Requeue = True, res_RequeueAfter = RequeueDelayError\<rparr> (Some err), cr)
                   | Inr cr \<Rightarrow> (done, cr))
            })
         else ret (done, cr))"

text \<open>
  The part of \<open>Reconcile\<close> after its deferred metrics call is registered, with the new value of
  \<open>installComplete\<close>.
\<close>

definition reconcile_platform_object ::
    "penv \<Rightarrow> Execution \<Rightarrow> bool \<Rightarrow> DBaaSPlatform \<Rightarrow> ((outcome \<times> DBaaSPlatform) \<times> bool) prog" where
  "reconcile_platform_object P execution installComplete cr =
     (let deleted = om_DeletionTimestamp (plat_ObjectMeta cr) \<noteq> None;
          platforms = (if \<not> deleted then p_RangePlatforms P (InstallationPlatforms P) else [])
      in do {
        setOpenShiftInstallationInfo P cr;
        r \<leftarrow> platform_loop P execution cr platforms (plat_Status cr);
        case r of
          Inl err \<Rightarrow> ret ((Returned Result_zero (Some err), cr), installComplete)
        | Inr (finished, nextStatus) \<Rightarrow>
            if \<not> deleted \<and> finished \<and> \<not> installComplete then do {
              PlatformStackInstallationMetric (p_env P) cr (p_operatorNameVersion P) execution;
              r \<leftarrow> updateStatus P cr (set_ready (p_env P) nextStatus ConditionTrue Ready
                     ''DBaaS platform stack installation complete'');
              ret (r, True)
            }
            else do {
              r \<leftarrow> updateStatus P cr nextStatus;
              ret (r, installComplete)
            }
      })"

definition DBaaSPlatform_Reconcile :: "penv \<Rightarrow> bool \<Rightarrow> ObjectKey \<Rightarrow> (outcome \<times> bool) prog" where
  "DBaaSPlatform_Reconcile P installComplete req = do {
     execution \<leftarrow> PlatformInstallStart (p_env P);
     r \<leftarrow> ask (GetPlatform req) (\<lambda>h. p_GetPlatform P h req);
     case r of
       Inl err \<Rightarrow>
         ret (Returned Result_zero (if IsNotFound err then None else Some err), installComplete)
     | Inr cr \<Rightarrow> do {
         _ \<leftarrow> fixConversionWebhooks P;
         _ \<leftarrow> fixRDSControllerUpgrade P;
         let ev = (if om_DeletionTimestamp (plat_ObjectMeta cr) \<noteq> None
                   then LabelEventValueDelete else LabelEventValueCreate);
         (result, installComplete') \<leftarrow> reconcile_platform_object P execution installComplete cr;
         let cr = snd result;
         SetPlatformMetrics (p_env P) cr (om_Name (plat_ObjectMeta cr)) execution ev [];
         ret (fst result, installComplete')
       }
   }"

definition DBaaSPlatform_Delete :: "penv \<Rightarrow> DBaaSPlatform option \<Rightarrow> (go_error option) prog" where
  "DBaaSPlatform_Delete P obj = do {
     execution \<leftarrow> PlatformInstallStart (p_env P);
     case obj of
       None \<Rightarrow> ret None
     | Some platformObj \<Rightarrow> do {
         SetPlatformMetrics (p_env P) platformObj (om_Name (plat_ObjectMeta platformObj)) execution
           LabelEventValueDelete [];
         ret None
       }
   }"

subsection \<open>The status list as a map\<close>

lemma find_status_name: "FindStatusPlatform ss n = Some s \<Longrightarrow> pst_PlatformName s = n"
  by (induction ss) (auto split: if_splits)

lemma find_status_none: "FindStatusPlatform ss n = None \<longleftrightarrow> n \<notin> pst_PlatformName ` set ss"
  by (induction ss) auto

lemma find_status_append:
  "FindStatusPlatform (ss @ [s]) n =
     (case FindStatusPlatform ss n of Some x \<Rightarrow> Some x
      | None \<Rightarrow> if pst_PlatformName s = n then Some s else None)"
  by (induction ss) auto

lemma find_update_found:
  assumes "\<And>s. pst_PlatformName (f s) = pst_PlatformName s"
  shows "FindStatusPlatform (update_found n f ss) m =
     (if m = n then map_option f (FindStatusPlatform ss n) else FindStatusPlatform ss m)"
  by (induction ss) (auto simp: assms)

lemma names_update_found:
  assumes "\<And>s. pst_PlatformName (f s) = pst_PlatformName s"
  shows "map pst_PlatformName (update_found n f ss) = map pst_PlatformName ss"
  by (induction ss) (auto simp: assms)

lemma find_set_status:
  "FindStatusPlatform (setStatusPlatform ss new) n =
     (if n = pst_PlatformName new then Some new else FindStatusPlatform ss n)"
proof (cases "FindStatusPlatform ss (pst_PlatformName new)")
  case None
  then show ?thesis
    by (auto simp: setStatusPlatform_def find_status_append split: option.split)
next
  case (Some s)
  then have "s\<lparr>pst_PlatformStatus := pst_PlatformStatus new, pst_LastMessage := pst_LastMessage new\<rparr> = new"
    using find_status_name by fastforce
  with Some show ?thesis by (simp add: setStatusPlatform_def find_update_found)
qed

lemma names_set_status:
  "map pst_PlatformName (setStatusPlatform ss new) =
     (if pst_PlatformName new \<in> pst_PlatformName ` set ss then map pst_PlatformName ss
      else map pst_PlatformName ss @ [pst_PlatformName new])"
proof (cases "FindStatusPlatform ss (pst_PlatformName new)")
  case None
  then have "pst_PlatformName new \<notin> pst_PlatformName ` set ss" by (simp add: find_status_none)
  with None show ?thesis by (simp add: setStatusPlatform_def)
next
  case (Some s)
  then have "pst_PlatformName new \<in> pst_PlatformName ` set ss"
    using find_status_none [of ss "pst_PlatformName new"] by simp
  with Some show ?thesis by (simp add: setStatusPlatform_def names_update_found)
qed

text \<open>The list of platform states is a map: writing the state of a platform makes exactly that
  state what is found under its name, leaves what is found under every other name, never moves
  an entry, appends a new name at the end, and keeps the names distinct.\<close>

theorem platform_status_map:
  "FindStatusPlatform (setStatusPlatform ss new) n =
     (if n = pst_PlatformName new then Some new else FindStatusPlatform ss n) \<and>
   map pst_PlatformName (setStatusPlatform ss new) = map pst_PlatformName ss @
     (if FindStatusPlatform ss (pst_PlatformName new) = None then [pst_PlatformName new] else []) \<and>
   (distinct (map pst_PlatformName (setStatusPlatform ss new)) \<longleftrightarrow> distinct (map pst_PlatformName ss))"
proof (intro conjI)
  show "map pst_PlatformName (setStatusPlatform ss new) = map pst_PlatformName ss @
      (if FindStatusPlatform ss (pst_PlatformName new) = None then [pst_PlatformName new] else [])"
    using names_set_status [of ss new] find_status_none [of ss "pst_PlatformName new"] by simp
  then show "distinct (map pst_PlatformName (setStatusPlatform ss new)) \<longleftrightarrow>
      distinct (map pst_PlatformName ss)"
    using find_status_none [of ss "pst_PlatformName new"] by simp
qed (rule find_set_status)

subsection \<open>The contract of the reconcilers, and the loop\<close>

text \<open>Whatever reconciler the controller picks, it meets the contract.\<close>

lemma reconciler_contract:
  "getReconcilerForPlatform P config = Some r \<Longrightarrow> platform_reconciler_contract r"
  using provider_installation.platform_reconciler_contract_axioms
    plugin_installation.platform_reconciler_contract_axioms
    quickstart_installation.platform_reconciler_contract_axioms
    observability_installation.platform_reconciler_contract_axioms
  by (auto simp: getReconcilerForPlatform_def split: if_splits)

lemma every_platform_has_a_reconciler:
  "(n, config) \<in> set (InstallationPlatforms P) \<Longrightarrow> getReconcilerForPlatform P config \<noteq> None"
  using platform_types [of n config P] by (auto simp: getReconcilerForPlatform_def)

fun is_platform_update :: "event \<Rightarrow> bool" where
  "is_platform_update (EvPlatform (StatusUpdatePlatform x)) = True"
| "is_platform_update e = False"

lemma quiet_not_platform_update: "\<not> reports e \<Longrightarrow> \<not> is_platform_update e"
  by (cases e rule: is_platform_update.cases) simp_all

lemma telemetry_not_platform_update: "telemetry e \<Longrightarrow> \<not> is_platform_update e"
  by (cases e rule: is_platform_update.cases) simp_all

text \<open>A platform is recorded as installed.\<close>

definition installed :: "DBaaSPlatformStatus \<Rightarrow> PlatformName \<Rightarrow> bool" where
  "installed st n \<longleftrightarrow> (\<exists>s. FindStatusPlatform (plst_PlatformsStatus st) n = Some s \<and>
     pst_PlatformStatus s = ResultSuccess)"

lemma visit_platform_runs:
  assumes "getReconcilerForPlatform P config = Some r"
  shows "runs (visit_platform P cr n config r) h
     (\<lambda>x t. result_ok x \<and> list_all (\<lambda>e. \<not> is_platform_update e) t)"
proof -
  note contract = reconciler_contract [OF assms]
  have quiet: "list_all (\<lambda>e. \<not> is_platform_update e) t" if "list_all (\<lambda>e. \<not> reports e) t" for t
    using that quiet_not_platform_update by (auto simp: list_all_iff)
  have metric: "only (\<lambda>e. \<not> is_platform_update e) (SetPlatformStatusMetric n s v)" for s v
    by (rule only_SetPlatformStatusMetric) (rule telemetry_not_platform_update)
  show ?thesis
    unfolding visit_platform_def
    by (intro runs_intros runs_only [OF metric]
        platform_reconciler_contract.reconcile_runs [OF contract, THEN runs_conseq]
        platform_reconciler_contract.cleanup_runs [OF contract, THEN runs_conseq])
      (auto simp: quiet)
qed

text \<open>What the loop returns, for platforms that each have a reconciler.\<close>

definition loop_result ::
    "penv \<Rightarrow> DBaaSPlatform \<Rightarrow> PlatformName set \<Rightarrow> DBaaSPlatformStatus \<Rightarrow>
     go_error + bool \<times> DBaaSPlatformStatus \<Rightarrow> bool" where
  "loop_result P cr names st r \<longleftrightarrow>
     (\<forall>finished st'. r = Inr (finished, st') \<longrightarrow>
        (finished \<longrightarrow> plst_Conditions st' = plst_Conditions st \<and>
           (\<forall>n. n \<in> names \<or> installed st n \<longrightarrow> installed st' n)) \<and>
        (\<not> finished \<longrightarrow> (\<exists>n \<in> names. \<not> installed st' n) \<and>
           (om_DeletionTimestamp (plat_ObjectMeta cr) = None \<longrightarrow>
              plst_Conditions st' = plst_Conditions
                (set_ready (p_env P) st ConditionFalse InstallationInprogress
                   ''DBaaS platform stack install in progress''))))"

lemma installed_set_status:
  "installed (st\<lparr>plst_PlatformsStatus := setStatusPlatform (plst_PlatformsStatus st) new\<rparr>) n \<longleftrightarrow>
     (if n = pst_PlatformName new then pst_PlatformStatus new = ResultSuccess else installed st n)"
  by (auto simp: installed_def find_set_status)

lemma installed_set_ready [simp]: "installed (set_ready E st c r m) n \<longleftrightarrow> installed st n"
  by (simp add: installed_def set_ready_def)

lemma set_ready_cong:
  "plst_Conditions st = plst_Conditions st' \<Longrightarrow>
     plst_Conditions (set_ready E st c r m) = plst_Conditions (set_ready E st' c r m)"
  by (simp add: set_ready_def)

lemma stack_in_progress_runs:
  "runs (stack_in_progress P ex cr st) h (\<lambda>st' t. list_all (\<lambda>e. \<not> is_platform_update e) t \<and>
     (\<forall>n. installed st' n \<longleftrightarrow> installed st n) \<and>
     (om_DeletionTimestamp (plat_ObjectMeta cr) = None \<longrightarrow>
        plst_Conditions st' = plst_Conditions (set_ready (p_env P) st ConditionFalse
          InstallationInprogress ''DBaaS platform stack install in progress'')))"
proof -
  have metric: "only (\<lambda>e. \<not> is_platform_update e) (PlatformStackInstallationMetric E c v x)" for E c v x
    by (rule only_PlatformStackInstallationMetric) (rule telemetry_not_platform_update)
  show ?thesis
    unfolding stack_in_progress_def by (intro runs_intros runs_only [OF metric]) auto
qed

definition record_status :: "DBaaSPlatformStatus \<Rightarrow> PlatformStatus \<Rightarrow> DBaaSPlatformStatus" where
  "record_status st new =
     st\<lparr>plst_PlatformsStatus := setStatusPlatform (plst_PlatformsStatus st) new\<rparr>"

lemma installed_record [simp]:
  "installed (record_status st new) n \<longleftrightarrow>
     (if n = pst_PlatformName new then pst_PlatformStatus new = ResultSuccess else installed st n)"
  by (simp add: record_status_def installed_set_status)

lemma conditions_record [simp]: "plst_Conditions (record_status st new) = plst_Conditions st"
  by (simp add: record_status_def)

lemma set_ready_record [simp]:
  "plst_Conditions (set_ready E (record_status st new) c r m) = plst_Conditions (set_ready E st c r m)"
  by (simp add: set_ready_def)

lemma loop_result_success:
  assumes r: "loop_result P cr names (record_status st new) r"
    and new: "pst_PlatformStatus new = ResultSuccess"
  shows "loop_result P cr (insert (pst_PlatformName new) names) st r"
  unfolding loop_result_def
proof (intro allI impI)
  fix finished st'
  assume eq: "r = Inr (finished, st')"
  have old: "installed (record_status st new) n" if "n = pst_PlatformName new \<or> installed st n" for n
    using that new by auto
  have fin: "installed st' n" if "finished" "n \<in> names \<or> installed (record_status st new) n" for n
    using r that unfolding loop_result_def eq by blast
  have "installed st' n" if "finished" "n \<in> insert (pst_PlatformName new) names \<or> installed st n" for n
    using that fin old by blast
  then show "(finished \<longrightarrow> plst_Conditions st' = plst_Conditions st \<and>
      (\<forall>n. n \<in> insert (pst_PlatformName new) names \<or> installed st n \<longrightarrow> installed st' n)) \<and>
    (\<not> finished \<longrightarrow> (\<exists>n \<in> insert (pst_PlatformName new) names. \<not> installed st' n) \<and>
      (om_DeletionTimestamp (plat_ObjectMeta cr) = None \<longrightarrow>
         plst_Conditions st' = plst_Conditions (set_ready (p_env P) st ConditionFalse
           InstallationInprogress ''DBaaS platform stack install in progress'')))"
    using r unfolding loop_result_def eq set_ready_record conditions_record by blast
qed

lemma loop_result_success':
  "loop_result P cr names (record_status st
     \<lparr>pst_PlatformName = n, pst_PlatformStatus = ResultSuccess, pst_LastMessage = m\<rparr>) r \<Longrightarrow>
   loop_result P cr (insert n names) st r"
  using loop_result_success [of P cr names st] by force

lemma loop_result_stop:
  assumes "\<forall>n. installed st' n \<longleftrightarrow> (if n = platform then status = ResultSuccess else installed st n)"
    and "status \<noteq> ResultSuccess"
    and "om_DeletionTimestamp (plat_ObjectMeta cr) = None \<longrightarrow>
       plst_Conditions st' = plst_Conditions (set_ready (p_env P) st ConditionFalse
         InstallationInprogress ''DBaaS platform stack install in progress'')"
  shows "loop_result P cr (insert platform names) st (Inr (False, st'))"
  using assms unfolding loop_result_def by auto

lemma platform_loop_runs:
  assumes "\<forall>(n, config) \<in> set ps. getReconcilerForPlatform P config \<noteq> None"
  shows "runs (platform_loop P ex cr ps st) h (\<lambda>r t.
     list_all (\<lambda>e. \<not> is_platform_update e) t \<and> loop_result P cr (fst ` set ps) st r)"
  using assms
proof (induction ps arbitrary: st h)
  case Nil
  then show ?case by (auto intro!: runs_intros simp: loop_result_def)
next
  case (Cons p ps)
  obtain platform config where p: "p = (platform, config)" by (cases p)
  obtain r where r: "getReconcilerForPlatform P config = Some r"
    using Cons.prems p by auto
  have rest: "\<forall>(n, config) \<in> set ps. getReconcilerForPlatform P config \<noteq> None"
    using Cons.prems by simp
  show ?case
    unfolding p platform_loop.simps r option.case record_status_def [symmetric]
    by (intro runs_intros visit_platform_runs [OF r, THEN runs_conseq]
        stack_in_progress_runs [THEN runs_conseq] Cons.IH [OF rest, THEN runs_conseq])
      (auto simp: loop_result_def [where r = "Inl x" for x]
        intro: loop_result_success' intro!: loop_result_stop)
qed

subsection \<open>What else a reconciliation does\<close>

text \<open>
  Reading, reporting, and what the two repairs delete: outdated webhook configurations and the
  deployment of the RDS controller.
\<close>

definition housekeeping :: "env \<Rightarrow> event \<Rightarrow> bool" where
  "housekeeping E e \<longleftrightarrow> is_read e \<or> telemetry e \<or> (\<exists>r. e = EvPlatform r \<and>
     (is_platform_read r \<or> (\<exists>w. r = DeleteWebhookConfiguration w) \<or>
      r = DeleteDeployment (InstallNamespace E, ''ack-rds-controller'')))"

lemma housekeeping_simps [simp]:
  "is_read e \<Longrightarrow> housekeeping E e" "telemetry e \<Longrightarrow> housekeeping E e"
  "is_platform_read r \<Longrightarrow> housekeeping E (EvPlatform r)"
  "housekeeping E (EvPlatform (DeleteWebhookConfiguration w))"
  "housekeeping E (EvPlatform (DeleteDeployment (InstallNamespace E, ''ack-rds-controller'')))"
  by (simp_all add: housekeeping_def)

lemma housekeeping_not_update: "housekeeping E e \<Longrightarrow> \<not> is_platform_update e"
  by (cases e rule: is_platform_update.cases) (simp_all add: housekeeping_def)

lemma only_check_crds [only_intros]:
  "(\<And>n. Q (EvPlatform (GetCRD n))) \<Longrightarrow> only Q (check_crds P ns)"
  by (induction ns) (auto intro!: only_intros)

lemma only_checkConversionWebhookHealth [only_intros]:
  "(\<And>n. Q (EvPlatform (GetCRD n))) \<Longrightarrow> only Q (checkConversionWebhookHealth P ws)"
  by (induction ws) (auto intro!: only_intros)

lemma only_delete_old_webhooks [only_intros]:
  "(\<And>w. Q (EvPlatform (DeleteWebhookConfiguration w))) \<Longrightarrow> only Q (delete_old_webhooks P t ws)"
  by (induction ws) (auto intro!: only_intros)

lemma only_fixConversionWebhooks: "only (housekeeping (p_env P)) (fixConversionWebhooks P)"
  unfolding fixConversionWebhooks_def GetDBaaSOperatorCSV_def Let_def
  by (intro only_intros) simp_all

lemma only_fixRDSControllerUpgrade: "only (housekeeping (p_env P)) (fixRDSControllerUpgrade P)"
  unfolding fixRDSControllerUpgrade_def Let_def by (intro only_intros) simp_all

lemma only_setOpenShiftInstallationInfo:
  "only (housekeeping E) (setOpenShiftInstallationInfo P cr)"
  unfolding setOpenShiftInstallationInfo_def GetOpenshiftConsoleURL_def GetOpenshiftPlatform_def
    GetClusterIDVersion_def
  by (intro only_intros) simp_all

lemma only_platform_metrics:
  "only (housekeeping E) (SetPlatformMetrics E' cr a x ev cd)"
  "only (housekeeping E) (PlatformStackInstallationMetric E' cr v x)"
  "only (housekeeping E) (PlatformInstallStart E')"
  by (intro only_intros; simp)+

lemmas only_housekeeping = only_fixConversionWebhooks only_fixRDSControllerUpgrade
  only_setOpenShiftInstallationInfo only_platform_metrics

subsection \<open>The status that is written\<close>

definition all_installed :: "penv \<Rightarrow> DBaaSPlatformStatus \<Rightarrow> bool" where
  "all_installed P st \<longleftrightarrow> (\<forall>n \<in> fst ` set (InstallationPlatforms P). installed st n)"

text \<open>
  The status \<open>x\<close> that a reconciliation writes for the platform \<open>cr\<close>: metadata and spec are the
  platform's own; the conditions say not ready while something is missing, say ready when
  everything is installed for the first time, and are not touched later.
\<close>

definition status_justified :: "penv \<Rightarrow> bool \<Rightarrow> DBaaSPlatform \<Rightarrow> DBaaSPlatform \<Rightarrow> bool" where
  "status_justified P installComplete cr x \<longleftrightarrow>
     plat_ObjectMeta x = plat_ObjectMeta cr \<and> plat_Spec x = plat_Spec cr \<and>
     om_DeletionTimestamp (plat_ObjectMeta cr) = None \<and>
     plst_Conditions (plat_Status x) =
       (if \<not> all_installed P (plat_Status x)
        then plst_Conditions (set_ready (p_env P) (plat_Status cr) ConditionFalse InstallationInprogress
               ''DBaaS platform stack install in progress'')
        else if \<not> installComplete
        then plst_Conditions (set_ready (p_env P) (plat_Status cr) ConditionTrue Ready
               ''DBaaS platform stack installation complete'')
        else plst_Conditions (plat_Status cr))"

definition platform_updates :: "event list \<Rightarrow> DBaaSPlatform set" where
  "platform_updates t = {x. EvPlatform (StatusUpdatePlatform x) \<in> set t}"

lemma platform_updates_simps [simp]:
  "platform_updates [] = {}"
  "platform_updates (t @ u) = platform_updates t \<union> platform_updates u"
  "platform_updates [EvPlatform (StatusUpdatePlatform x)] = {x}"
  by (auto simp: platform_updates_def)

lemma platform_updates_Cons [simp]:
  "\<not> is_platform_update e \<Longrightarrow> platform_updates (e # t) = platform_updates t"
  by (auto simp: platform_updates_def)

lemma no_platform_updates: "list_all (\<lambda>e. \<not> is_platform_update e) t \<Longrightarrow> platform_updates t = {}"
  by (auto simp: platform_updates_def list_all_iff)

lemma housekeeping_no_updates: "list_all (housekeeping E) t \<Longrightarrow> platform_updates t = {}"
  using housekeeping_not_update by (intro no_platform_updates) (auto simp: list_all_iff)

text \<open>The same updates in order, each as often as it was sent.\<close>

fun update_of :: "event \<Rightarrow> DBaaSPlatform list" where
  "update_of (EvPlatform (StatusUpdatePlatform x)) = [x]"
| "update_of e = []"

definition sent_updates :: "event list \<Rightarrow> DBaaSPlatform list" where
  "sent_updates t = concat (map update_of t)"

lemma update_of_other [simp]: "\<not> is_platform_update e \<Longrightarrow> update_of e = []"
  by (cases e rule: update_of.cases) simp_all

lemma sent_updates_simps [simp]:
  "sent_updates [] = []"
  "sent_updates (t @ u) = sent_updates t @ sent_updates u"
  "sent_updates (e # t) = update_of e @ sent_updates t"
  by (simp_all add: sent_updates_def)

lemma set_sent_updates: "set (sent_updates t) = platform_updates t"
proof (induction t)
  case (Cons e t)
  then show ?case by (cases e rule: update_of.cases) (auto simp: platform_updates_def)
qed simp

lemma none_sent: "sent_updates t = [] \<longleftrightarrow> platform_updates t = {}"
  by (simp flip: set_sent_updates)

lemma housekeeping_none_sent: "list_all (housekeeping E) t \<Longrightarrow> sent_updates t = []"
  by (simp add: none_sent housekeeping_no_updates)

lemma all_installed_loop:
  assumes "loop_result P cr (fst ` set (InstallationPlatforms P)) st (Inr (finished, st'))"
  shows "all_installed P st' \<longleftrightarrow> finished"
  using assms unfolding loop_result_def all_installed_def by blast

lemma all_installed_set_ready [simp]: "all_installed P (set_ready E st c r m) = all_installed P st"
  by (simp add: all_installed_def)

lemma ranged_platforms:
  assumes "range_contract P"
  shows "set (p_RangePlatforms P (InstallationPlatforms P)) = set (InstallationPlatforms P)"
  using assms unfolding range_contract_def by (metis set_mset_mset)

lemma updateStatus_runs:
  "runs (updateStatus P cr st) h (\<lambda>r t. fst r \<noteq> Panicked \<and>
     t = (if plat_Status cr = st then [] else [EvPlatform (StatusUpdatePlatform (cr\<lparr>plat_Status := st\<rparr>))]))"
  unfolding updateStatus_def Let_def by (intro runs_intros) (auto split: sum.splits)

lemma loop_status_justified:
  assumes "loop_result P cr (fst ` set (InstallationPlatforms P)) (plat_Status cr) (Inr (finished, st))"
    and "om_DeletionTimestamp (plat_ObjectMeta cr) = None"
  shows "finished \<Longrightarrow> \<not> c \<Longrightarrow> status_justified P c cr (cr\<lparr>plat_Status :=
      set_ready (p_env P) st ConditionTrue Ready ''DBaaS platform stack installation complete''\<rparr>)"
    and "finished \<longrightarrow> c \<Longrightarrow> status_justified P c cr (cr\<lparr>plat_Status := st\<rparr>)"
proof -
  note all = all_installed_loop [OF assms(1)]
  have cond: "finished \<Longrightarrow> plst_Conditions st = plst_Conditions (plat_Status cr)"
    and stop: "\<not> finished \<Longrightarrow> plst_Conditions st = plst_Conditions (set_ready (p_env P) (plat_Status cr)
      ConditionFalse InstallationInprogress ''DBaaS platform stack install in progress'')"
    using assms unfolding loop_result_def by blast+
  show "status_justified P c cr (cr\<lparr>plat_Status :=
      set_ready (p_env P) st ConditionTrue Ready ''DBaaS platform stack installation complete''\<rparr>)"
    if "finished" "\<not> c"
    using that all set_ready_cong [OF cond] by (simp add: status_justified_def assms(2))
  show "status_justified P c cr (cr\<lparr>plat_Status := st\<rparr>)" if "finished \<longrightarrow> c"
    using that all cond stop by (auto simp: status_justified_def assms(2))
qed

lemma reconcile_deleted:
  assumes "om_DeletionTimestamp (plat_ObjectMeta cr) \<noteq> None"
  shows "reconcile_platform_object P ex c cr = do {
     setOpenShiftInstallationInfo P cr;
     r \<leftarrow> updateStatus P cr (plat_Status cr);
     ret (r, c)
   }"
  using assms by (simp add: reconcile_platform_object_def)

lemma reconcile_present:
  assumes "om_DeletionTimestamp (plat_ObjectMeta cr) = None"
  shows "reconcile_platform_object P ex c cr = do {
     setOpenShiftInstallationInfo P cr;
     r \<leftarrow> platform_loop P ex cr (p_RangePlatforms P (InstallationPlatforms P)) (plat_Status cr);
     case r of
       Inl err \<Rightarrow> ret ((Returned Result_zero (Some err), cr), c)
     | Inr (finished, nextStatus) \<Rightarrow>
         if finished \<and> \<not> c then do {
           PlatformStackInstallationMetric (p_env P) cr (p_operatorNameVersion P) ex;
           r \<leftarrow> updateStatus P cr (set_ready (p_env P) nextStatus ConditionTrue Ready
                  ''DBaaS platform stack installation complete'');
           ret (r, True)
         }
         else do {
           r \<leftarrow> updateStatus P cr nextStatus;
           ret (r, c)
         }
   }"
  using assms by (simp add: reconcile_platform_object_def)

lemma reconcile_platform_object_runs:
  assumes "range_contract P"
  shows "runs (reconcile_platform_object P ex c cr) h (\<lambda>r t.
     fst (fst r) \<noteq> Panicked \<and> (c \<longrightarrow> snd r) \<and>
     (\<forall>x \<in> platform_updates t. status_justified P c cr x) \<and>
     (om_DeletionTimestamp (plat_ObjectMeta cr) \<noteq> None \<longrightarrow> list_all (housekeeping (p_env P)) t))"
proof (cases "om_DeletionTimestamp (plat_ObjectMeta cr) = None")
  case True
  have ps: "\<forall>(n, config) \<in> set (p_RangePlatforms P (InstallationPlatforms P)).
      getReconcilerForPlatform P config \<noteq> None"
    using every_platform_has_a_reconciler by (auto simp: ranged_platforms [OF assms])
  note loop = platform_loop_runs [OF ps, unfolded ranged_platforms [OF assms]]
  show ?thesis
    unfolding reconcile_present [OF True]
    by (intro runs_intros runs_only [OF only_setOpenShiftInstallationInfo [where E = "p_env P"]]
        loop [THEN runs_conseq] runs_only [OF only_platform_metrics(2) [where E = "p_env P"]]
        updateStatus_runs [THEN runs_conseq])
      (simp_all add: True, (auto simp: housekeeping_no_updates no_platform_updates
        intro: runs_intros loop_status_justified [OF _ True])?)
next
  case False
  then show ?thesis
    unfolding reconcile_deleted [OF False]
    by (intro runs_intros runs_only [OF only_setOpenShiftInstallationInfo [where E = "p_env P"]]
        updateStatus_runs [THEN runs_conseq])
      (auto simp: housekeeping_no_updates)
qed

lemma platform_reconcile_all:
  assumes "range_contract P"
  shows "runs (DBaaSPlatform_Reconcile P c req) h (\<lambda>r t.
     fst r \<noteq> Panicked \<and> (c \<longrightarrow> snd r) \<and>
     (\<forall>x \<in> platform_updates t. \<exists>cr. p_GetPlatform P (h @ [EvNow]) req = Inr cr \<and>
        status_justified P c cr x) \<and>
     (\<forall>cr. p_GetPlatform P (h @ [EvNow]) req = Inr cr \<and>
        om_DeletionTimestamp (plat_ObjectMeta cr) \<noteq> None \<longrightarrow> list_all (housekeeping (p_env P)) t))"
  unfolding DBaaSPlatform_Reconcile_def PlatformInstallStart_def Let_def
  by (intro runs_intros runs_only [OF only_fixConversionWebhooks]
      runs_only [OF only_fixRDSControllerUpgrade]
      reconcile_platform_object_runs [OF assms, THEN runs_conseq]
      runs_only [OF only_platform_metrics(1) [where E = "p_env P"]])
    (auto simp: housekeeping_no_updates)

text \<open>
  A concrete reconciliation: Go visits the table from its end, the observability platform has
  nothing to do, and the RDS provider's operator is not running yet.
\<close>

definition demo_platform_env :: penv where
  "demo_platform_env = demo_penv\<lparr>p_RangePlatforms := rev\<rparr>"

lemma demo_platform_contracts:
  "range_contract demo_platform_env" "conditions_contract (p_env demo_platform_env)"
  using demo_conditions_contract
  by (simp_all add: demo_platform_env_def range_contract_def env_simps)

lemma demo_platform_env_simps [env_simps]:
  "p_env demo_platform_env = demo_env"
  "p_Ack demo_platform_env = (\<lambda>h r. None)"
  "p_GetSubscription demo_platform_env = (\<lambda>h k. no_object)"
  "p_ListDeployments demo_platform_env = (\<lambda>h ns. Inr [demo_deployment ''operator''])"
  "p_RangePlatforms demo_platform_env = rev"
  "p_GetPlatform demo_platform_env = (\<lambda>h k. Inr demo_platform)"
  by (simp_all add: demo_platform_env_def demo_penv_def)

lemma demo_observability:
  "fst (run_state (pr_Reconcile (observability_installation demo_platform_env) cr) h) = success"
  by (simp add: observability_installation_def observability_Reconcile_def cleanObsOldSubscription_def
      next_step_def delete_step_def success_def env_simps Let_def)

lemma demo_provider_waits:
  "pc_DeploymentName c \<noteq> ''operator'' \<Longrightarrow>
     fst (run_state (pr_Reconcile (provider_installation demo_platform_env c) cr) h) = in_progress"
  by (simp add: provider_installation_def provider_Reconcile_def provider_step_defs apply_step_def
      next_step_def success_def in_progress_def env_simps demo_deployment_def zero_Deployment_def)

lemma runs_visit_value:
  assumes "getReconcilerForPlatform P config = Some r"
    and "om_DeletionTimestamp (plat_ObjectMeta cr) = None"
    and "\<And>h. fst (run_state (pr_Reconcile r cr) h) = v"
  shows "runs (visit_platform P cr n config r) h (\<lambda>x t. x = v)"
proof -
  have "runs (pr_Reconcile r cr) h (\<lambda>x t. x = v)"
    using platform_reconciler_contract.reconcile_runs [OF reconciler_contract [OF assms(1)], of cr h]
      assms(3) by (auto simp: runs_def)
  then show ?thesis
    unfolding visit_platform_def
    by (intro runs_intros runs_only [OF only_SetPlatformStatusMetric [where P = "\<lambda>e. True"]])
      (auto simp: assms(2) intro!: runs_intros runs_only [OF only_SetPlatformStatusMetric [where P = "\<lambda>e. True"]]
        elim!: runs_conseq)
qed

text \<open>The two platforms that this run visits.\<close>

lemma demo_ranged:
  "\<exists>rds rest. rev (InstallationPlatforms demo_platform_env) =
     (ObservabilityInstallation, zero_PlatformConfig\<lparr>pc_Name := ObservabilityName,
        pc_DisplayName := ObservabilityDisplayName, pc_Type := TypeObservability\<rparr>) #
     (RDSProviderInstallation, rds) # rest \<and>
   pc_Type rds = TypeOperator \<and> pc_DeploymentName rds = rdsProviderDeployment"
  by (simp add: InstallationPlatforms_def)

lemma demo_loop:
  "runs (platform_loop demo_platform_env ex demo_platform
      (rev (InstallationPlatforms demo_platform_env)) (plat_Status demo_platform)) h
     (\<lambda>r t. \<exists>st. r = Inr (False, st) \<and> plst_Conditions st \<noteq> [])"
proof -
  obtain rds rest where ps: "rev (InstallationPlatforms demo_platform_env) =
     (ObservabilityInstallation, zero_PlatformConfig\<lparr>pc_Name := ObservabilityName,
        pc_DisplayName := ObservabilityDisplayName, pc_Type := TypeObservability\<rparr>) #
     (RDSProviderInstallation, rds) # rest"
    and rds: "pc_Type rds = TypeOperator" "pc_DeploymentName rds = rdsProviderDeployment"
    using demo_ranged by blast
  have live: "om_DeletionTimestamp (plat_ObjectMeta demo_platform) = None"
    and fresh: "plst_Conditions (plat_Status demo_platform) = []"
    by (simp_all add: demo_platform_def zero_DBaaSPlatform_def)
  have obs: "getReconcilerForPlatform demo_platform_env (zero_PlatformConfig\<lparr>pc_Name := n,
      pc_DisplayName := d, pc_Type := TypeObservability\<rparr>) =
      Some (observability_installation demo_platform_env)" for n d
    by (simp add: getReconcilerForPlatform_def)
  have prov: "getReconcilerForPlatform demo_platform_env rds =
      Some (provider_installation demo_platform_env rds)"
    by (simp add: getReconcilerForPlatform_def rds)
  have wait: "fst (run_state (pr_Reconcile (provider_installation demo_platform_env rds) cr) h) = in_progress"
    for cr h
    by (rule demo_provider_waits) (simp add: rds)
  show ?thesis
    unfolding ps platform_loop.simps obs prov option.case
    by (intro runs_intros runs_visit_value [OF obs live demo_observability, THEN runs_conseq]
        runs_visit_value [OF prov live wait, THEN runs_conseq] stack_in_progress_runs [THEN runs_conseq])
      (auto simp: success_def in_progress_def live set_ready_def setStatusCondition_def fresh env_simps)
qed

lemma demo_platform_written:
  "\<exists>x. x \<in> platform_updates
     (snd (run_state (DBaaSPlatform_Reconcile demo_platform_env False ([], [])) []))"
proof -
  have live: "om_DeletionTimestamp (plat_ObjectMeta demo_platform) = None"
    and fresh: "plst_Conditions (plat_Status demo_platform) = []"
    by (simp_all add: demo_platform_def zero_DBaaSPlatform_def)
  have object: "runs (reconcile_platform_object demo_platform_env ex False demo_platform) h
      (\<lambda>r t. platform_updates t \<noteq> {})" for ex h
    unfolding reconcile_present [OF live] demo_platform_env_simps(5)
    by (intro runs_intros runs_only [OF only_setOpenShiftInstallationInfo [where E = demo_env]]
        demo_loop [THEN runs_conseq] updateStatus_runs [THEN runs_conseq])
      (use fresh in auto)
  then have object': "cr = demo_platform \<Longrightarrow> runs (reconcile_platform_object demo_platform_env ex False cr) h
      (\<lambda>r t. platform_updates t \<noteq> {})" for ex h cr
    by simp
  have "runs (DBaaSPlatform_Reconcile demo_platform_env False ([], [])) []
      (\<lambda>r t. platform_updates t \<noteq> {})"
    unfolding DBaaSPlatform_Reconcile_def PlatformInstallStart_def Let_def env_simps
    by (intro runs_intros runs_only [OF only_fixConversionWebhooks]
        runs_only [OF only_fixRDSControllerUpgrade] object' [THEN runs_conseq]
        runs_only [OF only_platform_metrics(1) [where E = demo_env]])
      (auto simp: env_simps)
  then show ?thesis by (auto simp: runs_def)
qed

text \<open>C10: Reconciling a platform never panics, and every status it writes is justified: it keeps
  metadata and spec of the platform as read, says not ready as long as some platform is not
  recorded as installed in that very status, says ready when all are and the installation had
  not been completed before in this process, and leaves the conditions alone once it had; this
  for every order in which Go visits the platforms, and whatever their reconcilers meet.\<close>

theorem platform_status_justified:
  assumes "range_contract P"
  shows "runs (DBaaSPlatform_Reconcile P installComplete req) h (\<lambda>(out, installComplete') t.
     out \<noteq> Panicked \<and> (installComplete \<longrightarrow> installComplete') \<and>
     (\<forall>x \<in> platform_updates t. \<exists>cr. p_GetPlatform P (h @ [EvNow]) req = Inr cr \<and>
        status_justified P installComplete cr x))"
  using platform_reconcile_all [OF assms] by (rule runs_conseq) auto

theorem platform_status_justified_witness:
  "\<exists>x. x \<in> platform_updates
       (snd (run_state (DBaaSPlatform_Reconcile demo_platform_env False ([], [])) [])) \<and>
     status_justified demo_platform_env False demo_platform x"
  using demo_platform_written
    platform_status_justified [OF demo_platform_contracts(1), of False "([], [])" "[]"]
  by (auto simp: runs_def env_simps)

text \<open>A platform is reported ready.\<close>

definition platform_ready :: "penv \<Rightarrow> DBaaSPlatform \<Rightarrow> bool" where
  "platform_ready P x \<longleftrightarrow>
     IsStatusConditionTrue (p_env P) (plst_Conditions (plat_Status x)) DBaaSPlatformReadyType"

lemma justified_ready:
  assumes "conditions_contract (p_env P)" "status_justified P c cr x"
  shows "platform_ready P x \<longleftrightarrow> all_installed P (plat_Status x) \<and> (c \<longrightarrow> platform_ready P cr)"
  using assms is_true_set_same [OF assms(1), of _ "mkCondition DBaaSPlatformReadyType st r m" for st r m]
  by (auto simp: platform_ready_def status_justified_def set_ready_def setStatusCondition_def
      split: if_splits)

text \<open>A status that a reconciliation writes reports the platform ready only if every platform of
  the table is recorded in it as successfully installed. But once the process has completed an
  installation, a platform that was read not ready is never reported ready again, even by a
  status that records every platform as installed.\<close>

theorem platform_ready_needs_all:
  assumes "range_contract P" "conditions_contract (p_env P)"
  shows "runs (DBaaSPlatform_Reconcile P installComplete req) h (\<lambda>r t.
     \<forall>x \<in> platform_updates t. \<exists>cr. p_GetPlatform P (h @ [EvNow]) req = Inr cr \<and>
       (platform_ready P x \<longleftrightarrow>
          all_installed P (plat_Status x) \<and> (installComplete \<longrightarrow> platform_ready P cr)))"
  using platform_reconcile_all [OF assms(1)]
  by (rule runs_conseq) (use justified_ready [OF assms(2)] in blast)

theorem platform_ready_needs_all_witness:
  "\<exists>x. x \<in> platform_updates
       (snd (run_state (DBaaSPlatform_Reconcile demo_platform_env False ([], [])) [])) \<and>
     (platform_ready demo_platform_env x \<longleftrightarrow> all_installed demo_platform_env (plat_Status x))"
  using demo_platform_written
    platform_ready_needs_all [OF demo_platform_contracts, of False "([], [])" "[]"]
  by (auto simp: runs_def)

text \<open>C22: Reconciling a platform that is being deleted removes nothing that was installed for it: all
  it does is to read, to report metrics and to run the two repairs; the clean-up of the
  platform reconcilers is never called.\<close>

theorem deleted_platform_not_cleaned_up:
  assumes "range_contract P" "p_GetPlatform P (h @ [EvNow]) req = Inr cr"
    and "om_DeletionTimestamp (plat_ObjectMeta cr) \<noteq> None"
  shows "runs (DBaaSPlatform_Reconcile P installComplete req) h
     (\<lambda>r t. list_all (housekeeping (p_env P)) t)"
  using platform_reconcile_all [OF assms(1)] by (rule runs_conseq) (use assms(2,3) in blast)

text \<open>The example with a platform that is being deleted.\<close>

definition demo_deleted_env :: penv where
  "demo_deleted_env = demo_platform_env\<lparr>p_GetPlatform := \<lambda>h k. Inr (zero_DBaaSPlatform
     \<lparr>plat_ObjectMeta := zero_ObjectMeta\<lparr>om_DeletionTimestamp := Some 1\<rparr>\<rparr>)\<rparr>"

theorem deleted_platform_not_cleaned_up_witness:
  "list_all (housekeeping demo_env)
     (snd (run_state (DBaaSPlatform_Reconcile demo_deleted_env False ([], [])) []))"
proof -
  have "range_contract demo_deleted_env"
    by (simp add: demo_deleted_env_def range_contract_def demo_platform_env_def env_simps)
  from deleted_platform_not_cleaned_up [OF this, of "[]" "([], [])" "zero_DBaaSPlatform
      \<lparr>plat_ObjectMeta := zero_ObjectMeta\<lparr>om_DeletionTimestamp := Some 1\<rparr>\<rparr>" False]
  have "runs (DBaaSPlatform_Reconcile demo_deleted_env False ([], [])) []
      (\<lambda>r t. list_all (housekeeping (p_env demo_deleted_env)) t)"
    by (simp add: demo_deleted_env_def)
  then show ?thesis by (auto simp: runs_def demo_deleted_env_def env_simps)
qed

end
