(* ===== verification/Platform_History.thy ===== *)
theory Platform_History
  imports Platform_Controller
begin

section \<open>The platform over time\<close>

text \<open>
  The platform resource and the field \<open>installComplete\<close> of the controller through any sequence
  of reconciliations, edits of the resource and restarts of the process. The history of these
  two is a step relation; it refines a small abstract machine of three flags, on which what can
  and what can never happen is read off.
\<close>

subsection \<open>What the loop records\<close>

text \<open>The status after every one of the platforms has been recorded as installed, in order.\<close>

definition record_installed :: "DBaaSPlatformStatus \<Rightarrow> PlatformName list \<Rightarrow> DBaaSPlatformStatus" where
  "record_installed = foldl (\<lambda>st n. record_status st
     \<lparr>pst_PlatformName = n, pst_PlatformStatus = ResultSuccess, pst_LastMessage = []\<rparr>)"

lemma record_installed_simps [simp]:
  "record_installed st [] = st"
  "record_installed st (n # ns) = record_installed (record_status st
     \<lparr>pst_PlatformName = n, pst_PlatformStatus = ResultSuccess, pst_LastMessage = []\<rparr>) ns"
  by (simp_all add: record_installed_def)

lemma record_installed_conditions [simp]:
  "plst_Conditions (record_installed st ns) = plst_Conditions st"
  by (induction ns arbitrary: st) simp_all

text \<open>As a map, that status does not depend on the order.\<close>

definition status_map :: "DBaaSPlatformStatus \<Rightarrow> PlatformName \<Rightarrow> PlatformStatus option" where
  "status_map st = FindStatusPlatform (plst_PlatformsStatus st)"

lemma status_map_record:
  "status_map (record_status st new) = (status_map st)(pst_PlatformName new \<mapsto> new)"
  by (auto simp: status_map_def record_status_def find_set_status)

lemma status_map_installed:
  "status_map (record_installed st ns) n = (if n \<in> set ns
     then Some \<lparr>pst_PlatformName = n, pst_PlatformStatus = ResultSuccess, pst_LastMessage = []\<rparr>
     else status_map st n)"
  by (induction ns arbitrary: st) (auto simp: status_map_record)

lemma status_map_set_ready [simp]: "status_map (set_ready E st c r m) = status_map st"
  by (simp add: status_map_def set_ready_def)

lemma installed_status_map:
  "installed st n \<longleftrightarrow> (\<exists>s. status_map st n = Some s \<and> pst_PlatformStatus s = ResultSuccess)"
  by (simp add: installed_def status_map_def)

lemma finished_loop_runs:
  assumes "\<forall>(n, config) \<in> set ps. getReconcilerForPlatform P config \<noteq> None"
  shows "runs (platform_loop P ex cr ps st) h (\<lambda>r t.
     \<forall>st'. r = Inr (True, st') \<longrightarrow> st' = record_installed st (map fst ps))"
  using assms
proof (induction ps arbitrary: st h)
  case Nil
  then show ?case by (auto intro!: runs_intros)
next
  case (Cons p ps)
  obtain platform config where p: "p = (platform, config)" by (cases p)
  obtain r where r: "getReconcilerForPlatform P config = Some r"
    using Cons.prems p by auto
  have rest: "\<forall>(n, config) \<in> set ps. getReconcilerForPlatform P config \<noteq> None"
    using Cons.prems by simp
  show ?case
    unfolding p platform_loop.simps r option.case record_status_def [symmetric]
    by (intro runs_intros visit_platform_runs [OF r, THEN runs_conseq]
        stack_in_progress_runs [THEN runs_conseq] Cons.IH [OF rest, THEN runs_conseq]) auto
qed

lemma ranged_have_reconcilers:
  assumes "range_contract P"
  shows "\<forall>(n, config) \<in> set (p_RangePlatforms P (InstallationPlatforms P)).
     getReconcilerForPlatform P config \<noteq> None"
  using every_platform_has_a_reconciler by (auto simp: ranged_platforms [OF assms])

lemma ranged_names:
  assumes "range_contract P"
  shows "set (map fst (p_RangePlatforms P (InstallationPlatforms P))) =
     fst ` set (InstallationPlatforms P)"
  by (simp add: ranged_platforms [OF assms])

lemma finished_loop_map:
  assumes "range_contract P"
    and "fst (run_state (platform_loop P ex cr (p_RangePlatforms P (InstallationPlatforms P)) st) h)
       = Inr (True, st1)"
  shows "plst_Conditions st1 = plst_Conditions st \<and>
    status_map st1 = (\<lambda>n. if n \<in> fst ` set (InstallationPlatforms P)
      then Some \<lparr>pst_PlatformName = n, pst_PlatformStatus = ResultSuccess, pst_LastMessage = []\<rparr>
      else status_map st n)"
proof -
  have "st1 = record_installed st (map fst (p_RangePlatforms P (InstallationPlatforms P)))"
    using finished_loop_runs [OF ranged_have_reconcilers [OF assms(1)], of ex cr st h] assms(2)
    by (auto simp: runs_def)
  then show ?thesis
    by (simp only: record_installed_conditions status_map_installed ranged_names [OF assms(1)] fun_eq_iff)
      simp
qed

lemma same_platform_names:
  "fst ` set (InstallationPlatforms P') = fst ` set (InstallationPlatforms P)"
  using arg_cong [OF trans [OF platform_names [of P'] platform_names [of P, symmetric]], of set]
  by simp

text \<open>C31: The order in which Go visits the platforms does not matter for what a loop that gets to
  its end records: seen as a map, every platform of the table is recorded as installed with an
  empty message and every other entry is as before, the conditions are untouched, and another
  loop from the same status, in any order and after any history, records the same map.\<close>

theorem platform_order_irrelevant:
  assumes "range_contract P" "range_contract P'"
    and "fst (run_state (platform_loop P ex cr (p_RangePlatforms P (InstallationPlatforms P)) st) h)
       = Inr (True, st1)"
    and "fst (run_state (platform_loop P' ex' cr' (p_RangePlatforms P' (InstallationPlatforms P')) st) h')
       = Inr (True, st2)"
  shows "plst_Conditions st1 = plst_Conditions st \<and> plst_Conditions st2 = plst_Conditions st \<and>
    FindStatusPlatform (plst_PlatformsStatus st1) = (\<lambda>n.
       if n \<in> fst ` set (InstallationPlatforms P)
       then Some \<lparr>pst_PlatformName = n, pst_PlatformStatus = ResultSuccess, pst_LastMessage = []\<rparr>
       else FindStatusPlatform (plst_PlatformsStatus st) n) \<and>
    FindStatusPlatform (plst_PlatformsStatus st2) = FindStatusPlatform (plst_PlatformsStatus st1)"
  using finished_loop_map [OF assms(1,3)] finished_loop_map [OF assms(2,4)]
    same_platform_names [of P' P]
  unfolding status_map_def by simp

subsection \<open>The history of the platform\<close>

text \<open>
  What lives on between reconciliations: the platform resource in the API server and the field
  \<open>installComplete\<close> of the controller.
\<close>

record platform_world =
  pw_stored :: DBaaSPlatform
  pw_complete :: bool

datatype platform_event = Reconciled | Edited | Restarted

text \<open>
  A reconciliation reads some state of the platform, in general an old one; the API server takes
  a status update only from one that has read the stored state, and it may refuse it. Users
  edit metadata and specification, also to delete the platform. A restarted process has lost
  \<open>installComplete\<close>. What the other requests are answered, and in which order the platforms are
  visited, differs between reconciliations; the two functions on conditions stay the same.
\<close>

inductive platform_step :: "env \<Rightarrow> platform_world \<Rightarrow> platform_event \<Rightarrow> platform_world \<Rightarrow> bool" for E where
  reconciled: "range_contract P \<Longrightarrow> conditions_contract (p_env P) \<Longrightarrow>
     IsStatusConditionTrue (p_env P) = IsStatusConditionTrue E \<Longrightarrow>
     p_GetPlatform P (h @ [EvNow]) req = Inr cr \<Longrightarrow>
     run_state (DBaaSPlatform_Reconcile P (pw_complete s) req) h = ((out, complete), h @ t) \<Longrightarrow>
     stored = pw_stored s \<or> cr = pw_stored s \<and> stored \<in> platform_updates t \<Longrightarrow>
     platform_step E s Reconciled \<lparr>pw_stored = stored, pw_complete = complete\<rparr>"
| edited: "plat_Status x = plat_Status (pw_stored s) \<Longrightarrow>
     platform_step E s Edited (s\<lparr>pw_stored := x\<rparr>)"
| restarted: "platform_step E s Restarted (s\<lparr>pw_complete := False\<rparr>)"

inductive_simps edited_simps: "platform_step E s Edited s'"
inductive_simps restarted_simps: "platform_step E s Restarted s'"
inductive_cases reconciledE: "platform_step E s Reconciled s'"

text \<open>What of it matters for the Ready condition.\<close>

record readiness =
  rd_ready :: bool
  rd_installed :: bool
  rd_complete :: bool

definition readiness_of :: "penv \<Rightarrow> platform_world \<Rightarrow> readiness" where
  "readiness_of P s = \<lparr>rd_ready = platform_ready P (pw_stored s),
     rd_installed = all_installed P (plat_Status (pw_stored s)),
     rd_complete = pw_complete s\<rparr>"

inductive readiness_step :: "readiness \<Rightarrow> platform_event \<Rightarrow> readiness \<Rightarrow> bool" where
  kept: "(rd_complete a \<longrightarrow> c) \<Longrightarrow> readiness_step a Reconciled (a\<lparr>rd_complete := c\<rparr>)"
| written: "(rd_complete a \<longrightarrow> c) \<Longrightarrow> readiness_step a Reconciled
     \<lparr>rd_ready = (i \<and> (rd_complete a \<longrightarrow> rd_ready a)), rd_installed = i, rd_complete = c\<rparr>"
| edited: "readiness_step a Edited a"
| restarted: "readiness_step a Restarted (a\<lparr>rd_complete := False\<rparr>)"

inductive_cases readiness_stepE: "readiness_step a e b"

lemma all_installed_same: "all_installed P' = all_installed P"
  by (simp add: fun_eq_iff all_installed_def same_platform_names [of P' P])

lemma platform_step_readiness:
  assumes "platform_step (p_env P) s e s'"
  shows "readiness_step (readiness_of P s) e (readiness_of P s')"
  using assms
proof cases
  case (reconciled P' h req cr out complete t stored)
  have runs: "(pw_complete s \<longrightarrow> complete) \<and> (\<forall>x \<in> platform_updates t. \<exists>cr.
      p_GetPlatform P' (h @ [EvNow]) req = Inr cr \<and> status_justified P' (pw_complete s) cr x)"
    using platform_reconcile_all [OF reconciled(3), THEN runsD, OF reconciled(7)] by simp
  have ready: "platform_ready P' = platform_ready P"
    by (simp add: fun_eq_iff platform_ready_def reconciled(5))
  show ?thesis
  proof (cases "stored = pw_stored s")
    case True
    then have "readiness_of P s' = (readiness_of P s)\<lparr>rd_complete := complete\<rparr>"
      by (simp add: readiness_of_def reconciled(2))
    with runs show ?thesis
      by (simp only: reconciled(1)) (rule readiness_step.kept, simp add: readiness_of_def)
  next
    case False
    then have "status_justified P' (pw_complete s) (pw_stored s) stored"
      using runs reconciled(6,8) by auto
    from justified_ready [OF reconciled(4) this]
    have "readiness_of P s' = \<lparr>rd_ready = (all_installed P (plat_Status stored) \<and>
        (rd_complete (readiness_of P s) \<longrightarrow> rd_ready (readiness_of P s))),
        rd_installed = all_installed P (plat_Status stored), rd_complete = complete\<rparr>"
      by (simp add: readiness_of_def reconciled(2) ready all_installed_same [of P' P])
    with runs show ?thesis
      by (simp only: reconciled(1)) (rule readiness_step.written, simp add: readiness_of_def)
  qed
next
  case (edited x)
  then have "readiness_of P s' = readiness_of P s"
    by (simp add: readiness_of_def platform_ready_def)
  then show ?thesis by (simp add: edited(1) readiness_step.edited)
next
  case restarted
  then have "readiness_of P s' = (readiness_of P s)\<lparr>rd_complete := False\<rparr>"
    by (simp add: readiness_of_def)
  then show ?thesis by (simp add: restarted(1) readiness_step.restarted)
qed

text \<open>C11: The reconciliation with its restarts and edits refines the machine of three flags: what is
  ready, what is recorded as installed, and whether the process has completed an installation.\<close>

theorem platform_refines_readiness:
  assumes "platform_step (p_env P) s e s'"
  shows "readiness_step (readiness_of P s) e (readiness_of P s')"
  using assms by (rule platform_step_readiness)

text \<open>
  The histories of a platform that starts not ready, and the part of a history in which the
  process is not restarted.
\<close>

inductive platform_reachable :: "env \<Rightarrow> platform_world \<Rightarrow> bool" for E where
  init: "\<not> IsStatusConditionTrue E (plst_Conditions (plat_Status x)) DBaaSPlatformReadyType \<Longrightarrow>
     platform_reachable E \<lparr>pw_stored = x, pw_complete = False\<rparr>"
| step: "platform_reachable E s \<Longrightarrow> platform_step E s e s' \<Longrightarrow> platform_reachable E s'"

inductive process_history :: "env \<Rightarrow> platform_world \<Rightarrow> platform_world \<Rightarrow> bool" for E where
  here: "process_history E s s"
| step: "process_history E s s' \<Longrightarrow> platform_step E s' e s'' \<Longrightarrow> e \<noteq> Restarted \<Longrightarrow>
     process_history E s s''"

lemma readiness_step_justified:
  "readiness_step a e b \<Longrightarrow> (rd_ready a \<longrightarrow> rd_installed a) \<Longrightarrow> rd_ready b \<longrightarrow> rd_installed b"
  by (cases rule: readiness_step.cases) auto

lemma readiness_step_lost:
  "readiness_step a e b \<Longrightarrow> e \<noteq> Restarted \<Longrightarrow> rd_complete a \<Longrightarrow>
     rd_complete b \<and> (rd_ready b \<longrightarrow> rd_ready a)"
  by (cases rule: readiness_step.cases) auto

text \<open>C12: Whenever the platform resource says ready, it records every platform of the table as
  installed: this holds through every history of reconciliations (with outdated reads, refused
  updates, any order of the platforms and any failure), edits and restarts.\<close>

theorem platform_ready_invariant:
  assumes "platform_reachable (p_env P) s" and "platform_ready P (pw_stored s)"
  shows "all_installed P (plat_Status (pw_stored s))"
proof -
  have "rd_ready (readiness_of P s) \<longrightarrow> rd_installed (readiness_of P s)"
    using assms(1)
  proof (induction rule: platform_reachable.induct)
    case (init x)
    then show ?case by (simp add: readiness_of_def platform_ready_def)
  next
    case (step s e s')
    from readiness_step_justified [OF platform_step_readiness [OF step.hyps(2)] step.IH]
    show ?case .
  qed
  with assms(2) show ?thesis by (simp add: readiness_of_def)
qed

text \<open>C13: But the Ready condition can be lost for good: once the process has completed an
  installation, a platform that is not ready is not reported ready again by any history of
  this process, whatever gets installed.\<close>

theorem ready_lost_until_restart:
  assumes "process_history (p_env P) s s'" and "pw_complete s" "\<not> platform_ready P (pw_stored s)"
  shows "pw_complete s' \<and> \<not> platform_ready P (pw_stored s')"
proof -
  have "rd_complete (readiness_of P s') \<and> \<not> rd_ready (readiness_of P s')"
    using assms
  proof (induction rule: process_history.induct)
    case (here s)
    then show ?case by (simp add: readiness_of_def)
  next
    case (step s s' e s'')
    then show ?case
      using readiness_step_lost [OF platform_step_readiness [OF step.hyps(2)] step.hyps(3)] by blast
  qed
  then show ?thesis by (simp add: readiness_of_def)
qed

subsection \<open>A healthy installation\<close>

text \<open>Every reconciler reports success, at whatever point of the history it is called.\<close>

definition healthy :: "penv \<Rightarrow> DBaaSPlatform \<Rightarrow> bool" where
  "healthy P cr \<longleftrightarrow> (\<forall>(n, config) \<in> set (InstallationPlatforms P). \<forall>r h.
     getReconcilerForPlatform P config = Some r \<longrightarrow> fst (run_state (pr_Reconcile r cr) h) = success)"

lemma healthy_loop_runs:
  assumes "om_DeletionTimestamp (plat_ObjectMeta cr) = None"
    and "\<forall>(n, config) \<in> set ps. \<exists>r. getReconcilerForPlatform P config = Some r \<and>
       (\<forall>h. fst (run_state (pr_Reconcile r cr) h) = success)"
  shows "runs (platform_loop P ex cr ps st) h (\<lambda>r t.
     r = Inr (True, record_installed st (map fst ps)) \<and> platform_updates t = {})"
  using assms(2)
proof (induction ps arbitrary: st h)
  case Nil
  then show ?case by (auto intro!: runs_intros)
next
  case (Cons p ps)
  obtain platform config where p: "p = (platform, config)" by (cases p)
  obtain r where r: "getReconcilerForPlatform P config = Some r"
    and good: "\<And>h. fst (run_state (pr_Reconcile r cr) h) = success"
    using Cons.prems p by auto
  have rest: "\<forall>(n, config) \<in> set ps. \<exists>r. getReconcilerForPlatform P config = Some r \<and>
      (\<forall>h. fst (run_state (pr_Reconcile r cr) h) = success)"
    using Cons.prems by simp
  have visit: "runs (visit_platform P cr platform config r) h
      (\<lambda>x t. x = success \<and> platform_updates t = {})" for h
    using runs_conj [OF runs_visit_value [OF r assms(1) good, of platform h] visit_platform_runs [OF r]]
    by (rule runs_conseq) (simp add: no_platform_updates)
  show ?case
    unfolding p platform_loop.simps r option.case record_status_def [symmetric]
    by (intro runs_intros visit [THEN runs_conseq] Cons.IH [OF rest, THEN runs_conseq])
      (auto simp: success_def)
qed

lemma healthy_ranged:
  assumes "range_contract P" "healthy P cr"
  shows "\<forall>(n, config) \<in> set (p_RangePlatforms P (InstallationPlatforms P)).
     \<exists>r. getReconcilerForPlatform P config = Some r \<and>
       (\<forall>h. fst (run_state (pr_Reconcile r cr) h) = success)"
  using assms(2) every_platform_has_a_reconciler
  unfolding ranged_platforms [OF assms(1)] healthy_def by fastforce

text \<open>The status of a platform of which everything has been installed.\<close>

definition complete_status :: "penv \<Rightarrow> bool \<Rightarrow> DBaaSPlatform \<Rightarrow> DBaaSPlatform" where
  "complete_status P installComplete cr = cr\<lparr>plat_Status :=
     (let st = record_installed (plat_Status cr)
            (map fst (p_RangePlatforms P (InstallationPlatforms P)))
      in if installComplete then st
         else set_ready (p_env P) st ConditionTrue Ready
           ''DBaaS platform stack installation complete'')\<rparr>"

lemma healthy_object_runs:
  assumes "range_contract P" "healthy P cr" "om_DeletionTimestamp (plat_ObjectMeta cr) = None"
  shows "runs (reconcile_platform_object P ex c cr) h (\<lambda>r t. snd r \<and>
     sent_updates t = (if complete_status P c cr = cr then [] else [complete_status P c cr]))"
proof -
  note loop = healthy_loop_runs [OF assms(3) healthy_ranged [OF assms(1,2)]]
  have eq: "(plat_Status cr = st \<longleftrightarrow> cr\<lparr>plat_Status := st\<rparr> = cr)" for st by (cases cr) auto
  show ?thesis
    unfolding reconcile_present [OF assms(3)] complete_status_def Let_def
    by (intro runs_intros runs_only [OF only_setOpenShiftInstallationInfo [where E = "p_env P"]]
        loop [THEN runs_conseq] runs_only [OF only_platform_metrics(2) [where E = "p_env P"]]
        updateStatus_runs [THEN runs_conseq])
      (auto simp: housekeeping_none_sent none_sent eq)
qed

lemma healthy_reconcile_runs:
  assumes "range_contract P" "healthy P cr" "om_DeletionTimestamp (plat_ObjectMeta cr) = None"
    and "p_GetPlatform P (h @ [EvNow]) req = Inr cr"
  shows "runs (DBaaSPlatform_Reconcile P c req) h (\<lambda>r t. snd r \<and>
     sent_updates t = (if complete_status P c cr = cr then [] else [complete_status P c cr]))"
proof -
  note object = healthy_object_runs [OF assms(1-3), THEN runs_conseq]
  have object': "runs (reconcile_platform_object P ex c x) h' Q" if "x = cr"
    "\<And>r t. snd r \<and> sent_updates t = (if complete_status P c cr = cr then [] else [complete_status P c cr]) \<Longrightarrow>
      Q r t" for x ex h' Q
    using object that by blast
  show ?thesis
    unfolding DBaaSPlatform_Reconcile_def PlatformInstallStart_def Let_def
    by (intro runs_intros runs_only [OF only_fixConversionWebhooks]
        runs_only [OF only_fixRDSControllerUpgrade] object'
        runs_only [OF only_platform_metrics(1) [where E = "p_env P"]])
      (auto simp: housekeeping_none_sent assms(4))
qed

lemma healthy_updates:
  assumes "range_contract P" "healthy P cr" "om_DeletionTimestamp (plat_ObjectMeta cr) = None"
    and "p_GetPlatform P (h @ [EvNow]) req = Inr cr"
  shows "runs (DBaaSPlatform_Reconcile P c req) h (\<lambda>r t. snd r \<and>
     platform_updates t = {complete_status P c cr} - {cr})"
  by (rule runs_conseq [OF healthy_reconcile_runs [OF assms]])
    (auto simp flip: set_sent_updates split: if_splits)

lemma complete_status_installed:
  assumes "range_contract P"
  shows "all_installed P (plat_Status (complete_status P c cr))"
  using ranged_names [OF assms]
  by (simp add: complete_status_def Let_def all_installed_def installed_status_map
      status_map_installed)

lemma complete_status_ready:
  assumes "conditions_contract (p_env P)"
  shows "platform_ready P (complete_status P c cr) \<longleftrightarrow> (c \<longrightarrow> platform_ready P cr)"
  using is_true_set_same [OF assms, of _ "mkCondition DBaaSPlatformReadyType st r m" for st r m]
  by (simp add: complete_status_def Let_def platform_ready_def set_ready_def setStatusCondition_def)

text \<open>C14: A healthy installation is reported: when every reconciler reports success, the first such
  reconciliation of the process asks for exactly one status update, unless the platform already
  has that status; the status records every platform as installed and says ready. The field
  \<open>installComplete\<close> is set whether or not the update is accepted.\<close>

theorem healthy_platform_becomes_ready:
  assumes "range_contract P" "conditions_contract (p_env P)"
    and "healthy P cr" "om_DeletionTimestamp (plat_ObjectMeta cr) = None"
    and "p_GetPlatform P (h @ [EvNow]) req = Inr cr"
  shows "runs (DBaaSPlatform_Reconcile P False req) h (\<lambda>(out, installComplete) t.
     installComplete \<and> (\<exists>x. sent_updates t = (if x = cr then [] else [x]) \<and> platform_ready P x \<and>
       all_installed P (plat_Status x)))"
  by (rule runs_conseq [OF healthy_reconcile_runs [OF assms(1,3,4,5)]])
    (use complete_status_installed [OF assms(1), of False cr] complete_status_ready [OF assms(2), of False cr]
      in \<open>auto intro!: exI [of _ "complete_status P False cr"]\<close>)

subsection \<open>The example\<close>

text \<open>What was last stored as the platform resource.\<close>

fun last_update :: "event list \<Rightarrow> DBaaSPlatform \<Rightarrow> DBaaSPlatform" where
  "last_update [] x = x"
| "last_update (e # es) x =
     last_update es (case e of EvPlatform (StatusUpdatePlatform y) \<Rightarrow> y | _ \<Rightarrow> x)"

text \<open>
  A cluster in which everything gets installed, and in which the platform reads as it was last
  updated, for an order of visiting the platforms.
\<close>

definition healthy_env ::
    "((PlatformName, PlatformConfig) gomap \<Rightarrow> (PlatformName, PlatformConfig) gomap) \<Rightarrow> penv" where
  "healthy_env order = demo_platform_env\<lparr>
     p_RangePlatforms := order,
     p_GetPlatform := \<lambda>h k. Inr (last_update h demo_platform),
     p_ListDeployments := \<lambda>h ns. Inr (map demo_deployment
       [crunchyBridgeDeployment, cockroachDBDeployment, rdsProviderDeployment]),
     p_GetOperatorConsole := \<lambda>h n. Inr (getOperatorConsole\<lparr>oco_Plugins := [dbaasDynamicPluginName],
       oco_Conditions := Some [\<lparr>opc_Type = ''DeploymentAvailable'', opc_Status = ''True''\<rparr>]\<rparr>)\<rparr>"

lemma healthy_env_simps [env_simps]:
  "p_env (healthy_env order) = demo_env"
  "p_LookupEnv (healthy_env order) = (\<lambda>v. None)"
  "p_EnvImages (healthy_env order) = Inr (zero_Container, [])"
  "p_PlatformGVK (healthy_env order) =
     Inr \<lparr>gvk_Group = ''dbaas'', gvk_Version = ''v1beta1'', gvk_Kind = ''DBaaSPlatform''\<rparr>"
  "p_GetControllerOf (healthy_env order) =
     (\<lambda>m. List.find (\<lambda>r. or_Controller r = Some True) (om_OwnerReferences m))"
  "p_UnmarshalQuickStart (healthy_env order) = (\<lambda>s. Inr s)"
  "p_RangeQuickStarts (healthy_env order) = id"
  "p_RangePlatforms (healthy_env order) = order"
  "p_Ack (healthy_env order) = (\<lambda>h r. None)"
  "p_GetPlatform (healthy_env order) = (\<lambda>h k. Inr (last_update h demo_platform))"
  "p_GetCSV (healthy_env order) = (\<lambda>h k. Inr demo_csv)"
  "p_GetDeployment (healthy_env order) = (\<lambda>h k. Inr (demo_deployment (snd k)))"
  "p_GetSubscription (healthy_env order) = (\<lambda>h k. no_object)"
  "p_ListDeployments (healthy_env order) = (\<lambda>h ns. Inr (map demo_deployment
     [crunchyBridgeDeployment, cockroachDBDeployment, rdsProviderDeployment]))"
  "p_GetOperatorConsole (healthy_env order) =
     (\<lambda>h n. Inr (getOperatorConsole\<lparr>oco_Plugins := [dbaasDynamicPluginName],
       oco_Conditions := Some [\<lparr>opc_Type = ''DeploymentAvailable'', opc_Status = ''True''\<rparr>]\<rparr>))"
  by (simp_all add: healthy_env_def demo_platform_env_def demo_penv_def)

lemma healthy_csv_owned:
  "plat_ObjectMeta cr = plat_ObjectMeta demo_platform \<Longrightarrow>
     CheckOwnerReferenceSet (healthy_env order) cr demo_csv = Inr True"
  by (simp add: CheckOwnerReferenceSet_def demo_csv_def demo_owner_def demo_platform_def env_simps
      ref_parse_gv_def Let_def)

lemma healthy_provider:
  "pc_DeploymentName c \<in> {crunchyBridgeDeployment, cockroachDBDeployment, rdsProviderDeployment} \<Longrightarrow>
     plat_ObjectMeta cr = plat_ObjectMeta demo_platform \<Longrightarrow>
     fst (run_state (pr_Reconcile (provider_installation (healthy_env order) c) cr) h) = success"
  by (auto simp: provider_installation_def provider_Reconcile_def provider_step_defs apply_step_def
      next_step_def success_def env_simps demo_deployment_def zero_Deployment_def
      healthy_csv_owned)

lemma healthy_plugin:
  "pc_Name c = dbaasDynamicPluginName \<Longrightarrow>
     fst (run_state (pr_Reconcile (plugin_installation (healthy_env order) c) cr) h) = success"
  by (simp add: plugin_installation_def plugin_Reconcile_def plugin_step_defs next_step_def
      retry_step_def retry_result_def success_def env_simps ref_create_or_update_def
      pluginDeploymentMutateFn_def addPlugin_def getOperatorConsole_def getDeployment_def
      demo_deployment_def zero_Deployment_def)

lemma healthy_quickstart:
  "fst (run_state (pr_Reconcile (quickstart_installation (healthy_env order)) cr) h) = success"
  by (simp add: quickstart_installation_def quickstart_Reconcile_def quickStarts_def env_simps
      createQuickStartCR_def next_step_def retry_step_def retry_result_def success_def)

lemma healthy_observability:
  "fst (run_state (pr_Reconcile (observability_installation (healthy_env order)) cr) h) = success"
  by (simp add: observability_installation_def observability_Reconcile_def cleanObsOldSubscription_def
      next_step_def delete_step_def success_def env_simps Let_def)

lemma healthy_like_demo:
  "plat_ObjectMeta cr = plat_ObjectMeta demo_platform \<Longrightarrow> healthy (healthy_env order) cr"
  unfolding healthy_def InstallationPlatforms_def getReconcilerForPlatform_def
  by (simp add: healthy_provider healthy_plugin healthy_quickstart healthy_observability)

lemmas healthy_demo = healthy_like_demo [OF refl]

lemma healthy_contracts:
  "range_contract (healthy_env rev)" "range_contract (healthy_env id)"
  "conditions_contract (p_env (healthy_env order))"
  using demo_conditions_contract by (simp_all add: range_contract_def env_simps)

lemma demo_platform_fresh [simp]:
  "om_DeletionTimestamp (plat_ObjectMeta demo_platform) = None"
  "plst_Conditions (plat_Status demo_platform) = []"
  "plst_PlatformsStatus (plat_Status demo_platform) = []"
  by (simp_all add: demo_platform_def zero_DBaaSPlatform_def)

lemma demo_not_ready: "\<not> platform_ready (healthy_env order) demo_platform"
  by (simp add: platform_ready_def env_simps)

theorem healthy_platform_becomes_ready_witness:
  "\<exists>x. sent_updates
       (snd (run_state (DBaaSPlatform_Reconcile (healthy_env rev) False ([], [])) [])) = [x] \<and>
     platform_ready (healthy_env rev) x"
proof -
  obtain x where x: "sent_updates
       (snd (run_state (DBaaSPlatform_Reconcile (healthy_env rev) False ([], [])) [])) =
       (if x = demo_platform then [] else [x])"
    "platform_ready (healthy_env rev) x"
    using healthy_platform_becomes_ready [OF healthy_contracts(1,3) healthy_demo demo_platform_fresh(1),
        of "[]" "([], [])"]
    by (auto simp: runs_def env_simps)
  then have "x \<noteq> demo_platform" using demo_not_ready by blast
  with x show ?thesis by auto
qed

lemma healthy_demo_loop:
  assumes "range_contract (healthy_env order)"
  obtains st where "fst (run_state (platform_loop (healthy_env order) ex demo_platform
      (p_RangePlatforms (healthy_env order) (InstallationPlatforms (healthy_env order)))
      (plat_Status demo_platform)) h) = Inr (True, st)"
  using healthy_loop_runs [OF demo_platform_fresh(1) healthy_ranged [OF assms healthy_demo]]
  by (auto simp: runs_def)

theorem platform_order_irrelevant_witness:
  "\<exists>st1 st2. fst (run_state (platform_loop (healthy_env rev) (Execution.make 0) demo_platform
       (rev (InstallationPlatforms (healthy_env rev))) (plat_Status demo_platform)) []) = Inr (True, st1) \<and>
     fst (run_state (platform_loop (healthy_env id) (Execution.make 0) demo_platform
       (InstallationPlatforms (healthy_env id)) (plat_Status demo_platform)) []) = Inr (True, st2) \<and>
     FindStatusPlatform (plst_PlatformsStatus st2) = FindStatusPlatform (plst_PlatformsStatus st1)"
proof -
  obtain st1 st2 where st:
    "fst (run_state (platform_loop (healthy_env rev) (Execution.make 0) demo_platform
       (p_RangePlatforms (healthy_env rev) (InstallationPlatforms (healthy_env rev)))
       (plat_Status demo_platform)) []) = Inr (True, st1)"
    "fst (run_state (platform_loop (healthy_env id) (Execution.make 0) demo_platform
       (p_RangePlatforms (healthy_env id) (InstallationPlatforms (healthy_env id)))
       (plat_Status demo_platform)) []) = Inr (True, st2)"
    by (meson healthy_contracts healthy_demo_loop)
  from platform_order_irrelevant [OF healthy_contracts(1,2) st]
  show ?thesis using st by (auto simp: env_simps)
qed

text \<open>
  A history of this cluster: the first reconciliation finds everything installed, but the API
  server refuses its status update; the next one is accepted.
\<close>

definition fresh_world :: platform_world where
  "fresh_world = \<lparr>pw_stored = demo_platform, pw_complete = False\<rparr>"

definition refused_world :: platform_world where
  "refused_world = \<lparr>pw_stored = demo_platform, pw_complete = True\<rparr>"

definition late_world :: platform_world where
  "late_world = \<lparr>pw_stored = complete_status (healthy_env id) True demo_platform, pw_complete = True\<rparr>"

definition ready_world :: platform_world where
  "ready_world = \<lparr>pw_stored = complete_status (healthy_env id) False demo_platform, pw_complete = True\<rparr>"

lemma demo_not_installed: "\<not> all_installed (healthy_env order) (plat_Status demo_platform)"
  by (auto simp: all_installed_def installed_def InstallationPlatforms_def)

lemma complete_demo: "complete_status (healthy_env id) c demo_platform \<noteq> demo_platform"
proof
  assume "complete_status (healthy_env id) c demo_platform = demo_platform"
  then have "all_installed (healthy_env id) (plat_Status demo_platform)"
    using complete_status_installed [OF healthy_contracts(2), of c demo_platform] by simp
  then show False using demo_not_installed by blast
qed

lemma healthy_step:
  assumes "stored = demo_platform \<or> stored = complete_status (healthy_env id) c demo_platform"
  shows "platform_step demo_env \<lparr>pw_stored = demo_platform, pw_complete = c\<rparr> Reconciled
     \<lparr>pw_stored = stored, pw_complete = True\<rparr>"
proof -
  have get: "p_GetPlatform (healthy_env id) ([] @ [EvNow]) ([], []) = Inr demo_platform"
    by (simp add: env_simps)
  obtain out complete t where run:
    "run_state (DBaaSPlatform_Reconcile (healthy_env id) c ([], [])) [] = ((out, complete), [] @ t)"
    by (metis append_Nil prod.exhaust)
  have "complete" "platform_updates t = {complete_status (healthy_env id) c demo_platform}"
    using healthy_updates [OF healthy_contracts(2) healthy_demo demo_platform_fresh(1) get,
        THEN runsD, OF run] complete_demo by auto
  then show ?thesis
    using platform_step.reconciled [OF healthy_contracts(2,3) _ get, of demo_env
        "\<lparr>pw_stored = demo_platform, pw_complete = c\<rparr>" out complete t stored] run assms
    by (simp add: env_simps)
qed

lemma demo_history:
  "platform_step demo_env fresh_world Reconciled refused_world"
  "platform_step demo_env refused_world Reconciled late_world"
  "platform_step demo_env fresh_world Reconciled ready_world"
  unfolding fresh_world_def refused_world_def late_world_def ready_world_def
  by (rule healthy_step; simp)+

lemma fresh_reachable: "platform_reachable demo_env fresh_world"
  unfolding fresh_world_def by (rule platform_reachable.init) (simp add: env_simps)

text \<open>Reached without a restart: everything is recorded as installed, and the platform is not ready.\<close>

theorem ready_lost_until_restart_witness:
  "platform_reachable demo_env late_world \<and> process_history demo_env refused_world late_world \<and>
   all_installed (healthy_env id) (plat_Status (pw_stored late_world)) \<and>
   \<not> platform_ready (healthy_env id) (pw_stored late_world)"
proof -
  have reach: "platform_reachable demo_env late_world"
    using platform_reachable.step [OF platform_reachable.step [OF fresh_reachable demo_history(1)]
        demo_history(2)] .
  have hist: "process_history demo_env refused_world late_world"
    by (rule process_history.step [OF process_history.here demo_history(2)]) simp
  then have "\<not> platform_ready (healthy_env id) (pw_stored late_world)"
    using ready_lost_until_restart [of "healthy_env id" refused_world late_world] demo_not_ready
    by (simp add: env_simps refused_world_def)
  moreover have "all_installed (healthy_env id) (plat_Status (pw_stored late_world))"
    by (simp add: late_world_def complete_status_installed [OF healthy_contracts(2)])
  ultimately show ?thesis using reach hist by blast
qed

lemma ready_world_ready: "platform_ready (healthy_env id) (pw_stored ready_world)"
  by (simp add: ready_world_def complete_status_ready [OF healthy_contracts(3)])

theorem platform_ready_invariant_witness:
  "platform_reachable demo_env ready_world \<and>
   platform_ready (healthy_env id) (pw_stored ready_world) \<and>
   all_installed (healthy_env id) (plat_Status (pw_stored ready_world))"
proof -
  have "platform_reachable demo_env ready_world"
    by (rule platform_reachable.step [OF fresh_reachable demo_history(3)])
  then show ?thesis
    using platform_ready_invariant [of "healthy_env id" ready_world] ready_world_ready
    by (simp add: env_simps)
qed

theorem platform_refines_readiness_witness:
  "platform_step demo_env fresh_world Reconciled ready_world \<and>
   readiness_step \<lparr>rd_ready = False, rd_installed = False, rd_complete = False\<rparr> Reconciled
     \<lparr>rd_ready = True, rd_installed = True, rd_complete = True\<rparr>"
proof -
  have "readiness_of (healthy_env id) fresh_world =
      \<lparr>rd_ready = False, rd_installed = False, rd_complete = False\<rparr>"
    by (simp add: readiness_of_def fresh_world_def demo_not_ready demo_not_installed)
  moreover have "readiness_of (healthy_env id) ready_world =
      \<lparr>rd_ready = True, rd_installed = True, rd_complete = True\<rparr>"
    using ready_world_ready
    by (simp add: readiness_of_def ready_world_def complete_status_installed [OF healthy_contracts(2)])
  ultimately show ?thesis
    using platform_refines_readiness [of "healthy_env id" fresh_world Reconciled ready_world]
      demo_history(3)
    by (simp add: env_simps)
qed

end
