(* ===== verification/Platform_Settling.thy ===== *)
theory Platform_Settling
  imports Platform_History
begin

section \<open>The installation settles\<close>

text \<open>
  The platform controller asks to be called again after every reconciliation. This theory shows
  that a healthy installation nevertheless comes to rest: the status that it asks for is
  a fixed point of the reconciliation, in whatever order Go visits the platforms.
\<close>

subsection \<open>Recording what is already recorded\<close>

abbreviation recorded :: "PlatformName \<Rightarrow> PlatformStatus" where
  "recorded n \<equiv> \<lparr>pst_PlatformName = n, pst_PlatformStatus = ResultSuccess, pst_LastMessage = []\<rparr>"

lemma update_found_same:
  "FindStatusPlatform ss n = Some s \<Longrightarrow> f s = s \<Longrightarrow> update_found n f ss = ss"
  by (induction ss) (auto split: if_splits)

lemma set_status_same:
  "FindStatusPlatform ss (pst_PlatformName new) = Some new \<Longrightarrow> setStatusPlatform ss new = ss"
  by (simp add: setStatusPlatform_def update_found_same)

lemma record_same: "status_map st n = Some (recorded n) \<Longrightarrow> record_status st (recorded n) = st"
  by (simp add: record_status_def status_map_def set_status_same)

lemma record_installed_same:
  "\<forall>n \<in> set ns. status_map st n = Some (recorded n) \<Longrightarrow> record_installed st ns = st"
  by (induction ns) (simp_all add: record_same)

lemma complete_status_same:
  assumes "range_contract P"
    and "\<forall>n \<in> fst ` set (InstallationPlatforms P). status_map (plat_Status x) n = Some (recorded n)"
  shows "complete_status P True x = x"
proof -
  have "record_installed (plat_Status x) (map fst (p_RangePlatforms P (InstallationPlatforms P)))
      = plat_Status x"
    using assms(2) ranged_names [OF assms(1)] by (intro record_installed_same) simp
  then show ?thesis by (simp add: complete_status_def)
qed

lemma complete_status_map:
  assumes "range_contract P" "n \<in> fst ` set (InstallationPlatforms P)"
  shows "status_map (plat_Status (complete_status P c cr)) n = Some (recorded n)"
  using assms(2) ranged_names [OF assms(1)]
  by (simp add: complete_status_def Let_def status_map_installed)

lemma complete_status_meta [simp]:
  "plat_ObjectMeta (complete_status P c cr) = plat_ObjectMeta cr"
  by (simp add: complete_status_def)

subsection \<open>A reconciliation that has nothing to do\<close>

abbreviation again :: outcome where
  "again \<equiv> Returned \<lparr>res_Requeue = True, res_RequeueAfter = RequeueDelaySuccess\<rparr> None"

lemma updateStatus_same:
  "plat_Status cr = st \<Longrightarrow> runs (updateStatus P cr st) h (\<lambda>r t. r = (again, cr) \<and> t = [])"
  unfolding updateStatus_def Let_def by (intro runs_intros) simp_all

lemma settled_object_runs:
  assumes "range_contract P" "healthy P x" "om_DeletionTimestamp (plat_ObjectMeta x) = None"
    and "complete_status P True x = x"
  shows "runs (reconcile_platform_object P ex True x) h (\<lambda>r t.
     r = ((again, x), True) \<and> platform_updates t = {})"
proof -
  note loop = healthy_loop_runs [OF assms(3) healthy_ranged [OF assms(1,2)]]
  have same: "plat_Status x = record_installed (plat_Status x)
      (map fst (p_RangePlatforms P (InstallationPlatforms P)))"
    using arg_cong [OF assms(4), of plat_Status] by (simp add: complete_status_def)
  show ?thesis
    unfolding reconcile_present [OF assms(3)]
    by (intro runs_intros runs_only [OF only_setOpenShiftInstallationInfo [where E = "p_env P"]]
        loop [THEN runs_conseq])
      (auto simp: housekeeping_no_updates intro!: runs_intros updateStatus_same [OF same, THEN runs_conseq])
qed

lemma settled_reconcile_runs:
  assumes "range_contract P" "healthy P x" "om_DeletionTimestamp (plat_ObjectMeta x) = None"
    and "complete_status P True x = x" "p_GetPlatform P (h @ [EvNow]) req = Inr x"
  shows "runs (DBaaSPlatform_Reconcile P True req) h (\<lambda>r t.
     r = (again, True) \<and> platform_updates t = {})"
proof -
  have object: "runs (reconcile_platform_object P ex True y) h' Q" if "y = x"
    "\<And>r t. r = ((again, x), True) \<and> platform_updates t = {} \<Longrightarrow> Q r t" for y ex h' Q
    using settled_object_runs [OF assms(1-4), THEN runs_conseq] that by blast
  show ?thesis
    unfolding DBaaSPlatform_Reconcile_def PlatformInstallStart_def Let_def
    by (intro runs_intros runs_only [OF only_fixConversionWebhooks]
        runs_only [OF only_fixRDSControllerUpgrade] object
        runs_only [OF only_platform_metrics(1) [where E = "p_env P"]])
      (auto simp: housekeeping_no_updates assms(5))
qed

text \<open>C15: The installation comes to rest: take the status that a reconciliation asked for when every
  reconciler reported success. When that is what the API server later returns for the platform and
  every reconciler still reports success, a later reconciliation of the same process writes
  no status and asks to be called again after ten seconds, and so for ever; even if Go then visits
  the platforms in another order.\<close>

theorem installation_settles:
  assumes "range_contract P" "healthy P cr" "om_DeletionTimestamp (plat_ObjectMeta cr) = None"
    and "p_GetPlatform P (h @ [EvNow]) req = Inr cr"
    and run: "run_state (DBaaSPlatform_Reconcile P installComplete req) h = ((out, complete), h @ t)"
      "platform_updates t = {x}"
    and later: "range_contract P'" "healthy P' x" "p_GetPlatform P' (h' @ [EvNow]) req = Inr x"
  shows "complete \<and> runs (DBaaSPlatform_Reconcile P' complete req) h' (\<lambda>(out, complete') t.
     complete' \<and> platform_updates t = {} \<and>
     out = Returned \<lparr>res_Requeue = True, res_RequeueAfter = RequeueDelaySuccess\<rparr> None)"
proof -
  have c: "complete" and x: "x = complete_status P installComplete cr"
    using healthy_updates [OF assms(1-4), THEN runsD, OF run(1)] run(2) by auto
  have live: "om_DeletionTimestamp (plat_ObjectMeta x) = None"
    by (simp add: x assms(3))
  have "status_map (plat_Status x) n = Some (recorded n)" if "n \<in> fst ` set (InstallationPlatforms P')" for n
    using complete_status_map [OF assms(1), of n] that unfolding x same_platform_names [of P' P] by blast
  then have "complete_status P' True x = x"
    by (intro complete_status_same [OF later(1)]) blast
  from settled_reconcile_runs [OF later(1,2) live this later(3)] c
  show ?thesis by (auto elim: runs_conseq)
qed

text \<open>Two reconciliations of the example, which visit the platforms in opposite orders.\<close>

lemma last_update_append [simp]: "last_update (a @ b) x = last_update b (last_update a x)"
  by (induction a arbitrary: x) simp_all

lemma last_update_quiet: "platform_updates t = {} \<Longrightarrow> last_update t x = x"
  by (induction t arbitrary: x) (auto simp: platform_updates_def split: event.splits platform_request.splits)

lemma last_update_one: "platform_updates t = {y} \<Longrightarrow> last_update t x = y"
proof (induction t arbitrary: x)
  case (Cons e t)
  show ?case
  proof (cases "platform_updates t = {}")
    case True
    then have "e = EvPlatform (StatusUpdatePlatform y)"
      using Cons.prems by (auto simp: platform_updates_def)
    with True show ?thesis by (simp add: last_update_quiet)
  next
    case False
    then have "platform_updates t = {y}"
      using Cons.prems by (auto simp: platform_updates_def)
    then show ?thesis by (simp add: Cons.IH)
  qed
qed simp

theorem installation_settles_witness:
  "\<exists>h x. platform_updates h = {x} \<and> platform_ready (healthy_env rev) x \<and>
     runs (DBaaSPlatform_Reconcile (healthy_env id) True ([], [])) h (\<lambda>(out, complete') t.
       complete' \<and> platform_updates t = {} \<and>
       out = Returned \<lparr>res_Requeue = True, res_RequeueAfter = RequeueDelaySuccess\<rparr> None)"
proof -
  let ?x = "complete_status (healthy_env rev) False demo_platform"
  have get: "p_GetPlatform (healthy_env rev) ([] @ [EvNow]) ([], []) = Inr demo_platform"
    by (simp add: env_simps)
  have ready: "platform_ready (healthy_env rev) ?x"
    by (simp add: complete_status_ready [OF healthy_contracts(3)])
  then have new: "?x \<noteq> demo_platform" using demo_not_ready by metis
  obtain out complete t where run:
    "run_state (DBaaSPlatform_Reconcile (healthy_env rev) False ([], [])) [] = ((out, complete), [] @ t)"
    by (metis append_Nil prod.exhaust)
  then have t: "platform_updates t = {?x}"
    using healthy_updates [OF healthy_contracts(1) healthy_demo demo_platform_fresh(1) get,
        THEN runsD, OF run] new by auto
  have like: "healthy (healthy_env id) ?x" by (rule healthy_like_demo) simp
  have stored: "p_GetPlatform (healthy_env id) (t @ [EvNow]) ([], []) = Inr ?x"
    by (simp add: env_simps last_update_one [OF t])
  from installation_settles [OF healthy_contracts(1) healthy_demo demo_platform_fresh(1) get run t
      healthy_contracts(2) like stored] t ready
  show ?thesis by (intro exI [of _ t] exI [of _ ?x]) (simp, elim conjE, simp)
qed

end
