(* ===== verification/Operator_Setup.thy ===== *)
theory Operator_Setup
  imports Platform_Setup Provider_Controller Policy_Controller Webhooks "HOL-Library.Sublist"
begin

section \<open>The start of the operator\<close>

text \<open>
  \<open>main.go\<close> with the \<open>SetupWithManager\<close> of every controller and the
  \<open>SetupWebhookWithManager\<close> of every kind: what the operator registers with the manager of the
  controller runtime and in which order, what it reads from the process environment, and where
  it gives up. The manager, the parser of the command line and the constructor of an API client
  are libraries: their answers are the fields of \<open>menv\<close>. Setting up the logger is left out.
\<close>

subsection \<open>What is registered before \<open>main\<close>\<close>

text \<open>
  \<open>init\<close> of \<open>main.go\<close>, in order: API types for the scheme, by the function that adds them, and
  metric vectors. A registration that fails panics.
\<close>

datatype registration = AddToScheme string | MustRegister metric_vec

definition init_registrations :: "registration list" where
  "init_registrations =
     [AddToScheme ''clientgoscheme.AddToScheme'',
      MustRegister DBaasStackInstallationHistogram,
      MustRegister DBaasPlatformInstallationGauge,
      MustRegister DBaasOperatorVersionInfo,
      MustRegister DBaaSRequestsDurationHistogram,
      MustRegister DBaaSRequestsErrorsCounter,
      MustRegister DBaaSInventoryStatusGauge,
      MustRegister DBaaSInstanceStatusGauge,
      MustRegister DBaaSConnectionStatusGauge,
      MustRegister DBaaSInstancePhaseGauge,
      AddToScheme ''v1alpha1.AddToScheme'',
      AddToScheme ''v1beta1.AddToScheme'',
      AddToScheme ''operatorframework.AddToScheme'',
      AddToScheme ''coreosv1.AddToScheme'',
      AddToScheme ''consolev1alpha1.Install'',
      AddToScheme ''operatorv1.Install'',
      AddToScheme ''oauthzv1.Install'',
      AddToScheme ''rbacv1.AddToScheme'',
      AddToScheme ''consolev1.AddToScheme'',
      AddToScheme ''msoapi.AddToScheme'',
      AddToScheme ''apiextensionsv1.AddToScheme'',
      AddToScheme ''admissionregistrationv1.AddToScheme'',
      AddToScheme ''rhobsv1.AddToScheme'']"

fun registered_vectors :: "registration list \<Rightarrow> metric_vec list" where
  "registered_vectors [] = []"
| "registered_vectors (MustRegister v # rs) = v # registered_vectors rs"
| "registered_vectors (AddToScheme f # rs) = registered_vectors rs"

lemma init_vectors: "registered_vectors init_registrations = metric_vectors"
  by (simp add: init_registrations_def metric_vectors_def)

subsection \<open>Command line\<close>

record flags =
  fl_metricsAddr :: string
  fl_probeAddr :: string
  fl_logLevel :: string
  fl_enableLeaderElection :: bool

definition flag_defaults :: flags where
  "flag_defaults = \<lparr>fl_metricsAddr = '':8080'', fl_probeAddr = '':8081'', fl_logLevel = ''info'',
     fl_enableLeaderElection = False\<rparr>"

text \<open>\<open>m_NewClient\<close> is the error of \<open>client.New\<close>; \<open>m_UnmarshalLevel\<close> reads a log level.\<close>

record menv =
  m_penv :: penv
  m_ParseFlags :: "flags \<Rightarrow> flags"
  m_UnmarshalLevel :: "string \<Rightarrow> go_error + int"
  m_NewClient :: "go_error option"
  m_Manager :: "history \<Rightarrow> manager_call \<Rightarrow> go_error option"

text \<open>The level is read before the command line is parsed: it is that of the default.\<close>

definition default_log_level :: "menv \<Rightarrow> int" where
  "default_log_level M =
     (case m_UnmarshalLevel M (fl_logLevel flag_defaults) of Inl _ \<Rightarrow> 0 | Inr level \<Rightarrow> level)"

lemma log_level_flag_ignored: "default_log_level (M\<lparr>m_ParseFlags := f\<rparr>) = default_log_level M"
  by (simp add: default_log_level_def)

definition manager_options :: "flags \<Rightarrow> ManagerOptions" where
  "manager_options fl = \<lparr>mo_MetricsBindAddress = fl_metricsAddr fl, mo_Port = 9443,
     mo_HealthProbeBindAddress = fl_probeAddr fl, mo_LeaderElection = fl_enableLeaderElection fl,
     mo_LeaderElectionID = ''e4addb06.redhat.com'',
     mo_ClientDisableCacheFor = [''ClusterServiceVersion'', ''Secret'', ''ConfigMap'']\<rparr>"

definition manager :: "menv \<Rightarrow> manager_call \<Rightarrow> (go_error option) prog" where
  "manager M c = call (EvManager c) (\<lambda>h. m_Manager M h c)"

subsection \<open>The controllers\<close>

definition controller_for :: "string \<Rightarrow> ControllerBuild" where
  "controller_for kind = \<lparr>cb_Named = [], cb_For = kind, cb_Predicate = None, cb_OnlyMetadata = False,
     cb_Owns = [], cb_WatchesWithDelete = [], cb_MaxConcurrentReconciles = None\<rparr>"

definition DBaaSConnection_SetupWithManager :: "menv \<Rightarrow> (go_error option) prog" where
  "DBaaSConnection_SetupWithManager M = manager M (BuildController ((controller_for ''DBaaSConnection'')
     \<lparr>cb_WatchesWithDelete := [''DBaaSConnection''], cb_MaxConcurrentReconciles := Some 2\<rparr>))"

definition DBaaSInventory_SetupWithManager :: "menv \<Rightarrow> (go_error option) prog" where
  "DBaaSInventory_SetupWithManager M = manager M (BuildController ((controller_for ''DBaaSInventory'')
     \<lparr>cb_WatchesWithDelete := [''DBaaSInventory''], cb_MaxConcurrentReconciles := Some 2\<rparr>))"

definition DBaaSInstance_SetupWithManager :: "menv \<Rightarrow> (go_error option) prog" where
  "DBaaSInstance_SetupWithManager M = manager M (BuildController ((controller_for ''DBaaSInstance'')
     \<lparr>cb_WatchesWithDelete := [''DBaaSInstance''], cb_MaxConcurrentReconciles := Some 2\<rparr>))"

definition DBaaSDefaultPolicy_SetupWithManager :: "menv \<Rightarrow> env \<Rightarrow> (go_error option) prog" where
  "DBaaSDefaultPolicy_SetupWithManager M E = manager M (BuildController ((controller_for ''Deployment'')
     \<lparr>cb_Named := ''defaultpolicy'', cb_Predicate := Some (ignoreOtherDeployments E),
      cb_OnlyMetadata := True\<rparr>))"

definition DBaaSProvider_SetupWithManager :: "menv \<Rightarrow> (go_error option) prog" where
  "DBaaSProvider_SetupWithManager M = manager M (BuildController ((controller_for ''DBaaSProvider'')
     \<lparr>cb_Predicate := Some filterEventPredicate\<rparr>))"

definition DBaaSPolicy_SetupWithManager :: "menv \<Rightarrow> (go_error option) prog" where
  "DBaaSPolicy_SetupWithManager M = manager M (BuildController ((controller_for ''DBaaSPolicy'')
     \<lparr>cb_Owns := [''ResourceQuota'']\<rparr>))"

text \<open>
  The error of \<open>client.New\<close> is dropped: without a client the next request dereferences a nil
  interface. The name of the operator's version is kept in the reconciler.
\<close>

datatype setup_outcome = SetupOk | SetupError go_error | SetupPanic

definition DBaaSPlatform_SetupWithManager :: "menv \<Rightarrow> penv \<Rightarrow> (setup_outcome \<times> penv) prog" where
  "DBaaSPlatform_SetupWithManager M P =
     (case p_LookupEnv P ''OPERATOR_CONDITION_NAME'' of
        None \<Rightarrow> ret (SetupError (OtherError ''OPERATOR_CONDITION_NAME must be set''), P)
      | Some operatorNameEnvVar \<Rightarrow>
          (let P = P\<lparr>p_operatorNameVersion := operatorNameEnvVar\<rparr>
           in if m_NewClient M \<noteq> None then ret (SetupPanic, P)
              else do {
                err \<leftarrow> prepareRDSController P;
                case err of
                  Some e \<Rightarrow> ret (SetupError e, P)
                | None \<Rightarrow> do {
                    r \<leftarrow> createPlatformCR P;
                    case r of
                      Inl e \<Rightarrow> ret (SetupError e, P)
                    | Inr _ \<Rightarrow> do {
                        err \<leftarrow> manager M (BuildController (controller_for ''DBaaSPlatform''));
                        ret (case err of Some e \<Rightarrow> SetupError e | None \<Rightarrow> SetupOk, P)
                      }
                  }
              }))"

subsection \<open>The webhooks\<close>

definition DBaaSConnection_SetupWebhookWithManager :: "menv \<Rightarrow> (go_error option) prog" where
  "DBaaSConnection_SetupWebhookWithManager M = manager M (BuildWebhook ''DBaaSConnection'')"

definition DBaaSPolicy_SetupWebhookWithManager :: "menv \<Rightarrow> (go_error option) prog" where
  "DBaaSPolicy_SetupWebhookWithManager M = manager M (BuildWebhook ''DBaaSPolicy'')"

definition DBaaSInstance_SetupWebhookWithManager :: "menv \<Rightarrow> (go_error option) prog" where
  "DBaaSInstance_SetupWebhookWithManager M = manager M (BuildWebhook ''DBaaSInstance'')"

definition DBaaSProvider_SetupWebhookWithManager :: "menv \<Rightarrow> (go_error option) prog" where
  "DBaaSProvider_SetupWebhookWithManager M = manager M (BuildWebhook ''DBaaSProvider'')"

definition inventory_index :: "DBaaSInventory \<Rightarrow> string list" where
  "inventory_index inventory = [inv_ProviderName inventory]"

definition DBaaSInventory_SetupWebhookWithManager ::
    "menv \<Rightarrow> penv \<Rightarrow> (go_error option \<times> penv) prog" where
  "DBaaSInventory_SetupWebhookWithManager M P =
     (let P = P\<lparr>p_env := (p_env P)\<lparr>WebhookAPIClientSet := True\<rparr>\<rparr>
      in do {
        err \<leftarrow> manager M (IndexField ''DBaaSInventory'' providerNameKey inventory_index);
        case err of
          Some e \<Rightarrow> ret (Some e, P)
        | None \<Rightarrow> do {
            err \<leftarrow> manager M (BuildWebhook ''DBaaSInventory'');
            ret (err, P)
          }
      })"

subsection \<open>The process\<close>

text \<open>
  The process exits with status 1, dies of a panic, or starts the manager: from then on the
  controllers and webhooks run with the environment \<open>penv\<close>, until the manager stops with an
  error or without.
\<close>

datatype startup = Exited | StartupPanicked | Started penv "go_error option"

text \<open>\<open>if err := ...; err != nil \{ os.Exit(1) \}\<close>.\<close>

definition or_exit :: "(go_error option) prog \<Rightarrow> startup prog \<Rightarrow> startup prog" where
  "or_exit m k = do {
     err \<leftarrow> m;
     case err of Some e \<Rightarrow> ret Exited | None \<Rightarrow> k
   }"

text \<open>The health checks and the start of the manager.\<close>

definition start_manager :: "menv \<Rightarrow> penv \<Rightarrow> startup prog" where
  "start_manager M P =
     or_exit (manager M (AddHealthzCheck ''healthz''))
    (or_exit (manager M (AddReadyzCheck ''readyz''))
    (do {
       err \<leftarrow> manager M StartManager;
       ret (Started P err)
     }))"

text \<open>The part after the webhooks.\<close>

definition setup_platform_and_start :: "menv \<Rightarrow> penv \<Rightarrow> startup prog" where
  "setup_platform_and_start M P =
     or_exit (DBaaSPolicy_SetupWithManager M) (do {
       (out, P) \<leftarrow> DBaaSPlatform_SetupWithManager M P;
       case out of
         SetupPanic \<Rightarrow> ret StartupPanicked
       | SetupError e \<Rightarrow> ret Exited
       | SetupOk \<Rightarrow> start_manager M P
     })"

definition setup_webhooks :: "menv \<Rightarrow> penv \<Rightarrow> startup prog" where
  "setup_webhooks M P =
     (if Getenv P ''ENABLE_WEBHOOKS'' \<noteq> ''false'' then
        or_exit (DBaaSConnection_SetupWebhookWithManager M) (do {
          (err, P) \<leftarrow> DBaaSInventory_SetupWebhookWithManager M P;
          case err of
            Some e \<Rightarrow> ret Exited
          | None \<Rightarrow>
              or_exit (DBaaSPolicy_SetupWebhookWithManager M)
             (or_exit (DBaaSInstance_SetupWebhookWithManager M)
             (or_exit (DBaaSProvider_SetupWebhookWithManager M)
             (setup_platform_and_start M P)))
        })
      else setup_platform_and_start M P)"

text \<open>
  A missing install namespace is only logged: the namespace stays empty. A fresh process has no
  client for its webhooks yet.
\<close>

definition main :: "menv \<Rightarrow> startup prog" where
  "main M =
     (let fl = m_ParseFlags M flag_defaults;
          P = m_penv M;
          ns = (case GetInstallNamespace (p_LookupEnv P) of Inl err \<Rightarrow> [] | Inr ns \<Rightarrow> ns);
          P = P\<lparr>p_env := (p_env P)\<lparr>InstallNamespace := ns, WebhookAPIClientSet := False\<rparr>\<rparr>
      in or_exit (manager M (NewManager (manager_options fl)))
        (or_exit (DBaaSConnection_SetupWithManager M)
        (or_exit (DBaaSInventory_SetupWithManager M)
        (or_exit (DBaaSInstance_SetupWithManager M)
        (or_exit (DBaaSDefaultPolicy_SetupWithManager M (p_env P))
        (or_exit (DBaaSProvider_SetupWithManager M)
        (setup_webhooks M P)))))))"

subsection \<open>What is registered\<close>

fun manager_calls :: "event list \<Rightarrow> manager_call list" where
  "manager_calls [] = []"
| "manager_calls (EvManager c # t) = c # manager_calls t"
| "manager_calls (_ # t) = manager_calls t"

lemma manager_calls_append [simp]: "manager_calls (t @ u) = manager_calls t @ manager_calls u"
  by (induction t rule: manager_calls.induct) simp_all

text \<open>The registrations of a complete start, in order.\<close>

definition webhook_calls :: "manager_call list" where
  "webhook_calls = [BuildWebhook ''DBaaSConnection'',
     IndexField ''DBaaSInventory'' providerNameKey inventory_index,
     BuildWebhook ''DBaaSInventory'', BuildWebhook ''DBaaSPolicy'', BuildWebhook ''DBaaSInstance'',
     BuildWebhook ''DBaaSProvider'']"

definition final_calls :: "manager_call list" where
  "final_calls = [BuildController ((controller_for ''DBaaSPolicy'')\<lparr>cb_Owns := [''ResourceQuota'']\<rparr>),
     BuildController (controller_for ''DBaaSPlatform''),
     AddHealthzCheck ''healthz'', AddReadyzCheck ''readyz'', StartManager]"

definition watched_controller :: "string \<Rightarrow> manager_call" where
  "watched_controller kind = BuildController ((controller_for kind)
     \<lparr>cb_WatchesWithDelete := [kind], cb_MaxConcurrentReconciles := Some 2\<rparr>)"

definition startup_calls :: "menv \<Rightarrow> env \<Rightarrow> bool \<Rightarrow> manager_call list" where
  "startup_calls M E webhooks =
     [NewManager (manager_options (m_ParseFlags M flag_defaults)),
      watched_controller ''DBaaSConnection'', watched_controller ''DBaaSInventory'',
      watched_controller ''DBaaSInstance'',
      BuildController ((controller_for ''Deployment'')\<lparr>cb_Named := ''defaultpolicy'',
        cb_Predicate := Some (ignoreOtherDeployments E), cb_OnlyMetadata := True\<rparr>),
      BuildController ((controller_for ''DBaaSProvider'')\<lparr>cb_Predicate := Some filterEventPredicate\<rparr>)] @
     (if webhooks then webhook_calls else []) @ final_calls"

text \<open>
  The platform resource exists when the operator starts: it was the only one listed, or it has
  been created.
\<close>

definition platform_found :: "penv \<Rightarrow> event list \<Rightarrow> bool" where
  "platform_found P t \<longleftrightarrow> (\<exists>cr. EvPlatform (CreatePlatform cr) \<in> set t \<or>
     (\<exists>h. EvPlatform (ListPlatforms (InstallNamespace (p_env P))) \<in> set t \<and>
        p_ListPlatforms P h (InstallNamespace (p_env P)) = Inr [cr]))"

text \<open>
  A start follows a list of registrations: what it registers is a prefix of the list; the
  manager is started exactly at the end of the list, with one of the environments \<open>Ps\<close> and,
  unless it is already known, a platform.
\<close>

definition follows ::
    "bool \<Rightarrow> penv set \<Rightarrow> manager_call list \<Rightarrow> startup \<Rightarrow> event list \<Rightarrow> bool" where
  "follows known Ps cs r t \<longleftrightarrow> prefix (manager_calls t) cs \<and>
     (\<forall>P err. r = Started P err \<longrightarrow>
        manager_calls t = cs \<and> P \<in> Ps \<and> (known \<or> platform_found P t)) \<and>
     (StartManager \<in> set (manager_calls t) \<longrightarrow> (\<exists>P err. r = Started P err))"

lemma platform_found_append: "platform_found P u \<Longrightarrow> platform_found P (t @ u)"
  by (auto simp: platform_found_def)

lemma platform_found_append1: "platform_found P t \<Longrightarrow> platform_found P (t @ u)"
  by (auto simp: platform_found_def)

lemma runs_manager [runs_intros]:
  "Q (m_Manager M h c) [EvManager c] \<Longrightarrow> runs (manager M c) h Q"
  unfolding manager_def by (rule runs_call)

lemma follows_stop:
  "r \<in> {Exited, StartupPanicked} \<Longrightarrow> prefix (manager_calls t) cs \<Longrightarrow>
     StartManager \<notin> set (manager_calls t) \<Longrightarrow> follows known Ps cs r t"
  by (auto simp: follows_def)

lemma follows_step:
  "follows known Ps cs r u \<Longrightarrow> c \<noteq> StartManager \<Longrightarrow>
     follows known Ps (c # cs) r (EvManager c # u)"
  using platform_found_append [of _ u "[EvManager c]"] by (auto simp: follows_def)

lemma follows_platform:
  "follows True {P} cs r u \<Longrightarrow> manager_calls t = [] \<Longrightarrow> platform_found P t \<Longrightarrow> P \<in> Ps \<Longrightarrow>
     follows False Ps cs r (t @ u)"
  by (auto simp: follows_def platform_found_append1)

lemma runs_or_exit_rule:
  assumes "runs m h (\<lambda>err t. if err = None then runs k (h @ t) (\<lambda>r u. Q r (t @ u)) else Q Exited t)"
  shows "runs (or_exit m k) h Q"
  unfolding or_exit_def
  by (intro runs_bind runs_conseq [OF assms]) (auto intro!: runs_intros)

lemma runs_register:
  assumes "c \<noteq> StartManager" "\<And>h. runs k h (follows known Ps cs)"
  shows "runs (or_exit (manager M c) k) h (follows known Ps (c # cs))"
proof (rule runs_or_exit_rule, rule runs_manager)
  have "runs k (h @ [EvManager c]) (\<lambda>r u. follows known Ps (c # cs) r ([EvManager c] @ u))"
    using assms(2) by (rule runs_conseq) (simp add: follows_step [OF _ assms(1)])
  moreover have "follows known Ps (c # cs) Exited [EvManager c]"
    using assms(1) by (intro follows_stop) auto
  ultimately show "if m_Manager M h c = None
      then runs k (h @ [EvManager c]) (\<lambda>r u. follows known Ps (c # cs) r ([EvManager c] @ u))
      else follows known Ps (c # cs) Exited [EvManager c]"
    by simp
qed

subsection \<open>The order of the start\<close>

lemma rds_no_manager_calls: "only (\<lambda>e. \<forall>c. e \<noteq> EvManager c) (prepareRDSController P)"
  unfolding prepareRDSController_def Let_def by (intro only_intros) simp_all

lemma manager_calls_none: "list_all (\<lambda>e. \<forall>c. e \<noteq> EvManager c) t \<Longrightarrow> manager_calls t = []"
  by (induction t rule: manager_calls.induct) auto

lemma createPlatformCR_runs:
  "runs (createPlatformCR P) h (\<lambda>r t. manager_calls t = [] \<and>
     (\<forall>cr. r = Inr cr \<longrightarrow> platform_found P t))"
  unfolding createPlatformCR_def GetDBaaSOperatorCSV_def Let_def
  by (intro runs_intros) (auto simp: platform_found_def split: option.splits)

lemma start_manager_runs:
  "runs (start_manager M P) h
     (follows True {P} [AddHealthzCheck ''healthz'', AddReadyzCheck ''readyz'', StartManager])"
  unfolding start_manager_def
  by (intro runs_register runs_intros) (auto simp: follows_def)

lemma platform_setup_runs:
  "runs (DBaaSPlatform_SetupWithManager M P) h (\<lambda>x t.
     if fst x = SetupOk
     then (\<exists>v u. p_LookupEnv P ''OPERATOR_CONDITION_NAME'' = Some v \<and>
       snd x = P\<lparr>p_operatorNameVersion := v\<rparr> \<and> platform_found (snd x) u \<and> manager_calls u = [] \<and>
       t = u @ [EvManager (BuildController (controller_for ''DBaaSPlatform''))])
     else prefix (manager_calls t) [BuildController (controller_for ''DBaaSPlatform'')])"
  unfolding DBaaSPlatform_SetupWithManager_def Let_def
  by (intro runs_intros runs_only [OF rds_no_manager_calls] createPlatformCR_runs [THEN runs_conseq])
    (auto simp: manager_calls_none platform_found_append split: option.splits)

lemma platform_start_runs:
  assumes "\<And>v. p_LookupEnv P ''OPERATOR_CONDITION_NAME'' = Some v \<Longrightarrow>
    P\<lparr>p_operatorNameVersion := v\<rparr> \<in> Ps"
  shows "runs (do {
      (out, P) \<leftarrow> DBaaSPlatform_SetupWithManager M P;
      case out of
        SetupPanic \<Rightarrow> ret StartupPanicked
      | SetupError e \<Rightarrow> ret Exited
      | SetupOk \<Rightarrow> start_manager M P
    }) h (follows False Ps (tl final_calls))"
proof (rule runs_bind, rule runs_conseq [OF platform_setup_runs])
  let ?c = "BuildController (controller_for ''DBaaSPlatform'')"
  let ?cs = "[AddHealthzCheck ''healthz'', AddReadyzCheck ''readyz'', StartManager]"
  have calls: "tl final_calls = ?c # ?cs" by (simp add: final_calls_def)
  fix x t
  assume x: "if fst x = SetupOk
    then \<exists>v u. p_LookupEnv P ''OPERATOR_CONDITION_NAME'' = Some v \<and>
      snd x = P\<lparr>p_operatorNameVersion := v\<rparr> \<and> platform_found (snd x) u \<and> manager_calls u = [] \<and>
      t = u @ [EvManager ?c]
    else prefix (manager_calls t) [?c]"
  obtain out P' where eq: "x = (out, P')" by (cases x)
  show "runs (case x of (out, P) \<Rightarrow> case out of
      SetupPanic \<Rightarrow> ret StartupPanicked | SetupError e \<Rightarrow> ret Exited | SetupOk \<Rightarrow> start_manager M P)
    (h @ t) (\<lambda>r u. follows False Ps (tl final_calls) r (t @ u))"
  proof (cases "out = SetupOk")
    case True
    then obtain u where P': "P' \<in> Ps" and u: "platform_found P' u" "manager_calls u = []"
      and t: "t = u @ [EvManager ?c]"
      using x eq assms by auto
    have "follows False Ps (?c # ?cs) r (t @ w)" if "follows True {P'} ?cs r w" for r w
      using follows_platform [OF follows_step [OF that, of ?c] u(2,1) P'] by (simp add: t)
    then show ?thesis
      unfolding eq calls using True by (auto intro: runs_conseq [OF start_manager_runs])
  next
    case False
    then have "manager_calls t \<in> {[], [?c]}"
      using x eq by (auto simp: prefix_def Cons_eq_append_conv)
    then have "follows False Ps (?c # ?cs) r t" if "r \<in> {Exited, StartupPanicked}" for r
      using that by (intro follows_stop) auto
    then show ?thesis
      unfolding eq calls using False by (cases out) (auto intro!: runs_intros)
  qed
qed

lemma final_runs:
  assumes "\<And>v. p_LookupEnv P ''OPERATOR_CONDITION_NAME'' = Some v \<Longrightarrow>
    P\<lparr>p_operatorNameVersion := v\<rparr> \<in> Ps"
  shows "runs (setup_platform_and_start M P) h (follows False Ps final_calls)"
  unfolding setup_platform_and_start_def DBaaSPolicy_SetupWithManager_def
  using runs_register [OF _ platform_start_runs [OF assms]] by (simp add: final_calls_def)

lemma inventory_webhook_runs:
  assumes "\<And>h. runs (k (P\<lparr>p_env := (p_env P)\<lparr>WebhookAPIClientSet := True\<rparr>\<rparr>)) h (follows known Ps cs)"
  shows "runs (do {
      (err, P) \<leftarrow> DBaaSInventory_SetupWebhookWithManager M P;
      case err of Some e \<Rightarrow> ret Exited | None \<Rightarrow> k P
    }) h (follows known Ps (IndexField ''DBaaSInventory'' providerNameKey inventory_index #
      BuildWebhook ''DBaaSInventory'' # cs))"
  unfolding DBaaSInventory_SetupWebhookWithManager_def Let_def
  by (intro runs_intros assms [THEN runs_conseq])
    (auto intro!: runs_intros follows_stop follows_step assms [THEN runs_conseq] split: option.splits)

text \<open>
  The environment of the operator once it runs: its namespace (empty when the variable is not
  set), the name of its version, and the client of the webhooks unless they are switched off.
\<close>

definition webhooks_enabled :: "menv \<Rightarrow> bool" where
  "webhooks_enabled M \<longleftrightarrow> p_LookupEnv (m_penv M) ''ENABLE_WEBHOOKS'' \<noteq> Some ''false''"

definition process_env :: "menv \<Rightarrow> bool \<Rightarrow> penv" where
  "process_env M client = (m_penv M)\<lparr>p_env := (p_env (m_penv M))
     \<lparr>InstallNamespace := (case p_LookupEnv (m_penv M) ''INSTALL_NAMESPACE'' of None \<Rightarrow> [] | Some ns \<Rightarrow> ns),
      WebhookAPIClientSet := client\<rparr>\<rparr>"

definition running_env :: "menv \<Rightarrow> string \<Rightarrow> penv" where
  "running_env M v = (process_env M (webhooks_enabled M))\<lparr>p_operatorNameVersion := v\<rparr>"

definition running_envs :: "menv \<Rightarrow> penv set" where
  "running_envs M = {running_env M v | v. p_LookupEnv (m_penv M) ''OPERATOR_CONDITION_NAME'' = Some v}"

lemma process_env_simps [simp]:
  "p_LookupEnv (process_env M client) = p_LookupEnv (m_penv M)"
  "(process_env M client)\<lparr>p_env := (p_env (process_env M client))\<lparr>WebhookAPIClientSet := c\<rparr>\<rparr> =
     process_env M c"
  "WebhookAPIClientSet (p_env (process_env M client)) = client"
  by (simp_all add: process_env_def)

lemma Getenv_webhooks [simp]: "Getenv (process_env M c) ''ENABLE_WEBHOOKS'' \<noteq> ''false'' \<longleftrightarrow> webhooks_enabled M"
  by (simp add: Getenv_def webhooks_enabled_def split: option.split)

lemma process_final_runs:
  assumes "c = webhooks_enabled M"
  shows "runs (setup_platform_and_start M (process_env M c)) h (follows False (running_envs M) final_calls)"
  by (rule final_runs) (auto simp: running_envs_def running_env_def assms)

lemma webhooks_runs:
  "runs (setup_webhooks M (process_env M False)) h (follows False (running_envs M)
     ((if webhooks_enabled M then webhook_calls else []) @ final_calls))"
proof (cases "webhooks_enabled M")
  case True
  note final = process_final_runs [of True M]
  show ?thesis
    unfolding setup_webhooks_def Getenv_webhooks
    using True
    by (auto simp: webhook_calls_def DBaaSConnection_SetupWebhookWithManager_def
        DBaaSPolicy_SetupWebhookWithManager_def DBaaSInstance_SetupWebhookWithManager_def
        DBaaSProvider_SetupWebhookWithManager_def intro!: runs_register inventory_webhook_runs final)
next
  case False
  then show ?thesis
    unfolding setup_webhooks_def Getenv_webhooks using process_final_runs [of False M] by simp
qed

lemma main_runs:
  "runs (main M) h (follows False (running_envs M)
     (startup_calls M (p_env (process_env M False)) (webhooks_enabled M)))"
proof -
  have env: "(m_penv M)\<lparr>p_env := (p_env (m_penv M))\<lparr>InstallNamespace :=
      (case GetInstallNamespace (p_LookupEnv (m_penv M)) of Inl err \<Rightarrow> [] | Inr ns \<Rightarrow> ns),
      WebhookAPIClientSet := False\<rparr>\<rparr> = process_env M False"
    by (simp add: process_env_def GetInstallNamespace_def split: option.split)
  show ?thesis
    unfolding main_def Let_def env startup_calls_def watched_controller_def
      DBaaSConnection_SetupWithManager_def DBaaSInventory_SetupWithManager_def
      DBaaSInstance_SetupWithManager_def DBaaSDefaultPolicy_SetupWithManager_def
      DBaaSProvider_SetupWithManager_def append.simps
    by (intro runs_register webhooks_runs) simp_all
qed


text \<open>A start in which everything succeeds, with the webhooks switched off or on.\<close>

definition demo_menv :: "string \<Rightarrow> menv" where
  "demo_menv webhooks = \<lparr>
     m_penv = demo_penv\<lparr>p_LookupEnv := map_of [(''INSTALL_NAMESPACE'', ''dbaas''),
       (''OPERATOR_CONDITION_NAME'', ''dbaas-operator.v0.4.0''), (''ENABLE_WEBHOOKS'', webhooks)]\<rparr>,
     m_ParseFlags = id, m_UnmarshalLevel = (\<lambda>s. Inr 0), m_NewClient = None,
     m_Manager = (\<lambda>h c. None)\<rparr>"

lemma demo_start_simps [env_simps]:
  "srv_GetSecret demo_env = (\<lambda>h k. no_object)"
  "p_ListPlatforms demo_penv = (\<lambda>h ns. Inr [demo_platform])"
  "p_GetConfigMap demo_penv = (\<lambda>h k. no_object)"
  by (simp_all add: demo_env_def demo_penv_def env_simps)
lemma demo_startup:
  "fst (run_state (main (demo_menv webhooks)) []) =
     Started (running_env (demo_menv webhooks) ''dbaas-operator.v0.4.0'') None"
  by (simp add: main_def or_exit_def manager_def demo_menv_def Let_def setup_webhooks_def Getenv_def
    setup_platform_and_start_def start_manager_def DBaaSConnection_SetupWithManager_def DBaaSInventory_SetupWithManager_def
      DBaaSInstance_SetupWithManager_def DBaaSDefaultPolicy_SetupWithManager_def
      DBaaSProvider_SetupWithManager_def DBaaSPolicy_SetupWithManager_def DBaaSPlatform_SetupWithManager_def
      DBaaSConnection_SetupWebhookWithManager_def DBaaSInventory_SetupWebhookWithManager_def
        DBaaSPolicy_SetupWebhookWithManager_def DBaaSInstance_SetupWebhookWithManager_def
        DBaaSProvider_SetupWebhookWithManager_def prepareRDSController_def createPlatformCR_def
        GetInstallNamespace_def running_env_def webhooks_enabled_def process_env_def env_simps)


text \<open>The controllers among the registrations.\<close>

fun built_controllers :: "manager_call list \<Rightarrow> ControllerBuild list" where
  "built_controllers [] = []"
| "built_controllers (BuildController b # cs) = b # built_controllers cs"
| "built_controllers (_ # cs) = built_controllers cs"

lemma built_controllers_append [simp]:
  "built_controllers (cs @ ds) = built_controllers cs @ built_controllers ds"
  by (induction cs rule: built_controllers.induct) simp_all

text \<open>C32: Which deletions reach a controller: when the operator runs, it has one controller for each
  of seven kinds, in this order, and a \<open>Delete\<close> method is called for connections, inventories and
  instances, each by its own controller, and for nothing else; the controllers of policies,
  providers and the platform are registered without such a handler, so that their \<open>Delete\<close>
  methods are never called.\<close>

theorem delete_handlers_registered:
  "runs (main M) h (\<lambda>r t. \<forall>P err. r = Started P err \<longrightarrow>
     map (\<lambda>b. (cb_For b, cb_WatchesWithDelete b)) (built_controllers (manager_calls t)) =
       [(''DBaaSConnection'', [''DBaaSConnection'']), (''DBaaSInventory'', [''DBaaSInventory'']),
        (''DBaaSInstance'', [''DBaaSInstance'']), (''Deployment'', []), (''DBaaSProvider'', []),
        (''DBaaSPolicy'', []), (''DBaaSPlatform'', [])])"
  by (rule runs_conseq [OF main_runs])
    (auto simp: follows_def startup_calls_def webhook_calls_def final_calls_def
      watched_controller_def controller_for_def)

theorem delete_handlers_registered_witness:
  "\<exists>P. fst (run_state (main (demo_menv ''true'')) []) = Started P None \<and>
     (''DBaaSPlatform'', []) \<in> set (map (\<lambda>b. (cb_For b, cb_WatchesWithDelete b))
       (built_controllers (manager_calls (snd (run_state (main (demo_menv ''true'')) [])))))"
  using delete_handlers_registered [of "demo_menv ''true''" "[]"] demo_startup [of "''true''"]
  by (auto simp: runs_def)

end
