(* ===== verification/Metric_Labels.thy ===== *)
theory Metric_Labels
  imports Write_Bounds Provider_Controller Platform_Controller Operator_Setup
begin

section \<open>The operator and the registry of metrics\<close>

text \<open>
  \<open>With\<close> and \<open>WithLabelValues\<close> of a Prometheus vector panic when the labels are not those the
  vector was declared with, and \<open>MustRegister\<close> panics when a name is registered twice. This
  theory shows that neither can happen: which operation on which vector the whole operator can
  send.
\<close>

definition fitting :: "event \<Rightarrow> bool" where
  "fitting e \<longleftrightarrow> (\<forall>m. e = EvMetric m \<longrightarrow> (\<exists>w \<in> set (registered_vectors init_registrations). fits m w))"

lemma well_labelled_registered:
  "well_labelled m \<longleftrightarrow> (\<exists>w \<in> set (registered_vectors init_registrations). fits m w)"
  by (simp add: well_labelled_def init_vectors list_ex_iff)

lemma fitting_simps [simp]: "telemetry e \<Longrightarrow> fitting e" "is_read e \<Longrightarrow> fitting e"
  "is_status_update e \<Longrightarrow> fitting e" "is_provider_write e \<Longrightarrow> fitting e" "\<not> reports e \<Longrightarrow> fitting e"
  unfolding fitting_def using well_labelled_registered by (cases e; auto)+

lemma fitting_platform [simp]: "fitting (EvPlatform r)"
  by (simp add: fitting_def)

lemma housekeeping_fitting: "housekeeping E e \<Longrightarrow> fitting e"
  by (auto simp: housekeeping_def)

subsection \<open>The generic operations\<close>

lemma resource_fitting:
  "only fitting (reconcileProviderResource E inventory_ops (inventory_callbacks E p) n
     DBaaSInventoryReadyType i)"
  "only fitting (reconcileProviderResource E connection_ops (connection_callbacks E p sp) n
     DBaaSConnectionReadyType c)"
  "only fitting (reconcileProviderResource E instance_ops (instance_callbacks E p) n
     DBaaSInstanceReadyType x)"
  by (rule inventory_provider.only_reconcile connection_provider.only_reconcile
      instance_provider.only_reconcile; auto)+

lemma sound_fitting: "sound_step m \<Longrightarrow> only fitting m"
  unfolding sound_step_def only_def
  by (intro allI, rule runs_conseq, erule allE, assumption) (auto elim: list.pred_mono_strong)

lemma platform_loop_fitting: "only fitting (platform_loop P ex cr ps st)"
proof (induction ps arbitrary: st)
  case Nil
  then show ?case by (simp add: only_return)
next
  case (Cons p ps)
  obtain n config where p: "p = (n, config)" by (cases p)
  show ?case
  proof (cases "getReconcilerForPlatform P config")
    case None
    then show ?thesis using Cons.IH by (simp add: p)
  next
    case (Some r)
    note sound = platform_reconciler_contract.reconcile_sound [OF reconciler_contract [OF Some]]
      platform_reconciler_contract.cleanup_sound [OF reconciler_contract [OF Some]]
    show ?thesis
      unfolding p platform_loop.simps Some option.case visit_platform_def stack_in_progress_def Let_def
      by (intro only_intros sound [THEN sound_fitting] Cons.IH) auto
  qed
qed

text \<open>C17: No metric operation of the operator can panic: every vector of the metrics package is
  registered once, under a name and with labels of its own; and whatever a reconciliation or a
  delete handler of any controller sends to the registry is an operation of the kind of one of
  these vectors, with exactly its labels (some of them, for a deletion by partial match), or as
  many values as it has labels.\<close>

theorem metrics_never_panic:
  "distinct (map mv_Name (registered_vectors init_registrations)) \<and>
   list_all (\<lambda>w. distinct (mv_Labels w)) (registered_vectors init_registrations) \<and>
   only fitting (DBaaSInventory_Reconcile E req) \<and> only fitting (DBaaSInventory_Delete E i) \<and>
   only fitting (DBaaSConnection_Reconcile E req) \<and> only fitting (DBaaSConnection_Delete E c) \<and>
   only fitting (DBaaSInstance_Reconcile E req) \<and> only fitting (DBaaSInstance_Delete E n) \<and>
   only fitting (DBaaSPolicy_Reconcile E req) \<and> only fitting (DBaaSPolicy_Delete E p) \<and>
   only fitting (DBaaSProvider_Reconcile E req) \<and> only fitting (DBaaSProvider_Delete E v) \<and>
   only fitting (DBaaSPlatform_Reconcile P done req) \<and> only fitting (DBaaSPlatform_Delete P x)"
proof (intro conjI)
  show "distinct (map mv_Name (registered_vectors init_registrations))"
    by (simp add: init_vectors metric_vector_defs)
  show "list_all (\<lambda>w. distinct (mv_Labels w)) (registered_vectors init_registrations)"
    by (simp add: init_vectors metric_vector_defs)
  show "only fitting (DBaaSInventory_Reconcile E req)"
    unfolding DBaaSInventory_Reconcile_def policyListByNS_def inventory_policy_missing_def
      reconcile_inventory_object_def getDBaaSProvider_def Let_def
    by (intro only_intros resource_fitting) auto
  show "only fitting (DBaaSConnection_Reconcile E req)"
    unfolding DBaaSConnection_Reconcile_def reconcileDevTopologyResource_def
      reconcile_admitted_connection_def getConnectionSpec_def getDBaaSProvider_def
      updateConnectionStatus_def try_status_update_def statusUpdate_def Let_def
    by (intro only_intros resource_fitting connection_gate.only_checkInventory) auto
  show "only fitting (DBaaSInstance_Reconcile E req)"
    unfolding DBaaSInstance_Reconcile_def reconcile_admitted_instance_def getDBaaSProvider_def
      check_instance_conversion_def DBaaSInstanceSpec_ConvertFrom_def Let_def
    by (intro only_intros resource_fitting instance_gate.only_checkInventory) auto
  show "only fitting (DBaaSPolicy_Reconcile E req)"
    unfolding DBaaSPolicy_Reconcile_def policyListByNS_def reconcile_policy_object_def
      updateStatusCondition_def Let_def
    by (intro only_intros) auto
  show "only fitting (DBaaSProvider_Reconcile E req)"
    unfolding DBaaSProvider_Reconcile_def watchDBaaSProviderObject_def Let_def
    by (intro only_intros) auto
  show "only fitting (DBaaSPlatform_Reconcile P done req)"
    unfolding DBaaSPlatform_Reconcile_def reconcile_platform_object_def updateStatus_def Let_def
    by (intro only_intros platform_loop_fitting only_housekeeping [THEN only_mono]) (auto intro: housekeeping_fitting)
qed (unfold DBaaSInventory_Delete_def DBaaSConnection_Delete_def DBaaSInstance_Delete_def
    DBaaSPolicy_Delete_def DBaaSProvider_Delete_def DBaaSPlatform_Delete_def Let_def,
    (intro only_intros; auto)+)

subsection \<open>What a deletion leaves in the registry\<close>

text \<open>The operations on one gauge.\<close>

fun gauge_ops :: "string \<Rightarrow> event list \<Rightarrow> metric list" where
  "gauge_ops n [] = []"
| "gauge_ops n (EvMetric (GaugeSet k ls v) # t) =
     (if k = n then [GaugeSet k ls v] else []) @ gauge_ops n t"
| "gauge_ops n (EvMetric (GaugeDelete k ls) # t) =
     (if k = n then [GaugeDelete k ls] else []) @ gauge_ops n t"
| "gauge_ops n (EvMetric (GaugeDeletePartialMatch k ls) # t) =
     (if k = n then [GaugeDeletePartialMatch k ls] else []) @ gauge_ops n t"
| "gauge_ops n (_ # t) = gauge_ops n t"

lemma gauge_ops_append [simp]: "gauge_ops n (t @ u) = gauge_ops n t @ gauge_ops n u"
  by (induction n t rule: gauge_ops.induct) simp_all

text \<open>
  The series of an object is replaced: what carries its name and namespace is removed, and a
  series with the same labels among others is set, to 1 if the condition says ready, else to 0.
\<close>

definition series_replaced ::
    "string \<Rightarrow> string \<Rightarrow> ObjectMeta \<Rightarrow> Condition option \<Rightarrow> metric list \<Rightarrow> bool" where
  "series_replaced n name_label m c ops \<longleftrightarrow>
     (case c of None \<Rightarrow> ops = []
      | Some cond \<Rightarrow> \<exists>own ls. ops = [GaugeDeletePartialMatch n own,
            GaugeSet n ls (if c_Reason cond = Ready \<and> c_Status cond = ConditionTrue then 1 else 0)] \<and>
          {(name_label, om_Name m), (MetricLabelNameSpace, om_Namespace m)} \<subseteq> set own \<and>
          set own \<subseteq> set ls)"

lemma observe_synced_gauges:
  "runs (observe_synced E ty provider m resource ev cs) h (\<lambda>_ t. gauge_ops n t = [])"
  by (induction cs arbitrary: h)
    (auto simp: UpdateRequestsDurationHistogram_def intro!: runs_intros elim: runs_conseq)

text \<open>C33: The delete handlers do not take a deleted object out of the metrics: for an inventory, a
  connection and an instance, all that they do with its status gauge is to replace the object's
  series by a new one for its last ready condition, so that a deleted object that was ready goes on
  being reported as ready.\<close>

theorem deleted_objects_stay_in_metrics:
  "runs (DBaaSInventory_Delete E (Some i)) h (\<lambda>r t.
     series_replaced MetricNameInventoryStatusReady MetricLabelName (inv_ObjectMeta i)
       (first_condition DBaaSInventoryReadyType (inv_Conditions i))
       (gauge_ops MetricNameInventoryStatusReady t)) \<and>
   runs (DBaaSConnection_Delete E (Some c)) h (\<lambda>r t.
     series_replaced MetricNameConnectionStatusReady MetricLabelConnectionName (conn_ObjectMeta c)
       (first_condition DBaaSConnectionReadyType (cst_Conditions (conn_Status c)))
       (gauge_ops MetricNameConnectionStatusReady t)) \<and>
   runs (DBaaSInstance_Delete E (Some n)) h (\<lambda>r t.
     series_replaced metricNameInstanceStatusReady metricLabelInstanceName (instance_ObjectMeta n)
       (first_condition DBaaSInstanceReadyType (inst_Conditions (instance_Status n)))
       (gauge_ops metricNameInstanceStatusReady t))"
  unfolding DBaaSInventory_Delete_def DBaaSConnection_Delete_def DBaaSInstance_Delete_def
    PlatformInstallStart_def SetInventoryMetrics_def SetConnectionMetrics_def SetInstanceMetrics_def
    setInventoryStatusMetrics_def setConnectionStatusMetrics_def setInstanceStatusMetrics_def
    setInventoryRequestDurationSeconds_def setConnectionRequestDurationSeconds_def
    setInstanceRequestDurationSeconds_def setInstancePhaseMetrics_def UpdateErrorsTotal_def
    UpdateRequestsDurationHistogram_def Let_def
  by (intro conjI runs_intros observe_synced_gauges [THEN runs_conseq])
    (auto simp: series_replaced_def)

end
