(* ===== verification/Go_Heap.thy ===== *)
theory Go_Heap
  imports Main
begin

section \<open>Go values with references\<close>

text \<open>
  The rest of the development treats the objects of the API as values: what the code does to a
  deep copy of an object does not change the object. This theory and the next ones justify
  that, for the code of \<open>zz_generated.deepcopy.go\<close>: here are Go values over an explicit store, the
  statements deep copies are made of, and what it means that a copy is deep.
\<close>

subsection \<open>Values, cells and the store\<close>

text \<open>
  A value without references in it is a literal. A pointer, a slice or a map is \<open>Nil\<close> or refers
  to a cell: the value pointed to, the elements, or the entries. A struct lies where it is
  stored, with the names of its fields. The store only grows; a new cell gets the next address.
  Slices that share a part of an array are not represented: a deep copy makes none.
\<close>

type_synonym addr = nat

datatype gval = Lit string | Nil | Ref addr | Struct "(string \<times> gval) list"

datatype cell = Cell gval | Elems "gval list" | Entries "(string \<times> gval) list"

type_synonym heap = "cell list"

type_synonym copier = "gval \<Rightarrow> heap \<Rightarrow> gval \<times> heap"

definition alloc :: "cell \<Rightarrow> heap \<Rightarrow> gval \<times> heap" where
  "alloc c h = (Ref (length h), h @ [c])"

subsection \<open>The statements of a deep copy\<close>

text \<open>\<open>*out = *in\<close>, also for a field: the value as it is, references included.\<close>

definition assign :: copier where
  "assign v h = (v, h)"

text \<open>
  \<open>*out = new(T)\<close>, and then the copy of what \<open>*in\<close> points to. A cell is written here once its
  contents are known; until then nobody but the copying function knows its address.
\<close>

definition copy_pointer :: "copier \<Rightarrow> copier" where
  "copy_pointer c v h = (case v of
     Ref a \<Rightarrow> (case h ! a of Cell x \<Rightarrow> (let (y, h) = c x h in alloc (Cell y) h) | _ \<Rightarrow> (v, h))
   | _ \<Rightarrow> (v, h))"

text \<open>The loop over the elements of a slice or the entries of a map.\<close>

fun copy_each :: "copier \<Rightarrow> gval list \<Rightarrow> heap \<Rightarrow> gval list \<times> heap" where
  "copy_each c [] h = ([], h)"
| "copy_each c (x # xs) h =
     (let (y, h) = c x h; (ys, h) = copy_each c xs h in (y # ys, h))"

definition copy_slice :: "copier \<Rightarrow> copier" where
  "copy_slice c v h = (case v of
     Ref a \<Rightarrow> (case h ! a of Elems xs \<Rightarrow> (let (ys, h) = copy_each c xs h in alloc (Elems ys) h)
               | _ \<Rightarrow> (v, h))
   | _ \<Rightarrow> (v, h))"

definition copy_map :: "copier \<Rightarrow> copier" where
  "copy_map c v h = (case v of
     Ref a \<Rightarrow> (case h ! a of
         Entries es \<Rightarrow> (let (ys, h) = copy_each c (map snd es) h
                       in alloc (Entries (zip (map fst es) ys)) h)
       | _ \<Rightarrow> (v, h))
   | _ \<Rightarrow> (v, h))"

text \<open>\<open>*val.DeepCopy()\<close>: the copy is made in a cell of its own and assigned from there.\<close>

definition copy_deref :: "copier \<Rightarrow> copier" where
  "copy_deref c v h = (let (y, h) = c v h in (y, h @ [Cell y]))"

text \<open>
  The body of a \<open>DeepCopyInto\<close>: \<open>*out = *in\<close>, and then a statement for some of the fields, in the
  order of their declaration. A field without a statement keeps what was assigned.
\<close>

fun copy_fields :: "(string \<times> copier) list \<Rightarrow> (string \<times> gval) list \<Rightarrow> heap \<Rightarrow>
    (string \<times> gval) list \<times> heap" where
  "copy_fields stmts [] h = ([], h)"
| "copy_fields stmts ((f, x) # fs) h =
     (let (y, h) = (case map_of stmts f of None \<Rightarrow> (x, h) | Some c \<Rightarrow> c x h);
          (ys, h) = copy_fields stmts fs h
      in ((f, y) # ys, h))"

definition copy_struct :: "(string \<times> copier) list \<Rightarrow> copier" where
  "copy_struct stmts v h = (case v of
     Struct fs \<Rightarrow> (let (ys, h) = copy_fields stmts fs h in (Struct ys, h))
   | _ \<Rightarrow> (v, h))"

text \<open>
  \<open>DeepCopy\<close>: nil for nil, else a new object. \<open>DeepCopyObject\<close> returns it as an object of the
  runtime, again nil for nil.
\<close>

definition deep_copy :: "copier \<Rightarrow> copier" where
  "deep_copy into v h = (if v = Nil then (Nil, h) else copy_pointer into v h)"

definition deep_copy_object :: "copier \<Rightarrow> copier" where
  "deep_copy_object copy v h = (let (c, h) = copy v h in if c \<noteq> Nil then (c, h) else (Nil, h))"

subsection \<open>Types, and what a value represents\<close>

datatype gtype = TLit | TPointer gtype | TSlice gtype | TMap gtype | TStruct "(string \<times> gtype) list"

text \<open>What a value represents: a tree without addresses.\<close>

datatype tree = TreeLit string | TreeNil | TreePointer tree | TreeSlice "tree list"
  | TreeMap "string list" "tree list" | TreeStruct "(string \<times> tree) list"

text \<open>A view is the tree together with the addresses that were followed.\<close>

type_synonym view = "(tree \<times> addr list) option"

fun views :: "view list \<Rightarrow> (tree list \<times> addr list) option" where
  "views [] = Some ([], [])"
| "views (v # vs) = (case (v, views vs) of
     (Some (t, as), Some (ts, bs)) \<Rightarrow> Some (t # ts, as @ bs) | _ \<Rightarrow> None)"

definition follow :: "heap \<Rightarrow> gval \<Rightarrow> (cell \<Rightarrow> view) \<Rightarrow> view" where
  "follow h v f = (case v of
     Nil \<Rightarrow> Some (TreeNil, [])
   | Ref a \<Rightarrow> if a < length h then map_option (\<lambda>(t, as). (t, a # as)) (f (h ! a)) else None
   | _ \<Rightarrow> None)"

fun view :: "gtype \<Rightarrow> heap \<Rightarrow> gval \<Rightarrow> view"
  and view_fields :: "(string \<times> gtype) list \<Rightarrow> heap \<Rightarrow> (string \<times> gval) list \<Rightarrow>
    ((string \<times> tree) list \<times> addr list) option" where
  "view TLit h v = (case v of Lit s \<Rightarrow> Some (TreeLit s, []) | _ \<Rightarrow> None)"
| "view (TPointer t) h v = follow h v (\<lambda>c. case c of
     Cell x \<Rightarrow> map_option (\<lambda>(u, as). (TreePointer u, as)) (view t h x) | _ \<Rightarrow> None)"
| "view (TSlice t) h v = follow h v (\<lambda>c. case c of
     Elems xs \<Rightarrow> map_option (\<lambda>(us, as). (TreeSlice us, as)) (views (map (view t h) xs))
   | _ \<Rightarrow> None)"
| "view (TMap t) h v = follow h v (\<lambda>c. case c of
     Entries es \<Rightarrow> map_option (\<lambda>(us, as). (TreeMap (map fst es) us, as))
       (views (map (view t h) (map snd es)))
   | _ \<Rightarrow> None)"
| "view (TStruct ts) h v = (case v of
     Struct fs \<Rightarrow> map_option (\<lambda>(us, as). (TreeStruct us, as)) (view_fields ts h fs) | _ \<Rightarrow> None)"
| "view_fields [] h fs = (if fs = [] then Some ([], []) else None)"
| "view_fields ((n, t) # ts) h fs = (case fs of
     [] \<Rightarrow> None
   | (m, x) # fs \<Rightarrow>
       if m = n then (case (view t h x, view_fields ts h fs) of
         (Some (u, as), Some (us, bs)) \<Rightarrow> Some ((n, u) # us, as @ bs) | _ \<Rightarrow> None)
       else None)"

text \<open>What a view depends on: the cells at the addresses it follows.\<close>

abbreviation same_at :: "heap \<Rightarrow> heap \<Rightarrow> addr list \<Rightarrow> bool" where
  "same_at h h' as \<equiv> \<forall>a \<in> set as. a < length h' \<and> h' ! a = h ! a"

lemma views_cong:
  assumes "views (map f xs) = Some (us, as)" "same_at h h' as"
    and "\<And>x u bs. x \<in> set xs \<Longrightarrow> f x = Some (u, bs) \<Longrightarrow> same_at h h' bs \<Longrightarrow> g x = Some (u, bs)"
  shows "views (map g xs) = Some (us, as)"
  using assms
proof (induction xs arbitrary: us as)
  case (Cons x xs)
  obtain u bs vs cs where x: "f x = Some (u, bs)" "views (map f xs) = Some (vs, cs)"
    and eq: "us = u # vs" "as = bs @ cs"
    using Cons.prems(1) by (auto split: option.splits)
  have "views (map g xs) = Some (vs, cs)"
    by (rule Cons.IH [OF x(2)]) (use Cons.prems(2,3) eq in auto)
  moreover have "g x = Some (u, bs)"
    by (rule Cons.prems(3) [OF _ x(1)]) (use Cons.prems(2) eq in auto)
  ultimately show ?case by (simp add: eq)
qed simp

lemma view_cong:
  "view T h v = Some (t, as) \<Longrightarrow> same_at h h' as \<Longrightarrow> view T h' v = Some (t, as)"
  "view_fields ts h fs = Some (us, as) \<Longrightarrow> same_at h h' as \<Longrightarrow> view_fields ts h' fs = Some (us, as)"
proof (induction T h v and ts h fs arbitrary: t as and us as rule: view_view_fields.induct)
  case (3 T h v)
  then show ?case
    by (auto simp: follow_def split: gval.splits cell.splits if_splits
        elim!: views_cong [where h = h and h' = h'])
next
  case (4 T h v)
  then show ?case
    by (auto simp: follow_def simp del: map_map split: gval.splits cell.splits if_splits
        elim!: views_cong [where h = h and h' = h'])
next
  case (7 n t ts h fs)
  obtain x gs u bs vs cs where fs: "fs = (n, x) # gs" "view t h x = Some (u, bs)"
    "view_fields ts h gs = Some (vs, cs)" and eq: "us = (n, u) # vs" "as = bs @ cs"
    using 7(3) by (auto split: list.split_asm if_split_asm option.split_asm prod.split_asm)
  have "view t h' x = Some (u, bs)"
    by (rule 7(1) [OF fs(1) refl refl fs(2)]) (use 7(4) eq in auto)
  moreover have "view_fields ts h' gs = Some (vs, cs)"
    by (rule 7(2) [OF fs(1) refl refl fs(3)]) (use 7(4) eq in auto)
  ultimately show ?case by (simp add: fs(1) eq)
qed (auto simp: follow_def split: gval.splits cell.splits if_splits option.splits list.splits)

text \<open>A store that has only grown shows the same.\<close>

lemma views_below:
  "views (map f xs) = Some (us, as) \<Longrightarrow> a \<in> set as \<Longrightarrow>
     \<exists>x u bs. x \<in> set xs \<and> f x = Some (u, bs) \<and> a \<in> set bs"
proof (induction xs arbitrary: us as)
  case (Cons x xs)
  obtain u bs vs cs where x: "f x = Some (u, bs)" "views (map f xs) = Some (vs, cs)" "as = bs @ cs"
    using Cons.prems(1) by (auto split: option.splits)
  show ?case
  proof (cases "a \<in> set bs")
    case False
    then have "a \<in> set cs" using Cons.prems(2) x(3) by simp
    from Cons.IH [OF x(2) this] show ?thesis by auto
  qed (use x(1) in auto)
qed simp

lemma view_below:
  "view T h v = Some (t, as) \<Longrightarrow> a \<in> set as \<Longrightarrow> a < length h"
  "view_fields ts h fs = Some (us, as) \<Longrightarrow> a \<in> set as \<Longrightarrow> a < length h"
proof (induction T h v and ts h fs arbitrary: t as and us as rule: view_view_fields.induct)
  case (3 T h v)
  then show ?case
    by (auto simp: follow_def split: gval.split_asm cell.split_asm if_split_asm dest!: views_below)
next
  case (4 T h v)
  then show ?case
    by (auto simp: follow_def simp del: map_map split: gval.split_asm cell.split_asm if_split_asm
        dest!: views_below)
next
  case (7 n t ts h fs)
  obtain x gs u bs vs cs where fs: "fs = (n, x) # gs" "view t h x = Some (u, bs)"
    "view_fields ts h gs = Some (vs, cs)" and "as = bs @ cs"
    using 7(3) by (auto split: list.split_asm if_split_asm option.split_asm prod.split_asm)
  then show ?case
    using 7(1) [OF fs(1) refl refl fs(2)] 7(2) [OF fs(1) refl refl fs(3)] 7(4) by auto
qed (auto simp: follow_def split: gval.split_asm cell.split_asm if_split_asm list.split_asm)

lemma views_view_below:
  "views (map (view T h) xs) = Some (us, as) \<Longrightarrow> a \<in> set as \<Longrightarrow> a < length h"
  by (auto dest!: views_below dest: view_below)

lemma view_extend: "view T h v = Some (t, as) \<Longrightarrow> view T (h @ new) v = Some (t, as)"
  by (rule view_cong(1)) (auto simp: nth_append dest: view_below)

lemma views_extend:
  "views (map (view T h) xs) = Some (us, as) \<Longrightarrow> views (map (view T (h @ new)) xs) = Some (us, as)"
  by (induction xs arbitrary: us as) (auto split: option.split_asm simp: view_extend)

subsection \<open>Deep copies\<close>

text \<open>
  A copier is deep for a type: whatever value of the type it is given, it only adds cells to the
  store, and returns a value that represents the same tree and of which every reachable cell
  is one of the new ones, and reached in one way only.
\<close>

abbreviation fresh :: "heap \<Rightarrow> addr list \<Rightarrow> bool" where
  "fresh h bs \<equiv> distinct bs \<and> (\<forall>b \<in> set bs. length h \<le> b)"

definition deep :: "gtype \<Rightarrow> copier \<Rightarrow> bool" where
  "deep T c \<longleftrightarrow> (\<forall>h v t as. view T h v = Some (t, as) \<longrightarrow>
     (\<exists>y new bs. c v h = (y, h @ new) \<and> view T (h @ new) y = Some (t, bs) \<and>
        fresh h bs))"

lemma deepE:
  assumes "deep T c" "view T h v = Some (t, as)"
  obtains y new bs where "c v h = (y, h @ new)" "view T (h @ new) y = Some (t, bs)"
    "fresh h bs"
  using assms unfolding deep_def by blast

text \<open>A type without references.\<close>

fun flat :: "gtype \<Rightarrow> bool" where
  "flat TLit = True"
| "flat (TStruct ts) = list_all (\<lambda>(n, t). flat t) ts"
| "flat _ = False"

lemma flat_view:
  "view T h v = Some (t, as) \<Longrightarrow> flat T \<Longrightarrow> as = []"
  "view_fields ts h fs = Some (us, as) \<Longrightarrow> list_all (\<lambda>(n, t). flat t) ts \<Longrightarrow> as = []"
proof (induction T h v and ts h fs arbitrary: t as and us as rule: view_view_fields.induct)
  case (7 n t ts h fs)
  obtain x gs u bs vs cs where fs: "fs = (n, x) # gs" "view t h x = Some (u, bs)"
    "view_fields ts h gs = Some (vs, cs)" and "as = bs @ cs"
    using 7(3) by (auto split: list.split_asm if_split_asm option.split_asm prod.split_asm)
  then show ?case
    using 7(1) [OF fs(1) refl refl fs(2)] 7(2) [OF fs(1) refl refl fs(3)] 7(4) by auto
qed (auto split: gval.split_asm list.split_asm if_split_asm)

named_theorems deep_intros "the statements that copy deeply"

lemma deep_assign [deep_intros]: "flat T \<Longrightarrow> deep T assign"
  unfolding deep_def
proof (intro allI impI)
  fix h v t as
  assume f: "flat T" and v: "view T h v = Some (t, as)"
  then have "as = []" by (rule flat_view(1) [rotated])
  then show "\<exists>y new bs. assign v h = (y, h @ new) \<and> view T (h @ new) y = Some (t, bs) \<and>
      fresh h bs"
    using v by (intro exI [of _ v] exI [of _ "[]"] exI [of _ "[]"]) (simp add: assign_def)
qed

lemma deep_pointer [deep_intros]:
  assumes "deep T c"
  shows "deep (TPointer T) (copy_pointer c)"
  unfolding deep_def
proof (intro allI impI)
  fix h v t as
  assume v: "view (TPointer T) h v = Some (t, as)"
  show "\<exists>y new bs. copy_pointer c v h = (y, h @ new) \<and> view (TPointer T) (h @ new) y = Some (t, bs) \<and>
      fresh h bs"
  proof (cases v)
    case (Ref a)
    then obtain x u cs where a: "a < length h" "h ! a = Cell x" "view T h x = Some (u, cs)"
      and t: "t = TreePointer u"
      using v by (auto simp: follow_def split: cell.split_asm if_split_asm)
    obtain y new bs where c: "c x h = (y, h @ new)" "view T (h @ new) y = Some (u, bs)"
      "fresh h bs"
      using assms a(3) by (rule deepE)
    have "view T (h @ (new @ [Cell y])) y = Some (u, bs)"
      using view_extend [OF c(2), of "[Cell y]"] by simp
    with c(1,3) view_below(1) [OF c(2)] show ?thesis
      by (intro exI [of _ "Ref (length (h @ new))"] exI [of _ "new @ [Cell y]"]
          exI [of _ "length (h @ new) # bs"])
        (auto simp: Ref a copy_pointer_def alloc_def follow_def t nth_append)
  qed (use v in \<open>auto simp: follow_def copy_pointer_def intro!: exI [of _ "[]"]\<close>)
qed

lemma copy_each_deep:
  assumes "deep T c"
  shows "views (map (view T h) xs) = Some (us, as) \<Longrightarrow>
    \<exists>ys new bs. copy_each c xs h = (ys, h @ new) \<and> length ys = length xs \<and>
      views (map (view T (h @ new)) ys) = Some (us, bs) \<and> fresh h bs"
proof (induction xs arbitrary: h us as)
  case (Cons x xs)
  obtain u vs bs cs where x: "view T h x = Some (u, bs)" "views (map (view T h) xs) = Some (vs, cs)"
    and us: "us = u # vs"
    using Cons.prems by (auto split: option.split_asm)
  obtain y new ds where y: "c x h = (y, h @ new)" "view T (h @ new) y = Some (u, ds)"
    "fresh h ds"
    using assms x(1) by (rule deepE)
  obtain ys new' es where ys: "copy_each c xs (h @ new) = (ys, (h @ new) @ new')"
    "length ys = length xs" "views (map (view T ((h @ new) @ new')) ys) = Some (vs, es)"
    "fresh (h @ new) es"
    using Cons.IH [OF views_extend [OF x(2), of new]] by blast
  have "view T ((h @ new) @ new') y = Some (u, ds)" by (rule view_extend [OF y(2)])
  then show ?case
    using y ys view_below(1) [OF y(2)]
    by (intro exI [of _ "y # ys"] exI [of _ "new @ new'"] exI [of _ "ds @ es"]) (fastforce simp: us)
qed simp

lemma deep_slice [deep_intros]:
  assumes "deep T c"
  shows "deep (TSlice T) (copy_slice c)"
  unfolding deep_def
proof (intro allI impI)
  fix h v t as
  assume v: "view (TSlice T) h v = Some (t, as)"
  show "\<exists>y new bs. copy_slice c v h = (y, h @ new) \<and> view (TSlice T) (h @ new) y = Some (t, bs) \<and>
      fresh h bs"
  proof (cases v)
    case (Ref a)
    then obtain xs us cs where a: "a < length h" "h ! a = Elems xs"
      "views (map (view T h) xs) = Some (us, cs)" and t: "t = TreeSlice us"
      using v by (auto simp: follow_def split: cell.split_asm if_split_asm)
    obtain ys new bs where c: "copy_each c xs h = (ys, h @ new)"
      "views (map (view T (h @ new)) ys) = Some (us, bs)" "fresh h bs"
      using copy_each_deep [OF assms a(3)] by blast
    have "views (map (view T (h @ (new @ [Elems ys]))) ys) = Some (us, bs)"
      using views_extend [OF c(2), of "[Elems ys]"] by simp
    with c(1,3) views_view_below [OF c(2)] show ?thesis
      by (intro exI [of _ "Ref (length (h @ new))"] exI [of _ "new @ [Elems ys]"]
          exI [of _ "length (h @ new) # bs"])
        (auto simp: Ref a copy_slice_def alloc_def follow_def t nth_append)
  qed (use v in \<open>auto simp: follow_def copy_slice_def intro!: exI [of _ "[]"]\<close>)
qed

lemma deep_map [deep_intros]:
  assumes "deep T c"
  shows "deep (TMap T) (copy_map c)"
  unfolding deep_def
proof (intro allI impI)
  fix h v t as
  assume v: "view (TMap T) h v = Some (t, as)"
  show "\<exists>y new bs. copy_map c v h = (y, h @ new) \<and> view (TMap T) (h @ new) y = Some (t, bs) \<and>
      fresh h bs"
  proof (cases v)
    case (Ref a)
    then obtain es us cs where a: "a < length h" "h ! a = Entries es"
      "views (map (view T h) (map snd es)) = Some (us, cs)" and t: "t = TreeMap (map fst es) us"
      using v by (auto simp: follow_def simp del: map_map split: cell.split_asm if_split_asm)
    obtain ys new bs where c: "copy_each c (map snd es) h = (ys, h @ new)" "length ys = length es"
      "views (map (view T (h @ new)) ys) = Some (us, bs)" "fresh h bs"
      using copy_each_deep [OF assms a(3)] by auto
    let ?es = "zip (map fst es) ys"
    have "views (map (view T (h @ (new @ [Entries ?es]))) ys) = Some (us, bs)"
      using views_extend [OF c(3), of "[Entries ?es]"] by simp
    with c(1,2,4) views_view_below [OF c(3)] show ?thesis
      by (intro exI [of _ "Ref (length (h @ new))"] exI [of _ "new @ [Entries ?es]"]
          exI [of _ "length (h @ new) # bs"])
        (auto simp: Ref a copy_map_def alloc_def follow_def t nth_append simp del: map_map)
  qed (use v in \<open>auto simp: follow_def copy_map_def intro!: exI [of _ "[]"]\<close>)
qed

lemma deep_deref [deep_intros]:
  assumes "deep T c"
  shows "deep T (copy_deref c)"
  unfolding deep_def
proof (intro allI impI)
  fix h v t as
  assume "view T h v = Some (t, as)"
  with assms obtain y new bs where c: "c v h = (y, h @ new)" "view T (h @ new) y = Some (t, bs)"
    "fresh h bs"
    by (rule deepE)
  have "view T (h @ (new @ [Cell y])) y = Some (t, bs)"
    using view_extend [OF c(2), of "[Cell y]"] by simp
  with c(1,3) show "\<exists>y new bs. copy_deref c v h = (y, h @ new) \<and> view T (h @ new) y = Some (t, bs) \<and>
      fresh h bs"
    by (intro exI [of _ y] exI [of _ "new @ [Cell y]"] exI [of _ bs]) (simp add: copy_deref_def)
qed

text \<open>
  A struct is copied deeply if each of its fields has a statement that copies it deeply, or none and
  no references.
\<close>

definition covered :: "(string \<times> copier) list \<Rightarrow> string \<times> gtype \<Rightarrow> bool" where
  "covered stmts nt \<longleftrightarrow> (case map_of stmts (fst nt) of None \<Rightarrow> flat (snd nt) | Some c \<Rightarrow> deep (snd nt) c)"

lemma copy_fields_deep:
  "list_all (covered stmts) ts \<Longrightarrow> view_fields ts h fs = Some (us, as) \<Longrightarrow>
    \<exists>ys new bs. copy_fields stmts fs h = (ys, h @ new) \<and>
      view_fields ts (h @ new) ys = Some (us, bs) \<and> fresh h bs"
proof (induction ts arbitrary: h fs us as)
  case Nil
  then show ?case by (auto split: if_split_asm intro!: exI [of _ "[]"])
next
  case (Cons nt ts)
  obtain n T where nt: "nt = (n, T)" by (cases nt)
  obtain x gs u vs cs ds where fs: "fs = (n, x) # gs" "view T h x = Some (u, cs)"
    "view_fields ts h gs = Some (vs, ds)" and us: "us = (n, u) # vs"
    using Cons.prems(2) nt by (auto split: list.split_asm if_split_asm option.split_asm)
  define c where "c = (case map_of stmts n of None \<Rightarrow> assign | Some c \<Rightarrow> c)"
  have "deep T c"
    using Cons.prems(1) by (auto simp: c_def nt covered_def deep_assign split: option.split_asm)
  then obtain y new bs where y: "c x h = (y, h @ new)" "view T (h @ new) y = Some (u, bs)"
    "fresh h bs"
    using fs(2) by (rule deepE)
  have "view_fields ts (h @ new) gs = Some (vs, ds)"
    by (rule view_cong(2) [OF fs(3)]) (auto simp: nth_append dest: view_below(2) [OF fs(3)])
  then obtain ys new' es where ys: "copy_fields stmts gs (h @ new) = (ys, (h @ new) @ new')"
    "view_fields ts ((h @ new) @ new') ys = Some (vs, es)" "fresh (h @ new) es"
    using Cons.IH [of "h @ new" gs vs ds] Cons.prems(1) by auto
  have "view T ((h @ new) @ new') y = Some (u, bs)" by (rule view_extend [OF y(2)])
  moreover have "(case map_of stmts n of None \<Rightarrow> (x, h) | Some c \<Rightarrow> c x h) = (y, h @ new)"
    using y(1) by (auto simp: c_def assign_def split: option.splits)
  ultimately show ?case
    using y(3) ys view_below(1) [OF y(2)]
    by (intro exI [of _ "(n, y) # ys"] exI [of _ "new @ new'"] exI [of _ "bs @ es"])
      (fastforce simp: nt fs(1) us)
qed

lemma deep_struct [deep_intros]:
  assumes "list_all (covered stmts) ts"
  shows "deep (TStruct ts) (copy_struct stmts)"
  unfolding deep_def
proof (intro allI impI)
  fix h v t as
  assume v: "view (TStruct ts) h v = Some (t, as)"
  then obtain fs us where fs: "v = Struct fs" "view_fields ts h fs = Some (us, as)"
    and t: "t = TreeStruct us"
    by (auto split: gval.split_asm)
  obtain ys new bs where "copy_fields stmts fs h = (ys, h @ new)"
    "view_fields ts (h @ new) ys = Some (us, bs)" "fresh h bs"
    using copy_fields_deep [OF assms fs(2)] by blast
  then show "\<exists>y new bs. copy_struct stmts v h = (y, h @ new) \<and>
      view (TStruct ts) (h @ new) y = Some (t, bs) \<and> fresh h bs"
    by (intro exI [of _ "Struct ys"] exI [of _ new] exI [of _ bs]) (simp add: copy_struct_def fs(1) t)
qed

lemma deep_copy_pointer: "deep_copy c = copy_pointer c"
  by (simp add: fun_eq_iff deep_copy_def copy_pointer_def)

lemma deep_copy_object_same: "deep_copy_object c = c"
  by (auto simp: fun_eq_iff deep_copy_object_def split: prod.split)

lemma deep_deep_copy [deep_intros]: "deep T c \<Longrightarrow> deep (TPointer T) (deep_copy c)"
  unfolding deep_copy_pointer by (rule deep_pointer)

lemma deep_object [deep_intros]: "deep T c \<Longrightarrow> deep T (deep_copy_object c)"
  unfolding deep_copy_object_same .

subsection \<open>A deep copy and its original are independent\<close>

text \<open>
  The copy represents what the original represents. It goes on doing so whatever becomes of the
  cells there were before, as long as its own cells are left alone; and the original stays
  what it is whatever becomes of the cells of the copy and of all newer ones.
\<close>

lemma deep_independent:
  assumes "deep T c" "view T h v = Some (t, as)" "c v h = (y, h')"
  shows "\<exists>bs. view T h' y = Some (t, bs) \<and> view T h' v = Some (t, as)"
    and "length h' \<le> length g \<Longrightarrow> (\<And>a. length h \<le> a \<Longrightarrow> a < length h' \<Longrightarrow> g ! a = h' ! a) \<Longrightarrow>
      \<exists>bs. view T g y = Some (t, bs)"
    and "length h \<le> length g \<Longrightarrow> (\<And>a. a < length h \<Longrightarrow> g ! a = h ! a) \<Longrightarrow> view T g v = Some (t, as)"
proof -
  obtain new bs where h': "h' = h @ new" and y: "view T h' y = Some (t, bs)"
    and fresh: "fresh h bs"
    using deepE [OF assms(1,2)] assms(3) by (metis Pair_inject)
  show "\<exists>bs. view T h' y = Some (t, bs) \<and> view T h' v = Some (t, as)"
    using y view_extend [OF assms(2)] h' by blast
  show "\<exists>bs. view T g y = Some (t, bs)"
    if "length h' \<le> length g" "\<And>a. length h \<le> a \<Longrightarrow> a < length h' \<Longrightarrow> g ! a = h' ! a"
    using view_cong(1) [OF y, of g] view_below(1) [OF y] fresh that by fastforce
  show "view T g v = Some (t, as)"
    if "length h \<le> length g" "\<And>a. a < length h \<Longrightarrow> g ! a = h ! a"
    using view_cong(1) [OF assms(2), of g] view_below(1) [OF assms(2)] that by fastforce
qed

end
