(* ===== verification/Go_Heap_Library.thy ===== *)
theory Go_Heap_Library
  imports Go_Heap
begin

section \<open>The library types inside the structs of the API\<close>

text \<open>
  Some fields of the API are of types of the Kubernetes libraries (\<open>metav1.ObjectMeta\<close> and
  others). Their structure and their \<open>DeepCopyInto\<close> are parameters, by the name of the type.
\<close>

record lib =
  lib_type :: "string \<Rightarrow> gtype"
  lib_copier :: "string \<Rightarrow> copier"

text \<open>
  What is documented of them: \<open>DeepCopyInto\<close> copies deeply, and the two types that are copied by
  a plain assignment consist of strings.
\<close>

definition lib_contract :: "lib \<Rightarrow> bool" where
  "lib_contract L \<longleftrightarrow> (\<forall>n. deep (lib_type L n) (lib_copier L n)) \<and>
     flat (lib_type L ''metav1.TypeMeta'') \<and> flat (lib_type L ''corev1.LocalObjectReference'')"

named_theorems deep_simps "types of the API without references, and copiers that are deep"

lemma lib_deep [deep_simps]: "lib_contract L \<Longrightarrow> deep (lib_type L n) (lib_copier L n)"
  by (simp add: lib_contract_def)

lemma lib_flat [deep_simps]:
  "lib_contract L \<Longrightarrow> flat (lib_type L ''metav1.TypeMeta'')"
  "lib_contract L \<Longrightarrow> flat (lib_type L ''corev1.LocalObjectReference'')"
  by (simp_all add: lib_contract_def)

end
