(* ===== verification/Deep_Copy_V1beta1.thy ===== *)
theory Deep_Copy_V1beta1
  imports Go_Heap_Library
begin

section \<open>The deep copies of v1beta1\<close>

text \<open>
  \<open>api/v1beta1/zz_generated.deepcopy.go\<close>: for every struct of the package its fields with their
  types, the statements of its \<open>DeepCopyInto\<close>, its \<open>DeepCopy\<close> and, for an object of the
  runtime, its \<open>DeepCopyObject\<close>; and that the copy is deep.
\<close>

subsection \<open>FieldDependency\<close>

definition FieldDependency_ty :: "lib \<Rightarrow> gtype" where
  "FieldDependency_ty L = TStruct [(''Field'', TLit), (''Value'', TLit)]"

definition FieldDependency_DeepCopyInto :: "lib \<Rightarrow> copier" where
  "FieldDependency_DeepCopyInto L = copy_struct []"

definition FieldDependency_DeepCopy :: "lib \<Rightarrow> copier" where
  "FieldDependency_DeepCopy L = deep_copy (FieldDependency_DeepCopyInto L)"

lemma flat_FieldDependency [deep_simps]:
  "lib_contract L \<Longrightarrow> flat (FieldDependency_ty L)"
  by (simp add: FieldDependency_ty_def deep_simps)

lemma deep_FieldDependency [deep_simps]:
  "lib_contract L \<Longrightarrow> deep (FieldDependency_ty L) (FieldDependency_DeepCopyInto L)"
  unfolding FieldDependency_ty_def FieldDependency_DeepCopyInto_def
  by (rule deep_struct) (simp add: covered_def deep_simps deep_intros)

subsection \<open>Option\<close>

definition Option_ty :: "lib \<Rightarrow> gtype" where
  "Option_ty L = TStruct [(''Value'', TLit), (''DisplayValue'', TLit)]"

definition Option_DeepCopyInto :: "lib \<Rightarrow> copier" where
  "Option_DeepCopyInto L = copy_struct []"

definition Option_DeepCopy :: "lib \<Rightarrow> copier" where
  "Option_DeepCopy L = deep_copy (Option_DeepCopyInto L)"

lemma flat_Option [deep_simps]:
  "lib_contract L \<Longrightarrow> flat (Option_ty L)"
  by (simp add: Option_ty_def deep_simps)

lemma deep_Option [deep_simps]:
  "lib_contract L \<Longrightarrow> deep (Option_ty L) (Option_DeepCopyInto L)"
  unfolding Option_ty_def Option_DeepCopyInto_def
  by (rule deep_struct) (simp add: covered_def deep_simps deep_intros)

subsection \<open>ConditionalProvisioningParameterData\<close>

definition ConditionalProvisioningParameterData_ty :: "lib \<Rightarrow> gtype" where
  "ConditionalProvisioningParameterData_ty L = TStruct
     [(''Dependencies'', TSlice (FieldDependency_ty L)), (''Options'', TSlice (Option_ty L)),
      (''DefaultValue'', TLit)]"

definition ConditionalProvisioningParameterData_DeepCopyInto :: "lib \<Rightarrow> copier" where
  "ConditionalProvisioningParameterData_DeepCopyInto L = copy_struct
     [(''Dependencies'', copy_slice assign), (''Options'', copy_slice assign)]"

definition ConditionalProvisioningParameterData_DeepCopy :: "lib \<Rightarrow> copier" where
  "ConditionalProvisioningParameterData_DeepCopy L =
     deep_copy (ConditionalProvisioningParameterData_DeepCopyInto L)"

lemma deep_ConditionalProvisioningParameterData [deep_simps]:
  "lib_contract L \<Longrightarrow>
     deep (ConditionalProvisioningParameterData_ty L) (ConditionalProvisioningParameterData_DeepCopyInto L)"
  unfolding ConditionalProvisioningParameterData_ty_def
    ConditionalProvisioningParameterData_DeepCopyInto_def
  by (rule deep_struct) (simp add: covered_def deep_simps deep_intros)

subsection \<open>CredentialField\<close>

definition CredentialField_ty :: "lib \<Rightarrow> gtype" where
  "CredentialField_ty L = TStruct
     [(''Key'', TLit), (''DisplayName'', TLit), (''Type'', TLit), (''Required'', TLit),
      (''HelpText'', TLit)]"

definition CredentialField_DeepCopyInto :: "lib \<Rightarrow> copier" where
  "CredentialField_DeepCopyInto L = copy_struct []"

definition CredentialField_DeepCopy :: "lib \<Rightarrow> copier" where
  "CredentialField_DeepCopy L = deep_copy (CredentialField_DeepCopyInto L)"

lemma flat_CredentialField [deep_simps]:
  "lib_contract L \<Longrightarrow> flat (CredentialField_ty L)"
  by (simp add: CredentialField_ty_def deep_simps)

lemma deep_CredentialField [deep_simps]:
  "lib_contract L \<Longrightarrow> deep (CredentialField_ty L) (CredentialField_DeepCopyInto L)"
  unfolding CredentialField_ty_def CredentialField_DeepCopyInto_def
  by (rule deep_struct) (simp add: covered_def deep_simps deep_intros)

subsection \<open>NamespacedName\<close>

definition NamespacedName_ty :: "lib \<Rightarrow> gtype" where
  "NamespacedName_ty L = TStruct [(''Namespace'', TLit), (''Name'', TLit)]"

definition NamespacedName_DeepCopyInto :: "lib \<Rightarrow> copier" where
  "NamespacedName_DeepCopyInto L = copy_struct []"

definition NamespacedName_DeepCopy :: "lib \<Rightarrow> copier" where
  "NamespacedName_DeepCopy L = deep_copy (NamespacedName_DeepCopyInto L)"

lemma flat_NamespacedName [deep_simps]:
  "lib_contract L \<Longrightarrow> flat (NamespacedName_ty L)"
  by (simp add: NamespacedName_ty_def deep_simps)

lemma deep_NamespacedName [deep_simps]:
  "lib_contract L \<Longrightarrow> deep (NamespacedName_ty L) (NamespacedName_DeepCopyInto L)"
  unfolding NamespacedName_ty_def NamespacedName_DeepCopyInto_def
  by (rule deep_struct) (simp add: covered_def deep_simps deep_intros)

subsection \<open>DBaaSConnectionSpec\<close>

definition DBaaSConnectionSpec_ty :: "lib \<Rightarrow> gtype" where
  "DBaaSConnectionSpec_ty L = TStruct
     [(''InventoryRef'', NamespacedName_ty L), (''DatabaseServiceID'', TLit),
      (''DatabaseServiceRef'', TPointer (NamespacedName_ty L)),
      (''DatabaseServiceType'', TPointer TLit)]"

definition DBaaSConnectionSpec_DeepCopyInto :: "lib \<Rightarrow> copier" where
  "DBaaSConnectionSpec_DeepCopyInto L = copy_struct
     [(''InventoryRef'', assign), (''DatabaseServiceRef'', copy_pointer assign),
      (''DatabaseServiceType'', copy_pointer assign)]"

definition DBaaSConnectionSpec_DeepCopy :: "lib \<Rightarrow> copier" where
  "DBaaSConnectionSpec_DeepCopy L = deep_copy (DBaaSConnectionSpec_DeepCopyInto L)"

lemma deep_DBaaSConnectionSpec [deep_simps]:
  "lib_contract L \<Longrightarrow>
     deep (DBaaSConnectionSpec_ty L) (DBaaSConnectionSpec_DeepCopyInto L)"
  unfolding DBaaSConnectionSpec_ty_def DBaaSConnectionSpec_DeepCopyInto_def
  by (rule deep_struct) (simp add: covered_def deep_simps deep_intros)

subsection \<open>DBaaSConnectionStatus\<close>

definition DBaaSConnectionStatus_ty :: "lib \<Rightarrow> gtype" where
  "DBaaSConnectionStatus_ty L = TStruct
     [(''Conditions'', TSlice (lib_type L ''metav1.Condition'')),
      (''CredentialsRef'', TPointer (lib_type L ''corev1.LocalObjectReference'')),
      (''ConnectionInfoRef'', TPointer (lib_type L ''corev1.LocalObjectReference''))]"

definition DBaaSConnectionStatus_DeepCopyInto :: "lib \<Rightarrow> copier" where
  "DBaaSConnectionStatus_DeepCopyInto L = copy_struct
     [(''Conditions'', copy_slice (lib_copier L ''metav1.Condition'')),
      (''CredentialsRef'', copy_pointer assign), (''ConnectionInfoRef'', copy_pointer assign)]"

definition DBaaSConnectionStatus_DeepCopy :: "lib \<Rightarrow> copier" where
  "DBaaSConnectionStatus_DeepCopy L = deep_copy (DBaaSConnectionStatus_DeepCopyInto L)"

lemma deep_DBaaSConnectionStatus [deep_simps]:
  "lib_contract L \<Longrightarrow>
     deep (DBaaSConnectionStatus_ty L) (DBaaSConnectionStatus_DeepCopyInto L)"
  unfolding DBaaSConnectionStatus_ty_def DBaaSConnectionStatus_DeepCopyInto_def
  by (rule deep_struct) (simp add: covered_def deep_simps deep_intros)

subsection \<open>DBaaSConnection\<close>

definition DBaaSConnection_ty :: "lib \<Rightarrow> gtype" where
  "DBaaSConnection_ty L = TStruct
     [(''TypeMeta'', lib_type L ''metav1.TypeMeta''),
      (''ObjectMeta'', lib_type L ''metav1.ObjectMeta''), (''Spec'', DBaaSConnectionSpec_ty L),
      (''Status'', DBaaSConnectionStatus_ty L)]"

definition DBaaSConnection_DeepCopyInto :: "lib \<Rightarrow> copier" where
  "DBaaSConnection_DeepCopyInto L = copy_struct
     [(''TypeMeta'', assign), (''ObjectMeta'', lib_copier L ''metav1.ObjectMeta''),
      (''Spec'', DBaaSConnectionSpec_DeepCopyInto L),
      (''Status'', DBaaSConnectionStatus_DeepCopyInto L)]"

definition DBaaSConnection_DeepCopy :: "lib \<Rightarrow> copier" where
  "DBaaSConnection_DeepCopy L = deep_copy (DBaaSConnection_DeepCopyInto L)"

definition DBaaSConnection_DeepCopyObject :: "lib \<Rightarrow> copier" where
  "DBaaSConnection_DeepCopyObject L = deep_copy_object (DBaaSConnection_DeepCopy L)"

lemma deep_DBaaSConnection [deep_simps]:
  "lib_contract L \<Longrightarrow> deep (DBaaSConnection_ty L) (DBaaSConnection_DeepCopyInto L)"
  unfolding DBaaSConnection_ty_def DBaaSConnection_DeepCopyInto_def
  by (rule deep_struct) (simp add: covered_def deep_simps deep_intros)

subsection \<open>DBaaSConnectionList\<close>

definition DBaaSConnectionList_ty :: "lib \<Rightarrow> gtype" where
  "DBaaSConnectionList_ty L = TStruct
     [(''TypeMeta'', lib_type L ''metav1.TypeMeta''),
      (''ListMeta'', lib_type L ''metav1.ListMeta''), (''Items'', TSlice (DBaaSConnection_ty L))]"

definition DBaaSConnectionList_DeepCopyInto :: "lib \<Rightarrow> copier" where
  "DBaaSConnectionList_DeepCopyInto L = copy_struct
     [(''TypeMeta'', assign), (''ListMeta'', lib_copier L ''metav1.ListMeta''),
      (''Items'', copy_slice (DBaaSConnection_DeepCopyInto L))]"

definition DBaaSConnectionList_DeepCopy :: "lib \<Rightarrow> copier" where
  "DBaaSConnectionList_DeepCopy L = deep_copy (DBaaSConnectionList_DeepCopyInto L)"

definition DBaaSConnectionList_DeepCopyObject :: "lib \<Rightarrow> copier" where
  "DBaaSConnectionList_DeepCopyObject L = deep_copy_object (DBaaSConnectionList_DeepCopy L)"

lemma deep_DBaaSConnectionList [deep_simps]:
  "lib_contract L \<Longrightarrow>
     deep (DBaaSConnectionList_ty L) (DBaaSConnectionList_DeepCopyInto L)"
  unfolding DBaaSConnectionList_ty_def DBaaSConnectionList_DeepCopyInto_def
  by (rule deep_struct) (simp add: covered_def deep_simps deep_intros)

subsection \<open>DBaaSConnectionPolicy\<close>

definition DBaaSConnectionPolicy_ty :: "lib \<Rightarrow> gtype" where
  "DBaaSConnectionPolicy_ty L = TStruct
     [(''Namespaces'', TPointer (TSlice TLit)),
      (''NsSelector'', TPointer (lib_type L ''metav1.LabelSelector''))]"

definition DBaaSConnectionPolicy_DeepCopyInto :: "lib \<Rightarrow> copier" where
  "DBaaSConnectionPolicy_DeepCopyInto L = copy_struct
     [(''Namespaces'', copy_pointer (copy_slice assign)),
      (''NsSelector'', copy_pointer (lib_copier L ''metav1.LabelSelector''))]"

definition DBaaSConnectionPolicy_DeepCopy :: "lib \<Rightarrow> copier" where
  "DBaaSConnectionPolicy_DeepCopy L = deep_copy (DBaaSConnectionPolicy_DeepCopyInto L)"

lemma deep_DBaaSConnectionPolicy [deep_simps]:
  "lib_contract L \<Longrightarrow>
     deep (DBaaSConnectionPolicy_ty L) (DBaaSConnectionPolicy_DeepCopyInto L)"
  unfolding DBaaSConnectionPolicy_ty_def DBaaSConnectionPolicy_DeepCopyInto_def
  by (rule deep_struct) (simp add: covered_def deep_simps deep_intros)

subsection \<open>DBaaSInstanceSpec\<close>

definition DBaaSInstanceSpec_ty :: "lib \<Rightarrow> gtype" where
  "DBaaSInstanceSpec_ty L = TStruct
     [(''InventoryRef'', NamespacedName_ty L), (''ProvisioningParameters'', TMap TLit)]"

definition DBaaSInstanceSpec_DeepCopyInto :: "lib \<Rightarrow> copier" where
  "DBaaSInstanceSpec_DeepCopyInto L = copy_struct
     [(''InventoryRef'', assign), (''ProvisioningParameters'', copy_map assign)]"

definition DBaaSInstanceSpec_DeepCopy :: "lib \<Rightarrow> copier" where
  "DBaaSInstanceSpec_DeepCopy L = deep_copy (DBaaSInstanceSpec_DeepCopyInto L)"

lemma deep_DBaaSInstanceSpec [deep_simps]:
  "lib_contract L \<Longrightarrow>
     deep (DBaaSInstanceSpec_ty L) (DBaaSInstanceSpec_DeepCopyInto L)"
  unfolding DBaaSInstanceSpec_ty_def DBaaSInstanceSpec_DeepCopyInto_def
  by (rule deep_struct) (simp add: covered_def deep_simps deep_intros)

subsection \<open>DBaaSInstanceStatus\<close>

definition DBaaSInstanceStatus_ty :: "lib \<Rightarrow> gtype" where
  "DBaaSInstanceStatus_ty L = TStruct
     [(''Conditions'', TSlice (lib_type L ''metav1.Condition'')), (''InstanceID'', TLit),
      (''InstanceInfo'', TMap TLit), (''Phase'', TLit)]"

definition DBaaSInstanceStatus_DeepCopyInto :: "lib \<Rightarrow> copier" where
  "DBaaSInstanceStatus_DeepCopyInto L = copy_struct
     [(''Conditions'', copy_slice (lib_copier L ''metav1.Condition'')),
      (''InstanceInfo'', copy_map assign)]"

definition DBaaSInstanceStatus_DeepCopy :: "lib \<Rightarrow> copier" where
  "DBaaSInstanceStatus_DeepCopy L = deep_copy (DBaaSInstanceStatus_DeepCopyInto L)"

lemma deep_DBaaSInstanceStatus [deep_simps]:
  "lib_contract L \<Longrightarrow>
     deep (DBaaSInstanceStatus_ty L) (DBaaSInstanceStatus_DeepCopyInto L)"
  unfolding DBaaSInstanceStatus_ty_def DBaaSInstanceStatus_DeepCopyInto_def
  by (rule deep_struct) (simp add: covered_def deep_simps deep_intros)

subsection \<open>DBaaSInstance\<close>

definition DBaaSInstance_ty :: "lib \<Rightarrow> gtype" where
  "DBaaSInstance_ty L = TStruct
     [(''TypeMeta'', lib_type L ''metav1.TypeMeta''),
      (''ObjectMeta'', lib_type L ''metav1.ObjectMeta''), (''Spec'', DBaaSInstanceSpec_ty L),
      (''Status'', DBaaSInstanceStatus_ty L)]"

definition DBaaSInstance_DeepCopyInto :: "lib \<Rightarrow> copier" where
  "DBaaSInstance_DeepCopyInto L = copy_struct
     [(''TypeMeta'', assign), (''ObjectMeta'', lib_copier L ''metav1.ObjectMeta''),
      (''Spec'', DBaaSInstanceSpec_DeepCopyInto L),
      (''Status'', DBaaSInstanceStatus_DeepCopyInto L)]"

definition DBaaSInstance_DeepCopy :: "lib \<Rightarrow> copier" where
  "DBaaSInstance_DeepCopy L = deep_copy (DBaaSInstance_DeepCopyInto L)"

definition DBaaSInstance_DeepCopyObject :: "lib \<Rightarrow> copier" where
  "DBaaSInstance_DeepCopyObject L = deep_copy_object (DBaaSInstance_DeepCopy L)"

lemma deep_DBaaSInstance [deep_simps]:
  "lib_contract L \<Longrightarrow> deep (DBaaSInstance_ty L) (DBaaSInstance_DeepCopyInto L)"
  unfolding DBaaSInstance_ty_def DBaaSInstance_DeepCopyInto_def
  by (rule deep_struct) (simp add: covered_def deep_simps deep_intros)

subsection \<open>DBaaSInstanceList\<close>

definition DBaaSInstanceList_ty :: "lib \<Rightarrow> gtype" where
  "DBaaSInstanceList_ty L = TStruct
     [(''TypeMeta'', lib_type L ''metav1.TypeMeta''),
      (''ListMeta'', lib_type L ''metav1.ListMeta''), (''Items'', TSlice (DBaaSInstance_ty L))]"

definition DBaaSInstanceList_DeepCopyInto :: "lib \<Rightarrow> copier" where
  "DBaaSInstanceList_DeepCopyInto L = copy_struct
     [(''TypeMeta'', assign), (''ListMeta'', lib_copier L ''metav1.ListMeta''),
      (''Items'', copy_slice (DBaaSInstance_DeepCopyInto L))]"

definition DBaaSInstanceList_DeepCopy :: "lib \<Rightarrow> copier" where
  "DBaaSInstanceList_DeepCopy L = deep_copy (DBaaSInstanceList_DeepCopyInto L)"

definition DBaaSInstanceList_DeepCopyObject :: "lib \<Rightarrow> copier" where
  "DBaaSInstanceList_DeepCopyObject L = deep_copy_object (DBaaSInstanceList_DeepCopy L)"

lemma deep_DBaaSInstanceList [deep_simps]:
  "lib_contract L \<Longrightarrow>
     deep (DBaaSInstanceList_ty L) (DBaaSInstanceList_DeepCopyInto L)"
  unfolding DBaaSInstanceList_ty_def DBaaSInstanceList_DeepCopyInto_def
  by (rule deep_struct) (simp add: covered_def deep_simps deep_intros)

subsection \<open>LocalObjectReference\<close>

definition LocalObjectReference_ty :: "lib \<Rightarrow> gtype" where
  "LocalObjectReference_ty L = TStruct [(''Name'', TLit)]"

definition LocalObjectReference_DeepCopyInto :: "lib \<Rightarrow> copier" where
  "LocalObjectReference_DeepCopyInto L = copy_struct []"

definition LocalObjectReference_DeepCopy :: "lib \<Rightarrow> copier" where
  "LocalObjectReference_DeepCopy L = deep_copy (LocalObjectReference_DeepCopyInto L)"

lemma flat_LocalObjectReference [deep_simps]:
  "lib_contract L \<Longrightarrow> flat (LocalObjectReference_ty L)"
  by (simp add: LocalObjectReference_ty_def deep_simps)

lemma deep_LocalObjectReference [deep_simps]:
  "lib_contract L \<Longrightarrow>
     deep (LocalObjectReference_ty L) (LocalObjectReference_DeepCopyInto L)"
  unfolding LocalObjectReference_ty_def LocalObjectReference_DeepCopyInto_def
  by (rule deep_struct) (simp add: covered_def deep_simps deep_intros)

subsection \<open>DBaaSInventorySpec\<close>

definition DBaaSInventorySpec_ty :: "lib \<Rightarrow> gtype" where
  "DBaaSInventorySpec_ty L = TStruct [(''CredentialsRef'', TPointer (LocalObjectReference_ty L))]"

definition DBaaSInventorySpec_DeepCopyInto :: "lib \<Rightarrow> copier" where
  "DBaaSInventorySpec_DeepCopyInto L = copy_struct [(''CredentialsRef'', copy_pointer assign)]"

definition DBaaSInventorySpec_DeepCopy :: "lib \<Rightarrow> copier" where
  "DBaaSInventorySpec_DeepCopy L = deep_copy (DBaaSInventorySpec_DeepCopyInto L)"

lemma deep_DBaaSInventorySpec [deep_simps]:
  "lib_contract L \<Longrightarrow>
     deep (DBaaSInventorySpec_ty L) (DBaaSInventorySpec_DeepCopyInto L)"
  unfolding DBaaSInventorySpec_ty_def DBaaSInventorySpec_DeepCopyInto_def
  by (rule deep_struct) (simp add: covered_def deep_simps deep_intros)

subsection \<open>DBaaSInventoryPolicy\<close>

definition DBaaSInventoryPolicy_ty :: "lib \<Rightarrow> gtype" where
  "DBaaSInventoryPolicy_ty L = TStruct
     [(''DisableProvisions'', TPointer TLit), (''Connections'', DBaaSConnectionPolicy_ty L)]"

definition DBaaSInventoryPolicy_DeepCopyInto :: "lib \<Rightarrow> copier" where
  "DBaaSInventoryPolicy_DeepCopyInto L = copy_struct
     [(''DisableProvisions'', copy_pointer assign),
      (''Connections'', DBaaSConnectionPolicy_DeepCopyInto L)]"

definition DBaaSInventoryPolicy_DeepCopy :: "lib \<Rightarrow> copier" where
  "DBaaSInventoryPolicy_DeepCopy L = deep_copy (DBaaSInventoryPolicy_DeepCopyInto L)"

lemma deep_DBaaSInventoryPolicy [deep_simps]:
  "lib_contract L \<Longrightarrow>
     deep (DBaaSInventoryPolicy_ty L) (DBaaSInventoryPolicy_DeepCopyInto L)"
  unfolding DBaaSInventoryPolicy_ty_def DBaaSInventoryPolicy_DeepCopyInto_def
  by (rule deep_struct) (simp add: covered_def deep_simps deep_intros)

subsection \<open>DBaaSOperatorInventorySpec\<close>

definition DBaaSOperatorInventorySpec_ty :: "lib \<Rightarrow> gtype" where
  "DBaaSOperatorInventorySpec_ty L = TStruct
     [(''ProviderRef'', NamespacedName_ty L), (''DBaaSInventorySpec'', DBaaSInventorySpec_ty L),
      (''Policy'', TPointer (DBaaSInventoryPolicy_ty L))]"

definition DBaaSOperatorInventorySpec_DeepCopyInto :: "lib \<Rightarrow> copier" where
  "DBaaSOperatorInventorySpec_DeepCopyInto L = copy_struct
     [(''ProviderRef'', assign), (''DBaaSInventorySpec'', DBaaSInventorySpec_DeepCopyInto L),
      (''Policy'', copy_pointer (DBaaSInventoryPolicy_DeepCopyInto L))]"

definition DBaaSOperatorInventorySpec_DeepCopy :: "lib \<Rightarrow> copier" where
  "DBaaSOperatorInventorySpec_DeepCopy L = deep_copy (DBaaSOperatorInventorySpec_DeepCopyInto L)"

lemma deep_DBaaSOperatorInventorySpec [deep_simps]:
  "lib_contract L \<Longrightarrow>
     deep (DBaaSOperatorInventorySpec_ty L) (DBaaSOperatorInventorySpec_DeepCopyInto L)"
  unfolding DBaaSOperatorInventorySpec_ty_def DBaaSOperatorInventorySpec_DeepCopyInto_def
  by (rule deep_struct) (simp add: covered_def deep_simps deep_intros)

subsection \<open>DatabaseService\<close>

definition DatabaseService_ty :: "lib \<Rightarrow> gtype" where
  "DatabaseService_ty L = TStruct
     [(''ServiceID'', TLit), (''ServiceName'', TLit), (''ServiceType'', TPointer TLit),
      (''ServiceInfo'', TMap TLit)]"

definition DatabaseService_DeepCopyInto :: "lib \<Rightarrow> copier" where
  "DatabaseService_DeepCopyInto L = copy_struct
     [(''ServiceType'', copy_pointer assign), (''ServiceInfo'', copy_map assign)]"

definition DatabaseService_DeepCopy :: "lib \<Rightarrow> copier" where
  "DatabaseService_DeepCopy L = deep_copy (DatabaseService_DeepCopyInto L)"

lemma deep_DatabaseService [deep_simps]:
  "lib_contract L \<Longrightarrow> deep (DatabaseService_ty L) (DatabaseService_DeepCopyInto L)"
  unfolding DatabaseService_ty_def DatabaseService_DeepCopyInto_def
  by (rule deep_struct) (simp add: covered_def deep_simps deep_intros)

subsection \<open>DBaaSInventoryStatus\<close>

definition DBaaSInventoryStatus_ty :: "lib \<Rightarrow> gtype" where
  "DBaaSInventoryStatus_ty L = TStruct
     [(''Conditions'', TSlice (lib_type L ''metav1.Condition'')),
      (''DatabaseServices'', TSlice (DatabaseService_ty L))]"

definition DBaaSInventoryStatus_DeepCopyInto :: "lib \<Rightarrow> copier" where
  "DBaaSInventoryStatus_DeepCopyInto L = copy_struct
     [(''Conditions'', copy_slice (lib_copier L ''metav1.Condition'')),
      (''DatabaseServices'', copy_slice (DatabaseService_DeepCopyInto L))]"

definition DBaaSInventoryStatus_DeepCopy :: "lib \<Rightarrow> copier" where
  "DBaaSInventoryStatus_DeepCopy L = deep_copy (DBaaSInventoryStatus_DeepCopyInto L)"

lemma deep_DBaaSInventoryStatus [deep_simps]:
  "lib_contract L \<Longrightarrow>
     deep (DBaaSInventoryStatus_ty L) (DBaaSInventoryStatus_DeepCopyInto L)"
  unfolding DBaaSInventoryStatus_ty_def DBaaSInventoryStatus_DeepCopyInto_def
  by (rule deep_struct) (simp add: covered_def deep_simps deep_intros)

subsection \<open>DBaaSInventory\<close>

definition DBaaSInventory_ty :: "lib \<Rightarrow> gtype" where
  "DBaaSInventory_ty L = TStruct
     [(''TypeMeta'', lib_type L ''metav1.TypeMeta''),
      (''ObjectMeta'', lib_type L ''metav1.ObjectMeta''),
      (''Spec'', DBaaSOperatorInventorySpec_ty L), (''Status'', DBaaSInventoryStatus_ty L)]"

definition DBaaSInventory_DeepCopyInto :: "lib \<Rightarrow> copier" where
  "DBaaSInventory_DeepCopyInto L = copy_struct
     [(''TypeMeta'', assign), (''ObjectMeta'', lib_copier L ''metav1.ObjectMeta''),
      (''Spec'', DBaaSOperatorInventorySpec_DeepCopyInto L),
      (''Status'', DBaaSInventoryStatus_DeepCopyInto L)]"

definition DBaaSInventory_DeepCopy :: "lib \<Rightarrow> copier" where
  "DBaaSInventory_DeepCopy L = deep_copy (DBaaSInventory_DeepCopyInto L)"

definition DBaaSInventory_DeepCopyObject :: "lib \<Rightarrow> copier" where
  "DBaaSInventory_DeepCopyObject L = deep_copy_object (DBaaSInventory_DeepCopy L)"

lemma deep_DBaaSInventory [deep_simps]:
  "lib_contract L \<Longrightarrow> deep (DBaaSInventory_ty L) (DBaaSInventory_DeepCopyInto L)"
  unfolding DBaaSInventory_ty_def DBaaSInventory_DeepCopyInto_def
  by (rule deep_struct) (simp add: covered_def deep_simps deep_intros)

subsection \<open>DBaaSInventoryList\<close>

definition DBaaSInventoryList_ty :: "lib \<Rightarrow> gtype" where
  "DBaaSInventoryList_ty L = TStruct
     [(''TypeMeta'', lib_type L ''metav1.TypeMeta''),
      (''ListMeta'', lib_type L ''metav1.ListMeta''), (''Items'', TSlice (DBaaSInventory_ty L))]"

definition DBaaSInventoryList_DeepCopyInto :: "lib \<Rightarrow> copier" where
  "DBaaSInventoryList_DeepCopyInto L = copy_struct
     [(''TypeMeta'', assign), (''ListMeta'', lib_copier L ''metav1.ListMeta''),
      (''Items'', copy_slice (DBaaSInventory_DeepCopyInto L))]"

definition DBaaSInventoryList_DeepCopy :: "lib \<Rightarrow> copier" where
  "DBaaSInventoryList_DeepCopy L = deep_copy (DBaaSInventoryList_DeepCopyInto L)"

definition DBaaSInventoryList_DeepCopyObject :: "lib \<Rightarrow> copier" where
  "DBaaSInventoryList_DeepCopyObject L = deep_copy_object (DBaaSInventoryList_DeepCopy L)"

lemma deep_DBaaSInventoryList [deep_simps]:
  "lib_contract L \<Longrightarrow>
     deep (DBaaSInventoryList_ty L) (DBaaSInventoryList_DeepCopyInto L)"
  unfolding DBaaSInventoryList_ty_def DBaaSInventoryList_DeepCopyInto_def
  by (rule deep_struct) (simp add: covered_def deep_simps deep_intros)

subsection \<open>DBaaSPlatformSpec\<close>

definition DBaaSPlatformSpec_ty :: "lib \<Rightarrow> gtype" where
  "DBaaSPlatformSpec_ty L = TStruct [(''SyncPeriod'', TPointer TLit)]"

definition DBaaSPlatformSpec_DeepCopyInto :: "lib \<Rightarrow> copier" where
  "DBaaSPlatformSpec_DeepCopyInto L = copy_struct [(''SyncPeriod'', copy_pointer assign)]"

definition DBaaSPlatformSpec_DeepCopy :: "lib \<Rightarrow> copier" where
  "DBaaSPlatformSpec_DeepCopy L = deep_copy (DBaaSPlatformSpec_DeepCopyInto L)"

lemma deep_DBaaSPlatformSpec [deep_simps]:
  "lib_contract L \<Longrightarrow>
     deep (DBaaSPlatformSpec_ty L) (DBaaSPlatformSpec_DeepCopyInto L)"
  unfolding DBaaSPlatformSpec_ty_def DBaaSPlatformSpec_DeepCopyInto_def
  by (rule deep_struct) (simp add: covered_def deep_simps deep_intros)

subsection \<open>PlatformStatus\<close>

definition PlatformStatus_ty :: "lib \<Rightarrow> gtype" where
  "PlatformStatus_ty L = TStruct
     [(''PlatformName'', TLit), (''PlatformStatus'', TLit), (''LastMessage'', TLit)]"

definition PlatformStatus_DeepCopyInto :: "lib \<Rightarrow> copier" where
  "PlatformStatus_DeepCopyInto L = copy_struct []"

definition PlatformStatus_DeepCopy :: "lib \<Rightarrow> copier" where
  "PlatformStatus_DeepCopy L = deep_copy (PlatformStatus_DeepCopyInto L)"

lemma flat_PlatformStatus [deep_simps]:
  "lib_contract L \<Longrightarrow> flat (PlatformStatus_ty L)"
  by (simp add: PlatformStatus_ty_def deep_simps)

lemma deep_PlatformStatus [deep_simps]:
  "lib_contract L \<Longrightarrow> deep (PlatformStatus_ty L) (PlatformStatus_DeepCopyInto L)"
  unfolding PlatformStatus_ty_def PlatformStatus_DeepCopyInto_def
  by (rule deep_struct) (simp add: covered_def deep_simps deep_intros)

subsection \<open>DBaaSPlatformStatus\<close>

definition DBaaSPlatformStatus_ty :: "lib \<Rightarrow> gtype" where
  "DBaaSPlatformStatus_ty L = TStruct
     [(''Conditions'', TSlice (lib_type L ''metav1.Condition'')),
      (''PlatformsStatus'', TSlice (PlatformStatus_ty L))]"

definition DBaaSPlatformStatus_DeepCopyInto :: "lib \<Rightarrow> copier" where
  "DBaaSPlatformStatus_DeepCopyInto L = copy_struct
     [(''Conditions'', copy_slice (lib_copier L ''metav1.Condition'')),
      (''PlatformsStatus'', copy_slice assign)]"

definition DBaaSPlatformStatus_DeepCopy :: "lib \<Rightarrow> copier" where
  "DBaaSPlatformStatus_DeepCopy L = deep_copy (DBaaSPlatformStatus_DeepCopyInto L)"

lemma deep_DBaaSPlatformStatus [deep_simps]:
  "lib_contract L \<Longrightarrow>
     deep (DBaaSPlatformStatus_ty L) (DBaaSPlatformStatus_DeepCopyInto L)"
  unfolding DBaaSPlatformStatus_ty_def DBaaSPlatformStatus_DeepCopyInto_def
  by (rule deep_struct) (simp add: covered_def deep_simps deep_intros)

subsection \<open>DBaaSPlatform\<close>

definition DBaaSPlatform_ty :: "lib \<Rightarrow> gtype" where
  "DBaaSPlatform_ty L = TStruct
     [(''TypeMeta'', lib_type L ''metav1.TypeMeta''),
      (''ObjectMeta'', lib_type L ''metav1.ObjectMeta''), (''Spec'', DBaaSPlatformSpec_ty L),
      (''Status'', DBaaSPlatformStatus_ty L)]"

definition DBaaSPlatform_DeepCopyInto :: "lib \<Rightarrow> copier" where
  "DBaaSPlatform_DeepCopyInto L = copy_struct
     [(''TypeMeta'', assign), (''ObjectMeta'', lib_copier L ''metav1.ObjectMeta''),
      (''Spec'', DBaaSPlatformSpec_DeepCopyInto L),
      (''Status'', DBaaSPlatformStatus_DeepCopyInto L)]"

definition DBaaSPlatform_DeepCopy :: "lib \<Rightarrow> copier" where
  "DBaaSPlatform_DeepCopy L = deep_copy (DBaaSPlatform_DeepCopyInto L)"

definition DBaaSPlatform_DeepCopyObject :: "lib \<Rightarrow> copier" where
  "DBaaSPlatform_DeepCopyObject L = deep_copy_object (DBaaSPlatform_DeepCopy L)"

lemma deep_DBaaSPlatform [deep_simps]:
  "lib_contract L \<Longrightarrow> deep (DBaaSPlatform_ty L) (DBaaSPlatform_DeepCopyInto L)"
  unfolding DBaaSPlatform_ty_def DBaaSPlatform_DeepCopyInto_def
  by (rule deep_struct) (simp add: covered_def deep_simps deep_intros)

subsection \<open>DBaaSPlatformList\<close>

definition DBaaSPlatformList_ty :: "lib \<Rightarrow> gtype" where
  "DBaaSPlatformList_ty L = TStruct
     [(''TypeMeta'', lib_type L ''metav1.TypeMeta''),
      (''ListMeta'', lib_type L ''metav1.ListMeta''), (''Items'', TSlice (DBaaSPlatform_ty L))]"

definition DBaaSPlatformList_DeepCopyInto :: "lib \<Rightarrow> copier" where
  "DBaaSPlatformList_DeepCopyInto L = copy_struct
     [(''TypeMeta'', assign), (''ListMeta'', lib_copier L ''metav1.ListMeta''),
      (''Items'', copy_slice (DBaaSPlatform_DeepCopyInto L))]"

definition DBaaSPlatformList_DeepCopy :: "lib \<Rightarrow> copier" where
  "DBaaSPlatformList_DeepCopy L = deep_copy (DBaaSPlatformList_DeepCopyInto L)"

definition DBaaSPlatformList_DeepCopyObject :: "lib \<Rightarrow> copier" where
  "DBaaSPlatformList_DeepCopyObject L = deep_copy_object (DBaaSPlatformList_DeepCopy L)"

lemma deep_DBaaSPlatformList [deep_simps]:
  "lib_contract L \<Longrightarrow>
     deep (DBaaSPlatformList_ty L) (DBaaSPlatformList_DeepCopyInto L)"
  unfolding DBaaSPlatformList_ty_def DBaaSPlatformList_DeepCopyInto_def
  by (rule deep_struct) (simp add: covered_def deep_simps deep_intros)

subsection \<open>DBaaSPolicySpec\<close>

definition DBaaSPolicySpec_ty :: "lib \<Rightarrow> gtype" where
  "DBaaSPolicySpec_ty L = TStruct [(''DBaaSInventoryPolicy'', DBaaSInventoryPolicy_ty L)]"

definition DBaaSPolicySpec_DeepCopyInto :: "lib \<Rightarrow> copier" where
  "DBaaSPolicySpec_DeepCopyInto L = copy_struct
     [(''DBaaSInventoryPolicy'', DBaaSInventoryPolicy_DeepCopyInto L)]"

definition DBaaSPolicySpec_DeepCopy :: "lib \<Rightarrow> copier" where
  "DBaaSPolicySpec_DeepCopy L = deep_copy (DBaaSPolicySpec_DeepCopyInto L)"

lemma deep_DBaaSPolicySpec [deep_simps]:
  "lib_contract L \<Longrightarrow> deep (DBaaSPolicySpec_ty L) (DBaaSPolicySpec_DeepCopyInto L)"
  unfolding DBaaSPolicySpec_ty_def DBaaSPolicySpec_DeepCopyInto_def
  by (rule deep_struct) (simp add: covered_def deep_simps deep_intros)

subsection \<open>DBaaSPolicyStatus\<close>

definition DBaaSPolicyStatus_ty :: "lib \<Rightarrow> gtype" where
  "DBaaSPolicyStatus_ty L = TStruct [(''Conditions'', TSlice (lib_type L ''metav1.Condition''))]"

definition DBaaSPolicyStatus_DeepCopyInto :: "lib \<Rightarrow> copier" where
  "DBaaSPolicyStatus_DeepCopyInto L = copy_struct
     [(''Conditions'', copy_slice (lib_copier L ''metav1.Condition''))]"

definition DBaaSPolicyStatus_DeepCopy :: "lib \<Rightarrow> copier" where
  "DBaaSPolicyStatus_DeepCopy L = deep_copy (DBaaSPolicyStatus_DeepCopyInto L)"

lemma deep_DBaaSPolicyStatus [deep_simps]:
  "lib_contract L \<Longrightarrow>
     deep (DBaaSPolicyStatus_ty L) (DBaaSPolicyStatus_DeepCopyInto L)"
  unfolding DBaaSPolicyStatus_ty_def DBaaSPolicyStatus_DeepCopyInto_def
  by (rule deep_struct) (simp add: covered_def deep_simps deep_intros)

subsection \<open>DBaaSPolicy\<close>

definition DBaaSPolicy_ty :: "lib \<Rightarrow> gtype" where
  "DBaaSPolicy_ty L = TStruct
     [(''TypeMeta'', lib_type L ''metav1.TypeMeta''),
      (''ObjectMeta'', lib_type L ''metav1.ObjectMeta''), (''Spec'', DBaaSPolicySpec_ty L),
      (''Status'', DBaaSPolicyStatus_ty L)]"

definition DBaaSPolicy_DeepCopyInto :: "lib \<Rightarrow> copier" where
  "DBaaSPolicy_DeepCopyInto L = copy_struct
     [(''TypeMeta'', assign), (''ObjectMeta'', lib_copier L ''metav1.ObjectMeta''),
      (''Spec'', DBaaSPolicySpec_DeepCopyInto L), (''Status'', DBaaSPolicyStatus_DeepCopyInto L)]"

definition DBaaSPolicy_DeepCopy :: "lib \<Rightarrow> copier" where
  "DBaaSPolicy_DeepCopy L = deep_copy (DBaaSPolicy_DeepCopyInto L)"

definition DBaaSPolicy_DeepCopyObject :: "lib \<Rightarrow> copier" where
  "DBaaSPolicy_DeepCopyObject L = deep_copy_object (DBaaSPolicy_DeepCopy L)"

lemma deep_DBaaSPolicy [deep_simps]:
  "lib_contract L \<Longrightarrow> deep (DBaaSPolicy_ty L) (DBaaSPolicy_DeepCopyInto L)"
  unfolding DBaaSPolicy_ty_def DBaaSPolicy_DeepCopyInto_def
  by (rule deep_struct) (simp add: covered_def deep_simps deep_intros)

subsection \<open>DBaaSPolicyList\<close>

definition DBaaSPolicyList_ty :: "lib \<Rightarrow> gtype" where
  "DBaaSPolicyList_ty L = TStruct
     [(''TypeMeta'', lib_type L ''metav1.TypeMeta''),
      (''ListMeta'', lib_type L ''metav1.ListMeta''), (''Items'', TSlice (DBaaSPolicy_ty L))]"

definition DBaaSPolicyList_DeepCopyInto :: "lib \<Rightarrow> copier" where
  "DBaaSPolicyList_DeepCopyInto L = copy_struct
     [(''TypeMeta'', assign), (''ListMeta'', lib_copier L ''metav1.ListMeta''),
      (''Items'', copy_slice (DBaaSPolicy_DeepCopyInto L))]"

definition DBaaSPolicyList_DeepCopy :: "lib \<Rightarrow> copier" where
  "DBaaSPolicyList_DeepCopy L = deep_copy (DBaaSPolicyList_DeepCopyInto L)"

definition DBaaSPolicyList_DeepCopyObject :: "lib \<Rightarrow> copier" where
  "DBaaSPolicyList_DeepCopyObject L = deep_copy_object (DBaaSPolicyList_DeepCopy L)"

lemma deep_DBaaSPolicyList [deep_simps]:
  "lib_contract L \<Longrightarrow> deep (DBaaSPolicyList_ty L) (DBaaSPolicyList_DeepCopyInto L)"
  unfolding DBaaSPolicyList_ty_def DBaaSPolicyList_DeepCopyInto_def
  by (rule deep_struct) (simp add: covered_def deep_simps deep_intros)

subsection \<open>ProviderIcon\<close>

definition ProviderIcon_ty :: "lib \<Rightarrow> gtype" where
  "ProviderIcon_ty L = TStruct [(''Data'', TLit), (''MediaType'', TLit)]"

definition ProviderIcon_DeepCopyInto :: "lib \<Rightarrow> copier" where
  "ProviderIcon_DeepCopyInto L = copy_struct []"

definition ProviderIcon_DeepCopy :: "lib \<Rightarrow> copier" where
  "ProviderIcon_DeepCopy L = deep_copy (ProviderIcon_DeepCopyInto L)"

lemma flat_ProviderIcon [deep_simps]:
  "lib_contract L \<Longrightarrow> flat (ProviderIcon_ty L)"
  by (simp add: ProviderIcon_ty_def deep_simps)

lemma deep_ProviderIcon [deep_simps]:
  "lib_contract L \<Longrightarrow> deep (ProviderIcon_ty L) (ProviderIcon_DeepCopyInto L)"
  unfolding ProviderIcon_ty_def ProviderIcon_DeepCopyInto_def
  by (rule deep_struct) (simp add: covered_def deep_simps deep_intros)

subsection \<open>DatabaseProviderInfo\<close>

definition DatabaseProviderInfo_ty :: "lib \<Rightarrow> gtype" where
  "DatabaseProviderInfo_ty L = TStruct
     [(''Name'', TLit), (''DisplayName'', TLit), (''DisplayDescription'', TLit),
      (''Icon'', ProviderIcon_ty L)]"

definition DatabaseProviderInfo_DeepCopyInto :: "lib \<Rightarrow> copier" where
  "DatabaseProviderInfo_DeepCopyInto L = copy_struct [(''Icon'', assign)]"

definition DatabaseProviderInfo_DeepCopy :: "lib \<Rightarrow> copier" where
  "DatabaseProviderInfo_DeepCopy L = deep_copy (DatabaseProviderInfo_DeepCopyInto L)"

lemma flat_DatabaseProviderInfo [deep_simps]:
  "lib_contract L \<Longrightarrow> flat (DatabaseProviderInfo_ty L)"
  by (simp add: DatabaseProviderInfo_ty_def deep_simps)

lemma deep_DatabaseProviderInfo [deep_simps]:
  "lib_contract L \<Longrightarrow>
     deep (DatabaseProviderInfo_ty L) (DatabaseProviderInfo_DeepCopyInto L)"
  unfolding DatabaseProviderInfo_ty_def DatabaseProviderInfo_DeepCopyInto_def
  by (rule deep_struct) (simp add: covered_def deep_simps deep_intros)

subsection \<open>ProvisioningParameter\<close>

definition ProvisioningParameter_ty :: "lib \<Rightarrow> gtype" where
  "ProvisioningParameter_ty L = TStruct
     [(''DisplayName'', TLit), (''HelpText'', TLit),
      (''ConditionalData'', TSlice (ConditionalProvisioningParameterData_ty L))]"

definition ProvisioningParameter_DeepCopyInto :: "lib \<Rightarrow> copier" where
  "ProvisioningParameter_DeepCopyInto L = copy_struct
     [(''ConditionalData'', copy_slice (ConditionalProvisioningParameterData_DeepCopyInto L))]"

definition ProvisioningParameter_DeepCopy :: "lib \<Rightarrow> copier" where
  "ProvisioningParameter_DeepCopy L = deep_copy (ProvisioningParameter_DeepCopyInto L)"

lemma deep_ProvisioningParameter [deep_simps]:
  "lib_contract L \<Longrightarrow>
     deep (ProvisioningParameter_ty L) (ProvisioningParameter_DeepCopyInto L)"
  unfolding ProvisioningParameter_ty_def ProvisioningParameter_DeepCopyInto_def
  by (rule deep_struct) (simp add: covered_def deep_simps deep_intros)

subsection \<open>DBaaSProviderSpec\<close>

definition DBaaSProviderSpec_ty :: "lib \<Rightarrow> gtype" where
  "DBaaSProviderSpec_ty L = TStruct
     [(''Provider'', DatabaseProviderInfo_ty L), (''GroupVersion'', TLit),
      (''InventoryKind'', TLit), (''ConnectionKind'', TLit), (''InstanceKind'', TLit),
      (''CredentialFields'', TSlice (CredentialField_ty L)), (''AllowsFreeTrial'', TLit),
      (''ExternalProvisionURL'', TLit), (''ExternalProvisionDescription'', TLit),
      (''ProvisioningParameters'', TMap (ProvisioningParameter_ty L))]"

definition DBaaSProviderSpec_DeepCopyInto :: "lib \<Rightarrow> copier" where
  "DBaaSProviderSpec_DeepCopyInto L = copy_struct
     [(''Provider'', assign), (''CredentialFields'', copy_slice assign),
      (''ProvisioningParameters'', copy_map (copy_deref (ProvisioningParameter_DeepCopyInto L)))]"

definition DBaaSProviderSpec_DeepCopy :: "lib \<Rightarrow> copier" where
  "DBaaSProviderSpec_DeepCopy L = deep_copy (DBaaSProviderSpec_DeepCopyInto L)"

lemma deep_DBaaSProviderSpec [deep_simps]:
  "lib_contract L \<Longrightarrow>
     deep (DBaaSProviderSpec_ty L) (DBaaSProviderSpec_DeepCopyInto L)"
  unfolding DBaaSProviderSpec_ty_def DBaaSProviderSpec_DeepCopyInto_def
  by (rule deep_struct) (simp add: covered_def deep_simps deep_intros)

subsection \<open>DBaaSProviderStatus\<close>

definition DBaaSProviderStatus_ty :: "lib \<Rightarrow> gtype" where
  "DBaaSProviderStatus_ty L = TStruct
     [(''Conditions'', TSlice (lib_type L ''metav1.Condition''))]"

definition DBaaSProviderStatus_DeepCopyInto :: "lib \<Rightarrow> copier" where
  "DBaaSProviderStatus_DeepCopyInto L = copy_struct
     [(''Conditions'', copy_slice (lib_copier L ''metav1.Condition''))]"

definition DBaaSProviderStatus_DeepCopy :: "lib \<Rightarrow> copier" where
  "DBaaSProviderStatus_DeepCopy L = deep_copy (DBaaSProviderStatus_DeepCopyInto L)"

lemma deep_DBaaSProviderStatus [deep_simps]:
  "lib_contract L \<Longrightarrow>
     deep (DBaaSProviderStatus_ty L) (DBaaSProviderStatus_DeepCopyInto L)"
  unfolding DBaaSProviderStatus_ty_def DBaaSProviderStatus_DeepCopyInto_def
  by (rule deep_struct) (simp add: covered_def deep_simps deep_intros)

subsection \<open>DBaaSProvider\<close>

definition DBaaSProvider_ty :: "lib \<Rightarrow> gtype" where
  "DBaaSProvider_ty L = TStruct
     [(''TypeMeta'', lib_type L ''metav1.TypeMeta''),
      (''ObjectMeta'', lib_type L ''metav1.ObjectMeta''), (''Spec'', DBaaSProviderSpec_ty L),
      (''Status'', DBaaSProviderStatus_ty L)]"

definition DBaaSProvider_DeepCopyInto :: "lib \<Rightarrow> copier" where
  "DBaaSProvider_DeepCopyInto L = copy_struct
     [(''TypeMeta'', assign), (''ObjectMeta'', lib_copier L ''metav1.ObjectMeta''),
      (''Spec'', DBaaSProviderSpec_DeepCopyInto L),
      (''Status'', DBaaSProviderStatus_DeepCopyInto L)]"

definition DBaaSProvider_DeepCopy :: "lib \<Rightarrow> copier" where
  "DBaaSProvider_DeepCopy L = deep_copy (DBaaSProvider_DeepCopyInto L)"

definition DBaaSProvider_DeepCopyObject :: "lib \<Rightarrow> copier" where
  "DBaaSProvider_DeepCopyObject L = deep_copy_object (DBaaSProvider_DeepCopy L)"

lemma deep_DBaaSProvider [deep_simps]:
  "lib_contract L \<Longrightarrow> deep (DBaaSProvider_ty L) (DBaaSProvider_DeepCopyInto L)"
  unfolding DBaaSProvider_ty_def DBaaSProvider_DeepCopyInto_def
  by (rule deep_struct) (simp add: covered_def deep_simps deep_intros)

subsection \<open>DBaaSProviderConnection\<close>

definition DBaaSProviderConnection_ty :: "lib \<Rightarrow> gtype" where
  "DBaaSProviderConnection_ty L = TStruct
     [(''ObjectMeta'', lib_type L ''metav1.ObjectMeta''), (''Spec'', DBaaSConnectionSpec_ty L),
      (''Status'', DBaaSConnectionStatus_ty L)]"

definition DBaaSProviderConnection_DeepCopyInto :: "lib \<Rightarrow> copier" where
  "DBaaSProviderConnection_DeepCopyInto L = copy_struct
     [(''ObjectMeta'', lib_copier L ''metav1.ObjectMeta''),
      (''Spec'', DBaaSConnectionSpec_DeepCopyInto L),
      (''Status'', DBaaSConnectionStatus_DeepCopyInto L)]"

definition DBaaSProviderConnection_DeepCopy :: "lib \<Rightarrow> copier" where
  "DBaaSProviderConnection_DeepCopy L = deep_copy (DBaaSProviderConnection_DeepCopyInto L)"

lemma deep_DBaaSProviderConnection [deep_simps]:
  "lib_contract L \<Longrightarrow>
     deep (DBaaSProviderConnection_ty L) (DBaaSProviderConnection_DeepCopyInto L)"
  unfolding DBaaSProviderConnection_ty_def DBaaSProviderConnection_DeepCopyInto_def
  by (rule deep_struct) (simp add: covered_def deep_simps deep_intros)

subsection \<open>DBaaSProviderInstance\<close>

definition DBaaSProviderInstance_ty :: "lib \<Rightarrow> gtype" where
  "DBaaSProviderInstance_ty L = TStruct
     [(''ObjectMeta'', lib_type L ''metav1.ObjectMeta''), (''Spec'', DBaaSInstanceSpec_ty L),
      (''Status'', DBaaSInstanceStatus_ty L)]"

definition DBaaSProviderInstance_DeepCopyInto :: "lib \<Rightarrow> copier" where
  "DBaaSProviderInstance_DeepCopyInto L = copy_struct
     [(''ObjectMeta'', lib_copier L ''metav1.ObjectMeta''),
      (''Spec'', DBaaSInstanceSpec_DeepCopyInto L),
      (''Status'', DBaaSInstanceStatus_DeepCopyInto L)]"

definition DBaaSProviderInstance_DeepCopy :: "lib \<Rightarrow> copier" where
  "DBaaSProviderInstance_DeepCopy L = deep_copy (DBaaSProviderInstance_DeepCopyInto L)"

lemma deep_DBaaSProviderInstance [deep_simps]:
  "lib_contract L \<Longrightarrow>
     deep (DBaaSProviderInstance_ty L) (DBaaSProviderInstance_DeepCopyInto L)"
  unfolding DBaaSProviderInstance_ty_def DBaaSProviderInstance_DeepCopyInto_def
  by (rule deep_struct) (simp add: covered_def deep_simps deep_intros)

subsection \<open>DBaaSProviderInventory\<close>

definition DBaaSProviderInventory_ty :: "lib \<Rightarrow> gtype" where
  "DBaaSProviderInventory_ty L = TStruct
     [(''ObjectMeta'', lib_type L ''metav1.ObjectMeta''), (''Spec'', DBaaSInventorySpec_ty L),
      (''Status'', DBaaSInventoryStatus_ty L)]"

definition DBaaSProviderInventory_DeepCopyInto :: "lib \<Rightarrow> copier" where
  "DBaaSProviderInventory_DeepCopyInto L = copy_struct
     [(''ObjectMeta'', lib_copier L ''metav1.ObjectMeta''),
      (''Spec'', DBaaSInventorySpec_DeepCopyInto L),
      (''Status'', DBaaSInventoryStatus_DeepCopyInto L)]"

definition DBaaSProviderInventory_DeepCopy :: "lib \<Rightarrow> copier" where
  "DBaaSProviderInventory_DeepCopy L = deep_copy (DBaaSProviderInventory_DeepCopyInto L)"

lemma deep_DBaaSProviderInventory [deep_simps]:
  "lib_contract L \<Longrightarrow>
     deep (DBaaSProviderInventory_ty L) (DBaaSProviderInventory_DeepCopyInto L)"
  unfolding DBaaSProviderInventory_ty_def DBaaSProviderInventory_DeepCopyInto_def
  by (rule deep_struct) (simp add: covered_def deep_simps deep_intros)

subsection \<open>DBaaSProviderList\<close>

definition DBaaSProviderList_ty :: "lib \<Rightarrow> gtype" where
  "DBaaSProviderList_ty L = TStruct
     [(''TypeMeta'', lib_type L ''metav1.TypeMeta''),
      (''ListMeta'', lib_type L ''metav1.ListMeta''), (''Items'', TSlice (DBaaSProvider_ty L))]"

definition DBaaSProviderList_DeepCopyInto :: "lib \<Rightarrow> copier" where
  "DBaaSProviderList_DeepCopyInto L = copy_struct
     [(''TypeMeta'', assign), (''ListMeta'', lib_copier L ''metav1.ListMeta''),
      (''Items'', copy_slice (DBaaSProvider_DeepCopyInto L))]"

definition DBaaSProviderList_DeepCopy :: "lib \<Rightarrow> copier" where
  "DBaaSProviderList_DeepCopy L = deep_copy (DBaaSProviderList_DeepCopyInto L)"

definition DBaaSProviderList_DeepCopyObject :: "lib \<Rightarrow> copier" where
  "DBaaSProviderList_DeepCopyObject L = deep_copy_object (DBaaSProviderList_DeepCopy L)"

lemma deep_DBaaSProviderList [deep_simps]:
  "lib_contract L \<Longrightarrow>
     deep (DBaaSProviderList_ty L) (DBaaSProviderList_DeepCopyInto L)"
  unfolding DBaaSProviderList_ty_def DBaaSProviderList_DeepCopyInto_def
  by (rule deep_struct) (simp add: covered_def deep_simps deep_intros)

subsection \<open>Instance\<close>

definition Instance_ty :: "lib \<Rightarrow> gtype" where
  "Instance_ty L = TStruct
     [(''InstanceID'', TLit), (''Name'', TLit), (''InstanceInfo'', TMap TLit)]"

definition Instance_DeepCopyInto :: "lib \<Rightarrow> copier" where
  "Instance_DeepCopyInto L = copy_struct [(''InstanceInfo'', copy_map assign)]"

definition Instance_DeepCopy :: "lib \<Rightarrow> copier" where
  "Instance_DeepCopy L = deep_copy (Instance_DeepCopyInto L)"

lemma deep_Instance [deep_simps]:
  "lib_contract L \<Longrightarrow> deep (Instance_ty L) (Instance_DeepCopyInto L)"
  unfolding Instance_ty_def Instance_DeepCopyInto_def
  by (rule deep_struct) (simp add: covered_def deep_simps deep_intros)

subsection \<open>ObservabilityConfig\<close>

definition ObservabilityConfig_ty :: "lib \<Rightarrow> gtype" where
  "ObservabilityConfig_ty L = TStruct
     [(''AuthType'', TLit), (''RemoteWritesURL'', TLit), (''RHSSOTokenURL'', TLit),
      (''AddonName'', TLit), (''RHOBSSecretName'', TLit)]"

definition ObservabilityConfig_DeepCopyInto :: "lib \<Rightarrow> copier" where
  "ObservabilityConfig_DeepCopyInto L = copy_struct []"

definition ObservabilityConfig_DeepCopy :: "lib \<Rightarrow> copier" where
  "ObservabilityConfig_DeepCopy L = deep_copy (ObservabilityConfig_DeepCopyInto L)"

lemma flat_ObservabilityConfig [deep_simps]:
  "lib_contract L \<Longrightarrow> flat (ObservabilityConfig_ty L)"
  by (simp add: ObservabilityConfig_ty_def deep_simps)

lemma deep_ObservabilityConfig [deep_simps]:
  "lib_contract L \<Longrightarrow>
     deep (ObservabilityConfig_ty L) (ObservabilityConfig_DeepCopyInto L)"
  unfolding ObservabilityConfig_ty_def ObservabilityConfig_DeepCopyInto_def
  by (rule deep_struct) (simp add: covered_def deep_simps deep_intros)

subsection \<open>PlatformConfig\<close>

definition PlatformConfig_ty :: "lib \<Rightarrow> gtype" where
  "PlatformConfig_ty L = TStruct
     [(''Name'', TLit), (''CSV'', TLit), (''DeploymentName'', TLit), (''Image'', TLit),
      (''PackageName'', TLit), (''Channel'', TLit), (''DisplayName'', TLit),
      (''Envs'', TSlice (lib_type L ''corev1.EnvVar'')), (''Type'', TLit)]"

definition PlatformConfig_DeepCopyInto :: "lib \<Rightarrow> copier" where
  "PlatformConfig_DeepCopyInto L = copy_struct
     [(''Envs'', copy_slice (lib_copier L ''corev1.EnvVar''))]"

definition PlatformConfig_DeepCopy :: "lib \<Rightarrow> copier" where
  "PlatformConfig_DeepCopy L = deep_copy (PlatformConfig_DeepCopyInto L)"

lemma deep_PlatformConfig [deep_simps]:
  "lib_contract L \<Longrightarrow> deep (PlatformConfig_ty L) (PlatformConfig_DeepCopyInto L)"
  unfolding PlatformConfig_ty_def PlatformConfig_DeepCopyInto_def
  by (rule deep_struct) (simp add: covered_def deep_simps deep_intros)

subsection \<open>All of them\<close>

text \<open>The structs of the package, each with its two copiers; and the objects of the runtime.\<close>

definition v1beta1_copies :: "lib \<Rightarrow> (gtype \<times> copier \<times> copier) list" where
  "v1beta1_copies L =
    [(ConditionalProvisioningParameterData_ty L, ConditionalProvisioningParameterData_DeepCopyInto L, ConditionalProvisioningParameterData_DeepCopy L),
     (CredentialField_ty L, CredentialField_DeepCopyInto L, CredentialField_DeepCopy L),
     (DBaaSConnection_ty L, DBaaSConnection_DeepCopyInto L, DBaaSConnection_DeepCopy L),
     (DBaaSConnectionList_ty L, DBaaSConnectionList_DeepCopyInto L, DBaaSConnectionList_DeepCopy L),
     (DBaaSConnectionPolicy_ty L, DBaaSConnectionPolicy_DeepCopyInto L, DBaaSConnectionPolicy_DeepCopy L),
     (DBaaSConnectionSpec_ty L, DBaaSConnectionSpec_DeepCopyInto L, DBaaSConnectionSpec_DeepCopy L),
     (DBaaSConnectionStatus_ty L, DBaaSConnectionStatus_DeepCopyInto L, DBaaSConnectionStatus_DeepCopy L),
     (DBaaSInstance_ty L, DBaaSInstance_DeepCopyInto L, DBaaSInstance_DeepCopy L),
     (DBaaSInstanceList_ty L, DBaaSInstanceList_DeepCopyInto L, DBaaSInstanceList_DeepCopy L),
     (DBaaSInstanceSpec_ty L, DBaaSInstanceSpec_DeepCopyInto L, DBaaSInstanceSpec_DeepCopy L),
     (DBaaSInstanceStatus_ty L, DBaaSInstanceStatus_DeepCopyInto L, DBaaSInstanceStatus_DeepCopy L),
     (DBaaSInventory_ty L, DBaaSInventory_DeepCopyInto L, DBaaSInventory_DeepCopy L),
     (DBaaSInventoryList_ty L, DBaaSInventoryList_DeepCopyInto L, DBaaSInventoryList_DeepCopy L),
     (DBaaSInventoryPolicy_ty L, DBaaSInventoryPolicy_DeepCopyInto L, DBaaSInventoryPolicy_DeepCopy L),
     (DBaaSInventorySpec_ty L, DBaaSInventorySpec_DeepCopyInto L, DBaaSInventorySpec_DeepCopy L),
     (DBaaSInventoryStatus_ty L, DBaaSInventoryStatus_DeepCopyInto L, DBaaSInventoryStatus_DeepCopy L),
     (DBaaSOperatorInventorySpec_ty L, DBaaSOperatorInventorySpec_DeepCopyInto L, DBaaSOperatorInventorySpec_DeepCopy L),
     (DBaaSPlatform_ty L, DBaaSPlatform_DeepCopyInto L, DBaaSPlatform_DeepCopy L),
     (DBaaSPlatformList_ty L, DBaaSPlatformList_DeepCopyInto L, DBaaSPlatformList_DeepCopy L),
     (DBaaSPlatformSpec_ty L, DBaaSPlatformSpec_DeepCopyInto L, DBaaSPlatformSpec_DeepCopy L),
     (DBaaSPlatformStatus_ty L, DBaaSPlatformStatus_DeepCopyInto L, DBaaSPlatformStatus_DeepCopy L),
     (DBaaSPolicy_ty L, DBaaSPolicy_DeepCopyInto L, DBaaSPolicy_DeepCopy L),
     (DBaaSPolicyList_ty L, DBaaSPolicyList_DeepCopyInto L, DBaaSPolicyList_DeepCopy L),
     (DBaaSPolicySpec_ty L, DBaaSPolicySpec_DeepCopyInto L, DBaaSPolicySpec_DeepCopy L),
     (DBaaSPolicyStatus_ty L, DBaaSPolicyStatus_DeepCopyInto L, DBaaSPolicyStatus_DeepCopy L),
     (DBaaSProvider_ty L, DBaaSProvider_DeepCopyInto L, DBaaSProvider_DeepCopy L),
     (DBaaSProviderConnection_ty L, DBaaSProviderConnection_DeepCopyInto L, DBaaSProviderConnection_DeepCopy L),
     (DBaaSProviderInstance_ty L, DBaaSProviderInstance_DeepCopyInto L, DBaaSProviderInstance_DeepCopy L),
     (DBaaSProviderInventory_ty L, DBaaSProviderInventory_DeepCopyInto L, DBaaSProviderInventory_DeepCopy L),
     (DBaaSProviderList_ty L, DBaaSProviderList_DeepCopyInto L, DBaaSProviderList_DeepCopy L),
     (DBaaSProviderSpec_ty L, DBaaSProviderSpec_DeepCopyInto L, DBaaSProviderSpec_DeepCopy L),
     (DBaaSProviderStatus_ty L, DBaaSProviderStatus_DeepCopyInto L, DBaaSProviderStatus_DeepCopy L),
     (DatabaseProviderInfo_ty L, DatabaseProviderInfo_DeepCopyInto L, DatabaseProviderInfo_DeepCopy L),
     (DatabaseService_ty L, DatabaseService_DeepCopyInto L, DatabaseService_DeepCopy L),
     (FieldDependency_ty L, FieldDependency_DeepCopyInto L, FieldDependency_DeepCopy L),
     (Instance_ty L, Instance_DeepCopyInto L, Instance_DeepCopy L),
     (LocalObjectReference_ty L, LocalObjectReference_DeepCopyInto L, LocalObjectReference_DeepCopy L),
     (NamespacedName_ty L, NamespacedName_DeepCopyInto L, NamespacedName_DeepCopy L),
     (ObservabilityConfig_ty L, ObservabilityConfig_DeepCopyInto L, ObservabilityConfig_DeepCopy L),
     (Option_ty L, Option_DeepCopyInto L, Option_DeepCopy L),
     (PlatformConfig_ty L, PlatformConfig_DeepCopyInto L, PlatformConfig_DeepCopy L),
     (PlatformStatus_ty L, PlatformStatus_DeepCopyInto L, PlatformStatus_DeepCopy L),
     (ProviderIcon_ty L, ProviderIcon_DeepCopyInto L, ProviderIcon_DeepCopy L),
     (ProvisioningParameter_ty L, ProvisioningParameter_DeepCopyInto L, ProvisioningParameter_DeepCopy L)]"

definition v1beta1_objects :: "lib \<Rightarrow> (gtype \<times> copier) list" where
  "v1beta1_objects L =
    [(DBaaSConnection_ty L, DBaaSConnection_DeepCopyObject L),
     (DBaaSConnectionList_ty L, DBaaSConnectionList_DeepCopyObject L),
     (DBaaSInstance_ty L, DBaaSInstance_DeepCopyObject L),
     (DBaaSInstanceList_ty L, DBaaSInstanceList_DeepCopyObject L),
     (DBaaSInventory_ty L, DBaaSInventory_DeepCopyObject L),
     (DBaaSInventoryList_ty L, DBaaSInventoryList_DeepCopyObject L),
     (DBaaSPlatform_ty L, DBaaSPlatform_DeepCopyObject L),
     (DBaaSPlatformList_ty L, DBaaSPlatformList_DeepCopyObject L),
     (DBaaSPolicy_ty L, DBaaSPolicy_DeepCopyObject L),
     (DBaaSPolicyList_ty L, DBaaSPolicyList_DeepCopyObject L),
     (DBaaSProvider_ty L, DBaaSProvider_DeepCopyObject L),
     (DBaaSProviderList_ty L, DBaaSProviderList_DeepCopyObject L)]"

lemma v1beta1_copies_deep:
  assumes "lib_contract L"
  shows "list_all (\<lambda>(T, into, copy). deep T into \<and> deep (TPointer T) copy) (v1beta1_copies L)"
  unfolding v1beta1_copies_def ConditionalProvisioningParameterData_DeepCopy_def
    CredentialField_DeepCopy_def DBaaSConnection_DeepCopy_def DBaaSConnectionList_DeepCopy_def
    DBaaSConnectionPolicy_DeepCopy_def DBaaSConnectionSpec_DeepCopy_def
    DBaaSConnectionStatus_DeepCopy_def DBaaSInstance_DeepCopy_def DBaaSInstanceList_DeepCopy_def
    DBaaSInstanceSpec_DeepCopy_def DBaaSInstanceStatus_DeepCopy_def DBaaSInventory_DeepCopy_def
    DBaaSInventoryList_DeepCopy_def DBaaSInventoryPolicy_DeepCopy_def
    DBaaSInventorySpec_DeepCopy_def DBaaSInventoryStatus_DeepCopy_def
    DBaaSOperatorInventorySpec_DeepCopy_def DBaaSPlatform_DeepCopy_def
    DBaaSPlatformList_DeepCopy_def DBaaSPlatformSpec_DeepCopy_def DBaaSPlatformStatus_DeepCopy_def
    DBaaSPolicy_DeepCopy_def DBaaSPolicyList_DeepCopy_def DBaaSPolicySpec_DeepCopy_def
    DBaaSPolicyStatus_DeepCopy_def DBaaSProvider_DeepCopy_def DBaaSProviderConnection_DeepCopy_def
    DBaaSProviderInstance_DeepCopy_def DBaaSProviderInventory_DeepCopy_def
    DBaaSProviderList_DeepCopy_def DBaaSProviderSpec_DeepCopy_def DBaaSProviderStatus_DeepCopy_def
    DatabaseProviderInfo_DeepCopy_def DatabaseService_DeepCopy_def FieldDependency_DeepCopy_def
    Instance_DeepCopy_def LocalObjectReference_DeepCopy_def NamespacedName_DeepCopy_def
    ObservabilityConfig_DeepCopy_def Option_DeepCopy_def PlatformConfig_DeepCopy_def
    PlatformStatus_DeepCopy_def ProviderIcon_DeepCopy_def ProvisioningParameter_DeepCopy_def
  by (simp add: assms deep_simps deep_deep_copy)

lemma v1beta1_objects_deep:
  assumes "lib_contract L"
  shows "list_all (\<lambda>(T, copy). deep (TPointer T) copy) (v1beta1_objects L)"
  unfolding v1beta1_objects_def DBaaSConnection_DeepCopyObject_def DBaaSConnection_DeepCopy_def
    DBaaSConnectionList_DeepCopyObject_def DBaaSConnectionList_DeepCopy_def
    DBaaSInstance_DeepCopyObject_def DBaaSInstance_DeepCopy_def
    DBaaSInstanceList_DeepCopyObject_def DBaaSInstanceList_DeepCopy_def
    DBaaSInventory_DeepCopyObject_def DBaaSInventory_DeepCopy_def
    DBaaSInventoryList_DeepCopyObject_def DBaaSInventoryList_DeepCopy_def
    DBaaSPlatform_DeepCopyObject_def DBaaSPlatform_DeepCopy_def
    DBaaSPlatformList_DeepCopyObject_def DBaaSPlatformList_DeepCopy_def
    DBaaSPolicy_DeepCopyObject_def DBaaSPolicy_DeepCopy_def DBaaSPolicyList_DeepCopyObject_def
    DBaaSPolicyList_DeepCopy_def DBaaSProvider_DeepCopyObject_def DBaaSProvider_DeepCopy_def
    DBaaSProviderList_DeepCopyObject_def DBaaSProviderList_DeepCopy_def
  by (simp add: assms deep_simps deep_deep_copy deep_object)

end
