(* ===== verification/Deep_Copy_V1alpha1.thy ===== *)
theory Deep_Copy_V1alpha1
  imports Go_Heap_Library
begin

section \<open>The deep copies of v1alpha1\<close>

text \<open>
  \<open>api/v1alpha1/zz_generated.deepcopy.go\<close>: for every struct of the package its fields with their
  types, the statements of its \<open>DeepCopyInto\<close>, its \<open>DeepCopy\<close> and, for an object of the
  runtime, its \<open>DeepCopyObject\<close>; and that the copy is deep.
\<close>

subsection \<open>CredentialField\<close>

definition CredentialField_ty_v1alpha1 :: "lib \<Rightarrow> gtype" where
  "CredentialField_ty_v1alpha1 L = TStruct
     [(''Key'', TLit), (''DisplayName'', TLit), (''Type'', TLit), (''Required'', TLit),
      (''HelpText'', TLit)]"

definition CredentialField_DeepCopyInto_v1alpha1 :: "lib \<Rightarrow> copier" where
  "CredentialField_DeepCopyInto_v1alpha1 L = copy_struct []"

definition CredentialField_DeepCopy_v1alpha1 :: "lib \<Rightarrow> copier" where
  "CredentialField_DeepCopy_v1alpha1 L = deep_copy (CredentialField_DeepCopyInto_v1alpha1 L)"

lemma flat_CredentialField_v1alpha1 [deep_simps]:
  "lib_contract L \<Longrightarrow> flat (CredentialField_ty_v1alpha1 L)"
  by (simp add: CredentialField_ty_v1alpha1_def deep_simps)

lemma deep_CredentialField_v1alpha1 [deep_simps]:
  "lib_contract L \<Longrightarrow>
     deep (CredentialField_ty_v1alpha1 L) (CredentialField_DeepCopyInto_v1alpha1 L)"
  unfolding CredentialField_ty_v1alpha1_def CredentialField_DeepCopyInto_v1alpha1_def
  by (rule deep_struct) (simp add: covered_def deep_simps deep_intros)

subsection \<open>NamespacedName\<close>

definition NamespacedName_ty_v1alpha1 :: "lib \<Rightarrow> gtype" where
  "NamespacedName_ty_v1alpha1 L = TStruct [(''Namespace'', TLit), (''Name'', TLit)]"

definition NamespacedName_DeepCopyInto_v1alpha1 :: "lib \<Rightarrow> copier" where
  "NamespacedName_DeepCopyInto_v1alpha1 L = copy_struct []"

definition NamespacedName_DeepCopy_v1alpha1 :: "lib \<Rightarrow> copier" where
  "NamespacedName_DeepCopy_v1alpha1 L = deep_copy (NamespacedName_DeepCopyInto_v1alpha1 L)"

lemma flat_NamespacedName_v1alpha1 [deep_simps]:
  "lib_contract L \<Longrightarrow> flat (NamespacedName_ty_v1alpha1 L)"
  by (simp add: NamespacedName_ty_v1alpha1_def deep_simps)

lemma deep_NamespacedName_v1alpha1 [deep_simps]:
  "lib_contract L \<Longrightarrow>
     deep (NamespacedName_ty_v1alpha1 L) (NamespacedName_DeepCopyInto_v1alpha1 L)"
  unfolding NamespacedName_ty_v1alpha1_def NamespacedName_DeepCopyInto_v1alpha1_def
  by (rule deep_struct) (simp add: covered_def deep_simps deep_intros)

subsection \<open>DBaaSConnectionSpec\<close>

definition DBaaSConnectionSpec_ty_v1alpha1 :: "lib \<Rightarrow> gtype" where
  "DBaaSConnectionSpec_ty_v1alpha1 L = TStruct
     [(''InventoryRef'', NamespacedName_ty_v1alpha1 L), (''InstanceID'', TLit),
      (''InstanceRef'', TPointer (NamespacedName_ty_v1alpha1 L))]"

definition DBaaSConnectionSpec_DeepCopyInto_v1alpha1 :: "lib \<Rightarrow> copier" where
  "DBaaSConnectionSpec_DeepCopyInto_v1alpha1 L = copy_struct
     [(''InventoryRef'', assign), (''InstanceRef'', copy_pointer assign)]"

definition DBaaSConnectionSpec_DeepCopy_v1alpha1 :: "lib \<Rightarrow> copier" where
  "DBaaSConnectionSpec_DeepCopy_v1alpha1 L =
     deep_copy (DBaaSConnectionSpec_DeepCopyInto_v1alpha1 L)"

lemma deep_DBaaSConnectionSpec_v1alpha1 [deep_simps]:
  "lib_contract L \<Longrightarrow>
     deep (DBaaSConnectionSpec_ty_v1alpha1 L) (DBaaSConnectionSpec_DeepCopyInto_v1alpha1 L)"
  unfolding DBaaSConnectionSpec_ty_v1alpha1_def DBaaSConnectionSpec_DeepCopyInto_v1alpha1_def
  by (rule deep_struct) (simp add: covered_def deep_simps deep_intros)

subsection \<open>DBaaSConnectionStatus\<close>

definition DBaaSConnectionStatus_ty_v1alpha1 :: "lib \<Rightarrow> gtype" where
  "DBaaSConnectionStatus_ty_v1alpha1 L = TStruct
     [(''Conditions'', TSlice (lib_type L ''metav1.Condition'')),
      (''CredentialsRef'', TPointer (lib_type L ''corev1.LocalObjectReference'')),
      (''ConnectionInfoRef'', TPointer (lib_type L ''corev1.LocalObjectReference''))]"

definition DBaaSConnectionStatus_DeepCopyInto_v1alpha1 :: "lib \<Rightarrow> copier" where
  "DBaaSConnectionStatus_DeepCopyInto_v1alpha1 L = copy_struct
     [(''Conditions'', copy_slice (lib_copier L ''metav1.Condition'')),
      (''CredentialsRef'', copy_pointer assign), (''ConnectionInfoRef'', copy_pointer assign)]"

definition DBaaSConnectionStatus_DeepCopy_v1alpha1 :: "lib \<Rightarrow> copier" where
  "DBaaSConnectionStatus_DeepCopy_v1alpha1 L =
     deep_copy (DBaaSConnectionStatus_DeepCopyInto_v1alpha1 L)"

lemma deep_DBaaSConnectionStatus_v1alpha1 [deep_simps]:
  "lib_contract L \<Longrightarrow>
     deep (DBaaSConnectionStatus_ty_v1alpha1 L) (DBaaSConnectionStatus_DeepCopyInto_v1alpha1 L)"
  unfolding DBaaSConnectionStatus_ty_v1alpha1_def DBaaSConnectionStatus_DeepCopyInto_v1alpha1_def
  by (rule deep_struct) (simp add: covered_def deep_simps deep_intros)

subsection \<open>DBaaSConnection\<close>

definition DBaaSConnection_ty_v1alpha1 :: "lib \<Rightarrow> gtype" where
  "DBaaSConnection_ty_v1alpha1 L = TStruct
     [(''TypeMeta'', lib_type L ''metav1.TypeMeta''),
      (''ObjectMeta'', lib_type L ''metav1.ObjectMeta''),
      (''Spec'', DBaaSConnectionSpec_ty_v1alpha1 L),
      (''Status'', DBaaSConnectionStatus_ty_v1alpha1 L)]"

definition DBaaSConnection_DeepCopyInto_v1alpha1 :: "lib \<Rightarrow> copier" where
  "DBaaSConnection_DeepCopyInto_v1alpha1 L = copy_struct
     [(''TypeMeta'', assign), (''ObjectMeta'', lib_copier L ''metav1.ObjectMeta''),
      (''Spec'', DBaaSConnectionSpec_DeepCopyInto_v1alpha1 L),
      (''Status'', DBaaSConnectionStatus_DeepCopyInto_v1alpha1 L)]"

definition DBaaSConnection_DeepCopy_v1alpha1 :: "lib \<Rightarrow> copier" where
  "DBaaSConnection_DeepCopy_v1alpha1 L = deep_copy (DBaaSConnection_DeepCopyInto_v1alpha1 L)"

definition DBaaSConnection_DeepCopyObject_v1alpha1 :: "lib \<Rightarrow> copier" where
  "DBaaSConnection_DeepCopyObject_v1alpha1 L =
     deep_copy_object (DBaaSConnection_DeepCopy_v1alpha1 L)"

lemma deep_DBaaSConnection_v1alpha1 [deep_simps]:
  "lib_contract L \<Longrightarrow>
     deep (DBaaSConnection_ty_v1alpha1 L) (DBaaSConnection_DeepCopyInto_v1alpha1 L)"
  unfolding DBaaSConnection_ty_v1alpha1_def DBaaSConnection_DeepCopyInto_v1alpha1_def
  by (rule deep_struct) (simp add: covered_def deep_simps deep_intros)

subsection \<open>DBaaSConnectionList\<close>

definition DBaaSConnectionList_ty_v1alpha1 :: "lib \<Rightarrow> gtype" where
  "DBaaSConnectionList_ty_v1alpha1 L = TStruct
     [(''TypeMeta'', lib_type L ''metav1.TypeMeta''),
      (''ListMeta'', lib_type L ''metav1.ListMeta''),
      (''Items'', TSlice (DBaaSConnection_ty_v1alpha1 L))]"

definition DBaaSConnectionList_DeepCopyInto_v1alpha1 :: "lib \<Rightarrow> copier" where
  "DBaaSConnectionList_DeepCopyInto_v1alpha1 L = copy_struct
     [(''TypeMeta'', assign), (''ListMeta'', lib_copier L ''metav1.ListMeta''),
      (''Items'', copy_slice (DBaaSConnection_DeepCopyInto_v1alpha1 L))]"

definition DBaaSConnectionList_DeepCopy_v1alpha1 :: "lib \<Rightarrow> copier" where
  "DBaaSConnectionList_DeepCopy_v1alpha1 L =
     deep_copy (DBaaSConnectionList_DeepCopyInto_v1alpha1 L)"

definition DBaaSConnectionList_DeepCopyObject_v1alpha1 :: "lib \<Rightarrow> copier" where
  "DBaaSConnectionList_DeepCopyObject_v1alpha1 L =
     deep_copy_object (DBaaSConnectionList_DeepCopy_v1alpha1 L)"

lemma deep_DBaaSConnectionList_v1alpha1 [deep_simps]:
  "lib_contract L \<Longrightarrow>
     deep (DBaaSConnectionList_ty_v1alpha1 L) (DBaaSConnectionList_DeepCopyInto_v1alpha1 L)"
  unfolding DBaaSConnectionList_ty_v1alpha1_def DBaaSConnectionList_DeepCopyInto_v1alpha1_def
  by (rule deep_struct) (simp add: covered_def deep_simps deep_intros)

subsection \<open>DBaaSInstanceSpec\<close>

definition DBaaSInstanceSpec_ty_v1alpha1 :: "lib \<Rightarrow> gtype" where
  "DBaaSInstanceSpec_ty_v1alpha1 L = TStruct
     [(''InventoryRef'', NamespacedName_ty_v1alpha1 L), (''Name'', TLit),
      (''CloudProvider'', TLit), (''CloudRegion'', TLit), (''OtherInstanceParams'', TMap TLit)]"

definition DBaaSInstanceSpec_DeepCopyInto_v1alpha1 :: "lib \<Rightarrow> copier" where
  "DBaaSInstanceSpec_DeepCopyInto_v1alpha1 L = copy_struct
     [(''InventoryRef'', assign), (''OtherInstanceParams'', copy_map assign)]"

definition DBaaSInstanceSpec_DeepCopy_v1alpha1 :: "lib \<Rightarrow> copier" where
  "DBaaSInstanceSpec_DeepCopy_v1alpha1 L = deep_copy (DBaaSInstanceSpec_DeepCopyInto_v1alpha1 L)"

lemma deep_DBaaSInstanceSpec_v1alpha1 [deep_simps]:
  "lib_contract L \<Longrightarrow>
     deep (DBaaSInstanceSpec_ty_v1alpha1 L) (DBaaSInstanceSpec_DeepCopyInto_v1alpha1 L)"
  unfolding DBaaSInstanceSpec_ty_v1alpha1_def DBaaSInstanceSpec_DeepCopyInto_v1alpha1_def
  by (rule deep_struct) (simp add: covered_def deep_simps deep_intros)

subsection \<open>DBaaSInstanceStatus\<close>

definition DBaaSInstanceStatus_ty_v1alpha1 :: "lib \<Rightarrow> gtype" where
  "DBaaSInstanceStatus_ty_v1alpha1 L = TStruct
     [(''Conditions'', TSlice (lib_type L ''metav1.Condition'')), (''InstanceID'', TLit),
      (''InstanceInfo'', TMap TLit), (''Phase'', TLit)]"

definition DBaaSInstanceStatus_DeepCopyInto_v1alpha1 :: "lib \<Rightarrow> copier" where
  "DBaaSInstanceStatus_DeepCopyInto_v1alpha1 L = copy_struct
     [(''Conditions'', copy_slice (lib_copier L ''metav1.Condition'')),
      (''InstanceInfo'', copy_map assign)]"

definition DBaaSInstanceStatus_DeepCopy_v1alpha1 :: "lib \<Rightarrow> copier" where
  "DBaaSInstanceStatus_DeepCopy_v1alpha1 L =
     deep_copy (DBaaSInstanceStatus_DeepCopyInto_v1alpha1 L)"

lemma deep_DBaaSInstanceStatus_v1alpha1 [deep_simps]:
  "lib_contract L \<Longrightarrow>
     deep (DBaaSInstanceStatus_ty_v1alpha1 L) (DBaaSInstanceStatus_DeepCopyInto_v1alpha1 L)"
  unfolding DBaaSInstanceStatus_ty_v1alpha1_def DBaaSInstanceStatus_DeepCopyInto_v1alpha1_def
  by (rule deep_struct) (simp add: covered_def deep_simps deep_intros)

subsection \<open>DBaaSInstance\<close>

definition DBaaSInstance_ty_v1alpha1 :: "lib \<Rightarrow> gtype" where
  "DBaaSInstance_ty_v1alpha1 L = TStruct
     [(''TypeMeta'', lib_type L ''metav1.TypeMeta''),
      (''ObjectMeta'', lib_type L ''metav1.ObjectMeta''),
      (''Spec'', DBaaSInstanceSpec_ty_v1alpha1 L),
      (''Status'', DBaaSInstanceStatus_ty_v1alpha1 L)]"

definition DBaaSInstance_DeepCopyInto_v1alpha1 :: "lib \<Rightarrow> copier" where
  "DBaaSInstance_DeepCopyInto_v1alpha1 L = copy_struct
     [(''TypeMeta'', assign), (''ObjectMeta'', lib_copier L ''metav1.ObjectMeta''),
      (''Spec'', DBaaSInstanceSpec_DeepCopyInto_v1alpha1 L),
      (''Status'', DBaaSInstanceStatus_DeepCopyInto_v1alpha1 L)]"

definition DBaaSInstance_DeepCopy_v1alpha1 :: "lib \<Rightarrow> copier" where
  "DBaaSInstance_DeepCopy_v1alpha1 L = deep_copy (DBaaSInstance_DeepCopyInto_v1alpha1 L)"

definition DBaaSInstance_DeepCopyObject_v1alpha1 :: "lib \<Rightarrow> copier" where
  "DBaaSInstance_DeepCopyObject_v1alpha1 L = deep_copy_object (DBaaSInstance_DeepCopy_v1alpha1 L)"

lemma deep_DBaaSInstance_v1alpha1 [deep_simps]:
  "lib_contract L \<Longrightarrow>
     deep (DBaaSInstance_ty_v1alpha1 L) (DBaaSInstance_DeepCopyInto_v1alpha1 L)"
  unfolding DBaaSInstance_ty_v1alpha1_def DBaaSInstance_DeepCopyInto_v1alpha1_def
  by (rule deep_struct) (simp add: covered_def deep_simps deep_intros)

subsection \<open>DBaaSInstanceList\<close>

definition DBaaSInstanceList_ty_v1alpha1 :: "lib \<Rightarrow> gtype" where
  "DBaaSInstanceList_ty_v1alpha1 L = TStruct
     [(''TypeMeta'', lib_type L ''metav1.TypeMeta''),
      (''ListMeta'', lib_type L ''metav1.ListMeta''),
      (''Items'', TSlice (DBaaSInstance_ty_v1alpha1 L))]"

definition DBaaSInstanceList_DeepCopyInto_v1alpha1 :: "lib \<Rightarrow> copier" where
  "DBaaSInstanceList_DeepCopyInto_v1alpha1 L = copy_struct
     [(''TypeMeta'', assign), (''ListMeta'', lib_copier L ''metav1.ListMeta''),
      (''Items'', copy_slice (DBaaSInstance_DeepCopyInto_v1alpha1 L))]"

definition DBaaSInstanceList_DeepCopy_v1alpha1 :: "lib \<Rightarrow> copier" where
  "DBaaSInstanceList_DeepCopy_v1alpha1 L = deep_copy (DBaaSInstanceList_DeepCopyInto_v1alpha1 L)"

definition DBaaSInstanceList_DeepCopyObject_v1alpha1 :: "lib \<Rightarrow> copier" where
  "DBaaSInstanceList_DeepCopyObject_v1alpha1 L =
     deep_copy_object (DBaaSInstanceList_DeepCopy_v1alpha1 L)"

lemma deep_DBaaSInstanceList_v1alpha1 [deep_simps]:
  "lib_contract L \<Longrightarrow>
     deep (DBaaSInstanceList_ty_v1alpha1 L) (DBaaSInstanceList_DeepCopyInto_v1alpha1 L)"
  unfolding DBaaSInstanceList_ty_v1alpha1_def DBaaSInstanceList_DeepCopyInto_v1alpha1_def
  by (rule deep_struct) (simp add: covered_def deep_simps deep_intros)

subsection \<open>LocalObjectReference\<close>

definition LocalObjectReference_ty_v1alpha1 :: "lib \<Rightarrow> gtype" where
  "LocalObjectReference_ty_v1alpha1 L = TStruct [(''Name'', TLit)]"

definition LocalObjectReference_DeepCopyInto_v1alpha1 :: "lib \<Rightarrow> copier" where
  "LocalObjectReference_DeepCopyInto_v1alpha1 L = copy_struct []"

definition LocalObjectReference_DeepCopy_v1alpha1 :: "lib \<Rightarrow> copier" where
  "LocalObjectReference_DeepCopy_v1alpha1 L =
     deep_copy (LocalObjectReference_DeepCopyInto_v1alpha1 L)"

lemma flat_LocalObjectReference_v1alpha1 [deep_simps]:
  "lib_contract L \<Longrightarrow> flat (LocalObjectReference_ty_v1alpha1 L)"
  by (simp add: LocalObjectReference_ty_v1alpha1_def deep_simps)

lemma deep_LocalObjectReference_v1alpha1 [deep_simps]:
  "lib_contract L \<Longrightarrow>
     deep (LocalObjectReference_ty_v1alpha1 L) (LocalObjectReference_DeepCopyInto_v1alpha1 L)"
  unfolding LocalObjectReference_ty_v1alpha1_def LocalObjectReference_DeepCopyInto_v1alpha1_def
  by (rule deep_struct) (simp add: covered_def deep_simps deep_intros)

subsection \<open>DBaaSInventorySpec\<close>

definition DBaaSInventorySpec_ty_v1alpha1 :: "lib \<Rightarrow> gtype" where
  "DBaaSInventorySpec_ty_v1alpha1 L = TStruct
     [(''CredentialsRef'', TPointer (LocalObjectReference_ty_v1alpha1 L))]"

definition DBaaSInventorySpec_DeepCopyInto_v1alpha1 :: "lib \<Rightarrow> copier" where
  "DBaaSInventorySpec_DeepCopyInto_v1alpha1 L = copy_struct
     [(''CredentialsRef'', copy_pointer assign)]"

definition DBaaSInventorySpec_DeepCopy_v1alpha1 :: "lib \<Rightarrow> copier" where
  "DBaaSInventorySpec_DeepCopy_v1alpha1 L =
     deep_copy (DBaaSInventorySpec_DeepCopyInto_v1alpha1 L)"

lemma deep_DBaaSInventorySpec_v1alpha1 [deep_simps]:
  "lib_contract L \<Longrightarrow>
     deep (DBaaSInventorySpec_ty_v1alpha1 L) (DBaaSInventorySpec_DeepCopyInto_v1alpha1 L)"
  unfolding DBaaSInventorySpec_ty_v1alpha1_def DBaaSInventorySpec_DeepCopyInto_v1alpha1_def
  by (rule deep_struct) (simp add: covered_def deep_simps deep_intros)

subsection \<open>DBaaSInventoryPolicy\<close>

definition DBaaSInventoryPolicy_ty_v1alpha1 :: "lib \<Rightarrow> gtype" where
  "DBaaSInventoryPolicy_ty_v1alpha1 L = TStruct
     [(''DisableProvisions'', TPointer TLit), (''ConnectionNamespaces'', TPointer (TSlice TLit)),
      (''ConnectionNsSelector'', TPointer (lib_type L ''metav1.LabelSelector''))]"

definition DBaaSInventoryPolicy_DeepCopyInto_v1alpha1 :: "lib \<Rightarrow> copier" where
  "DBaaSInventoryPolicy_DeepCopyInto_v1alpha1 L = copy_struct
     [(''DisableProvisions'', copy_pointer assign),
      (''ConnectionNamespaces'', copy_pointer (copy_slice assign)),
      (''ConnectionNsSelector'', copy_pointer (lib_copier L ''metav1.LabelSelector''))]"

definition DBaaSInventoryPolicy_DeepCopy_v1alpha1 :: "lib \<Rightarrow> copier" where
  "DBaaSInventoryPolicy_DeepCopy_v1alpha1 L =
     deep_copy (DBaaSInventoryPolicy_DeepCopyInto_v1alpha1 L)"

lemma deep_DBaaSInventoryPolicy_v1alpha1 [deep_simps]:
  "lib_contract L \<Longrightarrow>
     deep (DBaaSInventoryPolicy_ty_v1alpha1 L) (DBaaSInventoryPolicy_DeepCopyInto_v1alpha1 L)"
  unfolding DBaaSInventoryPolicy_ty_v1alpha1_def DBaaSInventoryPolicy_DeepCopyInto_v1alpha1_def
  by (rule deep_struct) (simp add: covered_def deep_simps deep_intros)

subsection \<open>DBaaSOperatorInventorySpec\<close>

definition DBaaSOperatorInventorySpec_ty_v1alpha1 :: "lib \<Rightarrow> gtype" where
  "DBaaSOperatorInventorySpec_ty_v1alpha1 L = TStruct
     [(''ProviderRef'', NamespacedName_ty_v1alpha1 L),
      (''DBaaSInventorySpec'', DBaaSInventorySpec_ty_v1alpha1 L),
      (''DBaaSInventoryPolicy'', DBaaSInventoryPolicy_ty_v1alpha1 L)]"

definition DBaaSOperatorInventorySpec_DeepCopyInto_v1alpha1 :: "lib \<Rightarrow> copier" where
  "DBaaSOperatorInventorySpec_DeepCopyInto_v1alpha1 L = copy_struct
     [(''ProviderRef'', assign),
      (''DBaaSInventorySpec'', DBaaSInventorySpec_DeepCopyInto_v1alpha1 L),
      (''DBaaSInventoryPolicy'', DBaaSInventoryPolicy_DeepCopyInto_v1alpha1 L)]"

definition DBaaSOperatorInventorySpec_DeepCopy_v1alpha1 :: "lib \<Rightarrow> copier" where
  "DBaaSOperatorInventorySpec_DeepCopy_v1alpha1 L =
     deep_copy (DBaaSOperatorInventorySpec_DeepCopyInto_v1alpha1 L)"

lemma deep_DBaaSOperatorInventorySpec_v1alpha1 [deep_simps]:
  "lib_contract L \<Longrightarrow>
     deep (DBaaSOperatorInventorySpec_ty_v1alpha1 L) (DBaaSOperatorInventorySpec_DeepCopyInto_v1alpha1 L)"
  unfolding DBaaSOperatorInventorySpec_ty_v1alpha1_def
    DBaaSOperatorInventorySpec_DeepCopyInto_v1alpha1_def
  by (rule deep_struct) (simp add: covered_def deep_simps deep_intros)

subsection \<open>Instance\<close>

definition Instance_ty_v1alpha1 :: "lib \<Rightarrow> gtype" where
  "Instance_ty_v1alpha1 L = TStruct
     [(''InstanceID'', TLit), (''Name'', TLit), (''InstanceInfo'', TMap TLit)]"

definition Instance_DeepCopyInto_v1alpha1 :: "lib \<Rightarrow> copier" where
  "Instance_DeepCopyInto_v1alpha1 L = copy_struct [(''InstanceInfo'', copy_map assign)]"

definition Instance_DeepCopy_v1alpha1 :: "lib \<Rightarrow> copier" where
  "Instance_DeepCopy_v1alpha1 L = deep_copy (Instance_DeepCopyInto_v1alpha1 L)"

lemma deep_Instance_v1alpha1 [deep_simps]:
  "lib_contract L \<Longrightarrow>
     deep (Instance_ty_v1alpha1 L) (Instance_DeepCopyInto_v1alpha1 L)"
  unfolding Instance_ty_v1alpha1_def Instance_DeepCopyInto_v1alpha1_def
  by (rule deep_struct) (simp add: covered_def deep_simps deep_intros)

subsection \<open>DBaaSInventoryStatus\<close>

definition DBaaSInventoryStatus_ty_v1alpha1 :: "lib \<Rightarrow> gtype" where
  "DBaaSInventoryStatus_ty_v1alpha1 L = TStruct
     [(''Conditions'', TSlice (lib_type L ''metav1.Condition'')),
      (''Instances'', TSlice (Instance_ty_v1alpha1 L))]"

definition DBaaSInventoryStatus_DeepCopyInto_v1alpha1 :: "lib \<Rightarrow> copier" where
  "DBaaSInventoryStatus_DeepCopyInto_v1alpha1 L = copy_struct
     [(''Conditions'', copy_slice (lib_copier L ''metav1.Condition'')),
      (''Instances'', copy_slice (Instance_DeepCopyInto_v1alpha1 L))]"

definition DBaaSInventoryStatus_DeepCopy_v1alpha1 :: "lib \<Rightarrow> copier" where
  "DBaaSInventoryStatus_DeepCopy_v1alpha1 L =
     deep_copy (DBaaSInventoryStatus_DeepCopyInto_v1alpha1 L)"

lemma deep_DBaaSInventoryStatus_v1alpha1 [deep_simps]:
  "lib_contract L \<Longrightarrow>
     deep (DBaaSInventoryStatus_ty_v1alpha1 L) (DBaaSInventoryStatus_DeepCopyInto_v1alpha1 L)"
  unfolding DBaaSInventoryStatus_ty_v1alpha1_def DBaaSInventoryStatus_DeepCopyInto_v1alpha1_def
  by (rule deep_struct) (simp add: covered_def deep_simps deep_intros)

subsection \<open>DBaaSInventory\<close>

definition DBaaSInventory_ty_v1alpha1 :: "lib \<Rightarrow> gtype" where
  "DBaaSInventory_ty_v1alpha1 L = TStruct
     [(''TypeMeta'', lib_type L ''metav1.TypeMeta''),
      (''ObjectMeta'', lib_type L ''metav1.ObjectMeta''),
      (''Spec'', DBaaSOperatorInventorySpec_ty_v1alpha1 L),
      (''Status'', DBaaSInventoryStatus_ty_v1alpha1 L)]"

definition DBaaSInventory_DeepCopyInto_v1alpha1 :: "lib \<Rightarrow> copier" where
  "DBaaSInventory_DeepCopyInto_v1alpha1 L = copy_struct
     [(''TypeMeta'', assign), (''ObjectMeta'', lib_copier L ''metav1.ObjectMeta''),
      (''Spec'', DBaaSOperatorInventorySpec_DeepCopyInto_v1alpha1 L),
      (''Status'', DBaaSInventoryStatus_DeepCopyInto_v1alpha1 L)]"

definition DBaaSInventory_DeepCopy_v1alpha1 :: "lib \<Rightarrow> copier" where
  "DBaaSInventory_DeepCopy_v1alpha1 L = deep_copy (DBaaSInventory_DeepCopyInto_v1alpha1 L)"

definition DBaaSInventory_DeepCopyObject_v1alpha1 :: "lib \<Rightarrow> copier" where
  "DBaaSInventory_DeepCopyObject_v1alpha1 L =
     deep_copy_object (DBaaSInventory_DeepCopy_v1alpha1 L)"

lemma deep_DBaaSInventory_v1alpha1 [deep_simps]:
  "lib_contract L \<Longrightarrow>
     deep (DBaaSInventory_ty_v1alpha1 L) (DBaaSInventory_DeepCopyInto_v1alpha1 L)"
  unfolding DBaaSInventory_ty_v1alpha1_def DBaaSInventory_DeepCopyInto_v1alpha1_def
  by (rule deep_struct) (simp add: covered_def deep_simps deep_intros)

subsection \<open>DBaaSInventoryList\<close>

definition DBaaSInventoryList_ty_v1alpha1 :: "lib \<Rightarrow> gtype" where
  "DBaaSInventoryList_ty_v1alpha1 L = TStruct
     [(''TypeMeta'', lib_type L ''metav1.TypeMeta''),
      (''ListMeta'', lib_type L ''metav1.ListMeta''),
      (''Items'', TSlice (DBaaSInventory_ty_v1alpha1 L))]"

definition DBaaSInventoryList_DeepCopyInto_v1alpha1 :: "lib \<Rightarrow> copier" where
  "DBaaSInventoryList_DeepCopyInto_v1alpha1 L = copy_struct
     [(''TypeMeta'', assign), (''ListMeta'', lib_copier L ''metav1.ListMeta''),
      (''Items'', copy_slice (DBaaSInventory_DeepCopyInto_v1alpha1 L))]"

definition DBaaSInventoryList_DeepCopy_v1alpha1 :: "lib \<Rightarrow> copier" where
  "DBaaSInventoryList_DeepCopy_v1alpha1 L =
     deep_copy (DBaaSInventoryList_DeepCopyInto_v1alpha1 L)"

definition DBaaSInventoryList_DeepCopyObject_v1alpha1 :: "lib \<Rightarrow> copier" where
  "DBaaSInventoryList_DeepCopyObject_v1alpha1 L =
     deep_copy_object (DBaaSInventoryList_DeepCopy_v1alpha1 L)"

lemma deep_DBaaSInventoryList_v1alpha1 [deep_simps]:
  "lib_contract L \<Longrightarrow>
     deep (DBaaSInventoryList_ty_v1alpha1 L) (DBaaSInventoryList_DeepCopyInto_v1alpha1 L)"
  unfolding DBaaSInventoryList_ty_v1alpha1_def DBaaSInventoryList_DeepCopyInto_v1alpha1_def
  by (rule deep_struct) (simp add: covered_def deep_simps deep_intros)

subsection \<open>DBaaSPlatformSpec\<close>

definition DBaaSPlatformSpec_ty_v1alpha1 :: "lib \<Rightarrow> gtype" where
  "DBaaSPlatformSpec_ty_v1alpha1 L = TStruct [(''SyncPeriod'', TPointer TLit)]"

definition DBaaSPlatformSpec_DeepCopyInto_v1alpha1 :: "lib \<Rightarrow> copier" where
  "DBaaSPlatformSpec_DeepCopyInto_v1alpha1 L = copy_struct
     [(''SyncPeriod'', copy_pointer assign)]"

definition DBaaSPlatformSpec_DeepCopy_v1alpha1 :: "lib \<Rightarrow> copier" where
  "DBaaSPlatformSpec_DeepCopy_v1alpha1 L = deep_copy (DBaaSPlatformSpec_DeepCopyInto_v1alpha1 L)"

lemma deep_DBaaSPlatformSpec_v1alpha1 [deep_simps]:
  "lib_contract L \<Longrightarrow>
     deep (DBaaSPlatformSpec_ty_v1alpha1 L) (DBaaSPlatformSpec_DeepCopyInto_v1alpha1 L)"
  unfolding DBaaSPlatformSpec_ty_v1alpha1_def DBaaSPlatformSpec_DeepCopyInto_v1alpha1_def
  by (rule deep_struct) (simp add: covered_def deep_simps deep_intros)

subsection \<open>PlatformStatus\<close>

definition PlatformStatus_ty_v1alpha1 :: "lib \<Rightarrow> gtype" where
  "PlatformStatus_ty_v1alpha1 L = TStruct
     [(''PlatformName'', TLit), (''PlatformStatus'', TLit), (''LastMessage'', TLit)]"

definition PlatformStatus_DeepCopyInto_v1alpha1 :: "lib \<Rightarrow> copier" where
  "PlatformStatus_DeepCopyInto_v1alpha1 L = copy_struct []"

definition PlatformStatus_DeepCopy_v1alpha1 :: "lib \<Rightarrow> copier" where
  "PlatformStatus_DeepCopy_v1alpha1 L = deep_copy (PlatformStatus_DeepCopyInto_v1alpha1 L)"

lemma flat_PlatformStatus_v1alpha1 [deep_simps]:
  "lib_contract L \<Longrightarrow> flat (PlatformStatus_ty_v1alpha1 L)"
  by (simp add: PlatformStatus_ty_v1alpha1_def deep_simps)

lemma deep_PlatformStatus_v1alpha1 [deep_simps]:
  "lib_contract L \<Longrightarrow>
     deep (PlatformStatus_ty_v1alpha1 L) (PlatformStatus_DeepCopyInto_v1alpha1 L)"
  unfolding PlatformStatus_ty_v1alpha1_def PlatformStatus_DeepCopyInto_v1alpha1_def
  by (rule deep_struct) (simp add: covered_def deep_simps deep_intros)

subsection \<open>DBaaSPlatformStatus\<close>

definition DBaaSPlatformStatus_ty_v1alpha1 :: "lib \<Rightarrow> gtype" where
  "DBaaSPlatformStatus_ty_v1alpha1 L = TStruct
     [(''Conditions'', TSlice (lib_type L ''metav1.Condition'')),
      (''PlatformsStatus'', TSlice (PlatformStatus_ty_v1alpha1 L))]"

definition DBaaSPlatformStatus_DeepCopyInto_v1alpha1 :: "lib \<Rightarrow> copier" where
  "DBaaSPlatformStatus_DeepCopyInto_v1alpha1 L = copy_struct
     [(''Conditions'', copy_slice (lib_copier L ''metav1.Condition'')),
      (''PlatformsStatus'', copy_slice assign)]"

definition DBaaSPlatformStatus_DeepCopy_v1alpha1 :: "lib \<Rightarrow> copier" where
  "DBaaSPlatformStatus_DeepCopy_v1alpha1 L =
     deep_copy (DBaaSPlatformStatus_DeepCopyInto_v1alpha1 L)"

lemma deep_DBaaSPlatformStatus_v1alpha1 [deep_simps]:
  "lib_contract L \<Longrightarrow>
     deep (DBaaSPlatformStatus_ty_v1alpha1 L) (DBaaSPlatformStatus_DeepCopyInto_v1alpha1 L)"
  unfolding DBaaSPlatformStatus_ty_v1alpha1_def DBaaSPlatformStatus_DeepCopyInto_v1alpha1_def
  by (rule deep_struct) (simp add: covered_def deep_simps deep_intros)

subsection \<open>DBaaSPlatform\<close>

definition DBaaSPlatform_ty_v1alpha1 :: "lib \<Rightarrow> gtype" where
  "DBaaSPlatform_ty_v1alpha1 L = TStruct
     [(''TypeMeta'', lib_type L ''metav1.TypeMeta''),
      (''ObjectMeta'', lib_type L ''metav1.ObjectMeta''),
      (''Spec'', DBaaSPlatformSpec_ty_v1alpha1 L),
      (''Status'', DBaaSPlatformStatus_ty_v1alpha1 L)]"

definition DBaaSPlatform_DeepCopyInto_v1alpha1 :: "lib \<Rightarrow> copier" where
  "DBaaSPlatform_DeepCopyInto_v1alpha1 L = copy_struct
     [(''TypeMeta'', assign), (''ObjectMeta'', lib_copier L ''metav1.ObjectMeta''),
      (''Spec'', DBaaSPlatformSpec_DeepCopyInto_v1alpha1 L),
      (''Status'', DBaaSPlatformStatus_DeepCopyInto_v1alpha1 L)]"

definition DBaaSPlatform_DeepCopy_v1alpha1 :: "lib \<Rightarrow> copier" where
  "DBaaSPlatform_DeepCopy_v1alpha1 L = deep_copy (DBaaSPlatform_DeepCopyInto_v1alpha1 L)"

definition DBaaSPlatform_DeepCopyObject_v1alpha1 :: "lib \<Rightarrow> copier" where
  "DBaaSPlatform_DeepCopyObject_v1alpha1 L = deep_copy_object (DBaaSPlatform_DeepCopy_v1alpha1 L)"

lemma deep_DBaaSPlatform_v1alpha1 [deep_simps]:
  "lib_contract L \<Longrightarrow>
     deep (DBaaSPlatform_ty_v1alpha1 L) (DBaaSPlatform_DeepCopyInto_v1alpha1 L)"
  unfolding DBaaSPlatform_ty_v1alpha1_def DBaaSPlatform_DeepCopyInto_v1alpha1_def
  by (rule deep_struct) (simp add: covered_def deep_simps deep_intros)

subsection \<open>DBaaSPlatformList\<close>

definition DBaaSPlatformList_ty_v1alpha1 :: "lib \<Rightarrow> gtype" where
  "DBaaSPlatformList_ty_v1alpha1 L = TStruct
     [(''TypeMeta'', lib_type L ''metav1.TypeMeta''),
      (''ListMeta'', lib_type L ''metav1.ListMeta''),
      (''Items'', TSlice (DBaaSPlatform_ty_v1alpha1 L))]"

definition DBaaSPlatformList_DeepCopyInto_v1alpha1 :: "lib \<Rightarrow> copier" where
  "DBaaSPlatformList_DeepCopyInto_v1alpha1 L = copy_struct
     [(''TypeMeta'', assign), (''ListMeta'', lib_copier L ''metav1.ListMeta''),
      (''Items'', copy_slice (DBaaSPlatform_DeepCopyInto_v1alpha1 L))]"

definition DBaaSPlatformList_DeepCopy_v1alpha1 :: "lib \<Rightarrow> copier" where
  "DBaaSPlatformList_DeepCopy_v1alpha1 L = deep_copy (DBaaSPlatformList_DeepCopyInto_v1alpha1 L)"

definition DBaaSPlatformList_DeepCopyObject_v1alpha1 :: "lib \<Rightarrow> copier" where
  "DBaaSPlatformList_DeepCopyObject_v1alpha1 L =
     deep_copy_object (DBaaSPlatformList_DeepCopy_v1alpha1 L)"

lemma deep_DBaaSPlatformList_v1alpha1 [deep_simps]:
  "lib_contract L \<Longrightarrow>
     deep (DBaaSPlatformList_ty_v1alpha1 L) (DBaaSPlatformList_DeepCopyInto_v1alpha1 L)"
  unfolding DBaaSPlatformList_ty_v1alpha1_def DBaaSPlatformList_DeepCopyInto_v1alpha1_def
  by (rule deep_struct) (simp add: covered_def deep_simps deep_intros)

subsection \<open>DBaaSPolicySpec\<close>

definition DBaaSPolicySpec_ty_v1alpha1 :: "lib \<Rightarrow> gtype" where
  "DBaaSPolicySpec_ty_v1alpha1 L = TStruct
     [(''DBaaSInventoryPolicy'', DBaaSInventoryPolicy_ty_v1alpha1 L)]"

definition DBaaSPolicySpec_DeepCopyInto_v1alpha1 :: "lib \<Rightarrow> copier" where
  "DBaaSPolicySpec_DeepCopyInto_v1alpha1 L = copy_struct
     [(''DBaaSInventoryPolicy'', DBaaSInventoryPolicy_DeepCopyInto_v1alpha1 L)]"

definition DBaaSPolicySpec_DeepCopy_v1alpha1 :: "lib \<Rightarrow> copier" where
  "DBaaSPolicySpec_DeepCopy_v1alpha1 L = deep_copy (DBaaSPolicySpec_DeepCopyInto_v1alpha1 L)"

lemma deep_DBaaSPolicySpec_v1alpha1 [deep_simps]:
  "lib_contract L \<Longrightarrow>
     deep (DBaaSPolicySpec_ty_v1alpha1 L) (DBaaSPolicySpec_DeepCopyInto_v1alpha1 L)"
  unfolding DBaaSPolicySpec_ty_v1alpha1_def DBaaSPolicySpec_DeepCopyInto_v1alpha1_def
  by (rule deep_struct) (simp add: covered_def deep_simps deep_intros)

subsection \<open>DBaaSPolicyStatus\<close>

definition DBaaSPolicyStatus_ty_v1alpha1 :: "lib \<Rightarrow> gtype" where
  "DBaaSPolicyStatus_ty_v1alpha1 L = TStruct
     [(''Conditions'', TSlice (lib_type L ''metav1.Condition''))]"

definition DBaaSPolicyStatus_DeepCopyInto_v1alpha1 :: "lib \<Rightarrow> copier" where
  "DBaaSPolicyStatus_DeepCopyInto_v1alpha1 L = copy_struct
     [(''Conditions'', copy_slice (lib_copier L ''metav1.Condition''))]"

definition DBaaSPolicyStatus_DeepCopy_v1alpha1 :: "lib \<Rightarrow> copier" where
  "DBaaSPolicyStatus_DeepCopy_v1alpha1 L = deep_copy (DBaaSPolicyStatus_DeepCopyInto_v1alpha1 L)"

lemma deep_DBaaSPolicyStatus_v1alpha1 [deep_simps]:
  "lib_contract L \<Longrightarrow>
     deep (DBaaSPolicyStatus_ty_v1alpha1 L) (DBaaSPolicyStatus_DeepCopyInto_v1alpha1 L)"
  unfolding DBaaSPolicyStatus_ty_v1alpha1_def DBaaSPolicyStatus_DeepCopyInto_v1alpha1_def
  by (rule deep_struct) (simp add: covered_def deep_simps deep_intros)

subsection \<open>DBaaSPolicy\<close>

definition DBaaSPolicy_ty_v1alpha1 :: "lib \<Rightarrow> gtype" where
  "DBaaSPolicy_ty_v1alpha1 L = TStruct
     [(''TypeMeta'', lib_type L ''metav1.TypeMeta''),
      (''ObjectMeta'', lib_type L ''metav1.ObjectMeta''),
      (''Spec'', DBaaSPolicySpec_ty_v1alpha1 L), (''Status'', DBaaSPolicyStatus_ty_v1alpha1 L)]"

definition DBaaSPolicy_DeepCopyInto_v1alpha1 :: "lib \<Rightarrow> copier" where
  "DBaaSPolicy_DeepCopyInto_v1alpha1 L = copy_struct
     [(''TypeMeta'', assign), (''ObjectMeta'', lib_copier L ''metav1.ObjectMeta''),
      (''Spec'', DBaaSPolicySpec_DeepCopyInto_v1alpha1 L),
      (''Status'', DBaaSPolicyStatus_DeepCopyInto_v1alpha1 L)]"

definition DBaaSPolicy_DeepCopy_v1alpha1 :: "lib \<Rightarrow> copier" where
  "DBaaSPolicy_DeepCopy_v1alpha1 L = deep_copy (DBaaSPolicy_DeepCopyInto_v1alpha1 L)"

definition DBaaSPolicy_DeepCopyObject_v1alpha1 :: "lib \<Rightarrow> copier" where
  "DBaaSPolicy_DeepCopyObject_v1alpha1 L = deep_copy_object (DBaaSPolicy_DeepCopy_v1alpha1 L)"

lemma deep_DBaaSPolicy_v1alpha1 [deep_simps]:
  "lib_contract L \<Longrightarrow>
     deep (DBaaSPolicy_ty_v1alpha1 L) (DBaaSPolicy_DeepCopyInto_v1alpha1 L)"
  unfolding DBaaSPolicy_ty_v1alpha1_def DBaaSPolicy_DeepCopyInto_v1alpha1_def
  by (rule deep_struct) (simp add: covered_def deep_simps deep_intros)

subsection \<open>DBaaSPolicyList\<close>

definition DBaaSPolicyList_ty_v1alpha1 :: "lib \<Rightarrow> gtype" where
  "DBaaSPolicyList_ty_v1alpha1 L = TStruct
     [(''TypeMeta'', lib_type L ''metav1.TypeMeta''),
      (''ListMeta'', lib_type L ''metav1.ListMeta''),
      (''Items'', TSlice (DBaaSPolicy_ty_v1alpha1 L))]"

definition DBaaSPolicyList_DeepCopyInto_v1alpha1 :: "lib \<Rightarrow> copier" where
  "DBaaSPolicyList_DeepCopyInto_v1alpha1 L = copy_struct
     [(''TypeMeta'', assign), (''ListMeta'', lib_copier L ''metav1.ListMeta''),
      (''Items'', copy_slice (DBaaSPolicy_DeepCopyInto_v1alpha1 L))]"

definition DBaaSPolicyList_DeepCopy_v1alpha1 :: "lib \<Rightarrow> copier" where
  "DBaaSPolicyList_DeepCopy_v1alpha1 L = deep_copy (DBaaSPolicyList_DeepCopyInto_v1alpha1 L)"

definition DBaaSPolicyList_DeepCopyObject_v1alpha1 :: "lib \<Rightarrow> copier" where
  "DBaaSPolicyList_DeepCopyObject_v1alpha1 L =
     deep_copy_object (DBaaSPolicyList_DeepCopy_v1alpha1 L)"

lemma deep_DBaaSPolicyList_v1alpha1 [deep_simps]:
  "lib_contract L \<Longrightarrow>
     deep (DBaaSPolicyList_ty_v1alpha1 L) (DBaaSPolicyList_DeepCopyInto_v1alpha1 L)"
  unfolding DBaaSPolicyList_ty_v1alpha1_def DBaaSPolicyList_DeepCopyInto_v1alpha1_def
  by (rule deep_struct) (simp add: covered_def deep_simps deep_intros)

subsection \<open>ProviderIcon\<close>

definition ProviderIcon_ty_v1alpha1 :: "lib \<Rightarrow> gtype" where
  "ProviderIcon_ty_v1alpha1 L = TStruct [(''Data'', TLit), (''MediaType'', TLit)]"

definition ProviderIcon_DeepCopyInto_v1alpha1 :: "lib \<Rightarrow> copier" where
  "ProviderIcon_DeepCopyInto_v1alpha1 L = copy_struct []"

definition ProviderIcon_DeepCopy_v1alpha1 :: "lib \<Rightarrow> copier" where
  "ProviderIcon_DeepCopy_v1alpha1 L = deep_copy (ProviderIcon_DeepCopyInto_v1alpha1 L)"

lemma flat_ProviderIcon_v1alpha1 [deep_simps]:
  "lib_contract L \<Longrightarrow> flat (ProviderIcon_ty_v1alpha1 L)"
  by (simp add: ProviderIcon_ty_v1alpha1_def deep_simps)

lemma deep_ProviderIcon_v1alpha1 [deep_simps]:
  "lib_contract L \<Longrightarrow>
     deep (ProviderIcon_ty_v1alpha1 L) (ProviderIcon_DeepCopyInto_v1alpha1 L)"
  unfolding ProviderIcon_ty_v1alpha1_def ProviderIcon_DeepCopyInto_v1alpha1_def
  by (rule deep_struct) (simp add: covered_def deep_simps deep_intros)

subsection \<open>DatabaseProvider\<close>

definition DatabaseProvider_ty_v1alpha1 :: "lib \<Rightarrow> gtype" where
  "DatabaseProvider_ty_v1alpha1 L = TStruct
     [(''Name'', TLit), (''DisplayName'', TLit), (''DisplayDescription'', TLit),
      (''Icon'', ProviderIcon_ty_v1alpha1 L)]"

definition DatabaseProvider_DeepCopyInto_v1alpha1 :: "lib \<Rightarrow> copier" where
  "DatabaseProvider_DeepCopyInto_v1alpha1 L = copy_struct [(''Icon'', assign)]"

definition DatabaseProvider_DeepCopy_v1alpha1 :: "lib \<Rightarrow> copier" where
  "DatabaseProvider_DeepCopy_v1alpha1 L = deep_copy (DatabaseProvider_DeepCopyInto_v1alpha1 L)"

lemma flat_DatabaseProvider_v1alpha1 [deep_simps]:
  "lib_contract L \<Longrightarrow> flat (DatabaseProvider_ty_v1alpha1 L)"
  by (simp add: DatabaseProvider_ty_v1alpha1_def deep_simps)

lemma deep_DatabaseProvider_v1alpha1 [deep_simps]:
  "lib_contract L \<Longrightarrow>
     deep (DatabaseProvider_ty_v1alpha1 L) (DatabaseProvider_DeepCopyInto_v1alpha1 L)"
  unfolding DatabaseProvider_ty_v1alpha1_def DatabaseProvider_DeepCopyInto_v1alpha1_def
  by (rule deep_struct) (simp add: covered_def deep_simps deep_intros)

subsection \<open>InstanceParameterSpec\<close>

definition InstanceParameterSpec_ty_v1alpha1 :: "lib \<Rightarrow> gtype" where
  "InstanceParameterSpec_ty_v1alpha1 L = TStruct
     [(''Name'', TLit), (''DisplayName'', TLit), (''Type'', TLit), (''Required'', TLit),
      (''DefaultValue'', TLit)]"

definition InstanceParameterSpec_DeepCopyInto_v1alpha1 :: "lib \<Rightarrow> copier" where
  "InstanceParameterSpec_DeepCopyInto_v1alpha1 L = copy_struct []"

definition InstanceParameterSpec_DeepCopy_v1alpha1 :: "lib \<Rightarrow> copier" where
  "InstanceParameterSpec_DeepCopy_v1alpha1 L =
     deep_copy (InstanceParameterSpec_DeepCopyInto_v1alpha1 L)"

lemma flat_InstanceParameterSpec_v1alpha1 [deep_simps]:
  "lib_contract L \<Longrightarrow> flat (InstanceParameterSpec_ty_v1alpha1 L)"
  by (simp add: InstanceParameterSpec_ty_v1alpha1_def deep_simps)

lemma deep_InstanceParameterSpec_v1alpha1 [deep_simps]:
  "lib_contract L \<Longrightarrow>
     deep (InstanceParameterSpec_ty_v1alpha1 L) (InstanceParameterSpec_DeepCopyInto_v1alpha1 L)"
  unfolding InstanceParameterSpec_ty_v1alpha1_def InstanceParameterSpec_DeepCopyInto_v1alpha1_def
  by (rule deep_struct) (simp add: covered_def deep_simps deep_intros)

subsection \<open>DBaaSProviderSpec\<close>

definition DBaaSProviderSpec_ty_v1alpha1 :: "lib \<Rightarrow> gtype" where
  "DBaaSProviderSpec_ty_v1alpha1 L = TStruct
     [(''Provider'', DatabaseProvider_ty_v1alpha1 L), (''InventoryKind'', TLit),
      (''ConnectionKind'', TLit), (''InstanceKind'', TLit),
      (''CredentialFields'', TSlice (CredentialField_ty_v1alpha1 L)), (''AllowsFreeTrial'', TLit),
      (''ExternalProvisionURL'', TLit), (''ExternalProvisionDescription'', TLit),
      (''InstanceParameterSpecs'', TSlice (InstanceParameterSpec_ty_v1alpha1 L))]"

definition DBaaSProviderSpec_DeepCopyInto_v1alpha1 :: "lib \<Rightarrow> copier" where
  "DBaaSProviderSpec_DeepCopyInto_v1alpha1 L = copy_struct
     [(''Provider'', assign), (''CredentialFields'', copy_slice assign),
      (''InstanceParameterSpecs'', copy_slice assign)]"

definition DBaaSProviderSpec_DeepCopy_v1alpha1 :: "lib \<Rightarrow> copier" where
  "DBaaSProviderSpec_DeepCopy_v1alpha1 L = deep_copy (DBaaSProviderSpec_DeepCopyInto_v1alpha1 L)"

lemma deep_DBaaSProviderSpec_v1alpha1 [deep_simps]:
  "lib_contract L \<Longrightarrow>
     deep (DBaaSProviderSpec_ty_v1alpha1 L) (DBaaSProviderSpec_DeepCopyInto_v1alpha1 L)"
  unfolding DBaaSProviderSpec_ty_v1alpha1_def DBaaSProviderSpec_DeepCopyInto_v1alpha1_def
  by (rule deep_struct) (simp add: covered_def deep_simps deep_intros)

subsection \<open>DBaaSProviderStatus\<close>

definition DBaaSProviderStatus_ty_v1alpha1 :: "lib \<Rightarrow> gtype" where
  "DBaaSProviderStatus_ty_v1alpha1 L = TStruct []"

definition DBaaSProviderStatus_DeepCopyInto_v1alpha1 :: "lib \<Rightarrow> copier" where
  "DBaaSProviderStatus_DeepCopyInto_v1alpha1 L = copy_struct []"

definition DBaaSProviderStatus_DeepCopy_v1alpha1 :: "lib \<Rightarrow> copier" where
  "DBaaSProviderStatus_DeepCopy_v1alpha1 L =
     deep_copy (DBaaSProviderStatus_DeepCopyInto_v1alpha1 L)"

lemma flat_DBaaSProviderStatus_v1alpha1 [deep_simps]:
  "lib_contract L \<Longrightarrow> flat (DBaaSProviderStatus_ty_v1alpha1 L)"
  by (simp add: DBaaSProviderStatus_ty_v1alpha1_def deep_simps)

lemma deep_DBaaSProviderStatus_v1alpha1 [deep_simps]:
  "lib_contract L \<Longrightarrow>
     deep (DBaaSProviderStatus_ty_v1alpha1 L) (DBaaSProviderStatus_DeepCopyInto_v1alpha1 L)"
  unfolding DBaaSProviderStatus_ty_v1alpha1_def DBaaSProviderStatus_DeepCopyInto_v1alpha1_def
  by (rule deep_struct) (simp add: covered_def deep_simps deep_intros)

subsection \<open>DBaaSProvider\<close>

definition DBaaSProvider_ty_v1alpha1 :: "lib \<Rightarrow> gtype" where
  "DBaaSProvider_ty_v1alpha1 L = TStruct
     [(''TypeMeta'', lib_type L ''metav1.TypeMeta''),
      (''ObjectMeta'', lib_type L ''metav1.ObjectMeta''),
      (''Spec'', DBaaSProviderSpec_ty_v1alpha1 L),
      (''Status'', DBaaSProviderStatus_ty_v1alpha1 L)]"

definition DBaaSProvider_DeepCopyInto_v1alpha1 :: "lib \<Rightarrow> copier" where
  "DBaaSProvider_DeepCopyInto_v1alpha1 L = copy_struct
     [(''TypeMeta'', assign), (''ObjectMeta'', lib_copier L ''metav1.ObjectMeta''),
      (''Spec'', DBaaSProviderSpec_DeepCopyInto_v1alpha1 L), (''Status'', assign)]"

definition DBaaSProvider_DeepCopy_v1alpha1 :: "lib \<Rightarrow> copier" where
  "DBaaSProvider_DeepCopy_v1alpha1 L = deep_copy (DBaaSProvider_DeepCopyInto_v1alpha1 L)"

definition DBaaSProvider_DeepCopyObject_v1alpha1 :: "lib \<Rightarrow> copier" where
  "DBaaSProvider_DeepCopyObject_v1alpha1 L = deep_copy_object (DBaaSProvider_DeepCopy_v1alpha1 L)"

lemma deep_DBaaSProvider_v1alpha1 [deep_simps]:
  "lib_contract L \<Longrightarrow>
     deep (DBaaSProvider_ty_v1alpha1 L) (DBaaSProvider_DeepCopyInto_v1alpha1 L)"
  unfolding DBaaSProvider_ty_v1alpha1_def DBaaSProvider_DeepCopyInto_v1alpha1_def
  by (rule deep_struct) (simp add: covered_def deep_simps deep_intros)

subsection \<open>DBaaSProviderConnection\<close>

definition DBaaSProviderConnection_ty_v1alpha1 :: "lib \<Rightarrow> gtype" where
  "DBaaSProviderConnection_ty_v1alpha1 L = TStruct
     [(''ObjectMeta'', lib_type L ''metav1.ObjectMeta''),
      (''Spec'', DBaaSConnectionSpec_ty_v1alpha1 L),
      (''Status'', DBaaSConnectionStatus_ty_v1alpha1 L)]"

definition DBaaSProviderConnection_DeepCopyInto_v1alpha1 :: "lib \<Rightarrow> copier" where
  "DBaaSProviderConnection_DeepCopyInto_v1alpha1 L = copy_struct
     [(''ObjectMeta'', lib_copier L ''metav1.ObjectMeta''),
      (''Spec'', DBaaSConnectionSpec_DeepCopyInto_v1alpha1 L),
      (''Status'', DBaaSConnectionStatus_DeepCopyInto_v1alpha1 L)]"

definition DBaaSProviderConnection_DeepCopy_v1alpha1 :: "lib \<Rightarrow> copier" where
  "DBaaSProviderConnection_DeepCopy_v1alpha1 L =
     deep_copy (DBaaSProviderConnection_DeepCopyInto_v1alpha1 L)"

lemma deep_DBaaSProviderConnection_v1alpha1 [deep_simps]:
  "lib_contract L \<Longrightarrow>
     deep (DBaaSProviderConnection_ty_v1alpha1 L) (DBaaSProviderConnection_DeepCopyInto_v1alpha1 L)"
  unfolding DBaaSProviderConnection_ty_v1alpha1_def
    DBaaSProviderConnection_DeepCopyInto_v1alpha1_def
  by (rule deep_struct) (simp add: covered_def deep_simps deep_intros)

subsection \<open>DBaaSProviderInstance\<close>

definition DBaaSProviderInstance_ty_v1alpha1 :: "lib \<Rightarrow> gtype" where
  "DBaaSProviderInstance_ty_v1alpha1 L = TStruct
     [(''ObjectMeta'', lib_type L ''metav1.ObjectMeta''),
      (''Spec'', DBaaSInstanceSpec_ty_v1alpha1 L),
      (''Status'', DBaaSInstanceStatus_ty_v1alpha1 L)]"

definition DBaaSProviderInstance_DeepCopyInto_v1alpha1 :: "lib \<Rightarrow> copier" where
  "DBaaSProviderInstance_DeepCopyInto_v1alpha1 L = copy_struct
     [(''ObjectMeta'', lib_copier L ''metav1.ObjectMeta''),
      (''Spec'', DBaaSInstanceSpec_DeepCopyInto_v1alpha1 L),
      (''Status'', DBaaSInstanceStatus_DeepCopyInto_v1alpha1 L)]"

definition DBaaSProviderInstance_DeepCopy_v1alpha1 :: "lib \<Rightarrow> copier" where
  "DBaaSProviderInstance_DeepCopy_v1alpha1 L =
     deep_copy (DBaaSProviderInstance_DeepCopyInto_v1alpha1 L)"

lemma deep_DBaaSProviderInstance_v1alpha1 [deep_simps]:
  "lib_contract L \<Longrightarrow>
     deep (DBaaSProviderInstance_ty_v1alpha1 L) (DBaaSProviderInstance_DeepCopyInto_v1alpha1 L)"
  unfolding DBaaSProviderInstance_ty_v1alpha1_def DBaaSProviderInstance_DeepCopyInto_v1alpha1_def
  by (rule deep_struct) (simp add: covered_def deep_simps deep_intros)

subsection \<open>DBaaSProviderInventory\<close>

definition DBaaSProviderInventory_ty_v1alpha1 :: "lib \<Rightarrow> gtype" where
  "DBaaSProviderInventory_ty_v1alpha1 L = TStruct
     [(''ObjectMeta'', lib_type L ''metav1.ObjectMeta''),
      (''Spec'', DBaaSInventorySpec_ty_v1alpha1 L),
      (''Status'', DBaaSInventoryStatus_ty_v1alpha1 L)]"

definition DBaaSProviderInventory_DeepCopyInto_v1alpha1 :: "lib \<Rightarrow> copier" where
  "DBaaSProviderInventory_DeepCopyInto_v1alpha1 L = copy_struct
     [(''ObjectMeta'', lib_copier L ''metav1.ObjectMeta''),
      (''Spec'', DBaaSInventorySpec_DeepCopyInto_v1alpha1 L),
      (''Status'', DBaaSInventoryStatus_DeepCopyInto_v1alpha1 L)]"

definition DBaaSProviderInventory_DeepCopy_v1alpha1 :: "lib \<Rightarrow> copier" where
  "DBaaSProviderInventory_DeepCopy_v1alpha1 L =
     deep_copy (DBaaSProviderInventory_DeepCopyInto_v1alpha1 L)"

lemma deep_DBaaSProviderInventory_v1alpha1 [deep_simps]:
  "lib_contract L \<Longrightarrow>
     deep (DBaaSProviderInventory_ty_v1alpha1 L) (DBaaSProviderInventory_DeepCopyInto_v1alpha1 L)"
  unfolding DBaaSProviderInventory_ty_v1alpha1_def
    DBaaSProviderInventory_DeepCopyInto_v1alpha1_def
  by (rule deep_struct) (simp add: covered_def deep_simps deep_intros)

subsection \<open>DBaaSProviderList\<close>

definition DBaaSProviderList_ty_v1alpha1 :: "lib \<Rightarrow> gtype" where
  "DBaaSProviderList_ty_v1alpha1 L = TStruct
     [(''TypeMeta'', lib_type L ''metav1.TypeMeta''),
      (''ListMeta'', lib_type L ''metav1.ListMeta''),
      (''Items'', TSlice (DBaaSProvider_ty_v1alpha1 L))]"

definition DBaaSProviderList_DeepCopyInto_v1alpha1 :: "lib \<Rightarrow> copier" where
  "DBaaSProviderList_DeepCopyInto_v1alpha1 L = copy_struct
     [(''TypeMeta'', assign), (''ListMeta'', lib_copier L ''metav1.ListMeta''),
      (''Items'', copy_slice (DBaaSProvider_DeepCopyInto_v1alpha1 L))]"

definition DBaaSProviderList_DeepCopy_v1alpha1 :: "lib \<Rightarrow> copier" where
  "DBaaSProviderList_DeepCopy_v1alpha1 L = deep_copy (DBaaSProviderList_DeepCopyInto_v1alpha1 L)"

definition DBaaSProviderList_DeepCopyObject_v1alpha1 :: "lib \<Rightarrow> copier" where
  "DBaaSProviderList_DeepCopyObject_v1alpha1 L =
     deep_copy_object (DBaaSProviderList_DeepCopy_v1alpha1 L)"

lemma deep_DBaaSProviderList_v1alpha1 [deep_simps]:
  "lib_contract L \<Longrightarrow>
     deep (DBaaSProviderList_ty_v1alpha1 L) (DBaaSProviderList_DeepCopyInto_v1alpha1 L)"
  unfolding DBaaSProviderList_ty_v1alpha1_def DBaaSProviderList_DeepCopyInto_v1alpha1_def
  by (rule deep_struct) (simp add: covered_def deep_simps deep_intros)

subsection \<open>ObservabilityConfig\<close>

definition ObservabilityConfig_ty_v1alpha1 :: "lib \<Rightarrow> gtype" where
  "ObservabilityConfig_ty_v1alpha1 L = TStruct
     [(''AuthType'', TLit), (''RemoteWritesURL'', TLit), (''RHSSOTokenURL'', TLit),
      (''AddonName'', TLit), (''RHOBSSecretName'', TLit)]"

definition ObservabilityConfig_DeepCopyInto_v1alpha1 :: "lib \<Rightarrow> copier" where
  "ObservabilityConfig_DeepCopyInto_v1alpha1 L = copy_struct []"

definition ObservabilityConfig_DeepCopy_v1alpha1 :: "lib \<Rightarrow> copier" where
  "ObservabilityConfig_DeepCopy_v1alpha1 L =
     deep_copy (ObservabilityConfig_DeepCopyInto_v1alpha1 L)"

lemma flat_ObservabilityConfig_v1alpha1 [deep_simps]:
  "lib_contract L \<Longrightarrow> flat (ObservabilityConfig_ty_v1alpha1 L)"
  by (simp add: ObservabilityConfig_ty_v1alpha1_def deep_simps)

lemma deep_ObservabilityConfig_v1alpha1 [deep_simps]:
  "lib_contract L \<Longrightarrow>
     deep (ObservabilityConfig_ty_v1alpha1 L) (ObservabilityConfig_DeepCopyInto_v1alpha1 L)"
  unfolding ObservabilityConfig_ty_v1alpha1_def ObservabilityConfig_DeepCopyInto_v1alpha1_def
  by (rule deep_struct) (simp add: covered_def deep_simps deep_intros)

subsection \<open>PlatformConfig\<close>

definition PlatformConfig_ty_v1alpha1 :: "lib \<Rightarrow> gtype" where
  "PlatformConfig_ty_v1alpha1 L = TStruct
     [(''Name'', TLit), (''CSV'', TLit), (''DeploymentName'', TLit), (''Image'', TLit),
      (''PackageName'', TLit), (''Channel'', TLit), (''DisplayName'', TLit),
      (''Envs'', TSlice (lib_type L ''corev1.EnvVar'')), (''Type'', TLit)]"

definition PlatformConfig_DeepCopyInto_v1alpha1 :: "lib \<Rightarrow> copier" where
  "PlatformConfig_DeepCopyInto_v1alpha1 L = copy_struct
     [(''Envs'', copy_slice (lib_copier L ''corev1.EnvVar''))]"

definition PlatformConfig_DeepCopy_v1alpha1 :: "lib \<Rightarrow> copier" where
  "PlatformConfig_DeepCopy_v1alpha1 L = deep_copy (PlatformConfig_DeepCopyInto_v1alpha1 L)"

lemma deep_PlatformConfig_v1alpha1 [deep_simps]:
  "lib_contract L \<Longrightarrow>
     deep (PlatformConfig_ty_v1alpha1 L) (PlatformConfig_DeepCopyInto_v1alpha1 L)"
  unfolding PlatformConfig_ty_v1alpha1_def PlatformConfig_DeepCopyInto_v1alpha1_def
  by (rule deep_struct) (simp add: covered_def deep_simps deep_intros)

subsection \<open>All of them\<close>

text \<open>The structs of the package, each with its two copiers; and the objects of the runtime.\<close>

definition v1alpha1_copies :: "lib \<Rightarrow> (gtype \<times> copier \<times> copier) list" where
  "v1alpha1_copies L =
    [(CredentialField_ty_v1alpha1 L, CredentialField_DeepCopyInto_v1alpha1 L, CredentialField_DeepCopy_v1alpha1 L),
     (DBaaSConnection_ty_v1alpha1 L, DBaaSConnection_DeepCopyInto_v1alpha1 L, DBaaSConnection_DeepCopy_v1alpha1 L),
     (DBaaSConnectionList_ty_v1alpha1 L, DBaaSConnectionList_DeepCopyInto_v1alpha1 L, DBaaSConnectionList_DeepCopy_v1alpha1 L),
     (DBaaSConnectionSpec_ty_v1alpha1 L, DBaaSConnectionSpec_DeepCopyInto_v1alpha1 L, DBaaSConnectionSpec_DeepCopy_v1alpha1 L),
     (DBaaSConnectionStatus_ty_v1alpha1 L, DBaaSConnectionStatus_DeepCopyInto_v1alpha1 L, DBaaSConnectionStatus_DeepCopy_v1alpha1 L),
     (DBaaSInstance_ty_v1alpha1 L, DBaaSInstance_DeepCopyInto_v1alpha1 L, DBaaSInstance_DeepCopy_v1alpha1 L),
     (DBaaSInstanceList_ty_v1alpha1 L, DBaaSInstanceList_DeepCopyInto_v1alpha1 L, DBaaSInstanceList_DeepCopy_v1alpha1 L),
     (DBaaSInstanceSpec_ty_v1alpha1 L, DBaaSInstanceSpec_DeepCopyInto_v1alpha1 L, DBaaSInstanceSpec_DeepCopy_v1alpha1 L),
     (DBaaSInstanceStatus_ty_v1alpha1 L, DBaaSInstanceStatus_DeepCopyInto_v1alpha1 L, DBaaSInstanceStatus_DeepCopy_v1alpha1 L),
     (DBaaSInventory_ty_v1alpha1 L, DBaaSInventory_DeepCopyInto_v1alpha1 L, DBaaSInventory_DeepCopy_v1alpha1 L),
     (DBaaSInventoryList_ty_v1alpha1 L, DBaaSInventoryList_DeepCopyInto_v1alpha1 L, DBaaSInventoryList_DeepCopy_v1alpha1 L),
     (DBaaSInventoryPolicy_ty_v1alpha1 L, DBaaSInventoryPolicy_DeepCopyInto_v1alpha1 L, DBaaSInventoryPolicy_DeepCopy_v1alpha1 L),
     (DBaaSInventorySpec_ty_v1alpha1 L, DBaaSInventorySpec_DeepCopyInto_v1alpha1 L, DBaaSInventorySpec_DeepCopy_v1alpha1 L),
     (DBaaSInventoryStatus_ty_v1alpha1 L, DBaaSInventoryStatus_DeepCopyInto_v1alpha1 L, DBaaSInventoryStatus_DeepCopy_v1alpha1 L),
     (DBaaSOperatorInventorySpec_ty_v1alpha1 L, DBaaSOperatorInventorySpec_DeepCopyInto_v1alpha1 L, DBaaSOperatorInventorySpec_DeepCopy_v1alpha1 L),
     (DBaaSPlatform_ty_v1alpha1 L, DBaaSPlatform_DeepCopyInto_v1alpha1 L, DBaaSPlatform_DeepCopy_v1alpha1 L),
     (DBaaSPlatformList_ty_v1alpha1 L, DBaaSPlatformList_DeepCopyInto_v1alpha1 L, DBaaSPlatformList_DeepCopy_v1alpha1 L),
     (DBaaSPlatformSpec_ty_v1alpha1 L, DBaaSPlatformSpec_DeepCopyInto_v1alpha1 L, DBaaSPlatformSpec_DeepCopy_v1alpha1 L),
     (DBaaSPlatformStatus_ty_v1alpha1 L, DBaaSPlatformStatus_DeepCopyInto_v1alpha1 L, DBaaSPlatformStatus_DeepCopy_v1alpha1 L),
     (DBaaSPolicy_ty_v1alpha1 L, DBaaSPolicy_DeepCopyInto_v1alpha1 L, DBaaSPolicy_DeepCopy_v1alpha1 L),
     (DBaaSPolicyList_ty_v1alpha1 L, DBaaSPolicyList_DeepCopyInto_v1alpha1 L, DBaaSPolicyList_DeepCopy_v1alpha1 L),
     (DBaaSPolicySpec_ty_v1alpha1 L, DBaaSPolicySpec_DeepCopyInto_v1alpha1 L, DBaaSPolicySpec_DeepCopy_v1alpha1 L),
     (DBaaSPolicyStatus_ty_v1alpha1 L, DBaaSPolicyStatus_DeepCopyInto_v1alpha1 L, DBaaSPolicyStatus_DeepCopy_v1alpha1 L),
     (DBaaSProvider_ty_v1alpha1 L, DBaaSProvider_DeepCopyInto_v1alpha1 L, DBaaSProvider_DeepCopy_v1alpha1 L),
     (DBaaSProviderConnection_ty_v1alpha1 L, DBaaSProviderConnection_DeepCopyInto_v1alpha1 L, DBaaSProviderConnection_DeepCopy_v1alpha1 L),
     (DBaaSProviderInstance_ty_v1alpha1 L, DBaaSProviderInstance_DeepCopyInto_v1alpha1 L, DBaaSProviderInstance_DeepCopy_v1alpha1 L),
     (DBaaSProviderInventory_ty_v1alpha1 L, DBaaSProviderInventory_DeepCopyInto_v1alpha1 L, DBaaSProviderInventory_DeepCopy_v1alpha1 L),
     (DBaaSProviderList_ty_v1alpha1 L, DBaaSProviderList_DeepCopyInto_v1alpha1 L, DBaaSProviderList_DeepCopy_v1alpha1 L),
     (DBaaSProviderSpec_ty_v1alpha1 L, DBaaSProviderSpec_DeepCopyInto_v1alpha1 L, DBaaSProviderSpec_DeepCopy_v1alpha1 L),
     (DBaaSProviderStatus_ty_v1alpha1 L, DBaaSProviderStatus_DeepCopyInto_v1alpha1 L, DBaaSProviderStatus_DeepCopy_v1alpha1 L),
     (DatabaseProvider_ty_v1alpha1 L, DatabaseProvider_DeepCopyInto_v1alpha1 L, DatabaseProvider_DeepCopy_v1alpha1 L),
     (Instance_ty_v1alpha1 L, Instance_DeepCopyInto_v1alpha1 L, Instance_DeepCopy_v1alpha1 L),
     (InstanceParameterSpec_ty_v1alpha1 L, InstanceParameterSpec_DeepCopyInto_v1alpha1 L, InstanceParameterSpec_DeepCopy_v1alpha1 L),
     (LocalObjectReference_ty_v1alpha1 L, LocalObjectReference_DeepCopyInto_v1alpha1 L, LocalObjectReference_DeepCopy_v1alpha1 L),
     (NamespacedName_ty_v1alpha1 L, NamespacedName_DeepCopyInto_v1alpha1 L, NamespacedName_DeepCopy_v1alpha1 L),
     (ObservabilityConfig_ty_v1alpha1 L, ObservabilityConfig_DeepCopyInto_v1alpha1 L, ObservabilityConfig_DeepCopy_v1alpha1 L),
     (PlatformConfig_ty_v1alpha1 L, PlatformConfig_DeepCopyInto_v1alpha1 L, PlatformConfig_DeepCopy_v1alpha1 L),
     (PlatformStatus_ty_v1alpha1 L, PlatformStatus_DeepCopyInto_v1alpha1 L, PlatformStatus_DeepCopy_v1alpha1 L),
     (ProviderIcon_ty_v1alpha1 L, ProviderIcon_DeepCopyInto_v1alpha1 L, ProviderIcon_DeepCopy_v1alpha1 L)]"

definition v1alpha1_objects :: "lib \<Rightarrow> (gtype \<times> copier) list" where
  "v1alpha1_objects L =
    [(DBaaSConnection_ty_v1alpha1 L, DBaaSConnection_DeepCopyObject_v1alpha1 L),
     (DBaaSConnectionList_ty_v1alpha1 L, DBaaSConnectionList_DeepCopyObject_v1alpha1 L),
     (DBaaSInstance_ty_v1alpha1 L, DBaaSInstance_DeepCopyObject_v1alpha1 L),
     (DBaaSInstanceList_ty_v1alpha1 L, DBaaSInstanceList_DeepCopyObject_v1alpha1 L),
     (DBaaSInventory_ty_v1alpha1 L, DBaaSInventory_DeepCopyObject_v1alpha1 L),
     (DBaaSInventoryList_ty_v1alpha1 L, DBaaSInventoryList_DeepCopyObject_v1alpha1 L),
     (DBaaSPlatform_ty_v1alpha1 L, DBaaSPlatform_DeepCopyObject_v1alpha1 L),
     (DBaaSPlatformList_ty_v1alpha1 L, DBaaSPlatformList_DeepCopyObject_v1alpha1 L),
     (DBaaSPolicy_ty_v1alpha1 L, DBaaSPolicy_DeepCopyObject_v1alpha1 L),
     (DBaaSPolicyList_ty_v1alpha1 L, DBaaSPolicyList_DeepCopyObject_v1alpha1 L),
     (DBaaSProvider_ty_v1alpha1 L, DBaaSProvider_DeepCopyObject_v1alpha1 L),
     (DBaaSProviderList_ty_v1alpha1 L, DBaaSProviderList_DeepCopyObject_v1alpha1 L)]"

lemma v1alpha1_copies_deep:
  assumes "lib_contract L"
  shows "list_all (\<lambda>(T, into, copy). deep T into \<and> deep (TPointer T) copy) (v1alpha1_copies L)"
  unfolding v1alpha1_copies_def CredentialField_DeepCopy_v1alpha1_def
    DBaaSConnection_DeepCopy_v1alpha1_def DBaaSConnectionList_DeepCopy_v1alpha1_def
    DBaaSConnectionSpec_DeepCopy_v1alpha1_def DBaaSConnectionStatus_DeepCopy_v1alpha1_def
    DBaaSInstance_DeepCopy_v1alpha1_def DBaaSInstanceList_DeepCopy_v1alpha1_def
    DBaaSInstanceSpec_DeepCopy_v1alpha1_def DBaaSInstanceStatus_DeepCopy_v1alpha1_def
    DBaaSInventory_DeepCopy_v1alpha1_def DBaaSInventoryList_DeepCopy_v1alpha1_def
    DBaaSInventoryPolicy_DeepCopy_v1alpha1_def DBaaSInventorySpec_DeepCopy_v1alpha1_def
    DBaaSInventoryStatus_DeepCopy_v1alpha1_def DBaaSOperatorInventorySpec_DeepCopy_v1alpha1_def
    DBaaSPlatform_DeepCopy_v1alpha1_def DBaaSPlatformList_DeepCopy_v1alpha1_def
    DBaaSPlatformSpec_DeepCopy_v1alpha1_def DBaaSPlatformStatus_DeepCopy_v1alpha1_def
    DBaaSPolicy_DeepCopy_v1alpha1_def DBaaSPolicyList_DeepCopy_v1alpha1_def
    DBaaSPolicySpec_DeepCopy_v1alpha1_def DBaaSPolicyStatus_DeepCopy_v1alpha1_def
    DBaaSProvider_DeepCopy_v1alpha1_def DBaaSProviderConnection_DeepCopy_v1alpha1_def
    DBaaSProviderInstance_DeepCopy_v1alpha1_def DBaaSProviderInventory_DeepCopy_v1alpha1_def
    DBaaSProviderList_DeepCopy_v1alpha1_def DBaaSProviderSpec_DeepCopy_v1alpha1_def
    DBaaSProviderStatus_DeepCopy_v1alpha1_def DatabaseProvider_DeepCopy_v1alpha1_def
    Instance_DeepCopy_v1alpha1_def InstanceParameterSpec_DeepCopy_v1alpha1_def
    LocalObjectReference_DeepCopy_v1alpha1_def NamespacedName_DeepCopy_v1alpha1_def
    ObservabilityConfig_DeepCopy_v1alpha1_def PlatformConfig_DeepCopy_v1alpha1_def
    PlatformStatus_DeepCopy_v1alpha1_def ProviderIcon_DeepCopy_v1alpha1_def
  by (simp add: assms deep_simps deep_deep_copy)

lemma v1alpha1_objects_deep:
  assumes "lib_contract L"
  shows "list_all (\<lambda>(T, copy). deep (TPointer T) copy) (v1alpha1_objects L)"
  unfolding v1alpha1_objects_def DBaaSConnection_DeepCopyObject_v1alpha1_def
    DBaaSConnection_DeepCopy_v1alpha1_def DBaaSConnectionList_DeepCopyObject_v1alpha1_def
    DBaaSConnectionList_DeepCopy_v1alpha1_def DBaaSInstance_DeepCopyObject_v1alpha1_def
    DBaaSInstance_DeepCopy_v1alpha1_def DBaaSInstanceList_DeepCopyObject_v1alpha1_def
    DBaaSInstanceList_DeepCopy_v1alpha1_def DBaaSInventory_DeepCopyObject_v1alpha1_def
    DBaaSInventory_DeepCopy_v1alpha1_def DBaaSInventoryList_DeepCopyObject_v1alpha1_def
    DBaaSInventoryList_DeepCopy_v1alpha1_def DBaaSPlatform_DeepCopyObject_v1alpha1_def
    DBaaSPlatform_DeepCopy_v1alpha1_def DBaaSPlatformList_DeepCopyObject_v1alpha1_def
    DBaaSPlatformList_DeepCopy_v1alpha1_def DBaaSPolicy_DeepCopyObject_v1alpha1_def
    DBaaSPolicy_DeepCopy_v1alpha1_def DBaaSPolicyList_DeepCopyObject_v1alpha1_def
    DBaaSPolicyList_DeepCopy_v1alpha1_def DBaaSProvider_DeepCopyObject_v1alpha1_def
    DBaaSProvider_DeepCopy_v1alpha1_def DBaaSProviderList_DeepCopyObject_v1alpha1_def
    DBaaSProviderList_DeepCopy_v1alpha1_def
  by (simp add: assms deep_simps deep_deep_copy deep_object)

end
