(* ===== verification/Deep_Copies.thy ===== *)
theory Deep_Copies
  imports Deep_Copy_V1beta1 Deep_Copy_V1alpha1
begin

section \<open>What the deep copies are good for\<close>

text \<open>
  The code makes deep copies where it is about to change a part of an object that it goes on
  using: the status of the platform before the loop over the platforms records its results, the
  spec of a connection before the database service is filled in, the specs of inventories and
  instances that are passed on to the provider objects. This theory shows that such a change
  cannot be seen in the object, which is why the other theories can treat objects as values.
\<close>

text \<open>Without a statement of its own, a field with a reference is shared by copy and original.\<close>

lemma shared_slice:
  "let h = [Elems [Lit s]]; (y, h') = copy_struct [] (Struct [(n, Ref 0)]) h
   in view (TStruct [(n, TSlice TLit)]) (h'[0 := Elems []]) (Struct [(n, Ref 0)]) =
        Some (TreeStruct [(n, TreeSlice [])], [0]) \<and> y = Struct [(n, Ref 0)]"
  by (simp add: copy_struct_def follow_def)

text \<open>All the methods that give a copy, with the type of what they are given a pointer to.\<close>

definition deep_copies :: "lib \<Rightarrow> (gtype \<times> copier) list" where
  "deep_copies L =
     map (\<lambda>(T, into, copy). (T, copy)) (v1beta1_copies L @ v1alpha1_copies L) @
     v1beta1_objects L @ v1alpha1_objects L"

lemma deep_copies_deep: "lib_contract L \<Longrightarrow> (T, copy) \<in> set (deep_copies L) \<Longrightarrow> deep (TPointer T) copy"
  using v1beta1_copies_deep v1alpha1_copies_deep v1beta1_objects_deep v1alpha1_objects_deep
  by (fastforce simp: deep_copies_def list_all_iff)

lemma view_nil: "view (TPointer T) h v = Some (t, as) \<Longrightarrow> v = Nil \<longleftrightarrow> t = TreeNil"
  by (auto simp: follow_def split: gval.split_asm cell.split_asm if_split_asm)

text \<open>C24: Every deep copy of the API is independent of its original: for each struct of both
  versions, \<open>DeepCopy\<close> and \<open>DeepCopyObject\<close> give nil for nil and else a new object that represents
  the same; the copy goes on representing that whatever is done to the cells there were before it
  was made; and the original goes on being what it is, whatever is done to the cells of the copy
  and to any newer ones. In particular no field that holds a reference has been forgotten, at any
  depth.\<close>

theorem deep_copies_independent:
  assumes "lib_contract L" and "(T, copy) \<in> set (deep_copies L)"
    and "view (TPointer T) h v = Some (t, as)" "copy v h = (y, h')"
  shows "(\<exists>bs. view (TPointer T) h' y = Some (t, bs)) \<and> (y = Nil \<longleftrightarrow> v = Nil) \<and>
    (\<forall>g. length h' \<le> length g \<and> (\<forall>a. length h \<le> a \<and> a < length h' \<longrightarrow> g ! a = h' ! a) \<longrightarrow>
       (\<exists>bs. view (TPointer T) g y = Some (t, bs))) \<and>
    (\<forall>g. length h \<le> length g \<and> (\<forall>a < length h. g ! a = h ! a) \<longrightarrow>
       view (TPointer T) g v = Some (t, as))"
proof -
  note ind = deep_independent [OF deep_copies_deep [OF assms(1,2)] assms(3,4)]
  obtain bs where y: "view (TPointer T) h' y = Some (t, bs)" using ind(1) by blast
  then show ?thesis using view_nil [OF y] view_nil [OF assms(3)] ind(2,3) by auto
qed

text \<open>
  The status of a platform with one recorded state, for library types without references; its
  deep copy, after which another state is written into the copy.
\<close>

definition plain_lib :: lib where
  "plain_lib = \<lparr>lib_type = \<lambda>n. TLit, lib_copier = \<lambda>n. assign\<rparr>"

lemma plain_lib_contract: "lib_contract plain_lib"
  by (simp add: lib_contract_def plain_lib_def deep_assign)

definition state_of :: "string \<Rightarrow> gval" where
  "state_of s = Struct [(''PlatformName'', Lit ''rds-provider''), (''PlatformStatus'', Lit s),
     (''LastMessage'', Lit [])]"

definition status_heap :: heap where
  "status_heap = [Elems [state_of ''in progress''],
     Cell (Struct [(''Conditions'', Nil), (''PlatformsStatus'', Ref 0)])]"

abbreviation status_view :: "heap \<Rightarrow> gval \<Rightarrow> view" where
  "status_view \<equiv> view (TPointer (DBaaSPlatformStatus_ty plain_lib))"

lemmas status_view_simps = follow_def state_of_def DBaaSPlatformStatus_ty_def PlatformStatus_ty_def
  plain_lib_def

lemma status_copy:
  "DBaaSPlatformStatus_DeepCopy plain_lib (Ref 1) status_heap =
     (Ref 3, status_heap @ [Elems [state_of ''in progress''],
        Cell (Struct [(''Conditions'', Nil), (''PlatformsStatus'', Ref 2)])])"
  by (simp add: DBaaSPlatformStatus_DeepCopy_def DBaaSPlatformStatus_DeepCopyInto_def deep_copy_def
      copy_pointer_def copy_struct_def copy_slice_def alloc_def status_heap_def assign_def)

lemma status_copied:
  "(DBaaSPlatformStatus_ty plain_lib, DBaaSPlatformStatus_DeepCopy plain_lib) \<in> set (deep_copies plain_lib)"
  by (simp add: deep_copies_def v1beta1_copies_def)

theorem deep_copies_independent_witness:
  "\<exists>h'. DBaaSPlatformStatus_DeepCopy plain_lib (Ref 1) status_heap = (Ref 3, h') \<and>
     status_view (h'[2 := Elems [state_of ''success'']]) (Ref 1) = status_view status_heap (Ref 1) \<and>
     map_option fst (status_view (h'[2 := Elems [state_of ''success'']]) (Ref 3)) \<noteq>
       map_option fst (status_view h' (Ref 3))"
proof -
  let ?h = "status_heap @ [Elems [state_of ''in progress''],
        Cell (Struct [(''Conditions'', Nil), (''PlatformsStatus'', Ref 2)])]"
  obtain t as where t: "status_view status_heap (Ref 1) = Some (t, as)"
    by (simp add: status_heap_def status_view_simps)
  have "length status_heap \<le> length (?h[2 := Elems [state_of ''success'']]) \<and>
      (\<forall>a < length status_heap. ?h[2 := Elems [state_of ''success'']] ! a = status_heap ! a)"
    by (auto simp: status_heap_def less_Suc_eq)
  then have "status_view (?h[2 := Elems [state_of ''success'']]) (Ref 1) = Some (t, as)"
    using deep_copies_independent [OF plain_lib_contract status_copied t status_copy] by blast
  moreover have "map_option fst (status_view (?h[2 := Elems [state_of ''success'']]) (Ref 3)) \<noteq>
       map_option fst (status_view ?h (Ref 3))"
    by (simp add: status_heap_def status_view_simps)
  ultimately show ?thesis using status_copy t by simp
qed

end
