(* ===== verification/Platform_Status_Store.thy ===== *)
theory Platform_Status_Store
  imports Deep_Copies Platform_Controller
begin

section \<open>The status of the platform in the store\<close>

text \<open>
  \<open>reconcilePlatform\<close> makes a deep copy of the status of the platform and lets
  \<open>setStatusPlatform\<close> change that copy through pointers, one platform after the other; at the end
  \<open>updateStatus\<close> compares the copy with the status of the object. The theory of the platform
  controller has values for both. Here \<open>setStatusPlatform\<close> is over the store, as it is written:
  it does what the definition on values says, and the status of the object does not notice.
\<close>

subsection \<open>The function on the store\<close>

definition get_field :: "string \<Rightarrow> gval \<Rightarrow> gval" where
  "get_field f v = (case v of
     Struct fs \<Rightarrow> (case map_of fs f of None \<Rightarrow> Nil | Some x \<Rightarrow> x) | _ \<Rightarrow> Nil)"

definition set_field :: "string \<Rightarrow> gval \<Rightarrow> gval \<Rightarrow> gval" where
  "set_field f x v = (case v of
     Struct fs \<Rightarrow> Struct (map (\<lambda>(n, y). (n, if n = f then x else y)) fs) | _ \<Rightarrow> v)"

definition elements :: "heap \<Rightarrow> gval \<Rightarrow> gval list" where
  "elements h v = (case v of Ref b \<Rightarrow> (case h ! b of Elems xs \<Rightarrow> xs | _ \<Rightarrow> []) | _ \<Rightarrow> [])"

text \<open>The pointer that \<open>FindStatusPlatform\<close> returns is one into the slice: an index.\<close>

fun FindStatusPlatform_at :: "gval list \<Rightarrow> gval \<Rightarrow> nat option" where
  "FindStatusPlatform_at [] platformName = None"
| "FindStatusPlatform_at (x # xs) platformName =
     (if get_field ''PlatformName'' x = platformName then Some 0
      else map_option Suc (FindStatusPlatform_at xs platformName))"

text \<open>
  The first argument is the address of the status whose \<open>PlatformsStatus\<close> the code passes a
  pointer to. What \<open>append\<close> returns gets a cell of its own: the slice it was given, which
  might share its array, is overwritten in the same statement. A state that is found is
  changed where it is.
\<close>

definition setStatusPlatform_at :: "addr \<Rightarrow> gval \<Rightarrow> heap \<Rightarrow> heap" where
  "setStatusPlatform_at a newPlatformStatus h = (case h ! a of
     Cell status \<Rightarrow>
       (let slice = get_field ''PlatformsStatus'' status; xs = elements h slice
        in case FindStatusPlatform_at xs (get_field ''PlatformName'' newPlatformStatus) of
             None \<Rightarrow>
               (let (slice, h) = alloc (Elems (xs @ [newPlatformStatus])) h
                in h[a := Cell (set_field ''PlatformsStatus'' slice status)])
           | Some i \<Rightarrow> (case slice of
               Ref b \<Rightarrow> h[b := Elems (xs[i :=
                 set_field ''LastMessage'' (get_field ''LastMessage'' newPlatformStatus)
                   (set_field ''PlatformStatus'' (get_field ''PlatformStatus'' newPlatformStatus)
                      (xs ! i))])]
             | _ \<Rightarrow> h))
   | _ \<Rightarrow> h)"

text \<open>All that the loop over the platforms records, in the order of its iterations.\<close>

definition record_states :: "addr \<Rightarrow> gval list \<Rightarrow> heap \<Rightarrow> heap" where
  "record_states a news h = fold (setStatusPlatform_at a) news h"

subsection \<open>It implements the function on values\<close>

definition state_val :: "PlatformStatus \<Rightarrow> gval" where
  "state_val s = Struct [(''PlatformName'', Lit (pst_PlatformName s)),
     (''PlatformStatus'', Lit (pst_PlatformStatus s)), (''LastMessage'', Lit (pst_LastMessage s))]"

text \<open>
  At an address lies a status that records a list of states, in cells that are not older than
  a given one.
\<close>

definition records :: "nat \<Rightarrow> heap \<Rightarrow> addr \<Rightarrow> PlatformStatus list \<Rightarrow> bool" where
  "records n h a ss \<longleftrightarrow> n \<le> a \<and> a < length h \<and>
     (\<exists>c s. h ! a = Cell (Struct [(''Conditions'', c), (''PlatformsStatus'', s)]) \<and>
        (s = Nil \<and> ss = [] \<or> (\<exists>b. s = Ref b \<and> n \<le> b \<and> b < length h \<and> h ! b = Elems (map state_val ss))))"

lemma get_state_val [simp]:
  "get_field ''PlatformName'' (state_val s) = Lit (pst_PlatformName s)"
  "get_field ''PlatformStatus'' (state_val s) = Lit (pst_PlatformStatus s)"
  "get_field ''LastMessage'' (state_val s) = Lit (pst_LastMessage s)"
  by (simp_all add: get_field_def state_val_def)

lemma set_state_val [simp]:
  "set_field ''PlatformStatus'' (Lit st) (state_val s) = state_val (s\<lparr>pst_PlatformStatus := st\<rparr>)"
  "set_field ''LastMessage'' (Lit st) (state_val s) = state_val (s\<lparr>pst_LastMessage := st\<rparr>)"
  by (simp_all add: set_field_def state_val_def)

lemma find_at:
  "case FindStatusPlatform_at (map state_val ss) (Lit n) of
     None \<Rightarrow> FindStatusPlatform ss n = None
   | Some i \<Rightarrow> i < length ss \<and> FindStatusPlatform ss n = Some (ss ! i) \<and>
       (\<forall>f. update_found n f ss = ss[i := f (ss ! i)])"
  by (induction ss) (auto split: option.splits)

lemma records_step:
  assumes "records n h a ss"
  shows "records n (setStatusPlatform_at a (state_val new) h) a (setStatusPlatform ss new) \<and>
    length h \<le> length (setStatusPlatform_at a (state_val new) h) \<and>
    (\<forall>i < n. setStatusPlatform_at a (state_val new) h ! i = h ! i)"
proof -
  obtain c s where a: "n \<le> a" "a < length h" "h ! a = Cell (Struct [(''Conditions'', c), (''PlatformsStatus'', s)])"
    and s: "s = Nil \<and> ss = [] \<or> (\<exists>b. s = Ref b \<and> n \<le> b \<and> b < length h \<and> h ! b = Elems (map state_val ss))"
    using assms by (auto simp: records_def)
  have xs: "elements h s = map state_val ss"
    using s by (auto simp: elements_def)
  show ?thesis
  proof (cases "FindStatusPlatform_at (map state_val ss) (Lit (pst_PlatformName new))")
    case None
    then have "setStatusPlatform ss new = ss @ [new]"
      using find_at [of ss "pst_PlatformName new"] by (simp add: setStatusPlatform_def)
    then show ?thesis
      using a None xs by (auto simp: setStatusPlatform_at_def get_field_def [of "''PlatformsStatus''"]
          alloc_def records_def set_field_def nth_append nth_list_update)
  next
    case (Some i)
    then have i: "i < length ss" and set: "setStatusPlatform ss new =
        ss[i := (ss ! i)\<lparr>pst_PlatformStatus := pst_PlatformStatus new, pst_LastMessage := pst_LastMessage new\<rparr>]"
      using find_at [of ss "pst_PlatformName new"] by (simp_all add: setStatusPlatform_def)
    then obtain b where b: "s = Ref b" "n \<le> b" "b < length h" "h ! b = Elems (map state_val ss)"
      using s by auto
    then have "a \<noteq> b" using a(3) by auto
    with b i set show ?thesis
      using a Some xs by (auto simp: setStatusPlatform_at_def get_field_def [of "''PlatformsStatus''"]
          records_def nth_list_update map_update)
  qed
qed

lemma records_fold:
  "records n h a ss \<Longrightarrow>
     records n (record_states a (map state_val news) h) a (fold (\<lambda>new ss. setStatusPlatform ss new) news ss) \<and>
     length h \<le> length (record_states a (map state_val news) h) \<and>
     (\<forall>i < n. record_states a (map state_val news) h ! i = h ! i)"
proof (induction news arbitrary: h ss)
  case (Cons new news)
  note step = records_step [OF Cons.prems, of new]
  with Cons.IH [OF conjunct1 [OF step]] show ?case by (simp add: record_states_def)
qed (simp add: record_states_def)

subsection \<open>The copy, and the loop on it\<close>

lemma each_assigned: "copy_each assign xs h = (xs, h)"
  by (induction xs) (simp_all add: assign_def)

lemma records_copy:
  assumes "lib_contract L" "records 0 h p ss"
    and "view (TPointer (DBaaSPlatformStatus_ty L)) h (Ref p) = Some (t, as)"
  obtains a new where "DBaaSPlatformStatus_DeepCopy L (Ref p) h = (Ref a, h @ new)"
    "records (length h) (h @ new) a ss"
proof -
  obtain c s where p: "p < length h" "h ! p = Cell (Struct [(''Conditions'', c), (''PlatformsStatus'', s)])"
    and s: "s = Nil \<and> ss = [] \<or> (\<exists>b. s = Ref b \<and> b < length h \<and> h ! b = Elems (map state_val ss))"
    using assms(2) by (auto simp: records_def)
  let ?T = "TSlice (lib_type L ''metav1.Condition'')"
    and ?copy = "copy_slice (lib_copier L ''metav1.Condition'')"
  obtain u cs where "view ?T h c = Some (u, cs)"
    using assms(3) p by (auto simp: follow_def DBaaSPlatformStatus_ty_def simp del: view.simps(3)
        split: option.split_asm prod.split_asm)
  then obtain c' new where c: "?copy c h = (c', h @ new)"
    by (rule deepE [OF deep_slice [OF lib_deep [OF assms(1)]]])
  show ?thesis
  proof (cases s)
    case Nil
    with p c s show ?thesis
      by (intro that [of "length (h @ new)" "new @ [Cell (Struct [(''Conditions'', c'), (''PlatformsStatus'', Nil)])]"])
        (auto simp: DBaaSPlatformStatus_DeepCopy_def DBaaSPlatformStatus_DeepCopyInto_def deep_copy_def
          copy_pointer_def copy_struct_def copy_slice_def alloc_def records_def nth_append
          split: prod.split_asm)
  next
    case (Ref b)
    then have b: "b < length h" "h ! b = Elems (map state_val ss)" using s by auto
    let ?new = "new @ [Elems (map state_val ss),
      Cell (Struct [(''Conditions'', c'), (''PlatformsStatus'', Ref (length (h @ new)))])]"
    have "copy_slice assign s (h @ new) = (Ref (length (h @ new)), h @ new @ [Elems (map state_val ss)])"
      using b by (simp add: Ref copy_slice_def nth_append each_assigned alloc_def)
    then have "DBaaSPlatformStatus_DeepCopy L (Ref p) h = (Ref (Suc (length (h @ new))), h @ ?new)"
      using p c by (simp add: DBaaSPlatformStatus_DeepCopy_def DBaaSPlatformStatus_DeepCopyInto_def
          deep_copy_def copy_pointer_def copy_struct_def alloc_def)
    moreover have "records (length h) (h @ ?new) (Suc (length (h @ new))) ss"
      by (auto simp: records_def nth_append)
    ultimately show ?thesis by (rule that)
  qed (use s in auto)
qed

text \<open>C23: What the platform controller does to the status through pointers is what the definitions on
  values say: after \<open>nextStatus := cr.Status.DeepCopy()\<close> and a \<open>setStatusPlatform\<close> for each of any
  number of platforms, \<open>nextStatus\<close> records what \<open>setStatusPlatform\<close> on values gives, one after the
  other, from the states the object had; the object still records those; and whatever else there was
  in the store, of whatever type, represents what it did. So the comparison of \<open>updateStatus\<close> is
  one between the old states and the new ones.\<close>

theorem platform_loop_through_store:
  assumes "lib_contract L" "records 0 h p ss"
    and "view (TPointer (DBaaSPlatformStatus_ty L)) h (Ref p) = Some (t, as)"
    and "DBaaSPlatformStatus_DeepCopy L (Ref p) h = (nextStatus, h1)"
  shows "\<exists>a. nextStatus = Ref a \<and>
    (let h2 = record_states a (map state_val news) h1
     in records (length h) h2 a (fold (\<lambda>new ss. setStatusPlatform ss new) news ss) \<and>
        records 0 h2 p ss \<and>
        (\<forall>T v u bs. view T h v = Some (u, bs) \<longrightarrow> view T h2 v = Some (u, bs)))"
proof -
  obtain a new where a: "nextStatus = Ref a" "h1 = h @ new" "records (length h) h1 a ss"
    using records_copy [OF assms(1-3)] assms(4) by (metis Pair_inject)
  define h2 where "h2 = record_states a (map state_val news) h1"
  have "length h1 \<le> length h2" "\<forall>i < length h. h2 ! i = h1 ! i"
    and states: "records (length h) h2 a (fold (\<lambda>new ss. setStatusPlatform ss new) news ss)"
    using records_fold [OF a(3), of news] by (auto simp: h2_def)
  then have same: "length h \<le> length h2" "\<forall>i < length h. h2 ! i = h ! i"
    using a(2) by (auto simp: nth_append)
  have "view T h2 v = Some (u, bs)" if "view T h v = Some (u, bs)" for T v u bs
    using that by (rule view_cong(1)) (use same view_below(1) [OF that] in fastforce)
  moreover have "records 0 h2 p ss"
    using assms(2) same by (auto simp: records_def)
  ultimately show ?thesis using a(1) states by (auto simp: h2_def Let_def)
qed

text \<open>One platform is in progress; then it has succeeded and another one is in progress.\<close>

definition demo_state :: "string \<Rightarrow> string \<Rightarrow> PlatformStatus" where
  "demo_state n s = \<lparr>pst_PlatformName = n, pst_PlatformStatus = s, pst_LastMessage = []\<rparr>"

abbreviation demo_states :: "PlatformStatus list" where
  "demo_states \<equiv> [demo_state ''rds-provider'' ''success'', demo_state ''crunchy-bridge'' ''in progress'']"

theorem platform_loop_through_store_witness:
  "\<exists>h2. h2 = record_states 3 (map state_val demo_states)
       (snd (DBaaSPlatformStatus_DeepCopy plain_lib (Ref 1) status_heap)) \<and>
     records 2 h2 3 demo_states \<and>
     records 0 h2 1 [demo_state ''rds-provider'' ''in progress'']"
proof -
  have old: "records 0 status_heap 1 [demo_state ''rds-provider'' ''in progress'']"
    by (simp add: records_def status_heap_def state_of_def state_val_def demo_state_def)
  obtain t as where t: "status_view status_heap (Ref 1) = Some (t, as)"
    by (simp add: status_heap_def status_view_simps)
  have len: "length status_heap = 2" by (simp add: status_heap_def)
  have set: "fold (\<lambda>new ss. setStatusPlatform ss new) demo_states
      [demo_state ''rds-provider'' ''in progress''] = demo_states"
    by (simp add: setStatusPlatform_def demo_state_def)
  show ?thesis
    using platform_loop_through_store [OF plain_lib_contract old t status_copy, of demo_states]
    unfolding set len status_copy Let_def by auto
qed

text \<open>
  Without the copy, with a pointer to the status itself, the object would change with what
  is recorded, and \<open>updateStatus\<close> would find nothing to update.
\<close>

lemma platform_loop_without_copy:
  assumes "records 0 h p ss"
  shows "records 0 (record_states p (map state_val news) h) p (fold (\<lambda>new ss. setStatusPlatform ss new) news ss)"
  using records_fold [OF assms] by blast

end
