(* ===== verification/Spec2Isabelle.thy ===== *)
theory Spec2Isabelle
  imports Inventory_Controller Connection_Controller Instance_Controller Policy_Controller
    Provider_Controller Webhooks Write_Bounds Progress Platform_Settling
    Operator_Setup Metric_Labels Platform_Status_Store
begin

text \<open>
  The database access operator of this repository: custom resources for provider accounts
  (inventories), connections to database services, database instances, policies, providers and
  the platform, and the controllers that reconcile them.

  \<^bold>\<open>How the program is modelled.\<close> A controller is a program in the effect monad of
  \<open>Prelude\<close>: every request to the API server, every metric and every reading of the clock is an
  event, and the answer to it is an arbitrary function of the events before it, taken from a
  record of the environment (\<open>env\<close> in \<open>Client\<close>, \<open>penv\<close> in \<open>Platform_Client\<close>). So a theorem about
  a reconciliation holds for every API server, also for one that other clients change between
  two requests. What a theorem assumes of a library is one of the named contracts
  (\<open>conditions_contract\<close>, \<open>gv_string_contract\<close>, \<open>gv_parse_contract\<close>, \<open>range_contract\<close>,
  \<open>owner_contract\<close>, \<open>lib_contract\<close>). Theorems that something happens also assume that nothing
  stands in the way: \<open>server_accepts\<close> (the API server takes what a mutate function makes of the
  object in the cluster) and \<open>healthy\<close> (the reconcilers of the platforms report success).
  \<open>Reference_Env\<close>, \<open>Example_World\<close> and \<open>Example_Platform\<close> are concrete environments in which the
  witnesses evaluate the theorems. Go maps are association lists whose order is the iteration order, nil
  pointers are \<open>None\<close>, errors are values of \<open>go_error\<close>, panics are the outcome \<open>Panicked\<close>.
  The objects of the API are values: where the code goes on using an object after it changes
  something of it, it changes a deep copy. That such a copy shares nothing with the object
  is shown over an explicit store (\<open>Go_Heap\<close> to \<open>Platform_Status_Store\<close>).

  \<^bold>\<open>Theories and the code they model.\<close>

    \<^item> \<open>Prelude\<close>: Go values, the effect monad, the rules for \<open>runs\<close> (what a program returns and
      which events it adds) and \<open>only\<close> (which events it can add at all).
    \<^item> \<open>K8s\<close>, \<open>Types_V1beta1\<close>, \<open>Types_V1alpha1\<close>, \<open>Platform_Types\<close>: the data, from \<open>api/v1beta1\<close>,
      \<open>api/v1alpha1\<close> and the third-party API objects as far as the code uses them.
    \<^item> \<open>Client\<close>: the requests and the environment.
    \<^item> \<open>Conversion\<close>: the conversions between the two versions of the API (\<open>*_conversion.go\<close>), with
      the laws of a hub and spoke conversion as the locale \<open>hub_spoke\<close>.
    \<^item> \<open>Metrics\<close>, \<open>Platform_Metrics\<close>: \<open>controllers/metrics\<close>.
    \<^item> \<open>Reconciler\<close>: \<open>controllers/dbaas_reconciler.go\<close>, what the controllers share: policies and
      valid namespaces, the reconciliation of a provider object (locales \<open>dbaas_object\<close> and
      \<open>provider_contract\<close>) and the check of an inventory (locale \<open>gated_object\<close>).
    \<^item> \<open>Inventory_Controller\<close>, \<open>Connection_Controller\<close>, \<open>Instance_Controller\<close>: these controllers, each
      interpreting the locales of \<open>Reconciler\<close>.
    \<^item> \<open>Policy_Controller\<close>: \<open>dbaaspolicy_controller.go\<close> and \<open>dbaasdefaultpolicy_controller.go\<close>, and a
      namespace of policies as a state machine, whose reconciliations may read earlier states.
    \<^item> \<open>Provider_Controller\<close>: \<open>dbaasprovider_controller.go\<close>, \<open>event_handler.go\<close>.
    \<^item> \<open>Webhooks\<close>: the admission of connections, inventories and policies (\<open>*_webhook.go\<close>), and what
      is stored in a cluster as state machines over them.
    \<^item> \<open>Platform_Client\<close>, \<open>Platform_Config\<close>: the environment of the platform stack,
      \<open>controllers/util/openshift.go\<close>, \<open>controllers/reconcilers/constants.go\<close> and \<open>olm_helper.go\<close>.
    \<^item> \<open>Platform_Reconcilers\<close>: the interface \<open>reconcilers.PlatformReconciler\<close> and its contract (locale
      \<open>platform_reconciler_contract\<close>), and the steps its implementations are made of.
    \<^item> \<open>Provider_Installation\<close>, \<open>Quickstart_Installation\<close>, \<open>Console_Plugin\<close>, \<open>Observability\<close>: the
      packages \<open>providersinstallation\<close>, \<open>quickstartinstallation\<close>, \<open>consoleplugin\<close> and
      \<open>observability\<close> of \<open>controllers/reconcilers\<close>, each interpreting that contract.
    \<^item> \<open>Platform_Setup\<close>, \<open>Platform_Controller\<close>: \<open>controllers/dbaasplatform_controller.go\<close>, what it sets
      up and repairs, and its reconciliation: the loop over the platforms, the map of their
      states, the conditions of the platform resource, the flag \<open>installComplete\<close>.
    \<^item> \<open>Platform_History\<close>: the platform resource and \<open>installComplete\<close> through reconciliations, edits
      and restarts, as a step relation that refines a machine of three flags.
    \<^item> \<open>Platform_Settling\<close>: a healthy installation comes to rest, without further status updates.
    \<^item> \<open>Operator_Setup\<close>: \<open>main.go\<close>, the \<open>SetupWithManager\<close> of the controllers and the
      \<open>SetupWebhookWithManager\<close> of the kinds: what is registered in which order, and with which
      environment the operator runs.
    \<^item> \<open>Metric_Labels\<close>: every metric operation of the operator fits a registered vector, and what
      a deletion leaves in the registry.
    \<^item> \<open>Write_Bounds\<close>: how many writes one reconciliation sends.
    \<^item> \<open>Progress\<close>: the way back from the provider; when nothing stands in the way, inventories,
      connections and instances are ready exactly if their provider objects are synchronised.
    \<^item> \<open>Go_Heap\<close>, \<open>Go_Heap_Library\<close>: Go values with references in a store, the statements of the
      generated deep copies, what a value represents, and when a copy is deep; the library types
      inside the structs of the API are parameters.
    \<^item> \<open>Deep_Copy_V1beta1\<close>, \<open>Deep_Copy_V1alpha1\<close>: \<open>zz_generated.deepcopy.go\<close> of both versions, for every
      struct its fields and types, its \<open>DeepCopyInto\<close>, \<open>DeepCopy\<close> and \<open>DeepCopyObject\<close>; also the
      structs of the v1alpha1 platform types.
    \<^item> \<open>Deep_Copies\<close>: the independence of a copy and its original, for all of them.
    \<^item> \<open>Platform_Status_Store\<close>: \<open>setStatusPlatform\<close> through pointers into the copy of the platform
      status, a refinement of the definition on values in \<open>Platform_Controller\<close>.
    \<^item> this theory: properties that span components.

  \<^bold>\<open>What the lemmas show.\<close> The conversions are analysed in both directions: which data survives
  a round trip and exactly what is lost. For each controller: a reconciliation never panics,
  reports its object ready only with a reason, writes a provider object only when the inventory
  admits it, and its deferred status update and metrics happen as the code orders them; and
  when nothing stands in the way, what the provider reports is what the object says. For
  policies and inventories: invariants of every reachable state of a namespace or cluster. For
  the platform: which requests are sent in which order, when each reconciler reports success,
  which status is written, what is deleted, and through any history when the platform can be
  ready. For the deep copies: no field that holds a reference is forgotten, so that changes of a
  copy and of its original cannot be seen in the other. For the process: it runs only after a complete start, and with which namespace,
  version and webhook client it then does.

  \<^bold>\<open>Bounds and fuel.\<close> No recursion of the model needs fuel: every loop of the code is a loop
  over a list, and all definitions are total.

  \<^bold>\<open>Not modelled.\<close> Logging, the help texts of the metrics, the constants of the v1alpha1 platform
  types, which no code of the operator reads, the empty \<open>Hub\<close> methods and the directive that
  embeds files. The controller runtime itself (work queues, caches, the delivery of watch
  events, leader election) is a library: a history takes its reconciliations in any order,
  and reads may be outdated where a theorem says so.
\<close>

section \<open>Properties across components\<close>

subsection \<open>What the controllers write is watched\<close>

text \<open>
  Reconciling a provider registers a watch: where the provider controller reads that provider and
  its watches are not refused, it asks for this one.
\<close>

definition registers_watch ::
    "env \<Rightarrow> DBaaSProvider \<Rightarrow> string \<Rightarrow> string \<Rightarrow> GroupVersionKind \<Rightarrow> bool" where
  "registers_watch E p ctl ow gvk \<longleftrightarrow> (\<forall>req h.
     runs (DBaaSProvider_Reconcile
       (E\<lparr>srv_GetProvider := \<lambda>h k. Inr p, srv_Watch := \<lambda>h ctl ow gvk. None\<rparr>) req) h
       (\<lambda>out t. out = Returned Result_zero None \<and> EvWatch ctl ow gvk \<in> set t))"

lemma watch_event: "(ctl, ow, gvk) \<in> set (watches t) \<Longrightarrow> EvWatch ctl ow gvk \<in> set t"
  by (induction t rule: watches.induct) auto

lemma provider_watch_registered:
  assumes "(ctl, ow, gvk) \<in> set (provider_watches E p)"
  shows "registers_watch E p ctl ow gvk"
proof -
  let ?E = "E\<lparr>srv_GetProvider := \<lambda>h k. Inr p, srv_Watch := \<lambda>h ctl ow gvk. None\<rparr>"
  have parse: "ParseGroupVersion ?E = ParseGroupVersion E" by simp
  have same: "provider_watches ?E p = provider_watches E p"
    unfolding provider_watches_def GetDBaaSAPIGroupVersion_def parse by (rule refl)
  have "srv_GetProvider ?E (h @ [EvNow]) req = Inr p" for h req by simp
  note complete = provider_watches_complete [OF this, unfolded same]
  show ?thesis
    unfolding registers_watch_def
    by (intro allI, rule runs_conseq [OF complete]) (use assms in \<open>auto intro: watch_event\<close>)
qed

text \<open>
  An event that, if it writes a provider object, writes one of a group, version and kind for
  which the provider controller registers a watch of the given controller and owner type, for
  some provider that was read.
\<close>

definition watched_write :: "env \<Rightarrow> string \<Rightarrow> string \<Rightarrow> event \<Rightarrow> bool" where
  "watched_write E ctl ow e \<longleftrightarrow> (\<forall>x f. e = EvCreateOrUpdateProviderObject x f \<longrightarrow>
     (\<exists>p h n. srv_GetProvider E h ([], n) = Inr p \<and> registers_watch E p ctl ow (u_GVK x)))"

lemma kind_written_watched:
  assumes "kind_written E kind e"
    and "\<And>p. (ctl, ow, u_GVK (createProviderObject zero_ObjectMeta (GetDBaaSAPIGroupVersion E p) (kind p)))
      \<in> set (provider_watches E p)"
  shows "watched_write E ctl ow e"
  using assms provider_watch_registered unfolding kind_written_def watched_write_def by metis

lemma not_write_watched: "\<not> is_provider_write e \<Longrightarrow> watched_write E ctl ow e"
  by (auto simp: watched_write_def)

lemma read_watched: "is_read e \<Longrightarrow> watched_write E ctl ow e"
  using is_read_not_write not_write_watched by blast

lemma telemetry_watched: "telemetry e \<Longrightarrow> watched_write E ctl ow e"
  using telemetry_not_update not_write_watched by blast

lemma inventory_resource_watched:
  "only (watched_write E ''InventoryCtrl'' ''DBaaSInventory'')
     (reconcileProviderResource E inventory_ops (inventory_callbacks E p) n DBaaSInventoryReadyType x)"
  by (rule only_mono [OF inventory_provider.only_kind_written])
    (erule kind_written_watched, simp add: provider_watches_def inventory_callbacks_def)

lemma connection_resource_watched:
  "only (watched_write E ''ConnectionCtrl'' ''DBaaSConnection'')
     (reconcileProviderResource E connection_ops (connection_callbacks E p sp) n DBaaSConnectionReadyType x)"
  by (rule only_mono [OF connection_provider.only_kind_written])
    (erule kind_written_watched, simp add: provider_watches_def connection_callbacks_def)

lemma instance_resource_watched:
  "only (watched_write E ''InstanceCtrl'' ''DBaaSInstance'')
     (reconcileProviderResource E instance_ops (instance_callbacks E p) n DBaaSInstanceReadyType x)"
  by (rule only_mono [OF instance_provider.only_kind_written])
    (erule kind_written_watched, simp add: provider_watches_def instance_callbacks_def)

text \<open>C34: Whatever provider object the inventory, connection or instance controller writes, the
  provider controller makes that same controller watch objects of its group, version and kind,
  for owners of the controller's kind: for some provider that exists, a reconciliation of the
  provider asks for that watch (unless a watch before it is refused). So the changes of what is
  written come back to the controller.\<close>

theorem written_objects_are_watched:
  "only (watched_write E ''InventoryCtrl'' ''DBaaSInventory'') (DBaaSInventory_Reconcile E req) \<and>
   only (watched_write E ''ConnectionCtrl'' ''DBaaSConnection'') (DBaaSConnection_Reconcile E req) \<and>
   only (watched_write E ''InstanceCtrl'' ''DBaaSInstance'') (DBaaSInstance_Reconcile E req)"
proof (intro conjI)
  have upd: "is_status_update e \<Longrightarrow> watched_write E ctl ow e" for e ctl ow
    by (rule not_write_watched) (cases e; simp)
  note quiet = not_write_watched read_watched telemetry_watched upd
  show "only (watched_write E ''InventoryCtrl'' ''DBaaSInventory'') (DBaaSInventory_Reconcile E req)"
    unfolding DBaaSInventory_Reconcile_def policyListByNS_def inventory_policy_missing_def
      reconcile_inventory_object_def getDBaaSProvider_def Let_def
    by (intro only_intros inventory_resource_watched) (auto intro: quiet)
  show "only (watched_write E ''ConnectionCtrl'' ''DBaaSConnection'') (DBaaSConnection_Reconcile E req)"
    unfolding DBaaSConnection_Reconcile_def reconcileDevTopologyResource_def
      reconcile_admitted_connection_def getConnectionSpec_def getDBaaSProvider_def
      updateConnectionStatus_def try_status_update_def statusUpdate_def Let_def
    by (intro only_intros connection_resource_watched connection_gate.only_checkInventory)
      (auto intro: quiet)
  show "only (watched_write E ''InstanceCtrl'' ''DBaaSInstance'') (DBaaSInstance_Reconcile E req)"
    unfolding DBaaSInstance_Reconcile_def reconcile_admitted_instance_def getDBaaSProvider_def
      check_instance_conversion_def DBaaSInstanceSpec_ConvertFrom_def Let_def
    by (intro only_intros instance_resource_watched instance_gate.only_checkInventory)
      (auto intro: quiet)
qed

subsection \<open>What the webhook admits, the controller can resolve\<close>

text \<open>
  A reference that the connection controller can use: its instance can be read, belongs to
  the connection's inventory and has an id.
\<close>

definition usable_reference :: "env \<Rightarrow> history \<Rightarrow> DBaaSConnectionSpec \<Rightarrow> bool" where
  "usable_reference E h sp \<longleftrightarrow> (\<exists>ref ins. cs_DatabaseServiceRef sp = Some ref \<and>
     srv_GetInstance E h (key_of_ref ref) = Inr ins \<and>
     key_of_ref (ins_InventoryRef (instance_Spec ins)) = key_of_ref (cs_InventoryRef sp) \<and>
     inst_InstanceID (instance_Status ins) \<noteq> [])"

text \<open>C37: For a connection that the webhook let into the cluster, at its creation and at every
  later update, the connection controller finds the database service unless the connection
  refers to an instance that cannot be used: an unset reference or a reference of an
  unsupported type never reaches it.\<close>

theorem stored_connection_resolves:
  assumes "stored_connection c x"
  shows "runs (getConnectionSpec E (conn_Spec x)) h (\<lambda>r t.
    (\<exists>sp. r = Inr sp \<and> cs_DatabaseServiceID sp \<noteq> []) \<longleftrightarrow>
    cs_DatabaseServiceID (conn_Spec x) \<noteq> [] \<or> usable_reference E h (conn_Spec x))"
proof -
  have "names_one_service (conn_Spec x)" using stored_connection_spec [OF assms] by blast
  then show ?thesis
    unfolding getConnectionSpec_def usable_reference_def names_one_service_def
    by (intro runs_intros) (auto simp: key_of_ref_def split: sum.splits)
qed

theorem stored_connection_resolves_witness:
  "\<exists>sp. fst (run_state (getConnectionSpec demo_env (conn_Spec demo_connection)) []) = Inr sp \<and>
     cs_DatabaseServiceID sp \<noteq> []"
proof -
  have "stored_connection demo_connection demo_connection"
    by (rule stored_connection.created)
      (simp add: create_allowed_iff names_one_service_def demo_connection_def zero_DBaaSConnectionSpec_def)
  from stored_connection_resolves [OF this, of demo_env "[]"] show ?thesis
    by (auto simp: runs_def env_simps)
qed

subsection \<open>Deletions\<close>

text \<open>The handlers of delete events never fail, and do nothing but read and report metrics: no object is written, patched or
  created, whatever object the event carries.\<close>

theorem delete_handlers_only_report:
  "let quiet = (\<lambda>e. is_read e \<or> telemetry e)
   in only quiet (DBaaSInventory_Delete E i) \<and> fst (run_state (DBaaSInventory_Delete E i) h) = None \<and>
      only quiet (DBaaSConnection_Delete E c) \<and> fst (run_state (DBaaSConnection_Delete E c) h) = None \<and>
      only quiet (DBaaSInstance_Delete E n) \<and> fst (run_state (DBaaSInstance_Delete E n) h) = None \<and>
      only quiet (DBaaSPolicy_Delete E p) \<and> fst (run_state (DBaaSPolicy_Delete E p) h) = None \<and>
      only quiet (DBaaSProvider_Delete E v) \<and> fst (run_state (DBaaSProvider_Delete E v) h) = None \<and>
      only quiet (DBaaSPlatform_Delete P x) \<and> fst (run_state (DBaaSPlatform_Delete P x) h) = None"
  unfolding DBaaSInventory_Delete_def DBaaSConnection_Delete_def DBaaSInstance_Delete_def
    DBaaSPolicy_Delete_def DBaaSProvider_Delete_def DBaaSPlatform_Delete_def Let_def
  by (intro conjI only_intros) (auto split: option.splits prod.splits)

subsection \<open>The start and the instance controller\<close>

lemma started_main:
  assumes "fst (run_state (main M) h) = Started P err"
  shows "P \<in> running_envs M"
  using main_runs [of M h] assms by (auto simp: runs_def follows_def)

text \<open>C29: Switching the webhooks off also switches off the provisioning of instances for providers
  that use v1alpha1: when the operator was started with \<open>ENABLE_WEBHOOKS\<close> set to \<open>false\<close> and every
  provider uses v1alpha1, then no reconciliation of any instance ever writes a provider object,
  because the conversion of the instance has no client.\<close>

theorem instances_need_webhooks:
  assumes "conditions_contract (p_env (m_penv M))" "\<not> webhooks_enabled M"
    and "\<forall>h n p. srv_GetProvider (p_env (m_penv M)) h n = Inr p \<longrightarrow> uses_v1alpha1 (p_env (m_penv M)) p"
    and "fst (run_state (main M) h) = Started P err"
  shows "runs (DBaaSInstance_Reconcile (p_env P) req) h' (\<lambda>out t. list_all (\<lambda>e. \<not> is_provider_write e) t)"
proof -
  obtain v where P: "P = running_env M v"
    using started_main [OF assms(4)] by (auto simp: running_envs_def)
  have fields: "srv_GetProvider (p_env P) = srv_GetProvider (p_env (m_penv M))"
    "ParseGroupVersion (p_env P) = ParseGroupVersion (p_env (m_penv M))"
    "GroupVersion_String (p_env P) = GroupVersion_String (p_env (m_penv M))"
    "FindStatusCondition (p_env P) = FindStatusCondition (p_env (m_penv M))"
    "IsStatusConditionTrue (p_env P) = IsStatusConditionTrue (p_env (m_penv M))"
    "SetStatusCondition (p_env P) = SetStatusCondition (p_env (m_penv M))"
    "\<not> WebhookAPIClientSet (p_env P)"
    using assms(2) by (simp_all add: P running_env_def process_env_def)
  have versions: "GetDBaaSAPIGroupVersion (p_env P) p = GetDBaaSAPIGroupVersion (p_env (m_penv M)) p" for p
    unfolding GetDBaaSAPIGroupVersion_def fields by (rule refl)
  have uses: "uses_v1alpha1 (p_env P) p = uses_v1alpha1 (p_env (m_penv M)) p" for p
    unfolding uses_v1alpha1_def getProviderSpecStatusVersion_def versions fields by (rule refl)
  show ?thesis
  proof (rule instance_without_client [OF _ fields(7)])
    show "conditions_contract (p_env P)"
      using assms(1) by (simp add: conditions_contract_def fields)
    show "uses_v1alpha1 (p_env P) p" if "srv_GetProvider (p_env P) h n = Inr p" for h n p
      using assms(3) that unfolding uses fields by blast
  qed
qed

theorem instances_need_webhooks_witness:
  "\<exists>P. fst (run_state (main (demo_menv ''false'')) []) = Started P None \<and>
     list_all (\<lambda>e. \<not> is_provider_write e) (snd (run_state (DBaaSInstance_Reconcile (p_env P) ([], [])) []))"
proof -
  let ?M = "demo_menv ''false''"
  have env: "p_env (m_penv ?M) = demo_env" by (simp add: demo_menv_def env_simps)
  have off: "\<not> webhooks_enabled ?M" by (simp add: webhooks_enabled_def demo_menv_def)
  have old: "\<forall>h n p. srv_GetProvider demo_env h n = Inr p \<longrightarrow> uses_v1alpha1 demo_env p"
    by (auto simp: env_simps)
  obtain P where P: "fst (run_state (main ?M) []) = Started P None"
    using demo_startup by blast
  from instances_need_webhooks [OF _ off _ P, of "([], [])" "[]"]
  show ?thesis
    using P old demo_conditions_contract by (auto simp: env runs_def)
qed

end
